(* ===== verification/Prelude.thy ===== *)
theory Prelude
  imports Main "HOL-Library.Word" "HOL-Library.Signed_Division"
begin

text \<open>
  Shared vocabulary of the development: C integer arithmetic (truncating division comes from
  HOL-Library.Signed_Division as \<open>sdiv\<close> and \<open>smod\<close>; conversions to a narrower type are the
  \<open>to_...\<close> functions below), the errno values the sources return, C strings as character lists,
  and the interfaces (locales) that several components share: machines with an invariant,
  one-slot mailboxes and byte-wise checksums; \<open>traces\<close> runs an observer over a log of effects.
\<close>

named_theorems c_simps \<open>arithmetic of the C conversions and of truncating division\<close>

section \<open>C integers\<close>

definition fits_i32 :: "int \<Rightarrow> bool" where
  "fits_i32 x \<longleftrightarrow> - (2 ^ 31) \<le> x \<and> x < 2 ^ 31"

definition to_i32 :: "int \<Rightarrow> int" where
  "to_i32 x = (x + 2 ^ 31) mod 2 ^ 32 - 2 ^ 31"

definition to_i16 :: "int \<Rightarrow> int" where
  "to_i16 x = (x + 2 ^ 15) mod 2 ^ 16 - 2 ^ 15"

definition to_i8 :: "int \<Rightarrow> int" where
  "to_i8 x = (x + 2 ^ 7) mod 2 ^ 8 - 2 ^ 7"

definition to_i64 :: "int \<Rightarrow> int" where
  "to_i64 x = (x + 2 ^ 63) mod 2 ^ 64 - 2 ^ 63"

definition to_u32 :: "int \<Rightarrow> int" where
  "to_u32 x = x mod 2 ^ 32"

definition to_u8 :: "int \<Rightarrow> int" where
  "to_u8 x = x mod 2 ^ 8"

lemma to_i32_id [c_simps]: "fits_i32 x \<Longrightarrow> to_i32 x = x"
  by (simp add: fits_i32_def to_i32_def)

lemma fits_i32_to_i32 [simp, intro]: "fits_i32 (to_i32 x)"
  by (simp add: fits_i32_def to_i32_def)

lemma to_i64_id [c_simps]: "- (2 ^ 63) \<le> x \<Longrightarrow> x < 2 ^ 63 \<Longrightarrow> to_i64 x = x"
  by (simp add: to_i64_def)

lemma to_i16_id [c_simps]: "- 32768 \<le> x \<Longrightarrow> x \<le> 32767 \<Longrightarrow> to_i16 x = x"
  by (simp add: to_i16_def)

lemma to_u32_id [c_simps]: "0 \<le> x \<Longrightarrow> x < 2 ^ 32 \<Longrightarrow> to_u32 x = x"
  by (simp add: to_u32_def)

lemma to_u32_range [simp]: "0 \<le> to_u32 x" "to_u32 x < 2 ^ 32"
  by (simp_all add: to_u32_def)

lemma sdiv_pos [c_simps]: "0 \<le> (x::int) \<Longrightarrow> 0 < d \<Longrightarrow> x sdiv d = x div d"
  by (cases "x = 0") (simp_all add: signed_divide_int_def)

lemma smod_pos [c_simps]: "0 \<le> (x::int) \<Longrightarrow> 0 < d \<Longrightarrow> x smod d = x mod d"
  by (cases "x = 0") (simp_all add: signed_modulo_int_def)

lemma sdiv_neg [c_simps]: "(x::int) < 0 \<Longrightarrow> 0 < d \<Longrightarrow> x sdiv d = - ((- x) div d)"
  by (simp add: signed_divide_int_def)

lemma smod_neg [c_simps]: "(x::int) < 0 \<Longrightarrow> 0 < d \<Longrightarrow> x smod d = - ((- x) mod d)"
  by (simp add: signed_modulo_int_def)

lemma sdiv_smod_eq: "(x::int) sdiv d * d + x smod d = x"
  by (simp add: sdiv_mult_smod_eq)

lemma smod_range: "0 < (d::int) \<Longrightarrow> \<bar>x smod d\<bar> < d"
  by (cases "0 \<le> x") (simp_all add: smod_pos smod_neg)

text \<open>A constant of \<open>common/utils.h\<close>.\<close>

definition NS_IN_SECOND :: int where "NS_IN_SECOND = 1000000000"

lemma NS_IN_SECOND_pos [simp]: "0 < NS_IN_SECOND"
  by (simp add: NS_IN_SECOND_def)

section \<open>errno values\<close>

abbreviation (input) "ENOENT \<equiv> (2::int)"
abbreviation (input) "ESRCH \<equiv> (3::int)"
abbreviation (input) "EIO \<equiv> (5::int)"
abbreviation (input) "ENOMEM \<equiv> (12::int)"
abbreviation (input) "EFAULT \<equiv> (14::int)"
abbreviation (input) "EINVAL \<equiv> (22::int)"
abbreviation (input) "ERANGE \<equiv> (34::int)"
abbreviation (input) "ENOSYS \<equiv> (38::int)"

section \<open>Lists\<close>

lemma list_update_nth_eq: "xs[i := x] ! j = (if i = j \<and> j < length xs then x else xs ! j)"
  by (cases "i < length xs") (auto simp: nth_list_update list_update_beyond)

text \<open>An observer reads a log of effects; it is \<open>None\<close> once it has refused one.\<close>

fun traces :: "('q \<Rightarrow> 'e \<Rightarrow> 'q option) \<Rightarrow> 'q \<Rightarrow> 'e list \<Rightarrow> 'q option" where
  "traces f q [] = Some q"
| "traces f q (x # xs) = (case f q x of None \<Rightarrow> None | Some q' \<Rightarrow> traces f q' xs)"

lemma traces_append [simp]:
  "traces f q (xs @ ys) = (case traces f q xs of None \<Rightarrow> None | Some q' \<Rightarrow> traces f q' ys)"
  by (induction f q xs rule: traces.induct) (simp_all split: option.split)

section \<open>Shared interfaces\<close>

text \<open>
  A machine with an invariant: the client runs a list of events, the provider promises that one
  step keeps the invariant.
\<close>

locale machine =
  fixes step :: "'e \<Rightarrow> 's \<Rightarrow> 's"
    and inv :: "'s \<Rightarrow> bool"
  assumes step_inv: "inv s \<Longrightarrow> inv (step e s)"
begin

lemma run_inv: "inv s \<Longrightarrow> inv (fold step es s)"
  by (induction es arbitrary: s) (simp_all add: step_inv)

lemma prefix_inv: "inv s \<Longrightarrow> inv (fold step (take n es) s)"
  by (rule run_inv)

end

text \<open>
  A one-slot mailbox: \<open>post\<close> leaves a request in the slot (requests that are not \<open>relevant\<close>
  are ignored by the provider), \<open>fetch\<close> returns the slot and empties it.
\<close>

locale mailbox =
  fixes post :: "'r \<Rightarrow> 's \<Rightarrow> 's"
    and fetch :: "'s \<Rightarrow> 'r \<times> 's"
    and relevant :: "'r \<Rightarrow> bool"
    and none :: 'r
  assumes fetch_post: "relevant r \<Longrightarrow> fst (fetch (post r s)) = r"
    and fetch_ignored: "\<not> relevant r \<Longrightarrow> fst (fetch (post r s)) = fst (fetch s)"
    and fetch_empties: "fst (fetch (snd (fetch s))) = none"
begin

lemma last_post_wins:
  "fst (fetch (fold post rs s)) =
     (if filter relevant rs = [] then fst (fetch s) else last (filter relevant rs))"
proof (induction rs rule: rev_induct)
  case Nil
  show ?case by simp
next
  case (snoc r rs)
  then show ?case by (cases "relevant r") (auto simp: fetch_post fetch_ignored)
qed

lemma served_once: "fst (fetch (snd (fetch (fold post rs s)))) = none"
  by (rule fetch_empties)

end

text \<open>
  A byte-wise checksum: \<open>absorb\<close> folds one byte into the register. When a step is injective in
  the register and in the byte, two messages of the same length that differ in one place never
  have the same checksum.
\<close>

locale checksum =
  fixes absorb :: "'b \<Rightarrow> 'c \<Rightarrow> 'c"
  assumes absorb_inj_state: "absorb b c = absorb b c' \<Longrightarrow> c = c'"
    and absorb_inj_byte: "absorb b c = absorb b' c \<Longrightarrow> b = b'"
begin

lemma fold_inj_state: "fold absorb bs c = fold absorb bs c' \<Longrightarrow> c = c'"
  by (induction bs arbitrary: c c') (auto dest: absorb_inj_state)

lemma single_change_detected:
  "b \<noteq> b' \<Longrightarrow> fold absorb (xs @ b # ys) c \<noteq> fold absorb (xs @ b' # ys) c"
  by (auto dest!: fold_inj_state dest: absorb_inj_byte)

end

end
