(* ===== verification/Timespec.thy ===== *)
theory Timespec
  imports Prelude
begin

text \<open>
  \<open>src/ntpshm/timespec.h\<close>: arithmetic on \<open>struct timespec\<close> and \<open>struct timeval\<close>. The C macros
  that assign through a pointer become functions that return the new value. \<open>time_t\<close> and
  \<open>long\<close> are 64-bit; the sums and differences here stay far from their bounds for any date, so
  the fields are \<open>int\<close>. C division truncates (\<open>sdiv\<close>, \<open>smod\<close>).
\<close>

named_theorems ts_defs \<open>definitions of the timespec macros\<close>

record timespec =
  tv_sec :: int
  tv_nsec :: int

record timeval =
  tvv_sec :: int
  tvv_usec :: int

definition NS_IN_SEC :: int where "NS_IN_SEC = 1000000000"
definition MS_IN_NS :: int where "MS_IN_NS = 1000000"
definition US_IN_SEC :: int where "US_IN_SEC = 1000000"
definition MS_IN_SEC :: int where "MS_IN_SEC = 1000"

lemmas ts_consts [ts_defs] = NS_IN_SEC_def MS_IN_NS_def US_IN_SEC_def MS_IN_SEC_def

definition ts_zero :: timespec where
  [ts_defs]: "ts_zero = \<lparr>tv_sec = 0, tv_nsec = 0\<rparr>"

definition TSTOMS :: "timespec \<Rightarrow> int" where
  [ts_defs]: "TSTOMS ts = tv_sec ts * MS_IN_SEC + tv_nsec ts sdiv MS_IN_NS"

definition timespec_diff_ns :: "timespec \<Rightarrow> timespec \<Rightarrow> int" where
  [ts_defs]: "timespec_diff_ns x y =
     (tv_sec x - tv_sec y) * NS_IN_SEC + tv_nsec x - tv_nsec y"

definition TS_NORM :: "timespec \<Rightarrow> timespec" where
  [ts_defs]: "TS_NORM ts =
     (if 1 \<le> tv_sec ts \<or> (tv_sec ts = 0 \<and> 0 \<le> tv_nsec ts) then
        (if NS_IN_SEC \<le> tv_nsec ts
         then ts\<lparr>tv_nsec := tv_nsec ts - NS_IN_SEC, tv_sec := tv_sec ts + 1\<rparr>
         else if 0 > tv_nsec ts
         then ts\<lparr>tv_nsec := tv_nsec ts + NS_IN_SEC, tv_sec := tv_sec ts - 1\<rparr>
         else ts)
      else
        (if - NS_IN_SEC \<ge> tv_nsec ts
         then ts\<lparr>tv_nsec := tv_nsec ts + NS_IN_SEC, tv_sec := tv_sec ts - 1\<rparr>
         else if 0 < tv_nsec ts
         then ts\<lparr>tv_nsec := tv_nsec ts - NS_IN_SEC, tv_sec := tv_sec ts + 1\<rparr>
         else ts))"

definition TV_NORM :: "timeval \<Rightarrow> timeval" where
  [ts_defs]: "TV_NORM tv =
     (if US_IN_SEC \<le> tvv_usec tv
      then tv\<lparr>tvv_usec := tvv_usec tv - US_IN_SEC, tvv_sec := tvv_sec tv + 1\<rparr>
      else if 0 > tvv_usec tv
      then tv\<lparr>tvv_usec := tvv_usec tv + US_IN_SEC, tvv_sec := tvv_sec tv - 1\<rparr>
      else tv)"

definition TSTOTV :: "timespec \<Rightarrow> timeval" where
  [ts_defs]: "TSTOTV ts =
     TV_NORM \<lparr>tvv_sec = tv_sec ts, tvv_usec = (tv_nsec ts + 500) sdiv 1000\<rparr>"

definition TVTOTS :: "timeval \<Rightarrow> timespec" where
  [ts_defs]: "TVTOTS tv = TS_NORM \<lparr>tv_sec = tvv_sec tv, tv_nsec = tvv_usec tv * 1000\<rparr>"

definition TS_SUB :: "timespec \<Rightarrow> timespec \<Rightarrow> timespec" where
  [ts_defs]: "TS_SUB a b =
     TS_NORM \<lparr>tv_sec = tv_sec a - tv_sec b, tv_nsec = tv_nsec a - tv_nsec b\<rparr>"

definition TS_NZ :: "timespec \<Rightarrow> bool" where
  [ts_defs]: "TS_NZ ts \<longleftrightarrow> 0 \<noteq> tv_sec ts \<or> 0 \<noteq> tv_nsec ts"

definition TS_GEZ :: "timespec \<Rightarrow> bool" where
  [ts_defs]: "TS_GEZ ts \<longleftrightarrow> 0 \<le> tv_sec ts \<and> 0 \<le> tv_nsec ts"

definition TS_GZ :: "timespec \<Rightarrow> bool" where
  [ts_defs]: "TS_GZ ts \<longleftrightarrow> 0 < tv_sec ts \<or> 0 < tv_nsec ts"

definition TS_GT :: "timespec \<Rightarrow> timespec \<Rightarrow> bool" where
  [ts_defs]: "TS_GT a b \<longleftrightarrow>
     tv_sec a > tv_sec b \<or> (tv_sec a = tv_sec b \<and> tv_nsec a > tv_nsec b)"

definition TS_GE :: "timespec \<Rightarrow> timespec \<Rightarrow> bool" where
  [ts_defs]: "TS_GE a b \<longleftrightarrow>
     tv_sec a > tv_sec b \<or> (tv_sec a = tv_sec b \<and> tv_nsec a \<ge> tv_nsec b)"

definition TS_EQ :: "timespec \<Rightarrow> timespec \<Rightarrow> bool" where
  [ts_defs]: "TS_EQ a b \<longleftrightarrow> tv_sec a = tv_sec b \<and> tv_nsec a = tv_nsec b"

definition MSTOTS :: "int \<Rightarrow> timespec" where
  [ts_defs]: "MSTOTS ms = \<lparr>tv_sec = ms sdiv 1000, tv_nsec = (ms smod 1000) * 1000000\<rparr>"

definition USTOTS :: "int \<Rightarrow> timespec" where
  [ts_defs]: "USTOTS us = \<lparr>tv_sec = us sdiv 1000000, tv_nsec = (us smod 1000000) * 1000\<rparr>"

section \<open>The meaning of a timespec and the normal form\<close>

definition ts_ns :: "timespec \<Rightarrow> int" where
  "ts_ns ts = tv_sec ts * 1000000000 + tv_nsec ts"

text \<open>The normal form the header's comment describes: the two fields never disagree in sign.\<close>

definition normalized :: "timespec \<Rightarrow> bool" where
  "normalized ts \<longleftrightarrow> \<bar>tv_nsec ts\<bar> < 1000000000 \<and>
     (0 < tv_sec ts \<longrightarrow> 0 \<le> tv_nsec ts) \<and> (tv_sec ts < 0 \<longrightarrow> tv_nsec ts \<le> 0)"

lemma ts_ns_TS_NORM [simp]: "ts_ns (TS_NORM ts) = ts_ns ts"
  by (simp add: ts_ns_def ts_defs)

lemma TS_NORM_id: "normalized ts \<Longrightarrow> TS_NORM ts = ts"
  by (auto simp: normalized_def ts_defs)

lemma TS_NORM_normalized:
  "\<bar>tv_nsec ts\<bar> < 1000000000 \<Longrightarrow> normalized (TS_NORM ts)"
  by (auto simp: normalized_def ts_defs)

lemma normalized_sec_less:
  assumes "normalized a" "normalized b" "tv_sec a < tv_sec b"
  shows "ts_ns a < ts_ns b"
proof -
  have "tv_nsec a - tv_nsec b < 1000000000"
    using assms by (cases "0 < tv_sec b") (auto simp: normalized_def)
  with assms(3) show ?thesis by (simp add: ts_ns_def)
qed

lemma TS_GT_iff: "normalized a \<Longrightarrow> normalized b \<Longrightarrow> TS_GT a b \<longleftrightarrow> ts_ns b < ts_ns a"
  by (cases "tv_sec a" "tv_sec b" rule: linorder_cases)
    (auto simp: TS_GT_def ts_ns_def dest: normalized_sec_less)

lemma TS_EQ_iff: "normalized a \<Longrightarrow> normalized b \<Longrightarrow> TS_EQ a b \<longleftrightarrow> ts_ns a = ts_ns b"
  by (cases "tv_sec a" "tv_sec b" rule: linorder_cases)
    (auto simp: TS_EQ_def ts_ns_def dest: normalized_sec_less)

lemma normalized_unique: "normalized a \<Longrightarrow> normalized b \<Longrightarrow> ts_ns a = ts_ns b \<Longrightarrow> a = b"
  using TS_EQ_iff [of a b] by (cases a; cases b) (simp add: TS_EQ_def)

lemma TS_GE_iff: "normalized a \<Longrightarrow> normalized b \<Longrightarrow> TS_GE a b \<longleftrightarrow> ts_ns b \<le> ts_ns a"
  using TS_GT_iff [of a b] TS_EQ_iff [of a b] by (auto simp: TS_GE_def TS_GT_def TS_EQ_def)

lemma TS_GEZ_iff: "normalized a \<Longrightarrow> TS_GEZ a \<longleftrightarrow> 0 \<le> ts_ns a"
  by (auto simp: TS_GEZ_def ts_ns_def normalized_def)

lemma timespec_diff_ns_exact: "timespec_diff_ns a b = ts_ns a - ts_ns b"
  by (simp add: ts_defs ts_ns_def algebra_simps)

lemma ts_ns_MSTOTS: "ts_ns (MSTOTS ms) = ms * 1000000"
  using sdiv_smod_eq [of ms 1000] by (simp add: ts_ns_def ts_defs)

lemma ts_ns_USTOTS: "ts_ns (USTOTS us) = us * 1000"
  using sdiv_smod_eq [of us 1000000] by (simp add: ts_ns_def ts_defs)

lemma normalized_MSTOTS: "normalized (MSTOTS ms)"
  using smod_range [of 1000 ms]
  by (cases "0 \<le> ms")
    (auto simp: normalized_def ts_defs c_simps sdiv_neg smod_neg pos_imp_zdiv_neg_iff div_int_pos_iff)

lemma normalized_TS_SUB:
  assumes "normalized a" "normalized b"
  shows "normalized (TS_SUB a b)"
  using assms by (auto simp: normalized_def ts_defs)

section \<open>Properties\<close>

text \<open>Subtracting two normalized times with \<open>TS_SUB\<close> is exact and gives a normalized time:
  one borrow or carry, as the comment of \<open>TS_NORM\<close> promises, is always enough.\<close>

theorem TS_SUB_exact:
  assumes "normalized a" "normalized b"
  shows "ts_ns (TS_SUB a b) = ts_ns a - ts_ns b \<and> normalized (TS_SUB a b)"
proof -
  have "ts_ns (TS_SUB a b) = ts_ns a - ts_ns b"
    unfolding TS_SUB_def ts_ns_TS_NORM by (simp add: ts_ns_def algebra_simps)
  with normalized_TS_SUB [OF assms] show ?thesis by simp
qed

theorem TS_SUB_exact_witness:
  "ts_ns (TS_SUB \<lparr>tv_sec = 1, tv_nsec = 0\<rparr> \<lparr>tv_sec = 0, tv_nsec = 5\<rparr>) = 999999995"
proof -
  have "normalized \<lparr>tv_sec = 1, tv_nsec = 0\<rparr>" "normalized \<lparr>tv_sec = 0, tv_nsec = 5\<rparr>"
    by (simp_all add: normalized_def)
  from TS_SUB_exact [OF this] show ?thesis by (simp add: ts_ns_def)
qed

end
