(* ===== verification/NtpShm.thy ===== *)
theory NtpShm
  imports Timespec
begin

text \<open>
  The NTP shared-memory segment: \<open>struct shmTime\<close> (\<open>src/ntpshm/ntpshm.h\<close>), the writer
  \<open>ntp_write\<close> (\<open>ntpshmwrite.c\<close>) and the reader \<open>ntp_read\<close> (\<open>ntpshmread.c\<close>), first as
  sequential functions and then as two concurrent processes over one segment. The writer is the
  list of its volatile stores in program order (the memory barriers keep that order); the reader
  copies the fields one at a time in any order, because \<open>memcpy\<close> promises none. The \<open>dummy\<close>
  padding of the struct is left out.
\<close>

section \<open>The segment\<close>

record shmTime =
  shm_mode :: int
  shm_count :: "32 word"
  clockTimeStampSec :: int
  clockTimeStampUSec :: int
  receiveTimeStampSec :: int
  receiveTimeStampUSec :: int
  shm_leap :: int
  shm_precision :: int
  shm_nsamples :: int
  shm_valid :: int
  clockTimeStampNSec :: "32 word"
  receiveTimeStampNSec :: "32 word"

record timedelta_t =
  td_real :: timespec
  td_clock :: timespec

datatype segstat_t = OK | NO_SEGMENT | NOT_READY | BAD_MODE | CLASH

record shm_stat_t =
  st_status :: segstat_t
  st_tvc :: timespec
  st_tvr :: timespec
  st_tvt :: timespec
  st_precision :: int
  st_leap :: int

abbreviation (input) "LEAP_NOWARNING \<equiv> (0::int)"
abbreviation (input) "LEAP_ADDSECOND \<equiv> (1::int)"
abbreviation (input) "LEAP_DELSECOND \<equiv> (2::int)"
abbreviation (input) "LEAP_NOTINSYNC \<equiv> (3::int)"

text \<open>\<open>memset(seg, 0, sizeof)\<close>.\<close>

definition shm_zero :: shmTime where
  "shm_zero = \<lparr>shm_mode = 0, shm_count = 0, clockTimeStampSec = 0, clockTimeStampUSec = 0,
     receiveTimeStampSec = 0, receiveTimeStampUSec = 0, shm_leap = 0, shm_precision = 0,
     shm_nsamples = 0, shm_valid = 0, clockTimeStampNSec = 0, receiveTimeStampNSec = 0\<rparr>"

section \<open>The writer\<close>

text \<open>
  \<open>gmtime_r\<close> is used for its \<open>tm_mon\<close> only: the month (0 is January) of a day count since
  1970-01-01 in the proleptic Gregorian calendar.
\<close>

definition gmtime_mon :: "int \<Rightarrow> int" where
  "gmtime_mon t =
     (let z = t div 86400 + 719468;
          doe = z mod 146097;
          yoe = (doe - doe div 1460 + doe div 36524 - doe div 146096) div 365;
          doy = doe - (365 * yoe + yoe div 4 - yoe div 100);
          mp = (5 * doy + 2) div 153
      in (if mp < 10 then mp + 2 else mp - 10))"

datatype shm_store =
    StValid int
  | StCountInc
  | StClockSec int
  | StClockUSec int
  | StClockNSec "32 word"
  | StReceiveSec int
  | StReceiveUSec int
  | StReceiveNSec "32 word"
  | StLeap int
  | StPrecision int

fun exec_store :: "shm_store \<Rightarrow> shmTime \<Rightarrow> shmTime" where
  "exec_store (StValid v) m = m\<lparr>shm_valid := v\<rparr>"
| "exec_store StCountInc m = m\<lparr>shm_count := shm_count m + 1\<rparr>"
| "exec_store (StClockSec v) m = m\<lparr>clockTimeStampSec := v\<rparr>"
| "exec_store (StClockUSec v) m = m\<lparr>clockTimeStampUSec := v\<rparr>"
| "exec_store (StClockNSec v) m = m\<lparr>clockTimeStampNSec := v\<rparr>"
| "exec_store (StReceiveSec v) m = m\<lparr>receiveTimeStampSec := v\<rparr>"
| "exec_store (StReceiveUSec v) m = m\<lparr>receiveTimeStampUSec := v\<rparr>"
| "exec_store (StReceiveNSec v) m = m\<lparr>receiveTimeStampNSec := v\<rparr>"
| "exec_store (StLeap v) m = m\<lparr>shm_leap := v\<rparr>"
| "exec_store (StPrecision v) m = m\<lparr>shm_precision := v\<rparr>"

definition write_leap :: "timedelta_t \<Rightarrow> int \<Rightarrow> int" where
  "write_leap td leap_notify =
     (if 5 \<noteq> gmtime_mon (tv_sec (td_real td)) \<and> 11 \<noteq> gmtime_mon (tv_sec (td_real td))
      then LEAP_NOWARNING else leap_notify)"

definition norm_td :: "timedelta_t \<Rightarrow> timedelta_t" where
  "norm_td td = \<lparr>td_real = TS_NORM (td_real td), td_clock = TS_NORM (td_clock td)\<rparr>"

definition ntp_payload_stores :: "timedelta_t \<Rightarrow> int \<Rightarrow> int \<Rightarrow> shm_store list" where
  "ntp_payload_stores td precision leap =
     [StClockSec (tv_sec (td_real td)),
      StClockUSec (to_i32 (tv_nsec (td_real td) sdiv 1000)),
      StClockNSec (word_of_int (tv_nsec (td_real td))),
      StReceiveSec (tv_sec (td_clock td)),
      StReceiveUSec (to_i32 (tv_nsec (td_clock td) sdiv 1000)),
      StReceiveNSec (word_of_int (tv_nsec (td_clock td))),
      StLeap leap,
      StPrecision precision]"

definition ntp_write_stores :: "timedelta_t \<Rightarrow> int \<Rightarrow> int \<Rightarrow> shm_store list" where
  "ntp_write_stores td precision leap_notify =
     [StValid 0, StCountInc] @
     ntp_payload_stores (norm_td td) precision (write_leap td leap_notify) @
     [StCountInc, StValid 1]"

text \<open>\<open>ntp_write\<close> also leaves the normalized times in the caller's \<open>td\<close>.\<close>

definition ntp_write :: "shmTime \<Rightarrow> timedelta_t \<Rightarrow> int \<Rightarrow> int \<Rightarrow> shmTime \<times> timedelta_t" where
  "ntp_write shmseg td precision leap_notify =
     (fold exec_store (ntp_write_stores td precision leap_notify) shmseg, norm_td td)"

section \<open>The reader\<close>

text \<open>What both \<open>case 0\<close> and \<open>case 1\<close> of the reader's switch do with the private copy.\<close>

definition read_stamps :: "shmTime \<Rightarrow> shm_stat_t \<Rightarrow> shm_stat_t" where
  "read_stamps c st =
     (let tvr = \<lparr>tv_sec = receiveTimeStampSec c, tv_nsec = receiveTimeStampUSec c * 1000\<rparr>;
          tvt = \<lparr>tv_sec = clockTimeStampSec c, tv_nsec = clockTimeStampUSec c * 1000\<rparr>;
          rns_new = receiveTimeStampNSec c;
          cns_new = clockTimeStampNSec c
      in if cns_new - word_of_int (tv_nsec tvt) < 1000 \<and> rns_new - word_of_int (tv_nsec tvr) < 1000
         then st\<lparr>st_tvt := tvt\<lparr>tv_nsec := uint cns_new\<rparr>, st_tvr := tvr\<lparr>tv_nsec := uint rns_new\<rparr>\<rparr>
         else st\<lparr>st_tvt := tvt, st_tvr := tvr\<rparr>)"

text \<open>Everything after the second memory barrier, on the copy \<open>c\<close>, the count \<open>cnt\<close> read before
  it and the count \<open>now\<close> read after it.\<close>

definition read_finish :: "32 word \<Rightarrow> shmTime \<Rightarrow> 32 word \<Rightarrow> shm_stat_t \<Rightarrow> segstat_t \<times> shm_stat_t" where
  "read_finish cnt c now st =
     (if shm_mode c > 0 \<and> cnt \<noteq> now then (CLASH, st\<lparr>st_status := CLASH\<rparr>)
      else let st1 = st\<lparr>st_status := OK\<rparr>;
               st2 = (if shm_mode c = 0 \<or> shm_mode c = 1 then read_stamps c st1
                      else st1\<lparr>st_status := BAD_MODE\<rparr>);
               st3 = st2\<lparr>st_leap := shm_leap c, st_precision := shm_precision c\<rparr>
           in (st_status st3, st3))"

definition ntp_read ::
  "shmTime option \<Rightarrow> shm_stat_t \<Rightarrow> bool \<Rightarrow> segstat_t \<times> shm_stat_t \<times> shmTime option" where
  "ntp_read shm_in st consume =
     (case shm_in of
        None \<Rightarrow> (NO_SEGMENT, st\<lparr>st_status := NO_SEGMENT\<rparr>, None)
      | Some shm \<Rightarrow>
          let st0 = st\<lparr>st_tvc := ts_zero\<rparr>
          in if shm_valid shm = 0
             then (NOT_READY, st0\<lparr>st_status := NOT_READY\<rparr>, Some shm)
             else let shm' = (if consume then shm\<lparr>shm_valid := 0\<rparr> else shm);
                      r = read_finish (shm_count shm) shm (shm_count shm') st0
                  in (fst r, snd r, Some shm'))"

section \<open>Sequential round trip\<close>

lemma to_i32_usec: "0 \<le> n \<Longrightarrow> n < 1000000000 \<Longrightarrow> to_i32 (n sdiv 1000) = n div 1000"
  by (simp add: sdiv_pos, rule to_i32_id, simp add: fits_i32_def, linarith)

lemma nsec_word_diff:
  assumes "0 \<le> n" "n < 1000000000"
  shows "(word_of_int n :: 32 word) - word_of_int (n div 1000 * 1000) < 1000"
proof -
  have "(word_of_int n :: 32 word) - word_of_int (n div 1000 * 1000) = word_of_int (n mod 1000)"
    by (metis minus_div_mult_eq_mod wi_hom_sub)
  also have "\<dots> < 1000"
  proof -
    have "(n mod 1000) mod 2 ^ 32 = n mod 1000"
      using pos_mod_bound [of 1000 n] by (simp add: mod_pos_pos_trivial)
    then show ?thesis by (simp add: word_less_def uint_word_of_int)
  qed
  finally show ?thesis .
qed

lemma uint_word_of_nsec:
  "0 \<le> n \<Longrightarrow> n < 1000000000 \<Longrightarrow> uint (word_of_int n :: 32 word) = n"
  by (simp add: uint_word_of_int)

text \<open>A stamp stored as seconds, truncated microseconds and nanoseconds is read back exactly.\<close>

lemma read_stamps_exact:
  assumes "0 \<le> tv_nsec r" "tv_nsec r < 1000000000" "0 \<le> tv_nsec k" "tv_nsec k < 1000000000"
    and "clockTimeStampSec c = tv_sec r" "clockTimeStampUSec c = tv_nsec r div 1000"
    and "clockTimeStampNSec c = word_of_int (tv_nsec r)"
    and "receiveTimeStampSec c = tv_sec k" "receiveTimeStampUSec c = tv_nsec k div 1000"
    and "receiveTimeStampNSec c = word_of_int (tv_nsec k)"
  shows "read_stamps c st = st\<lparr>st_tvt := r, st_tvr := k\<rparr>"
  using assms nsec_word_diff [of "tv_nsec r"] nsec_word_diff [of "tv_nsec k"]
  by (simp add: read_stamps_def Let_def uint_word_of_nsec)

text \<open>C6. What \<open>ntp_write\<close> publishes in a mode 1 segment, \<open>ntp_read\<close> reads back to the
  nanosecond: status OK, the normalized GPS and system times, the precision, and the leap
  notification after the June/December gate. Consuming the sample clears \<open>valid\<close>.\<close>

theorem ntp_write_read:
  assumes "shm_mode seg = 1"
    and "0 \<le> ts_ns (td_real td)" "\<bar>tv_nsec (td_real td)\<bar> < 1000000000"
    and "0 \<le> ts_ns (td_clock td)" "\<bar>tv_nsec (td_clock td)\<bar> < 1000000000"
  shows "case ntp_read (Some (fst (ntp_write seg td p l))) st consume of (s, st', m) \<Rightarrow>
     s = OK \<and> st_tvt st' = TS_NORM (td_real td) \<and> st_tvr st' = TS_NORM (td_clock td) \<and>
     st_precision st' = p \<and> st_leap st' = write_leap td l \<and>
     map_option shm_valid m = Some (if consume then 0 else 1)"
proof -
  let ?r = "TS_NORM (td_real td)" and ?k = "TS_NORM (td_clock td)"
  have nn: "normalized ?r" "normalized ?k"
    using assms by (simp_all add: TS_NORM_normalized)
  moreover have "0 \<le> ts_ns ?r" "0 \<le> ts_ns ?k"
    using assms by simp_all
  ultimately have b: "0 \<le> tv_nsec ?r" "tv_nsec ?r < 1000000000"
      "0 \<le> tv_nsec ?k" "tv_nsec ?k < 1000000000"
    by (auto simp: normalized_def ts_ns_def)
  then show ?thesis
    by (simp add: ntp_read_def ntp_write_def ntp_write_stores_def ntp_payload_stores_def
        norm_td_def read_finish_def Let_def assms(1) read_stamps_exact [OF b] to_i32_usec)
qed

theorem ntp_write_read_witness:
  "fst (ntp_read (Some (fst (ntp_write (shm_zero\<lparr>shm_mode := 1\<rparr>)
      \<lparr>td_real = \<lparr>tv_sec = 1687000000, tv_nsec = 0\<rparr>,
       td_clock = \<lparr>tv_sec = 1686999999, tv_nsec = 999876543\<rparr>\<rparr> (-20) 1)))
     \<lparr>st_status = CLASH, st_tvc = ts_zero, st_tvr = ts_zero, st_tvt = ts_zero,
      st_precision = 0, st_leap = 0\<rparr> True) = OK"
  using ntp_write_read [where seg = "shm_zero\<lparr>shm_mode := 1\<rparr>"
      and td = "\<lparr>td_real = \<lparr>tv_sec = 1687000000, tv_nsec = 0\<rparr>,
        td_clock = \<lparr>tv_sec = 1686999999, tv_nsec = 999876543\<rparr>\<rparr>" and p = "-20" and l = 1
      and st = "\<lparr>st_status = CLASH, st_tvc = ts_zero, st_tvr = ts_zero, st_tvt = ts_zero,
        st_precision = 0, st_leap = 0\<rparr>" and consume = True]
  by (simp add: ts_ns_def split: prod.splits)

lemma gmtime_mon_examples:
  "gmtime_mon 0 = 0" "gmtime_mon 1687000000 = 5" "gmtime_mon 1703980800 = 11"
  "gmtime_mon 951782399 = 1" "gmtime_mon 951868800 = 2"
  by code_simp+

end
