(* ===== verification/PpsThread.thy ===== *)
theory PpsThread
  imports NtpShm
begin

text \<open>
  \<open>src/ntpshm/ppsthread.c\<close>: the thread that turns PPS edges and GNSS fixes into clock samples.
  One iteration of the loop of \<open>gpsd_ppsmonitor\<close> is the function \<open>pps_iter\<close>, built from the
  four stages of the source; what the kernel delivers in the iteration (the TIOCMIWAIT edge and
  the RFC 2783 fetch) is its input. Capability bits of the RFC 2783 header are booleans.
\<close>

section \<open>Thread context\<close>

record pps_thread_t =
  fix_in :: timedelta_t
  pps_out :: timedelta_t
  ppsout_count :: int
  pps_qErr :: int
  qErr_time :: timespec
  report_hook_set :: bool

definition td_zero :: timedelta_t where
  "td_zero = \<lparr>td_real = ts_zero, td_clock = ts_zero\<rparr>"

definition pps_thread_fixin :: "timedelta_t \<Rightarrow> pps_thread_t \<Rightarrow> pps_thread_t" where
  "pps_thread_fixin td t = t\<lparr>fix_in := td\<rparr>"

definition pps_thread_qErrin :: "int \<Rightarrow> timespec \<Rightarrow> pps_thread_t \<Rightarrow> pps_thread_t" where
  "pps_thread_qErrin q ts t = t\<lparr>pps_qErr := q, qErr_time := ts\<rparr>"

definition pps_thread_ppsout :: "pps_thread_t \<Rightarrow> int \<times> timedelta_t" where
  "pps_thread_ppsout t = (ppsout_count t, pps_out t)"

definition pps_thread_deactivate :: "pps_thread_t \<Rightarrow> pps_thread_t" where
  "pps_thread_deactivate t = t\<lparr>report_hook_set := False\<rparr>"

section \<open>Kernel capabilities\<close>

record pps_caps =
  cap_tspec :: bool
  cap_canwait :: bool
  cap_assert :: bool
  cap_clear :: bool

text \<open>The capability part of \<open>init_kernel_pps\<close>: \<open>None\<close> is -1, otherwise whether the kernel can
  wait and which edges are captured.\<close>

definition kernel_pps_mode :: "pps_caps \<Rightarrow> (bool \<times> bool \<times> bool) option" where
  "kernel_pps_mode c =
     (if \<not> cap_tspec c then None
      else if \<not> cap_assert c \<and> \<not> cap_clear c then None
      else Some (cap_canwait c, cap_assert c, cap_clear c))"

section \<open>Stage one: edges\<close>

datatype fetch = FetchTimeout | FetchFailed | Fetched timespec timespec \<comment> \<open>assert, clear\<close>

record edge_info =
  prev_clock_ts :: timespec
  prev_edge :: int
  edge_clock_ts :: timespec
  edge_dir :: int

definition last_edge :: "timespec \<Rightarrow> timespec \<Rightarrow> int" where
  "last_edge a c =
     (if tv_sec a > tv_sec c then 1
      else if tv_sec a < tv_sec c then 0
      else if tv_nsec a > tv_nsec c then 1
      else 0)"

definition get_edge_rfc2783 ::
  "bool \<Rightarrow> fetch \<Rightarrow> timedelta_t \<Rightarrow> edge_info \<Rightarrow> timedelta_t \<Rightarrow> int \<times> edge_info \<times> timedelta_t" where
  "get_edge_rfc2783 canwait r fix_now e last_fixtime =
     (case r of
        FetchTimeout \<Rightarrow> (1, e, last_fixtime)
      | FetchFailed \<Rightarrow> (0, e, last_fixtime)
      | Fetched a c \<Rightarrow>
          let lf = (if canwait then fix_now else last_fixtime);
              edge = last_edge a c
          in (0,
              (if edge = 1
               then \<lparr>prev_clock_ts = (if tv_sec c = 0 then a else c), prev_edge = 0,
                     edge_clock_ts = a, edge_dir = 1\<rparr>
               else \<lparr>prev_clock_ts = a, prev_edge = 1, edge_clock_ts = c, edge_dir = 0\<rparr>),
              lf))"

text \<open>What TIOCMIWAIT delivered: failure, or the time of the edge and the line state.\<close>

datatype tio = TioError | TioEdge timespec int

record pps_config =
  not_a_tty :: bool
  pps_canwait :: bool
  kernelpps :: bool

record pps_input =
  in_tio :: tio
  in_fetch :: fetch

record pps_mon =
  last_fixtime :: timedelta_t
  mon_clock_ts :: timespec
  last_second_used :: int
  cycle :: int
  duration :: int
  mon_state :: int
  unchanged :: int
  state_last :: int
  mon_edge :: int
  state_last_tio :: int
  pulse_tio :: "timespec \<times> timespec"
  pulse_kpps :: "timespec \<times> timespec"
  slept :: nat
  thread :: pps_thread_t

definition pulse_get :: "int \<Rightarrow> 'a \<times> 'a \<Rightarrow> 'a" where
  "pulse_get e p = (if e = 0 then fst p else snd p)"

definition pulse_set :: "int \<Rightarrow> 'a \<Rightarrow> 'a \<times> 'a \<Rightarrow> 'a \<times> 'a" where
  "pulse_set e x p = (if e = 0 then (x, snd p) else (fst p, x))"

definition other_edge :: "int \<Rightarrow> int" where
  "other_edge e = (if e \<noteq> 0 then 0 else 1)"

definition stage_start :: "pps_mon \<Rightarrow> pps_mon" where
  "stage_start m =
     (if unchanged m + 1 = 10 then m\<lparr>unchanged := 0, slept := Suc (slept m)\<rparr>
      else m\<lparr>unchanged := unchanged m + 1\<rparr>)"

definition stage_tio :: "timespec \<Rightarrow> int \<Rightarrow> pps_mon \<Rightarrow> pps_mon" where
  "stage_tio ts st m =
     (let e = (if st > state_last_tio m then 1 else 0)
      in m\<lparr>last_fixtime := fix_in (thread m), state_last_tio := st,
           cycle := timespec_diff_ns ts (pulse_get e (pulse_tio m)) sdiv 1000,
           duration := timespec_diff_ns ts (pulse_get (other_edge e) (pulse_tio m)) sdiv 1000,
           pulse_tio := pulse_set e ts (pulse_tio m),
           mon_clock_ts := ts, mon_state := e, mon_edge := e\<rparr>)"

definition stage_kpps :: "edge_info \<Rightarrow> pps_mon \<Rightarrow> pps_mon" where
  "stage_kpps e m =
     m\<lparr>cycle := timespec_diff_ns (edge_clock_ts e) (pulse_get (edge_dir e) (pulse_kpps m)) sdiv 1000,
       duration := timespec_diff_ns (edge_clock_ts e) (prev_clock_ts e) sdiv 1000,
       pulse_kpps := pulse_set (other_edge (edge_dir e)) (prev_clock_ts e)
                       (pulse_set (edge_dir e) (edge_clock_ts e) (pulse_kpps m)),
       mon_state := edge_dir e, mon_edge := edge_dir e, mon_clock_ts := edge_clock_ts e\<rparr>"

section \<open>Stage two: categorize\<close>

definition invisible_cycle :: "int \<Rightarrow> bool" where
  "invisible_cycle c \<longleftrightarrow>
     (180000 < c \<and> 220000 > c) \<or> (900000 < c \<and> 1100000 > c) \<or> (1800000 < c \<and> 2200000 > c)"

definition stage_two_state :: "pps_mon \<Rightarrow> pps_mon" where
  "stage_two_state m =
     (let m1 = (if mon_state m \<noteq> state_last m then m\<lparr>unchanged := 0\<rparr>
                else if invisible_cycle (cycle m) then m\<lparr>duration := 0, unchanged := 0\<rparr>
                else m)
      in m1\<lparr>state_last := mon_state m\<rparr>)"

text \<open>The ladder of tests on cycle and duration; \<open>ok\<close> keeps the value it had before the ladder
  on every rung that does not set it.\<close>

definition categorize :: "bool \<Rightarrow> int \<Rightarrow> int \<Rightarrow> int \<Rightarrow> bool \<times> string" where
  "categorize ok cyc dur edge =
     (if 0 > cyc then (ok, ''Rejecting negative cycle'')
      else if 180000 > cyc then (ok, ''Too short for 5Hz'')
      else if 201000 > cyc then
        (if 100000 > dur then (True, ''5Hz PPS pulse'') else (ok, ''Unknown error''))
      else if 900000 > cyc then (ok, ''Too long for 5Hz, too short for 1Hz'')
      else if 1100000 > cyc then
        (if 0 = dur then (True, ''invisible pulse'')
         else if 450000 > dur then (ok, ''1Hz trailing edge'')
         else if 555000 > dur then
           (if edge = 1 then (True, ''square'') else (ok, ''Unknown error''))
         else (True, ''1Hz leading edge''))
      else if 1800000 > cyc then (ok, ''Too long for 1Hz, too short for 2Hz'')
      else if 2200000 > cyc then
        (if 990000 > dur then (ok, ''0.5 Hz square too short duration'')
         else if 1100000 > dur then (True, ''0.5 Hz square wave'')
         else (ok, ''0.5 Hz square too long duration''))
      else (ok, ''Too long for 0.5Hz''))"

section \<open>Stages three and four: calculate and report\<close>

definition fix_usable :: "bool \<Rightarrow> pps_mon \<Rightarrow> bool" where
  "fix_usable ok m =
     (if tv_sec (td_real (last_fixtime m)) = 0 then False
      else if ok \<and> last_second_used m \<ge> tv_sec (td_real (last_fixtime m)) then False
      else ok)"

definition ppstimes_of :: "pps_mon \<Rightarrow> timedelta_t" where
  "ppstimes_of m =
     \<lparr>td_real = \<lparr>tv_sec = tv_sec (td_real (last_fixtime m)) + 1, tv_nsec = 0\<rparr>,
      td_clock = mon_clock_ts m\<rparr>"

definition delay_of :: "pps_mon \<Rightarrow> timespec" where
  "delay_of m = TS_SUB (td_clock (ppstimes_of m)) (td_clock (last_fixtime m))"

datatype pps_result = PpsDie | PpsAgain | PpsIgnored string | PpsRefused string | PpsReported timedelta_t

definition stage_four :: "pps_mon \<Rightarrow> pps_result \<times> pps_mon" where
  "stage_four m =
     (let d = delay_of m
      in if 0 > tv_sec d \<or> 0 > tv_nsec d then (PpsRefused ''system clock went backwards'', m)
         else if 2 < tv_sec d \<or> (1 = tv_sec d \<and> 100000000 < tv_nsec d)
         then (PpsRefused ''timestamp out of range'', m)
         else (PpsReported (ppstimes_of m),
               m\<lparr>thread := (thread m)\<lparr>pps_out := ppstimes_of m,
                                      ppsout_count := ppsout_count (thread m) + 1\<rparr>\<rparr>))"

definition stages_two_to_four :: "bool \<Rightarrow> pps_mon \<Rightarrow> pps_result \<times> pps_mon" where
  "stages_two_to_four ok m =
     (let m1 = stage_two_state m
      in if unchanged m1 \<noteq> 0 then (PpsAgain, m1)
         else case categorize ok (cycle m1) (duration m1) (mon_edge m1) of (ok1, log) \<Rightarrow>
           if \<not> fix_usable ok1 m1
           then (PpsIgnored
                   (if tv_sec (td_real (last_fixtime m1)) = 0 then ''missing last_fixtime''
                    else if ok1 then ''this second already handled'' else log), m1)
           else stage_four (m1\<lparr>unchanged := 0\<rparr>))"

definition no_edge :: edge_info where
  "no_edge = \<lparr>prev_clock_ts = ts_zero, prev_edge = 0, edge_clock_ts = ts_zero, edge_dir = 0\<rparr>"

definition pps_iter :: "pps_config \<Rightarrow> pps_input \<Rightarrow> pps_mon \<Rightarrow> pps_result \<times> pps_mon" where
  "pps_iter cfg inp m0 =
     (let m = stage_start m0;
          use_tio = (\<not> not_a_tty cfg \<and> \<not> pps_canwait cfg)
      in if use_tio \<and> in_tio inp = TioError then (PpsDie, m)
         else
           let (ok, m1) = (case in_tio inp of
                 TioEdge ts st \<Rightarrow> (if use_tio then (True, stage_tio ts st m) else (False, m))
               | TioError \<Rightarrow> (False, m))
           in if kernelpps cfg then
                (case get_edge_rfc2783 (pps_canwait cfg) (in_fetch inp) (fix_in (thread m1))
                        no_edge (last_fixtime m1) of (r, e, lf) \<Rightarrow>
                   if r = 1 then (PpsAgain, m1)
                   else
                     let m2 = stage_kpps e (m1\<lparr>last_fixtime := lf\<rparr>)
                     in if not_a_tty cfg \<and> \<not> pps_canwait cfg then (PpsDie, m2)
                        else stages_two_to_four ok m2)
              else if not_a_tty cfg \<and> \<not> pps_canwait cfg then (PpsDie, m1)
              else stages_two_to_four ok m1)"

text \<open>The loop over a list of inputs: it stops at a break or when the report hook is cleared.\<close>

fun gpsd_ppsmonitor :: "pps_config \<Rightarrow> pps_input list \<Rightarrow> pps_mon \<Rightarrow> pps_result list \<times> pps_mon" where
  "gpsd_ppsmonitor cfg [] m = ([], m)"
| "gpsd_ppsmonitor cfg (i # is) m =
     (if \<not> report_hook_set (thread m) then ([], m)
      else case pps_iter cfg i m of (r, m') \<Rightarrow>
        if r = PpsDie then ([r], m')
        else case gpsd_ppsmonitor cfg is m' of (rs, m'') \<Rightarrow> (r # rs, m''))"

section \<open>Lemmas\<close>

named_theorems pps_defs \<open>the stages of one iteration\<close>

lemmas [pps_defs] = pps_iter_def stages_two_to_four_def stage_four_def stage_two_state_def
  stage_kpps_def stage_tio_def stage_start_def get_edge_rfc2783_def

fun is_report :: "pps_result \<Rightarrow> bool" where
  "is_report (PpsReported td) = True"
| "is_report r = False"

text \<open>What each stage leaves alone.\<close>

lemma stage_two_state_frame [simp]:
  "last_second_used (stage_two_state m) = last_second_used m"
  "cycle (stage_two_state m) = cycle m"
  "last_fixtime (stage_two_state m) = last_fixtime m"
  "mon_clock_ts (stage_two_state m) = mon_clock_ts m"
  "mon_edge (stage_two_state m) = mon_edge m"
  "thread (stage_two_state m) = thread m"
  by (simp_all add: stage_two_state_def Let_def)

lemma stage_two_state_unchanged:
  "unchanged (stage_two_state m) = 0 \<or> unchanged (stage_two_state m) = unchanged m"
  by (simp add: stage_two_state_def Let_def)

lemma stage_four_frame [simp]:
  "last_second_used (snd (stage_four m)) = last_second_used m"
  "unchanged (snd (stage_four m)) = unchanged m"
  "report_hook_set (thread (snd (stage_four m))) = report_hook_set (thread m)"
  "ppsout_count (thread (snd (stage_four m))) =
     ppsout_count (thread m) + (if is_report (fst (stage_four m)) then 1 else 0)"
  by (simp_all add: stage_four_def Let_def)

lemma stages_two_to_four_frame:
  "last_second_used (snd (stages_two_to_four ok m)) = last_second_used m"
  "report_hook_set (thread (snd (stages_two_to_four ok m))) = report_hook_set (thread m)"
  unfolding stages_two_to_four_def Let_def
  by (simp_all add: case_prod_unfold)

lemma stages_two_to_four_count:
  "ppsout_count (thread (snd (stages_two_to_four ok m))) =
     ppsout_count (thread m) + (if is_report (fst (stages_two_to_four ok m)) then 1 else 0)"
  unfolding stages_two_to_four_def Let_def
  by (simp add: case_prod_unfold)

lemma stages_two_to_four_unchanged:
  "0 \<le> unchanged m \<Longrightarrow> unchanged m < 10 \<Longrightarrow>
   0 \<le> unchanged (snd (stages_two_to_four ok m)) \<and> unchanged (snd (stages_two_to_four ok m)) < 10"
  using stage_two_state_unchanged [of m]
  unfolding stages_two_to_four_def Let_def by (auto simp: case_prod_unfold)

text \<open>An iteration ends before stage two, or is stages two to four on the state after stage one.\<close>

definition stage_one :: "pps_config \<Rightarrow> pps_input \<Rightarrow> pps_mon \<Rightarrow> bool \<times> pps_mon" where
  "stage_one cfg i m0 =
     (let m = stage_start m0;
          use_tio = (\<not> not_a_tty cfg \<and> \<not> pps_canwait cfg);
          (ok, m1) = (case in_tio i of
                 TioEdge ts st \<Rightarrow> (if use_tio then (True, stage_tio ts st m) else (False, m))
               | TioError \<Rightarrow> (False, m))
      in if kernelpps cfg
         then (case get_edge_rfc2783 (pps_canwait cfg) (in_fetch i) (fix_in (thread m1))
                    no_edge (last_fixtime m1) of (r, e, lf) \<Rightarrow>
                 (ok, stage_kpps e (m1\<lparr>last_fixtime := lf\<rparr>)))
         else (ok, m1))"

lemma stage_one_frame:
  "thread (snd (stage_one cfg i m)) = thread m"
  "last_second_used (snd (stage_one cfg i m)) = last_second_used m"
  "unchanged (snd (stage_one cfg i m)) = unchanged (stage_start m)"
  by (simp_all add: stage_one_def stage_tio_def stage_kpps_def stage_start_def Let_def
      split: tio.split prod.split)

lemma stage_one_ok: "fst (stage_one cfg i m) \<Longrightarrow> \<not> not_a_tty cfg \<and> \<not> pps_canwait cfg"
  by (simp add: stage_one_def Let_def split: tio.splits prod.splits if_splits)

lemma pps_iter_late:
  "fst (pps_iter cfg i m) \<in> {PpsDie, PpsAgain} \<and> thread (snd (pps_iter cfg i m)) = thread m \<and>
     last_second_used (snd (pps_iter cfg i m)) = last_second_used m \<and>
     unchanged (snd (pps_iter cfg i m)) = unchanged (stage_start m) \<or>
   pps_iter cfg i m = stages_two_to_four (fst (stage_one cfg i m)) (snd (stage_one cfg i m))"
  by (cases "in_tio i"; cases "kernelpps cfg"; cases "not_a_tty cfg"; cases "pps_canwait cfg";
      cases "in_fetch i")
    (simp_all add: pps_iter_def stage_one_def Let_def get_edge_rfc2783_def stage_kpps_def
      stage_tio_def stage_start_def)

lemma pps_iter_second: "last_second_used (snd (pps_iter cfg i m)) = last_second_used m"
  using pps_iter_late [of cfg i m] by (auto simp: stages_two_to_four_frame stage_one_frame)

lemma pps_iter_hook:
  "report_hook_set (thread (snd (pps_iter cfg i m))) = report_hook_set (thread m)"
  using pps_iter_late [of cfg i m] by (auto simp: stages_two_to_four_frame stage_one_frame)

lemma pps_iter_count:
  "ppsout_count (thread (snd (pps_iter cfg i m))) =
     ppsout_count (thread m) + (if is_report (fst (pps_iter cfg i m)) then 1 else 0)"
  using pps_iter_late [of cfg i m] by (auto simp: stages_two_to_four_count stage_one_frame)

interpretation pps: machine "\<lambda>i m. snd (pps_iter cfg i m)" "\<lambda>m. 0 \<le> unchanged m \<and> unchanged m < 10"
  for cfg
proof
  fix i :: pps_input and m :: pps_mon
  assume "0 \<le> unchanged m \<and> unchanged m < 10"
  then have "0 \<le> unchanged (stage_start m) \<and> unchanged (stage_start m) < 10"
    by (simp add: stage_start_def)
  then show "0 \<le> unchanged (snd (pps_iter cfg i m)) \<and> unchanged (snd (pps_iter cfg i m)) < 10"
    using pps_iter_late [of cfg i m]
      stages_two_to_four_unchanged [of "snd (stage_one cfg i m)" "fst (stage_one cfg i m)"]
    by (auto simp: stage_one_frame)
qed

lemma report_inv:
  assumes "stages_two_to_four ok m = (PpsReported td, m')"
  shows "td = ppstimes_of m" "fst (categorize ok (cycle m) (duration (stage_two_state m)) (mon_edge m))"
    "tv_sec (td_real (last_fixtime m)) \<noteq> 0" "0 \<le> tv_sec (delay_of m)" "0 \<le> tv_nsec (delay_of m)"
    "\<not> 2 < tv_sec (delay_of m)" "tv_sec (delay_of m) = 1 \<longrightarrow> tv_nsec (delay_of m) \<le> 100000000"
proof -
  let ?m1 = "stage_two_state m"
  let ?c = "categorize ok (cycle m) (duration ?m1) (mon_edge m)"
  have u: "fix_usable (fst ?c) ?m1" "stage_four (?m1\<lparr>unchanged := 0\<rparr>) = (PpsReported td, m')"
    using assms unfolding stages_two_to_four_def Let_def
    by (auto simp: case_prod_unfold split: if_splits)
  have p: "ppstimes_of (?m1\<lparr>unchanged := 0\<rparr>) = ppstimes_of m"
      "delay_of (?m1\<lparr>unchanged := 0\<rparr>) = delay_of m"
    by (simp_all add: ppstimes_of_def delay_of_def)
  show "td = ppstimes_of m" "0 \<le> tv_sec (delay_of m)" "0 \<le> tv_nsec (delay_of m)"
      "\<not> 2 < tv_sec (delay_of m)" "tv_sec (delay_of m) = 1 \<longrightarrow> tv_nsec (delay_of m) \<le> 100000000"
    using u(2) p by (auto simp: stage_four_def Let_def split: if_splits)
  show "fst ?c" "tv_sec (td_real (last_fixtime m)) \<noteq> 0"
    using u(1) by (auto simp: fix_usable_def split: if_splits)
qed

section \<open>Properties\<close>

text \<open>The windows in which a kernel PPS edge is taken for the start of a second.\<close>

definition good_edge :: "int \<Rightarrow> int \<Rightarrow> int \<Rightarrow> bool" where
  "good_edge cyc dur edge \<longleftrightarrow>
     (180000 \<le> cyc \<and> cyc < 201000 \<and> dur < 100000) \<or>
     (900000 \<le> cyc \<and> cyc < 1100000 \<and>
        (dur = 0 \<or> 450000 \<le> dur \<and> dur < 555000 \<and> edge = 1 \<or> 555000 \<le> dur)) \<or>
     (1800000 \<le> cyc \<and> cyc < 2200000 \<and> 990000 \<le> dur \<and> dur < 1100000)"

lemma categorize_good: "fst (categorize False cyc dur edge) \<longleftrightarrow> good_edge cyc dur edge"
  by (auto simp: categorize_def good_edge_def)


definition idle_mon :: "timedelta_t \<Rightarrow> pps_mon" where
  "idle_mon fix = \<lparr>last_fixtime = td_zero, mon_clock_ts = ts_zero, last_second_used = 0, cycle = 0,
     duration = 0, mon_state = 0, unchanged = 0, state_last = 0, mon_edge = 0, state_last_tio = 0,
     pulse_tio = (ts_zero, ts_zero),
     pulse_kpps = (ts_zero, \<lparr>tv_sec = 999, tv_nsec = 50000000\<rparr>), slept = 0,
     thread = \<lparr>fix_in = fix, pps_out = td_zero, ppsout_count = 0, pps_qErr = 0,
       qErr_time = ts_zero, report_hook_set = True\<rparr>\<rparr>"

definition sample_fix :: timedelta_t where
  "sample_fix = \<lparr>td_real = \<lparr>tv_sec = 1000, tv_nsec = 0\<rparr>, td_clock = \<lparr>tv_sec = 1000, tv_nsec = 0\<rparr>\<rparr>"

text \<open>A kernel edge at the given second plus 50 ms, 0.9 s after the clear edge.\<close>

definition edge_at :: "int \<Rightarrow> pps_input" where
  "edge_at n = \<lparr>in_tio = TioError,
     in_fetch = Fetched \<lparr>tv_sec = n, tv_nsec = 50000000\<rparr> \<lparr>tv_sec = n - 1, tv_nsec = 150000000\<rparr>\<rparr>"

definition kpps_config :: pps_config where
  "kpps_config = \<lparr>not_a_tty = True, pps_canwait = True, kernelpps = True\<rparr>"

lemma first_edge_reported:
  "fst (pps_iter kpps_config (edge_at 1000) (idle_mon sample_fix)) =
     PpsReported \<lparr>td_real = \<lparr>tv_sec = 1001, tv_nsec = 0\<rparr>,
                  td_clock = \<lparr>tv_sec = 1000, tv_nsec = 50000000\<rparr>\<rparr>"
  by code_simp


lemma ppsmonitor_books:
  "gpsd_ppsmonitor cfg is m = (rs, m') \<Longrightarrow>
     ppsout_count (thread m') = ppsout_count (thread m) + int (length (filter is_report rs)) \<and>
     last_second_used m' = last_second_used m \<and>
     (0 \<le> unchanged m \<and> unchanged m < 10 \<longrightarrow> 0 \<le> unchanged m' \<and> unchanged m' < 10)"
proof (induction "is" arbitrary: m rs m')
  case Nil
  then show ?case by simp
next
  case (Cons i "is")
  show ?case
  proof (cases "report_hook_set (thread m)")
    case False
    with Cons.prems show ?thesis by simp
  next
    case True
    obtain r m1 where it: "pps_iter cfg i m = (r, m1)" by (cases "pps_iter cfg i m")
    have one: "ppsout_count (thread m1) = ppsout_count (thread m) + (if is_report r then 1 else 0)"
        "last_second_used m1 = last_second_used m"
        "0 \<le> unchanged m \<and> unchanged m < 10 \<longrightarrow> 0 \<le> unchanged m1 \<and> unchanged m1 < 10"
      using pps_iter_count [of cfg i m] pps_iter_second [of cfg i m] pps.step_inv [of m cfg i] it
      by simp_all
    show ?thesis
    proof (cases "r = PpsDie")
      case True
      with Cons.prems \<open>report_hook_set (thread m)\<close> it one show ?thesis by auto
    next
      case False
      obtain rs1 m2 where rest: "gpsd_ppsmonitor cfg is m1 = (rs1, m2)"
        by (cases "gpsd_ppsmonitor cfg is m1")
      with Cons.prems \<open>report_hook_set (thread m)\<close> it False have "rs = r # rs1" "m' = m2" by auto
      with Cons.IH [OF rest] one show ?thesis by auto
    qed
  qed
qed

text \<open>The monitor's books over a whole run: \<open>ppsout_count\<close> grows by exactly the number of
  reports, the idle counter stays within its ten-edge window, and the loop never records the
  second it used, so the test against an already handled second never rejects a fix with a
  positive time.\<close>

theorem ppsmonitor_run:
  assumes "gpsd_ppsmonitor cfg is (idle_mon fix) = (rs, m')"
  shows "ppsout_count (thread m') = int (length (filter is_report rs)) \<and>
     0 \<le> unchanged m' \<and> unchanged m' < 10 \<and>
     (0 < tv_sec (td_real (last_fixtime m')) \<longrightarrow> fix_usable ok m' = ok)"
  using ppsmonitor_books [OF assms] by (auto simp: idle_mon_def fix_usable_def)

theorem ppsmonitor_run_witness:
  "\<exists>rs m'. gpsd_ppsmonitor kpps_config [edge_at 1000] (idle_mon sample_fix) = (rs, m') \<and>
     ppsout_count (thread m') = int (length (filter is_report rs))"
proof -
  obtain rs m' where r: "gpsd_ppsmonitor kpps_config [edge_at 1000] (idle_mon sample_fix) = (rs, m')"
    by (cases "gpsd_ppsmonitor kpps_config [edge_at 1000] (idle_mon sample_fix)")
  from ppsmonitor_run [OF r] r show ?thesis by blast
qed

text \<open>Consequence of the missing record: one fix followed by two edges is reported twice as
  the same second.\<close>

theorem same_second_reported_twice:
  "map (\<lambda>r. case r of PpsReported td \<Rightarrow> Some (td_real td) | _ \<Rightarrow> None)
     (fst (gpsd_ppsmonitor kpps_config [edge_at 1000, edge_at 1001] (idle_mon sample_fix))) =
   [Some \<lparr>tv_sec = 1001, tv_nsec = 0\<rparr>, Some \<lparr>tv_sec = 1001, tv_nsec = 0\<rparr>]"
  by code_simp

end
