(* ===== verification/CStr.thy ===== *)
theory CStr
  imports Prelude "HOL-Library.Char_ord"
begin

text \<open>
  The C library's string conversions as the sources use them: \<open>strtol\<close>, \<open>strtoul\<close> and the
  \<open>%i\<close> conversion, on strings without their terminating NUL, and the decimal digits \<open>%d\<close>
  prints. A conversion returns the value, the rest of the string (what \<open>endptr\<close> points to) and
  whether \<open>errno\<close> was set to \<open>ERANGE\<close>. \<open>long\<close> is 64 bits wide.
\<close>

definition c_isspace :: "char \<Rightarrow> bool" where
  "c_isspace c \<longleftrightarrow> (of_char c :: nat) = 32 \<or> (9 \<le> (of_char c :: nat) \<and> (of_char c :: nat) \<le> 13)"

text \<open>The C string in a buffer.\<close>

definition c_string :: "string \<Rightarrow> string" where
  "c_string buf = takeWhile (\<lambda>c. c \<noteq> CHR 0x00) buf"

text \<open>The value of a digit or letter; 36 for every other character.\<close>

definition digit_of :: "char \<Rightarrow> nat" where
  "digit_of c =
     (let n = of_char c :: nat
      in if 48 \<le> n \<and> n \<le> 57 then n - 48
         else if 97 \<le> n \<and> n \<le> 122 then n - 87
         else if 65 \<le> n \<and> n \<le> 90 then n - 55
         else 36)"

fun scan_digits :: "nat \<Rightarrow> nat \<Rightarrow> string \<Rightarrow> nat \<times> string" where
  "scan_digits b acc [] = (acc, [])"
| "scan_digits b acc (c # cs) =
     (if digit_of c < b then scan_digits b (acc * b + digit_of c) cs else (acc, c # cs))"

text \<open>Base 0 looks at the prefix; base 16 accepts an optional \<open>0x\<close>.\<close>

definition scan_base :: "nat \<Rightarrow> string \<Rightarrow> nat \<times> string" where
  "scan_base b s =
     (if (b = 0 \<or> b = 16) \<and> 3 \<le> length s \<and> s ! 0 = CHR ''0'' \<and>
         (s ! 1 = CHR ''x'' \<or> s ! 1 = CHR ''X'') \<and> digit_of (s ! 2) < 16
      then (16, drop 2 s)
      else if b = 0 then (if take 1 s = ''0'' then 8 else 10, s)
      else (b, s))"

definition scan_sign :: "string \<Rightarrow> bool \<times> string" where
  "scan_sign s =
     (case s of
        [] \<Rightarrow> (False, s)
      | c # cs \<Rightarrow> if c = CHR ''-'' then (True, cs) else if c = CHR ''+'' then (False, cs) else (False, s))"

definition scan_int :: "nat \<Rightarrow> string \<Rightarrow> (int \<times> string) option" where
  "scan_int base s =
     (case scan_sign (dropWhile c_isspace s) of (neg, s1) \<Rightarrow>
        (case scan_base base s1 of (b, s2) \<Rightarrow>
           if s2 \<noteq> [] \<and> digit_of (hd s2) < b
           then (case scan_digits b 0 s2 of (v, rest) \<Rightarrow>
                   Some ((if neg then - int v else int v), rest))
           else None))"

definition strtol :: "string \<Rightarrow> nat \<Rightarrow> int \<times> string \<times> bool" where
  "strtol s base =
     (case scan_int base s of
        None \<Rightarrow> (0, s, False)
      | Some (v, rest) \<Rightarrow>
          if v > 2 ^ 63 - 1 then (2 ^ 63 - 1, rest, True)
          else if v < - (2 ^ 63) then (- (2 ^ 63), rest, True)
          else (v, rest, False))"

definition strtoul :: "string \<Rightarrow> nat \<Rightarrow> int \<times> string \<times> bool" where
  "strtoul s base =
     (case scan_int base s of
        None \<Rightarrow> (0, s, False)
      | Some (v, rest) \<Rightarrow>
          if \<bar>v\<bar> > 2 ^ 64 - 1 then (2 ^ 64 - 1, rest, True)
          else (v mod 2 ^ 64, rest, False))"

text \<open>Decimal digits, as \<open>%d\<close> and \<open>%u\<close> print a number that is not negative.\<close>

definition digit_char :: "nat \<Rightarrow> char" where
  "digit_char d = char_of (48 + d)"

fun dec :: "nat \<Rightarrow> string" where
  "dec n = (if n < 10 then [digit_char n] else dec (n div 10) @ [digit_char (n mod 10)])"

declare dec.simps [simp del]

section \<open>Printing and scanning\<close>

lemma digit_of_digit_char: "d < 10 \<Longrightarrow> digit_of (digit_char d) = d"
  by (simp add: digit_of_def digit_char_def)

lemma digit_char_plain:
  "d < 10 \<Longrightarrow> \<not> c_isspace (digit_char d)"
  "d < 10 \<Longrightarrow> digit_char d \<noteq> CHR ''-''"
  "d < 10 \<Longrightarrow> digit_char d \<noteq> CHR ''+''"
  "d < 10 \<Longrightarrow> digit_char d = CHR ''0'' \<Longrightarrow> d = 0"
  by (auto simp: c_isspace_def digit_char_def take_bit_nat_eq_self
      dest!: arg_cong [where f = "of_char :: char \<Rightarrow> nat"])

lemma scan_digits_append:
  "(\<forall>c \<in> set xs. digit_of c < b) \<Longrightarrow>
     scan_digits b acc (xs @ ys) = scan_digits b (fst (scan_digits b acc xs)) ys"
  by (induction xs arbitrary: acc) simp_all

lemma dec_digits: "c \<in> set (dec n) \<Longrightarrow> digit_of c < 10"
proof (induction n rule: dec.induct)
  case (1 n)
  then show ?case
    by (subst (asm) (2) dec.simps) (auto simp: digit_of_digit_char split: if_splits)
qed

lemma dec_digits_any: "10 \<le> b \<Longrightarrow> \<forall>c \<in> set (dec n). digit_of c < b"
  using dec_digits by fastforce

lemma scan_dec: "fst (scan_digits 10 0 (dec n)) = n"
proof (induction n rule: dec.induct)
  case (1 n)
  show ?case
  proof (cases "n < 10")
    case True
    then show ?thesis by (simp add: dec.simps digit_of_digit_char)
  next
    case False
    then have "dec n = dec (n div 10) @ [digit_char (n mod 10)]" by (simp add: dec.simps)
    with 1 [OF False] show ?thesis
      by (simp add: scan_digits_append dec_digits_any digit_of_digit_char)
  qed
qed

lemma scan_dec_rest:
  assumes "ys = [] \<or> \<not> digit_of (hd ys) < 10"
  shows "scan_digits 10 0 (dec n @ ys) = (n, ys)"
  using assms scan_digits_append [of "dec n" 10 0 ys] scan_dec [of n]
  by (cases ys) (simp_all add: dec_digits)

lemma dec_hd: "dec n \<noteq> [] \<and> (\<exists>d < 10. hd (dec n) = digit_char d \<and> (d = 0 \<longrightarrow> n = 0))"
proof (induction n rule: dec.induct)
  case (1 n)
  show ?case
  proof (cases "n < 10")
    case True
    then show ?thesis by (auto simp: dec.simps)
  next
    case False
    then have e: "dec n = dec (n div 10) @ [digit_char (n mod 10)]" by (simp add: dec.simps)
    from 1 [OF False] obtain d where "dec (n div 10) \<noteq> []" "d < 10"
        "hd (dec (n div 10)) = digit_char d" "d = 0 \<longrightarrow> n div 10 = 0" by blast
    with e False show ?thesis by (intro conjI exI [of _ d]) auto
  qed
qed

lemma dec_zero: "dec 0 = ''0''"
  by code_simp

definition ends_number :: "string \<Rightarrow> bool" where
  "ends_number ys \<longleftrightarrow>
     ys = [] \<or> (\<not> digit_of (hd ys) < 10 \<and> hd ys \<noteq> CHR ''x'' \<and> hd ys \<noteq> CHR ''X'')"

lemma scan_int_dec_rest:
  assumes base: "base = 0 \<or> base = 10" and ys: "ends_number ys"
  shows "scan_int base (dec n @ ys) = Some (int n, ys)"
proof (cases "n = 0")
  case True
  show ?thesis
  proof (cases ys)
    case Nil
    with True base show ?thesis
      by (auto simp: dec_zero scan_int_def scan_sign_def scan_base_def c_isspace_def digit_of_def)
  next
    case (Cons y zs)
    with ys have y: "\<not> digit_of y < 10" "y \<noteq> CHR ''x''" "y \<noteq> CHR ''X''"
      by (simp_all add: ends_number_def)
    then have "\<not> digit_of y < 8" by simp
    with y Cons True base show ?thesis
      by (auto simp: dec_zero scan_int_def scan_sign_def scan_base_def c_isspace_def)
        (simp_all add: digit_of_def)
  qed
next
  case False
  obtain c cs d where c: "dec n = c # cs" "c = digit_char d" "d < 10" "d \<noteq> 0"
    using dec_hd [of n] False by (metis list.collapse)
  then have s: "dropWhile c_isspace (dec n @ ys) = dec n @ ys"
      "scan_sign (dec n @ ys) = (False, dec n @ ys)" "scan_base base (dec n @ ys) = (10, dec n @ ys)"
    using base digit_char_plain [of d] by (auto simp: scan_sign_def scan_base_def)
  have "digit_of (hd (dec n @ ys)) < 10" using c by (simp add: digit_of_digit_char)
  moreover have "scan_digits 10 0 (dec n @ ys) = (n, ys)"
    by (rule scan_dec_rest) (use ys in \<open>auto simp: ends_number_def\<close>)
  ultimately show ?thesis using s c by (simp add: scan_int_def)
qed

lemma scan_int_dec: "base = 0 \<or> base = 10 \<Longrightarrow> scan_int base (dec n) = Some (int n, [])"
  using scan_int_dec_rest [of base "[]" n] by (simp add: ends_number_def)

lemma strtoul_dec: "int n < 2 ^ 64 \<Longrightarrow> strtoul (dec n) 0 = (int n, [], False)"
  by (simp add: strtoul_def scan_int_dec)

lemma strtol_dec: "int n < 2 ^ 63 \<Longrightarrow> strtol (dec n) 0 = (int n, [], False)"
  by (simp add: strtol_def scan_int_dec)

lemma strtoul_range: "0 \<le> fst (strtoul s b) \<and> fst (strtoul s b) < 2 ^ 64"
  by (simp add: strtoul_def split: option.split prod.split)

lemma strtol_range: "- (2 ^ 63) \<le> fst (strtol s b) \<and> fst (strtol s b) < 2 ^ 63"
  by (simp add: strtol_def split: option.split prod.split)

lemma scan_digits_suffix: "\<exists>ds. s = ds @ snd (scan_digits b acc s)"
proof (induction s arbitrary: acc)
  case (Cons c s)
  from Cons [of "acc * b + digit_of c"] show ?case by (auto intro: exI [of _ "c # _"])
qed simp

section \<open>Splitting and joining\<close>

text \<open>The pieces of a string between separators; there is always at least one.\<close>

fun split_on :: "char \<Rightarrow> string \<Rightarrow> string list" where
  "split_on d [] = [[]]"
| "split_on d (c # cs) =
     (if c = d then [] # split_on d cs
      else case split_on d cs of p # ps \<Rightarrow> (c # p) # ps | [] \<Rightarrow> [[c]])"

fun join_with :: "char \<Rightarrow> string list \<Rightarrow> string" where
  "join_with d [] = []"
| "join_with d [s] = s"
| "join_with d (s # t # ss) = s @ d # join_with d (t # ss)"

lemma split_on_nonempty [simp]: "split_on d s \<noteq> []"
  by (induction s) (auto split: list.splits)

lemma split_on_free: "d \<notin> set s \<Longrightarrow> split_on d s = [s]"
  by (induction s) auto

lemma split_on_cons: "d \<notin> set s \<Longrightarrow> split_on d (s @ d # t) = s # split_on d t"
  by (induction s) (auto split: list.splits)

lemma split_join:
  "(\<forall>s \<in> set ss. d \<notin> set s) \<Longrightarrow> ss \<noteq> [] \<Longrightarrow> split_on d (join_with d ss) = ss"
  by (induction d ss rule: join_with.induct) (auto simp: split_on_free split_on_cons)

lemma split_pieces_free: "\<forall>p \<in> set (split_on d s). d \<notin> set p"
  by (induction s) (auto split: list.splits)

end
