(* ===== verification/Utils.thy ===== *)
theory Utils
  imports CStr
begin

text \<open>
  \<open>common/utils.c\<close>: the receiver version parser, the device path found behind a sysfs link and
  the recursive file search. A directory is the list of its entries; reading an entry's link or
  contents is an input.
\<close>

section \<open>The receiver version\<close>

text \<open>\<open>sscanf(s, "%*s %i.%i")\<close>: white space is skipped before each conversion, the literal dot
  must follow the first number at once.\<close>

definition parse_receiver_version :: "string option \<Rightarrow> (int \<times> int) option" where
  "parse_receiver_version textToCheck =
     (case textToCheck of
        None \<Rightarrow> None
      | Some s \<Rightarrow>
          let s1 = dropWhile c_isspace s;
              s2 = dropWhile (\<lambda>c. \<not> c_isspace c) s1
          in if s1 = [] then None
             else (case scan_int 0 s2 of
                     None \<Rightarrow> None
                   | Some (major, r) \<Rightarrow>
                       (case r of
                          [] \<Rightarrow> None
                        | c # r' \<Rightarrow>
                            if c \<noteq> CHR ''.'' then None
                            else (case scan_int 0 r' of
                                    None \<Rightarrow> None
                                  | Some (minor, _) \<Rightarrow> Some (to_i32 major, to_i32 minor)))))"

section \<open>Device paths\<close>

text \<open>What \<open>lstat\<close> shows of the entry: a link with its resolved path, or a file with its
  contents.\<close>

datatype sysfs_entry = SysLink string | SysFile string

definition DEV_NAME_SIZE :: nat where "DEV_NAME_SIZE = 100"

definition find_dev_path :: "sysfs_entry \<Rightarrow> string" where
  "find_dev_path e =
     ''/dev/'' @
     (case e of
        SysLink realpath \<Rightarrow>
          (case filter (\<lambda>p. p \<noteq> []) (split_on (CHR ''/'') realpath) of
             [] \<Rightarrow> []
           | tokens \<Rightarrow> take DEV_NAME_SIZE (last tokens))
      | SysFile contents \<Rightarrow> take DEV_NAME_SIZE contents)"

section \<open>Searching a directory\<close>

datatype dirent = RegFile string | SubDir string "dirent list option"

text \<open>\<open>None\<close> for the entries of a directory that \<open>opendir\<close> cannot open.\<close>

fun find_file :: "string \<Rightarrow> dirent list option \<Rightarrow> string \<Rightarrow> string option"
and find_entries :: "string \<Rightarrow> dirent list \<Rightarrow> string \<Rightarrow> string option" where
  "find_file path None name = None"
| "find_file path (Some es) name = find_entries path es name"
| "find_entries path [] name = None"
| "find_entries path (RegFile n # es) name =
     (if n = ''.'' \<or> n = ''..'' then find_entries path es name
      else if n = name then Some (path @ CHR ''/'' # n)
      else find_entries path es name)"
| "find_entries path (SubDir n sub # es) name =
     (if n = ''.'' \<or> n = ''..'' then find_entries path es name
      else case find_file (path @ CHR ''/'' # n) sub name of
             Some p \<Rightarrow> Some p
           | None \<Rightarrow> find_entries path es name)"

text \<open>The files below a directory, with their paths: what the search is meant to cover.\<close>

inductive file_below :: "string \<Rightarrow> dirent list \<Rightarrow> string \<Rightarrow> string \<Rightarrow> bool" where
  here: "RegFile n \<in> set es \<Longrightarrow> n \<noteq> ''.'' \<Longrightarrow> n \<noteq> ''..'' \<Longrightarrow> file_below path es n (path @ CHR ''/'' # n)"
| deeper: "SubDir d (Some sub) \<in> set es \<Longrightarrow> d \<noteq> ''.'' \<Longrightarrow> d \<noteq> ''..'' \<Longrightarrow>
    file_below (path @ CHR ''/'' # d) sub n p \<Longrightarrow> file_below path es n p"

lemma file_below_more: "file_below path es n p \<Longrightarrow> file_below path (e # es) n p"
  by (erule file_below.cases) (auto intro: file_below.intros)

lemma find_sound:
  "find_file path d name = Some p \<Longrightarrow> \<exists>es. d = Some es \<and> file_below path es name p"
  "find_entries path es name = Some p \<Longrightarrow> file_below path es name p"
proof (induction path d name and path es name arbitrary: p and p
    rule: find_file_find_entries.induct)
  case (5 path n sub es name)
  show ?case
  proof (cases "n = ''.'' \<or> n = ''..''")
    case True
    with 5 show ?thesis by (auto intro: file_below_more)
  next
    case False
    show ?thesis
    proof (cases "find_file (path @ CHR ''/'' # n) sub name")
      case None
      with 5 False show ?thesis by (auto intro: file_below_more)
    next
      case (Some q)
      with 5 False obtain sub' where "sub = Some sub'" "file_below (path @ CHR ''/'' # n) sub' name p"
        by auto
      with False show ?thesis by (auto intro: file_below.deeper)
    qed
  qed
qed (auto split: if_splits intro: file_below_more file_below.here)

lemma find_file_none:
  "find_file path (Some sub) name = None \<longleftrightarrow> find_entries path sub name = None"
  by simp

lemma find_complete_here:
  "RegFile name \<in> set es \<Longrightarrow> name \<noteq> ''.'' \<Longrightarrow> name \<noteq> ''..'' \<Longrightarrow> find_entries path es name \<noteq> None"
proof (induction es)
  case (Cons e es)
  then show ?case by (cases e) (auto split: option.splits)
qed simp

lemma find_complete_deeper:
  "SubDir d (Some sub) \<in> set es \<Longrightarrow> d \<noteq> ''.'' \<Longrightarrow> d \<noteq> ''..'' \<Longrightarrow>
     find_entries (path @ CHR ''/'' # d) sub name \<noteq> None \<Longrightarrow> find_entries path es name \<noteq> None"
proof (induction es)
  case (Cons e es)
  then show ?case by (cases e) (auto split: option.splits)
qed simp

lemma find_complete: "file_below path es name p \<Longrightarrow> find_entries path es name \<noteq> None"
proof (induction rule: file_below.induct)
  case (here n es path)
  then show ?case by (rule find_complete_here)
next
  case (deeper d sub es path n p)
  show ?case by (rule find_complete_deeper) (use deeper in auto)
qed

text \<open>The search finds a file of the given name exactly when one lies below the directory, and
  the path it returns is the path of such a file.\<close>

theorem find_file_correct:
  "(find_file path (Some es) name \<noteq> None \<longleftrightarrow> (\<exists>p. file_below path es name p)) \<and>
   (\<forall>p. find_file path (Some es) name = Some p \<longrightarrow> file_below path es name p)"
  using find_sound(2) find_complete by fastforce

text \<open>The version parser reads \<open>%i\<close> numbers, so a minor version with a leading zero is taken as
  octal: 2.01 gives 1, 2.10 gives 10, but 2.08 gives 0 and 2.010 gives 8.\<close>

theorem receiver_version_octal:
  "parse_receiver_version (Some ''f9d 2.01 (smth)'') = Some (2, 1) \<and>
   parse_receiver_version (Some ''f9d 2.10 (smth)'') = Some (2, 10) \<and>
   parse_receiver_version (Some ''f9d 2.08 (smth)'') = Some (2, 0) \<and>
   parse_receiver_version (Some ''f9d 2.010 (smth)'') = Some (2, 8)"
  by code_simp

lemma receiver_version_tests:
  "parse_receiver_version (Some ''f9d 2.20 (whtv)'') = Some (2, 20)"
  "parse_receiver_version (Some ''some_name    4.73  (Some description)'') = Some (4, 73)"
  "parse_receiver_version (Some ''  nm   1.2(mmh)'') = Some (1, 2)"
  "parse_receiver_version (Some ''K 5.006'') = Some (5, 6)"
  "parse_receiver_version None = None"
  "parse_receiver_version (Some '''') = None"
  "parse_receiver_version (Some ''2.1'') = None"
  "parse_receiver_version (Some '' wdw 320'') = None"
  by code_simp+

lemma version_word:
  "word \<noteq> [] \<Longrightarrow> \<forall>c \<in> set word. \<not> c_isspace c \<Longrightarrow>
     dropWhile c_isspace (word @ CHR '' '' # t) = word @ CHR '' '' # t \<and>
     dropWhile (\<lambda>c. \<not> c_isspace c) (word @ CHR '' '' # t) = CHR '' '' # t"
  by (cases word) (auto simp: c_isspace_def)

lemma space_isspace: "c_isspace (CHR '' '')"
  by (simp add: c_isspace_def)

lemma scan_int_space: "scan_int b (CHR '' '' # s) = scan_int b s"
  by (simp add: scan_int_def c_isspace_def)

text \<open>A well-formed version string, a word, a space and two decimal numbers without leading
  zeros joined by a dot, is read as those two numbers whatever follows.\<close>

theorem receiver_version_parsed:
  assumes "word \<noteq> []" "list_all (\<lambda>c. \<not> c_isspace c) word"
    and "int major < 2 ^ 31" "int minor < 2 ^ 31" "ends_number tail"
  shows "parse_receiver_version (Some (word @ CHR '' '' # dec major @ CHR ''.'' # dec minor @ tail)) =
    Some (int major, int minor)"
proof -
  have dot: "ends_number (CHR ''.'' # dec minor @ tail)"
    by (simp add: ends_number_def digit_of_def)
  have fits: "to_i32 (int major) = int major" "to_i32 (int minor) = int minor"
    using assms by (simp_all add: to_i32_id fits_i32_def)
  show ?thesis
    using assms(1,2,5) dot fits
    by (simp add: parse_receiver_version_def list_all_iff version_word scan_int_space scan_int_dec_rest
        space_isspace)
qed

theorem receiver_version_parsed_witness:
  "parse_receiver_version (Some ''TIM 2.20 (a6a48f)'') = Some (2, 20)"
proof -
  have "dec 2 = ''2''" "dec 20 = ''20''" by code_simp+
  then show ?thesis
    using receiver_version_parsed [of "''TIM''" 2 20 "'' (a6a48f)''"]
    by (simp add: c_isspace_def ends_number_def digit_of_def)
qed

end
