(* ===== verification/Config.thy ===== *)
theory Config
  imports Utils
begin

text \<open>
  \<open>common/config.c\<close>: the configuration file as an argz vector (the list of its entries),
  looked up and updated with the GNU envz functions. File contents are strings; the result of
  each file operation is an input. The locale \<open>key_store\<close> states what the daemon relies on when
  it updates its configuration. \<open>long\<close> is 64 bits wide.
\<close>

section \<open>argz and envz\<close>

abbreviation (input) "NL \<equiv> CHR 0x0A"
abbreviation (input) "NUL \<equiv> CHR 0x00"

text \<open>\<open>argz_create_sep\<close> stops at the terminating NUL, drops empty pieces, and a separator at the
  end leaves one empty entry.\<close>

definition argz_create_sep :: "string \<Rightarrow> char \<Rightarrow> string list" where
  "argz_create_sep buf sep =
     (let s = takeWhile (\<lambda>c. c \<noteq> NUL) buf
      in if s = [] then []
         else filter (\<lambda>p. p \<noteq> []) (split_on sep s) @ (if last s = sep then [[]] else []))"

definition argz_stringify :: "string list \<Rightarrow> char \<Rightarrow> string" where
  "argz_stringify argz sep = join_with sep argz"

definition envz_name :: "string \<Rightarrow> string" where
  "envz_name e = takeWhile (\<lambda>c. c \<noteq> CHR ''='') e"

definition envz_entry :: "string list \<Rightarrow> string \<Rightarrow> string option" where
  "envz_entry argz name = find (\<lambda>e. envz_name e = envz_name name) argz"

definition envz_get :: "string list \<Rightarrow> string \<Rightarrow> string option" where
  "envz_get argz name =
     (case envz_entry argz name of
        None \<Rightarrow> None
      | Some e \<Rightarrow> (case dropWhile (\<lambda>c. c \<noteq> CHR ''='') e of [] \<Rightarrow> None | _ # v \<Rightarrow> Some v))"

fun envz_remove :: "string list \<Rightarrow> string \<Rightarrow> string list" where
  "envz_remove [] name = []"
| "envz_remove (e # es) name =
     (if envz_name e = envz_name name then es else e # envz_remove es name)"

definition envz_add :: "string list \<Rightarrow> string \<Rightarrow> string \<Rightarrow> string list" where
  "envz_add argz name value = envz_remove argz name @ [name @ CHR ''='' # value]"

section \<open>Reading the file\<close>

text \<open>The loop of \<open>read_file\<close> deletes the first comment it meets and starts again.\<close>

definition is_comment :: "string \<Rightarrow> bool" where
  "is_comment entry \<longleftrightarrow> entry \<noteq> [] \<and> hd entry = CHR ''#''"

fun first_comment :: "string list \<Rightarrow> nat option" where
  "first_comment [] = None"
| "first_comment (e # es) = (if is_comment e then Some 0 else map_option Suc (first_comment es))"

definition argz_delete :: "nat \<Rightarrow> string list \<Rightarrow> string list" where
  "argz_delete i argz = take i argz @ drop (Suc i) argz"

lemma first_comment_bound: "first_comment es = Some i \<Longrightarrow> i < length es"
  by (induction es arbitrary: i) (auto split: if_splits)

function delete_comments :: "string list \<Rightarrow> string list" where
  "delete_comments argz =
     (case first_comment argz of None \<Rightarrow> argz | Some i \<Rightarrow> delete_comments (argz_delete i argz))"
  by pat_completeness auto

termination
  by (relation "measure length") (auto simp: argz_delete_def dest: first_comment_bound)

declare delete_comments.simps [simp del]

text \<open>The outcomes of the file operations. A short read returns the value of the last \<open>fseek\<close>,
  0, unless the end of the file was reached.\<close>

datatype file_io = OpenFailed int | SeekFailed int | ShortRead bool | ReadAll string

definition read_file :: "file_io \<Rightarrow> int \<times> string list" where
  "read_file io =
     (case io of
        OpenFailed errno \<Rightarrow> (- errno, [])
      | SeekFailed errno \<Rightarrow> (- errno, [])
      | ShortRead eof \<Rightarrow> ((if eof then - EIO else 0), [])
      | ReadAll s \<Rightarrow> (0, delete_comments (argz_create_sep s NL)))"

record config =
  argz :: "string list"
  config_path :: string

definition config_init :: "string \<Rightarrow> file_io \<Rightarrow> int \<times> config" where
  "config_init path io =
     (case read_file io of (ret, a) \<Rightarrow> (ret, \<lparr>argz = a, config_path = path\<rparr>))"

section \<open>Looking up values\<close>

definition config_get :: "config \<Rightarrow> string \<Rightarrow> string option" where
  "config_get config key = envz_get (argz config) key"

definition config_get_default :: "config \<Rightarrow> string \<Rightarrow> string \<Rightarrow> string" where
  "config_get_default config key default_value =
     (case config_get config key of None \<Rightarrow> default_value | Some v \<Rightarrow> v)"

definition config_get_bool_default :: "config \<Rightarrow> string \<Rightarrow> bool \<Rightarrow> bool" where
  "config_get_bool_default config key default_value =
     (case config_get config key of
        None \<Rightarrow> default_value
      | Some v \<Rightarrow> if v = ''true'' then True else if v = ''false'' then False else default_value)"

definition config_set :: "config \<Rightarrow> string \<Rightarrow> string \<Rightarrow> config" where
  "config_set config key value = config\<lparr>argz := envz_add (argz config) key value\<rparr>"

text \<open>\<open>errno\<close> is the thread's current value, which a missing key reports.\<close>

definition config_get_unsigned_number :: "int \<Rightarrow> config \<Rightarrow> string \<Rightarrow> int" where
  "config_get_unsigned_number errno config key =
     (case config_get config key of
        None \<Rightarrow> (if errno \<noteq> 0 then - errno else - ESRCH)
      | Some s \<Rightarrow>
          (case strtoul s 0 of (value, end_ptr, _) \<Rightarrow>
             if s = [] \<or> end_ptr \<noteq> [] then - EINVAL
             else if value > 2 ^ 63 - 1 then - ERANGE
             else value))"

definition config_get_int16_t :: "int \<Rightarrow> config \<Rightarrow> string \<Rightarrow> int \<times> int option" where
  "config_get_int16_t errno config key =
     (case config_get config key of
        None \<Rightarrow> ((if errno \<noteq> 0 then - errno else - ESRCH), None)
      | Some s \<Rightarrow>
          (case strtol s 0 of (value, end_ptr, _) \<Rightarrow>
             if s = [] \<or> end_ptr \<noteq> [] then (- EINVAL, None)
             else if value > 32767 \<or> value < - 32768 then (- ERANGE, None)
             else (0, Some (to_i16 value))))"

definition config_get_uint8_t :: "int \<Rightarrow> config \<Rightarrow> string \<Rightarrow> int" where
  "config_get_uint8_t errno config key =
     (let value = config_get_unsigned_number errno config key
      in if value > 255 then - ERANGE else to_i32 value)"

section \<open>Saving\<close>

text \<open>\<open>config_dump\<close> copies the text and its NUL, cut to the buffer; the buffer of \<open>config_save\<close>
  was zeroed. A text of 1024 bytes or more leaves no NUL in the buffer, and what \<open>strlen\<close> then
  reads is undefined (\<open>None\<close>).\<close>

definition config_dump :: "config \<Rightarrow> string \<Rightarrow> string" where
  "config_dump config buf =
     (let t = argz_stringify (argz config) NL @ [NUL];
          n = (if length buf < length t then length buf else length t)
      in take n t @ drop n buf)"

definition CONFIG_SAVE_SIZE :: nat where "CONFIG_SAVE_SIZE = 1024"

definition config_save :: "config \<Rightarrow> bool \<Rightarrow> int \<times> string option" where
  "config_save config can_open =
     (let data = config_dump config (replicate CONFIG_SAVE_SIZE NUL)
      in if \<not> can_open then (- EINVAL, None)
         else (0, if NUL \<in> set data
                  then Some (takeWhile (\<lambda>c. c \<noteq> NUL) data @ [NUL] @ [NL]) else None))"

section \<open>Discovering devices\<close>

record devices_path =
  disciplining_config_path :: string
  gnss_path :: string
  mac_path :: string
  mro_path :: string
  pps_path :: string
  ptp_path :: string
  temperature_table_path :: string

text \<open>A sysfs entry: its name, whether it is a directory, its contents as \<open>find_dev_path\<close> sees
  them, and the entries below it (\<open>None\<close> when it cannot be opened).\<close>

record sys_ent =
  ent_name :: string
  ent_dir :: bool
  ent_data :: sysfs_entry
  ent_sub :: "(string \<times> sysfs_entry) list option"

fun tty_entries :: "(string \<times> sysfs_entry) list \<Rightarrow> int \<Rightarrow> devices_path \<Rightarrow> int \<times> devices_path" where
  "tty_entries [] ret dp = (ret, dp)"
| "tty_entries ((n, d) # es) ret dp =
     (if \<not> ret < 2 then (ret, dp)
      else if n = ''ttyGNSS'' then tty_entries es (ret + 1) (dp\<lparr>gnss_path := find_dev_path d\<rparr>)
      else if n = ''ttyMAC'' then tty_entries es (ret + 1) (dp\<lparr>mac_path := find_dev_path d\<rparr>)
      else tty_entries es ret dp)"

definition fill_tty_devices :: "sys_ent \<Rightarrow> devices_path \<Rightarrow> int \<times> devices_path" where
  "fill_tty_devices e dp =
     (case ent_sub e of None \<Rightarrow> (0, dp) | Some es \<Rightarrow> tty_entries es 0 dp)"

text \<open>\<open>search\<close> is \<open>find_file\<close> on the sysfs directory.\<close>

fun scan_devices ::
  "(string \<Rightarrow> string option) \<Rightarrow> sys_ent list \<Rightarrow> int \<Rightarrow> devices_path \<Rightarrow> int \<times> devices_path" where
  "scan_devices search [] ret dp = (ret, dp)"
| "scan_devices search (e # es) ret dp =
     (if ent_name e = ''mro50'' then scan_devices search es ret (dp\<lparr>mro_path := find_dev_path (ent_data e)\<rparr>)
      else if ent_name e = ''ptp'' then scan_devices search es ret (dp\<lparr>ptp_path := find_dev_path (ent_data e)\<rparr>)
      else if ent_name e = ''pps'' then scan_devices search es ret (dp\<lparr>pps_path := find_dev_path (ent_data e)\<rparr>)
      else if ent_name e = ''ttyGNSS'' then scan_devices search es ret (dp\<lparr>gnss_path := find_dev_path (ent_data e)\<rparr>)
      else if ent_name e = ''ttyMAC'' then scan_devices search es ret (dp\<lparr>mac_path := find_dev_path (ent_data e)\<rparr>)
      else if ent_name e = ''tty'' \<and> ent_dir e then
        (case fill_tty_devices e dp of (r, dp') \<Rightarrow>
           if r \<noteq> 2 then (- EINVAL, dp') else scan_devices search es 0 dp')
      else if ent_name e = ''disciplining_config'' then
        scan_devices search es ret
          (case search ''disciplining_config'' of None \<Rightarrow> dp | Some p \<Rightarrow> dp\<lparr>disciplining_config_path := p\<rparr>)
      else if ent_name e = ''temperature_table'' then
        scan_devices search es ret
          (case search ''temperature_table'' of None \<Rightarrow> dp | Some p \<Rightarrow> dp\<lparr>temperature_table_path := p\<rparr>)
      else scan_devices search es ret dp)"

text \<open>\<open>opened\<close> is the directory at \<open>sysfs-path\<close>, or the errno of \<open>opendir\<close>.\<close>

definition config_discover_devices ::
  "config \<Rightarrow> (string \<Rightarrow> int + sys_ent list) \<Rightarrow> (string \<Rightarrow> string \<Rightarrow> string option) \<Rightarrow>
   devices_path \<Rightarrow> int \<times> devices_path" where
  "config_discover_devices config opened search dp =
     (case config_get config ''sysfs-path'' of
        None \<Rightarrow> (- EINVAL, dp)
      | Some path \<Rightarrow>
          (case opened path of
             Inl errno \<Rightarrow> (- errno, dp)
           | Inr es \<Rightarrow> scan_devices (search path) es 0 dp))"

section \<open>Comments\<close>

lemma first_comment_split:
  "first_comment es = Some i \<Longrightarrow>
     filter (\<lambda>e. \<not> is_comment e) (argz_delete i es) = filter (\<lambda>e. \<not> is_comment e) es"
  by (induction es arbitrary: i) (auto simp: argz_delete_def split: if_splits)

lemma first_comment_None: "first_comment es = None \<Longrightarrow> filter (\<lambda>e. \<not> is_comment e) es = es"
  by (induction es) (auto split: if_splits)

lemma delete_comments_filter: "delete_comments es = filter (\<lambda>e. \<not> is_comment e) es"
proof (induction es rule: delete_comments.induct)
  case (1 es)
  show ?case
  proof (cases "first_comment es")
    case None
    then show ?thesis by (simp add: delete_comments.simps first_comment_None)
  next
    case (Some i)
    with 1 [OF Some] first_comment_split [OF Some] show ?thesis by (simp add: delete_comments.simps)
  qed
qed

section \<open>The store contract\<close>

text \<open>
  What the daemon needs of its configuration: an update is seen by the next lookup of that key,
  leaves every other key alone and keeps the store well formed.
\<close>

locale key_store =
  fixes lookup :: "'s \<Rightarrow> 'k \<Rightarrow> 'v option"
    and update :: "'s \<Rightarrow> 'k \<Rightarrow> 'v \<Rightarrow> 's"
    and key_ok :: "'k \<Rightarrow> bool"
    and inv :: "'s \<Rightarrow> bool"
  assumes lookup_update: "inv s \<Longrightarrow> key_ok k \<Longrightarrow> lookup (update s k v) k = Some v"
    and lookup_other: "key_ok k \<Longrightarrow> key_ok k' \<Longrightarrow> k \<noteq> k' \<Longrightarrow> lookup (update s k v) k' = lookup s k'"
    and update_inv: "inv s \<Longrightarrow> key_ok k \<Longrightarrow> inv (update s k v)"
begin

definition updates :: "('k \<times> 'v) list \<Rightarrow> 's \<Rightarrow> 's" where
  "updates kvs s = fold (\<lambda>(k, v) s. update s k v) kvs s"

lemma updates_inv: "inv s \<Longrightarrow> (\<forall>(k, v) \<in> set kvs. key_ok k) \<Longrightarrow> inv (updates kvs s)"
  unfolding updates_def by (induction kvs arbitrary: s) (auto simp: update_inv)

lemma updates_frame:
  "(\<forall>(k, v) \<in> set kvs. key_ok k) \<Longrightarrow> key_ok k' \<Longrightarrow> k' \<notin> fst ` set kvs \<Longrightarrow>
     lookup (updates kvs s) k' = lookup s k'"
  unfolding updates_def by (induction kvs arbitrary: s) (auto simp: lookup_other)

lemma last_update_wins:
  assumes "inv s" "\<forall>(k, v) \<in> set kvs. key_ok k" "key_ok k"
  shows "lookup (update (updates kvs s) k v) k = Some v"
  using assms by (simp add: lookup_update updates_inv)

end

definition key_plain :: "string \<Rightarrow> bool" where
  "key_plain k \<longleftrightarrow> k \<noteq> [] \<and> CHR ''='' \<notin> set k"

definition unique_keys :: "config \<Rightarrow> bool" where
  "unique_keys c \<longleftrightarrow> distinct (map envz_name (argz c))"

lemma envz_name_plain: "key_plain k \<Longrightarrow> envz_name k = k"
  by (simp add: envz_name_def key_plain_def takeWhile_eq_all_conv) metis

lemma envz_name_pair: "key_plain k \<Longrightarrow> envz_name (k @ CHR ''='' # v) = k"
  unfolding envz_name_def key_plain_def by (subst takeWhile_append2) auto

lemma dropWhile_pair: "key_plain k \<Longrightarrow> dropWhile (\<lambda>c. c \<noteq> CHR ''='') (k @ CHR ''='' # v) = CHR ''='' # v"
  unfolding key_plain_def by (subst dropWhile_append2) auto

lemma find_append:
  "find P (xs @ ys) = (case find P xs of None \<Rightarrow> find P ys | Some x \<Rightarrow> Some x)"
  by (induction xs) auto

lemma names_remove: "envz_name x \<in> set (map envz_name (envz_remove es k)) \<Longrightarrow>
    envz_name x \<in> set (map envz_name es)"
  by (induction es) (auto split: if_splits)

lemma remove_distinct:
  "distinct (map envz_name es) \<Longrightarrow>
     distinct (map envz_name (envz_remove es k)) \<and> envz_name k \<notin> set (map envz_name (envz_remove es k))"
proof (induction es)
  case (Cons e es)
  then show ?case using names_remove [of e es k] by (auto simp: image_iff)
qed simp

lemma find_remove_self:
  "envz_name k \<notin> set (map envz_name es) \<Longrightarrow> find (\<lambda>e. envz_name e = envz_name k) es = None"
  by (auto simp: find_None_iff) (metis imageI)

lemma find_remove_other:
  "envz_name k \<noteq> envz_name k' \<Longrightarrow>
     find (\<lambda>e. envz_name e = envz_name k') (envz_remove es k) =
     find (\<lambda>e. envz_name e = envz_name k') es"
  by (induction es) auto

lemma config_get_set:
  assumes "unique_keys c" "key_plain k"
  shows "config_get (config_set c k v) k = Some v"
  using find_remove_self [of k "envz_remove (argz c) k"] remove_distinct [of "argz c" k] assms
  by (simp add: config_get_def config_set_def envz_get_def envz_entry_def envz_add_def find_append
      envz_name_plain envz_name_pair dropWhile_pair unique_keys_def)

lemma config_get_other:
  assumes "key_plain k" "key_plain k'" "k \<noteq> k'"
  shows "config_get (config_set c k v) k' = config_get c k'"
  using assms find_remove_other [of k k' "argz c"]
  by (simp add: config_get_def config_set_def envz_get_def envz_entry_def envz_add_def find_append
      envz_name_plain envz_name_pair split: option.split)

lemma config_set_unique:
  assumes "unique_keys c" "key_plain k"
  shows "unique_keys (config_set c k v)"
  using assms remove_distinct [of "argz c" k]
  by (simp add: unique_keys_def config_set_def envz_add_def envz_name_plain envz_name_pair)

interpretation cfg: key_store config_get config_set key_plain unique_keys
  by unfold_locales (simp_all add: config_get_set config_get_other config_set_unique)

text \<open>Setting keys of a configuration without duplicate keys: the last value set is the one
  looked up, whatever was set before, and keys that were not set keep their value.\<close>

theorem config_set_get:
  assumes "unique_keys c" "list_all (\<lambda>(k, v). key_plain k) kvs" "key_plain k"
    and "key_plain k'" "k' \<notin> fst ` set ((k, v) # kvs)"
  shows "config_get (config_set (fold (\<lambda>(k, v) c. config_set c k v) kvs c) k v) k = Some v \<and>
    config_get (config_set (fold (\<lambda>(k, v) c. config_set c k v) kvs c) k v) k' = config_get c k'"
proof -
  have ks: "\<forall>(k, v) \<in> set kvs. key_plain k" using assms(2) by (auto simp: list_all_iff)
  have kk: "k \<noteq> k'" "k' \<notin> fst ` set kvs" using assms(5) by auto
  show ?thesis
    using cfg.last_update_wins [OF assms(1) ks assms(3), of v]
      cfg.updates_frame [OF ks assms(4) kk(2), of c] cfg.lookup_other [OF assms(3,4) kk(1)]
    by (simp add: cfg.updates_def)
qed

definition sample_config :: config where
  "sample_config = \<lparr>argz = [''calibrate_first=true'', ''debug=1'', ''disciplining=true''],
     config_path = ''/etc/oscillatord.conf''\<rparr>"

theorem config_set_get_witness:
  "config_get (config_set sample_config ''calibrate_first'' ''false'') ''calibrate_first'' = Some ''false'' \<and>
   config_get (config_set sample_config ''calibrate_first'' ''false'') ''debug'' = Some ''1''"
proof -
  have "config_get sample_config ''debug'' = Some ''1''" by code_simp
  then show ?thesis
    using config_set_get [of sample_config "[]" "''calibrate_first''" "''debug''" "''false''"]
    by (simp add: sample_config_def unique_keys_def envz_name_def key_plain_def)
qed

text \<open>With a key that occurs twice the update is not seen: \<open>envz_add\<close> removes the first
  occurrence only and appends the new one behind the second.\<close>

theorem config_set_duplicate_lost:
  "config_get_bool_default
     (config_set \<lparr>argz = [''calibrate_first=true'', ''calibrate_first=true''], config_path = ''/c''\<rparr>
        ''calibrate_first'' ''false'') ''calibrate_first'' False"
  by code_simp

section \<open>Numbers\<close>

lemma unsigned_number_cases:
  "config_get_unsigned_number errno c k \<in> {- EINVAL, - ERANGE, - ESRCH, - errno} \<or>
   (0 \<le> config_get_unsigned_number errno c k \<and> config_get_unsigned_number errno c k < 2 ^ 63)"
proof (cases "config_get c k")
  case (Some s)
  obtain v r b where "strtoul s 0 = (v, r, b)" by (cases "strtoul s 0")
  with Some strtoul_range [of s 0] show ?thesis by (auto simp: config_get_unsigned_number_def)
qed (auto simp: config_get_unsigned_number_def)

text \<open>Numbers of the configuration: a key set to a decimal number is read back as that number
  by every getter whose range it fits, and a getter never returns a number outside its range:
  the result is an error code or a value that fits.\<close>

theorem config_numbers:
  assumes "unique_keys c" "key_plain k" "0 \<le> errno" "errno < 2 ^ 31"
  shows "(int n < 2 ^ 63 \<longrightarrow> config_get_unsigned_number errno (config_set c k (dec n)) k = int n) \<and>
    (int n < 2 ^ 63 \<and> 255 < n \<longrightarrow> config_get_uint8_t errno (config_set c k (dec n)) k = - ERANGE) \<and>
    (n \<le> 255 \<longrightarrow> config_get_uint8_t errno (config_set c k (dec n)) k = int n) \<and>
    (n \<le> 32767 \<longrightarrow> config_get_int16_t errno (config_set c k (dec n)) k = (0, Some (int n))) \<and>
    config_get_uint8_t errno c k' < 256 \<and>
    (case config_get_int16_t errno c k' of (r, v) \<Rightarrow> (r = 0) = (v \<noteq> None))"
proof -
  have get: "config_get (config_set c k (dec n)) k = Some (dec n)"
    by (rule config_get_set) (use assms in auto)
  have d: "dec n \<noteq> []" using dec_hd by blast
  have u: "config_get_unsigned_number errno (config_set c k (dec n)) k = int n" if "int n < 2 ^ 63"
    using that get d strtoul_dec [of n] by (simp add: config_get_unsigned_number_def)
  moreover have "config_get_uint8_t errno (config_set c k (dec n)) k = int n" if "n \<le> 255"
    using that u by (simp add: config_get_uint8_t_def to_i32_id fits_i32_def)
  moreover have "config_get_uint8_t errno (config_set c k (dec n)) k = - ERANGE"
    if "int n < 2 ^ 63 \<and> 255 < n"
    using that u by (simp add: config_get_uint8_t_def)
  moreover have "config_get_int16_t errno (config_set c k (dec n)) k = (0, Some (int n))" if "n \<le> 32767"
    using that get d strtol_dec [of n] by (simp add: config_get_int16_t_def to_i16_id)
  moreover have "config_get_uint8_t errno c k' < 256"
    using unsigned_number_cases [of errno c k'] assms(3,4)
    by (auto simp: config_get_uint8_t_def to_i32_id fits_i32_def Let_def)
  moreover have "case config_get_int16_t errno c k' of (r, v) \<Rightarrow> (r = 0) = (v \<noteq> None)"
    by (auto simp: config_get_int16_t_def split: option.split prod.split)
  ultimately show ?thesis by blast
qed

theorem config_numbers_witness:
  "config_get_unsigned_number 0 (config_set sample_config ''debug'' (dec 12)) ''debug'' = 12 \<and>
   config_get_uint8_t 0 (config_set sample_config ''debug'' (dec 12)) ''debug'' = 12"
  using config_numbers [of sample_config "''debug''" 0 12]
  by (simp add: sample_config_def unique_keys_def envz_name_def key_plain_def)

section \<open>Saving and reading again\<close>

definition entries_ok :: "config \<Rightarrow> bool" where
  "entries_ok c \<longleftrightarrow> argz c \<noteq> [] \<and>
     (\<forall>e \<in> set (argz c). NL \<notin> set e \<and> NUL \<notin> set e \<and> \<not> is_comment e)"

definition dump_text :: "config \<Rightarrow> string" where
  "dump_text c = argz_stringify (argz c) NL"

lemma join_chars: "x \<in> set (join_with d ss) \<Longrightarrow> x = d \<or> (\<exists>s \<in> set ss. x \<in> set s)"
  by (induction d ss rule: join_with.induct) auto

lemma dump_text_no_nul: "entries_ok c \<Longrightarrow> NUL \<notin> set (dump_text c)"
  using join_chars [of NUL NL "argz c"] by (auto simp: entries_ok_def dump_text_def argz_stringify_def)

lemma takeWhile_nul: "NUL \<notin> set t \<Longrightarrow> takeWhile (\<lambda>c. c \<noteq> NUL) (t @ NUL # r) = t"
  by (subst takeWhile_append2) auto

lemma config_save_text:
  assumes "entries_ok c" "length (dump_text c) < CONFIG_SAVE_SIZE"
  shows "config_save c True = (0, Some (dump_text c @ [NUL] @ [NL]))"
proof -
  have "config_dump c (replicate CONFIG_SAVE_SIZE NUL) =
      dump_text c @ NUL # replicate (CONFIG_SAVE_SIZE - Suc (length (dump_text c))) NUL"
    using assms(2) by (simp add: config_dump_def dump_text_def Let_def)
  then show ?thesis
    using takeWhile_nul [OF dump_text_no_nul [OF assms(1)]] by (simp add: config_save_def)
qed

lemma find_filter_nonempty:
  "(\<And>x. P x \<Longrightarrow> x \<noteq> []) \<Longrightarrow> find P (filter (\<lambda>e. e \<noteq> []) es) = find P es"
  by (induction es) auto

lemma envz_get_skip_empty:
  assumes "key_plain k"
  shows "envz_get (filter (\<lambda>e. e \<noteq> []) es @ (if b then [[]] else [])) k = envz_get es k"
proof -
  have k: "envz_name k = k" "k \<noteq> []" "envz_name [] = []"
    using assms envz_name_plain by (auto simp: key_plain_def envz_name_def)
  then have "envz_name x = envz_name k \<Longrightarrow> x \<noteq> []" for x
    by auto
  then have "find (\<lambda>e. envz_name e = envz_name k) (filter (\<lambda>e. e \<noteq> []) es) =
      find (\<lambda>e. envz_name e = envz_name k) es"
    by (rule find_filter_nonempty)
  then show ?thesis
    using k by (simp add: envz_get_def envz_entry_def find_append split: option.split)
qed

text \<open>Reading a file that starts with the text of a configuration and a NUL, or ends there.\<close>

lemma config_init_dump:
  assumes "entries_ok c" "key_plain k" "takeWhile (\<lambda>c. c \<noteq> NUL) s = dump_text c"
  shows "fst (config_init path (ReadAll s)) = 0 \<and>
    config_get (snd (config_init path (ReadAll s))) k = config_get c k"
proof -
  let ?t = "dump_text c"
  have split: "split_on NL ?t = argz c"
    unfolding dump_text_def argz_stringify_def
    by (rule split_join) (use assms(1) in \<open>auto simp: entries_ok_def\<close>)
  have nc: "delete_comments (filter (\<lambda>e. e \<noteq> []) (argz c) @ (if b then [[]] else [])) =
      filter (\<lambda>e. e \<noteq> []) (argz c) @ (if b then [[]] else [])" for b
    using assms(1)
    by (auto simp: delete_comments_filter entries_ok_def is_comment_def intro!: filter_cong)
  have empty: "?t = [] \<Longrightarrow> argz c = [[]]" using split by simp
  show ?thesis
  proof (cases "?t = []")
    case True
    with empty assms(2) show ?thesis
      by (simp add: config_init_def read_file_def argz_create_sep_def assms(3) delete_comments_filter
          config_get_def envz_get_def envz_entry_def envz_name_plain key_plain_def)
  next
    case False
    then show ?thesis
      using envz_get_skip_empty [OF assms(2), of "argz c" "last ?t = NL"] nc [of "last ?t = NL"] assms(3) split
      by (simp add: config_init_def read_file_def argz_create_sep_def config_get_def Let_def)
  qed
qed

text \<open>A configuration whose text fits the buffer survives saving and reading: after
  \<open>config_save\<close> and \<open>config_init\<close> on what was written, every key has the value it had.\<close>

theorem config_save_init:
  assumes "entries_ok c" "length (dump_text c) < CONFIG_SAVE_SIZE" "key_plain k"
  shows "\<exists>text. config_save c True = (0, Some text) \<and>
    (case config_init path (ReadAll text) of (ret, c') \<Rightarrow> ret = 0 \<and> config_get c' k = config_get c k)"
proof (intro exI conjI)
  show "config_save c True = (0, Some (dump_text c @ [NUL] @ [NL]))"
    by (rule config_save_text) (use assms in auto)
  have cut: "takeWhile (\<lambda>c. c \<noteq> NUL) (dump_text c @ [NUL] @ [NL]) = dump_text c"
    using takeWhile_nul [OF dump_text_no_nul [OF assms(1)]] by simp
  show "case config_init path (ReadAll (dump_text c @ [NUL] @ [NL])) of
      (ret, c') \<Rightarrow> ret = 0 \<and> config_get c' k = config_get c k"
    using config_init_dump [OF assms(1,3) cut, of path] by (simp add: case_prod_beta)
qed

theorem config_save_init_witness:
  "\<exists>text. config_save sample_config True = (0, Some text) \<and>
     config_get (snd (config_init ''/c'' (ReadAll text))) ''debug'' = Some ''1''"
proof -
  have g: "config_get sample_config ''debug'' = Some ''1''" by code_simp
  have "\<exists>text. config_save sample_config True = (0, Some text) \<and>
    (case config_init ''/c'' (ReadAll text) of
       (ret, c') \<Rightarrow> ret = 0 \<and> config_get c' ''debug'' = config_get sample_config ''debug'')"
    by (rule config_save_init)
      (simp_all add: sample_config_def entries_ok_def is_comment_def dump_text_def
        argz_stringify_def CONFIG_SAVE_SIZE_def key_plain_def)
  then obtain t where "config_save sample_config True = (0, Some t)"
      "config_get (snd (config_init ''/c'' (ReadAll t))) ''debug'' = config_get sample_config ''debug''"
    by (auto simp: case_prod_beta)
  with g show ?thesis by auto
qed

end
