(* ===== verification/Gnss.thy ===== *)
theory Gnss
  imports PpsThread Config
begin

text \<open>
  \<open>src/gnss.c\<close>: the thread that reads the receiver. A message is the result of
  \<open>rxGetNextMessageTimeout\<close> as the receiver library (which is not in the tree) decodes it: the
  groups the code copies out with \<open>memcpy\<close> are records, and \<open>size_ok\<close> is the outcome of the
  code's test of the message size. \<open>epochCollect\<close> is an input. One round of the thread's loop is
  \<open>gnss_iter\<close>; the state it shares with the main program is \<open>gnss\<close>.
\<close>

section \<open>State\<close>

definition NO_FIX :: int where "NO_FIX = 1"
definition EPOCH_FIX_TIME :: int where "EPOCH_FIX_TIME = 3"
definition ANT_UNDEFINED :: int where "ANT_UNDEFINED = 5"
definition QERR_ABS_THRESHOLD_PS :: int where "QERR_ABS_THRESHOLD_PS = 5000"
definition NUM_SAT_MIN :: int where "NUM_SAT_MIN = 3"

datatype gnss_action = GNSS_ACTION_NONE | GNSS_ACTION_START | GNSS_ACTION_STOP | GNSS_ACTION_SOFT |
  GNSS_ACTION_HARD | GNSS_ACTION_COLD | GNSS_ACTION_RESET_SERIAL

record gps_context =
  leap_seconds :: int
  lsset :: bool
  gc_leap_notify :: int
  lsChange :: int
  timeToLsEvent :: int
  qErr :: int
  qErr_last_epoch :: int

record gps_session =
  gs_context :: gps_context
  gs_valid :: bool
  gs_fix :: int
  gs_fixOk :: bool
  satellites_count :: int
  antenna_status :: int
  antenna_power :: int
  last_fix_utc_time :: timespec
  tai_time :: int
  tai_time_set :: bool
  bypass_survey :: bool
  survey_completed :: bool
  survey_mean_v :: "int option" \<comment> \<open>the position error is the root of this, over 1000\<close>
  position_accuracy :: int
  time_accuracy :: int
  gs_pps_thread :: pps_thread_t

text \<open>The structure the monitoring thread reads.\<close>

record gnss_state =
  gi_antenna_power :: int
  gi_antenna_status :: int
  gi_fix :: int
  gi_fixOk :: bool
  gi_leap_seconds :: int
  gi_lsChange :: int
  gi_satellites_count :: int
  gi_survey_mean_v :: "int option"
  gi_time_accuracy :: int
  gi_position_accuracy :: int

record gnss =
  session :: gps_session
  action :: gnss_action
  gnss_stop_flag :: bool
  gnss_running :: bool \<comment> \<open>the negation of the thread's local copy of \<open>stop\<close>\<close>
  gnss_info :: "gnss_state option"
  data_signals :: nat
  time_signals :: nat

definition gnss_reset_session_navigation_data :: "gps_session \<Rightarrow> gps_session" where
  "gnss_reset_session_navigation_data s =
     s\<lparr>gs_valid := False, satellites_count := 0, gs_fix := NO_FIX, gs_fixOk := False\<rparr>"

section \<open>Epochs\<close>

text \<open>The fields of libublox's \<open>EPOCH_t\<close> that are read: seconds in nanoseconds, and the two
  accuracies as the integers they are converted to.\<close>

record epoch =
  haveFix :: bool
  ep_fix :: int
  ep_fixOk :: bool
  year :: int
  month :: int
  day :: int
  hour :: int
  minute :: int
  second_ns :: int
  haveNumSv :: bool
  numSv :: int
  havePos :: bool
  posAcc :: int
  haveTime :: bool
  timeAcc :: int

definition gnss_get_satellites :: "epoch \<Rightarrow> int" where
  "gnss_get_satellites e = (if haveNumSv e then numSv e else 0)"

text \<open>\<open>mktime\<close> reads the fields as local time and the code then adds the local offset back:
  together, the seconds since 1970 of a UTC calendar date.\<close>

definition days_from_civil :: "int \<Rightarrow> int \<Rightarrow> int \<Rightarrow> int" where
  "days_from_civil y m d =
     (let y' = (if m \<le> 2 then y - 1 else y);
          yoe = y' mod 400;
          doy = (153 * (if m > 2 then m - 3 else m + 9) + 2) div 5 + d - 1;
          doe = yoe * 365 + yoe div 4 - yoe div 100 + doy
      in y' div 400 * 146097 + doe - 719468)"

definition gnss_get_utc_time :: "epoch \<Rightarrow> int" where
  "gnss_get_utc_time e =
     days_from_civil (year e) (month e) (day e) * 86400 + hour e * 3600 + minute e * 60 +
     (second_ns e + 500000000) div 1000000000"

definition ntp_latch :: "timespec \<Rightarrow> gps_session \<Rightarrow> gps_session" where
  "ntp_latch now s =
     (if 0 \<ge> tv_sec (last_fix_utc_time s) then s
      else s\<lparr>gs_pps_thread := pps_thread_fixin \<lparr>td_real = last_fix_utc_time s, td_clock = now\<rparr>
                               (gs_pps_thread s)\<rparr>)"

definition collect_epoch :: "timespec \<Rightarrow> epoch \<Rightarrow> gps_session \<Rightarrow> gps_session" where
  "collect_epoch now e s0 =
     (let s = s0\<lparr>satellites_count := gnss_get_satellites e\<rparr>;
          s1 = (if haveFix e
                then let ok = ep_fixOk e \<and> satellites_count s > NUM_SAT_MIN
                     in ntp_latch now
                          (s\<lparr>last_fix_utc_time := (last_fix_utc_time s)\<lparr>tv_sec := gnss_get_utc_time e\<rparr>,
                             gs_fix := ep_fix e, gs_fixOk := ok,
                             gs_valid := ep_fix e \<ge> EPOCH_FIX_TIME \<and> ok\<rparr>)
                else s\<lparr>gs_fix := NO_FIX, gs_fixOk := False\<rparr>)
      in s1\<lparr>position_accuracy := (if havePos e then posAcc e else -1),
            time_accuracy := (if haveTime e then timeAcc e else -1)\<rparr>)"

section \<open>UBX messages\<close>

record timels =
  tl_currls_valid :: bool
  tl_currLs :: int
  tl_event_valid :: bool
  tl_timeToLsEvent :: int
  tl_lsChange :: int

definition gnss_parse_ubx_nav_timels :: "bool \<Rightarrow> timels \<Rightarrow> gps_context \<Rightarrow> gps_context" where
  "gnss_parse_ubx_nav_timels size_ok m c =
     (let c1 = (if size_ok
                then c\<lparr>leap_seconds := (if tl_currls_valid m then tl_currLs m else 0),
                       lsset := tl_currls_valid m\<rparr> else c)
      in if size_ok \<and> tl_event_valid m then
           let c2 = c1\<lparr>timeToLsEvent := tl_timeToLsEvent m, lsChange := tl_lsChange m\<rparr>
           in if 0 \<noteq> lsChange c2 \<and> 0 < timeToLsEvent c2 \<and> 60 * 60 * 23 > timeToLsEvent c2
              then if lsChange c2 = 1 then c2\<lparr>gc_leap_notify := LEAP_ADDSECOND\<rparr>
                   else if lsChange c2 = -1 then c2\<lparr>gc_leap_notify := LEAP_DELSECOND\<rparr>
                   else c2
              else c2\<lparr>gc_leap_notify := LEAP_NOWARNING\<rparr>
         else c1\<lparr>timeToLsEvent := 0, lsChange := 0, gc_leap_notify := LEAP_NOWARNING\<rparr>)"

definition SEC_IN_WEEK :: int where "SEC_IN_WEEK = 604800"
definition GPS_EPOCH_TO_TAI :: int where "GPS_EPOCH_TO_TAI = 315964819"
definition GAL_EPOCH_TO_TAI :: int where "GAL_EPOCH_TO_TAI = 619315200 + GPS_EPOCH_TO_TAI"
definition BDS_EPOCH_TO_TAI :: int where "BDS_EPOCH_TO_TAI = 820108814 + GPS_EPOCH_TO_TAI"
definition GLO_EPOCH_TO_TAI :: int where "GLO_EPOCH_TO_TAI = 315954019"

lemmas tai_consts = SEC_IN_WEEK_def GPS_EPOCH_TO_TAI_def GAL_EPOCH_TO_TAI_def
  BDS_EPOCH_TO_TAI_def GLO_EPOCH_TO_TAI_def

datatype timebase = TIMEBASE_GNSS | TIMEBASE_UTC
datatype refgnss = REF_GPS | REF_GLO | REF_BDS | REF_GAL | REF_OTHER

record tim_tp =
  tp_towMs :: int
  tp_qErr :: int
  tp_week :: int
  tp_timebase :: timebase
  tp_refgnss :: refgnss

text \<open>The offset of the time base to TAI, when it is known.\<close>

definition tai_offset :: "gps_context \<Rightarrow> timebase \<Rightarrow> refgnss \<Rightarrow> int option" where
  "tai_offset c tb r =
     (case tb of
        TIMEBASE_GNSS \<Rightarrow>
          (case r of
             REF_GPS \<Rightarrow> Some GPS_EPOCH_TO_TAI
           | REF_BDS \<Rightarrow> Some BDS_EPOCH_TO_TAI
           | REF_GAL \<Rightarrow> Some GAL_EPOCH_TO_TAI
           | REF_GLO \<Rightarrow> (if lsset c then Some (GLO_EPOCH_TO_TAI + leap_seconds c) else None)
           | REF_OTHER \<Rightarrow> None)
      | TIMEBASE_UTC \<Rightarrow> (if lsset c then Some (GPS_EPOCH_TO_TAI + leap_seconds c) else None))"

text \<open>\<open>round\<close> of the sum in double precision: the terms stay below \<open>2^53\<close> milliseconds, so the
  nearest second is that of the exact sum. \<open>abs\<close> wraps at the smallest \<open>int\<close>.\<close>

definition tp_seconds :: "tim_tp \<Rightarrow> int \<Rightarrow> int" where
  "tp_seconds m offset = (tp_towMs m + 500) div 1000 + tp_week m * SEC_IN_WEEK + offset - 1"

definition gnss_parse_ubx_tim_tp :: "bool \<Rightarrow> tim_tp \<Rightarrow> gps_session \<Rightarrow> gps_session" where
  "gnss_parse_ubx_tim_tp size_ok m s =
     (if \<not> size_ok then s
      else let q = (if to_i32 \<bar>tp_qErr m\<bar> > QERR_ABS_THRESHOLD_PS then 0 else tp_qErr m)
           in case tai_offset (gs_context s) (tp_timebase m) (tp_refgnss m) of
                None \<Rightarrow> s
              | Some offset \<Rightarrow>
                  s\<lparr>tai_time := to_i32 (tp_seconds m offset),
                    gs_context := (gs_context s)\<lparr>qErr_last_epoch := qErr (gs_context s), qErr := q\<rparr>,
                    tai_time_set := True\<rparr>)"

datatype SurveyInState = SURVEY_IN_KO | SURVEY_IN_UNKNOWN | SURVEY_IN_IN_PROGRESS | SURVEY_IN_COMPLETED

definition SVIN_MIN_DUR :: int where "SVIN_MIN_DUR = 1200"
definition SVIN_MAX_DUR :: int where "SVIN_MAX_DUR = SVIN_MIN_DUR + 600"

record tim_svin =
  sv_dur :: int
  sv_meanV :: int
  sv_valid :: bool
  sv_active :: bool

definition gnss_parse_ubx_tim_svin :: "bool \<Rightarrow> tim_svin \<Rightarrow> gps_session \<Rightarrow> SurveyInState \<times> gps_session" where
  "gnss_parse_ubx_tim_svin size_ok m s =
     (if size_ok then
        ((if \<not> sv_active m \<and> sv_dur m \<ge> SVIN_MIN_DUR
          then (if sv_valid m then SURVEY_IN_COMPLETED else SURVEY_IN_KO)
          else if sv_dur m < SVIN_MAX_DUR then SURVEY_IN_IN_PROGRESS
          else SURVEY_IN_KO),
         s\<lparr>survey_mean_v := Some (sv_meanV m)\<rparr>)
      else (SURVEY_IN_UNKNOWN, s))"

text \<open>The blocks of UBX-MON-RF: antenna status and power of each, bytes that are kept in an \<open>int8_t\<close>.\<close>

definition worst :: "int \<Rightarrow> int \<Rightarrow> int" where
  "worst cur new = (if cur = ANT_UNDEFINED \<or> (cur = 2 \<and> new \<noteq> 2) then to_i8 new else cur)"

definition antenna_block :: "int \<times> int \<Rightarrow> gps_session \<Rightarrow> gps_session" where
  "antenna_block b s =
     s\<lparr>antenna_status := worst (antenna_status s) (fst b),
       antenna_power := worst (antenna_power s) (snd b)\<rparr>"

definition gnss_get_antenna_data :: "bool \<Rightarrow> (int \<times> int) list \<Rightarrow> gps_session \<Rightarrow> gps_session" where
  "gnss_get_antenna_data size_ok blocks s =
     (if size_ok
      then fold antenna_block blocks
             (s\<lparr>antenna_status := ANT_UNDEFINED, antenna_power := ANT_UNDEFINED\<rparr>)
      else s)"

datatype ubx_msg =
    MonRf bool "(int \<times> int) list"
  | NavTimels bool timels
  | TimTp bool tim_tp
  | TimSvin bool tim_svin
  | OtherMsg

definition ANTPOWER_OFF :: int where "ANTPOWER_OFF = 0"

text \<open>The branch for messages that do not complete an epoch; the flag says whether
  \<open>cond_data\<close> is signalled.\<close>

definition handle_ubx :: "ubx_msg \<Rightarrow> gps_session \<Rightarrow> bool \<times> gps_session" where
  "handle_ubx msg s =
     (case msg of
        MonRf ok blocks \<Rightarrow>
          (let s1 = gnss_get_antenna_data ok blocks s
           in if antenna_power s1 = ANTPOWER_OFF
              then (True, gnss_reset_session_navigation_data s1) else (False, s1))
      | NavTimels ok m \<Rightarrow> (False, s\<lparr>gs_context := gnss_parse_ubx_nav_timels ok m (gs_context s)\<rparr>)
      | TimTp ok m \<Rightarrow> (False, gnss_parse_ubx_tim_tp ok m s)
      | TimSvin ok m \<Rightarrow>
          (case gnss_parse_ubx_tim_svin ok m s of (st, s1) \<Rightarrow>
             (False, (if \<not> survey_completed s1 \<and> \<not> bypass_survey s1 \<and> st = SURVEY_IN_COMPLETED
                      then s1\<lparr>survey_completed := True\<rparr> else s1)))
      | OtherMsg \<Rightarrow> (False, s))"

section \<open>The thread\<close>

datatype gnss_input =
    RxTimeout
  | RxEpoch timespec epoch \<comment> \<open>a message that completes an epoch, with the system time\<close>
  | RxMsg ubx_msg

datatype rx_cmd = RX_RESET_GNSS_START | RX_RESET_GNSS_STOP | RX_RESET_SOFT | RX_RESET_HARD |
  RX_RESET_COLD | RX_REOPEN

definition gnss_receive :: "gnss_input \<Rightarrow> gnss \<Rightarrow> rx_cmd list \<times> gnss" where
  "gnss_receive inp g =
     (case inp of
        RxTimeout \<Rightarrow>
          ([RX_REOPEN], g\<lparr>session := gnss_reset_session_navigation_data (session g),
                          data_signals := Suc (data_signals g)\<rparr>)
      | RxEpoch now e \<Rightarrow>
          (let s = collect_epoch now e (session g)
           in ([], g\<lparr>session := s, data_signals := Suc (data_signals g),
                     time_signals := (if tai_time_set s then Suc (time_signals g) else time_signals g)\<rparr>))
      | RxMsg msg \<Rightarrow>
          (case handle_ubx msg (session g) of (signal, s) \<Rightarrow>
             ([], g\<lparr>session := s,
                    data_signals := (if signal then Suc (data_signals g) else data_signals g)\<rparr>)))"

definition gnss_mirror :: "gps_session \<Rightarrow> gnss_state" where
  "gnss_mirror s =
     \<lparr>gi_antenna_power = antenna_power s, gi_antenna_status = antenna_status s, gi_fix = gs_fix s,
      gi_fixOk = gs_fixOk s, gi_leap_seconds = leap_seconds (gs_context s),
      gi_lsChange = lsChange (gs_context s), gi_satellites_count = satellites_count s,
      gi_survey_mean_v = survey_mean_v s, gi_time_accuracy = time_accuracy s,
      gi_position_accuracy = position_accuracy s\<rparr>"

definition action_cmds :: "gnss_action \<Rightarrow> rx_cmd list" where
  "action_cmds a =
     (case a of
        GNSS_ACTION_NONE \<Rightarrow> []
      | GNSS_ACTION_START \<Rightarrow> [RX_RESET_GNSS_START]
      | GNSS_ACTION_STOP \<Rightarrow> [RX_RESET_GNSS_STOP]
      | GNSS_ACTION_SOFT \<Rightarrow> [RX_RESET_SOFT]
      | GNSS_ACTION_HARD \<Rightarrow> [RX_RESET_HARD]
      | GNSS_ACTION_COLD \<Rightarrow> [RX_RESET_COLD]
      | GNSS_ACTION_RESET_SERIAL \<Rightarrow> [RX_REOPEN])"

text \<open>The critical section at the end of a round takes the pending action and copies \<open>stop\<close>.\<close>

definition take_action :: "gnss \<Rightarrow> gnss_action \<times> gnss" where
  "take_action g =
     (action g, g\<lparr>action := GNSS_ACTION_NONE, gnss_running := \<not> gnss_stop_flag g\<rparr>)"

definition gnss_iter :: "gnss_input \<Rightarrow> gnss \<Rightarrow> rx_cmd list \<times> gnss" where
  "gnss_iter inp g =
     (case gnss_receive inp g of (cmds, g1) \<Rightarrow>
        let g2 = g1\<lparr>gnss_info := map_option (\<lambda>_. gnss_mirror (session g1)) (gnss_info g1)\<rparr>
        in case take_action g2 of (a, g3) \<Rightarrow> (cmds @ action_cmds a, g3))"

definition gnss_set_action :: "gnss_action \<Rightarrow> gnss \<Rightarrow> gnss" where
  "gnss_set_action a g =
     (if a \<noteq> GNSS_ACTION_START \<and> a \<noteq> GNSS_ACTION_STOP \<and> a \<noteq> GNSS_ACTION_SOFT \<and>
         a \<noteq> GNSS_ACTION_HARD \<and> a \<noteq> GNSS_ACTION_COLD
      then g else g\<lparr>action := a\<rparr>)"

definition gnss_request_stop :: "gnss \<Rightarrow> gnss" where
  "gnss_request_stop g = g\<lparr>gnss_stop_flag := True\<rparr>"

text \<open>What a caller of \<open>gnss_get_epoch_data\<close> and \<open>gnss_get_fix_info\<close> is given at a signal.\<close>

definition gnss_get_epoch_data :: "gnss \<Rightarrow> bool \<times> bool \<times> int" where
  "gnss_get_epoch_data g =
     (gs_valid (session g), survey_completed (session g), qErr_last_epoch (gs_context (session g)))"

definition gnss_get_fix_info :: "gnss \<Rightarrow> bool \<times> timespec" where
  "gnss_get_fix_info g = (gs_valid (session g), last_fix_utc_time (session g))"

text \<open>The thread interleaved with the main program.\<close>

datatype gnss_event = GnssIter gnss_input | GnssSetAction gnss_action | GnssStop

definition gnss_thread :: "gnss_event \<Rightarrow> rx_cmd list \<times> gnss \<Rightarrow> rx_cmd list \<times> gnss" where
  "gnss_thread e st =
     (case st of (cmds, g) \<Rightarrow>
        (case e of
           GnssSetAction a \<Rightarrow> (cmds, gnss_set_action a g)
         | GnssStop \<Rightarrow> (cmds, gnss_request_stop g)
         | GnssIter inp \<Rightarrow>
             if \<not> gnss_running g then (cmds, g)
             else case gnss_iter inp g of (cs, g') \<Rightarrow> (cmds @ cs, g')))"

section \<open>The pending action\<close>

definition gnss_action_ok :: "gnss_action \<Rightarrow> bool" where
  "gnss_action_ok a \<longleftrightarrow> a \<notin> {GNSS_ACTION_NONE, GNSS_ACTION_RESET_SERIAL}"

lemma gnss_set_action_eq: "gnss_set_action a g = (if gnss_action_ok a then g\<lparr>action := a\<rparr> else g)"
  by (cases a) (simp_all add: gnss_set_action_def gnss_action_ok_def)

interpretation act: mailbox gnss_set_action take_action gnss_action_ok GNSS_ACTION_NONE
  by unfold_locales (simp_all add: gnss_set_action_eq take_action_def)

lemma gnss_receive_action [simp]:
  "action (snd (gnss_receive inp g)) = action g"
  "gnss_stop_flag (snd (gnss_receive inp g)) = gnss_stop_flag g"
  by (simp_all add: gnss_receive_def Let_def split: gnss_input.split prod.split)

lemma gnss_iter_eq:
  "gnss_iter inp g =
     (fst (gnss_receive inp g) @ action_cmds (action g),
      (let g1 = snd (gnss_receive inp g)
       in g1\<lparr>gnss_info := map_option (\<lambda>_. gnss_mirror (session g1)) (gnss_info g1),
             action := GNSS_ACTION_NONE, gnss_running := \<not> gnss_stop_flag g\<rparr>))"
  by (simp add: gnss_iter_def take_action_def Let_def case_prod_unfold)

text \<open>Requests to the receiver between two rounds of the thread: the next round performs the
  last request that \<open>gnss_set_action\<close> accepts, after handling its message, and the round after it
  performs none.\<close>

theorem gnss_action_once:
  "fst (gnss_iter inp (fold gnss_set_action as (g\<lparr>action := GNSS_ACTION_NONE\<rparr>))) =
     fst (gnss_receive inp g) @
     (if filter gnss_action_ok as = [] then [] else action_cmds (last (filter gnss_action_ok as))) \<and>
   fst (gnss_iter inp2 (snd (gnss_iter inp g2))) = fst (gnss_receive inp2 (snd (gnss_iter inp g2)))"
proof -
  let ?g0 = "g\<lparr>action := GNSS_ACTION_NONE\<rparr>"
  have a: "action (fold gnss_set_action as ?g0) =
      (if filter gnss_action_ok as = [] then GNSS_ACTION_NONE else last (filter gnss_action_ok as))"
    using act.last_post_wins [of as ?g0] by (simp add: take_action_def)
  have r: "fst (gnss_receive inp (fold gnss_set_action as ?g0)) = fst (gnss_receive inp g)"
    by (simp add: gnss_receive_def Let_def split: gnss_input.split prod.split)
  have "action (snd (gnss_iter inp g2)) = GNSS_ACTION_NONE"
    by (simp add: gnss_iter_eq Let_def)
  then show ?thesis using a r by (simp add: gnss_iter_eq action_cmds_def)
qed

text \<open>The serial reset that the monitoring interface offers never reaches the receiver:
  \<open>gnss_set_action\<close> takes it for an unknown action.\<close>

theorem gnss_reset_serial_refused:
  "gnss_set_action GNSS_ACTION_RESET_SERIAL g = g"
  by (simp add: gnss_set_action_eq gnss_action_ok_def)

section \<open>Validity\<close>

definition power_off :: "ubx_msg \<Rightarrow> gps_session \<Rightarrow> bool" where
  "power_off msg s =
     (case msg of MonRf ok blocks \<Rightarrow> antenna_power (gnss_get_antenna_data ok blocks s) = ANTPOWER_OFF
      | _ \<Rightarrow> False)"

lemma antenna_blocks_frame [simp]:
  "gs_valid (fold antenna_block blocks s) = gs_valid s"
  "survey_completed (fold antenna_block blocks s) = survey_completed s"
  "bypass_survey (fold antenna_block blocks s) = bypass_survey s"
  by (induction blocks arbitrary: s) (simp_all add: antenna_block_def)

lemma antenna_frame [simp]:
  "gs_valid (gnss_get_antenna_data ok blocks s) = gs_valid s"
  "survey_completed (gnss_get_antenna_data ok blocks s) = survey_completed s"
  "bypass_survey (gnss_get_antenna_data ok blocks s) = bypass_survey s"
  by (simp_all add: gnss_get_antenna_data_def)

lemma ntp_latch_frame [simp]:
  "gs_valid (ntp_latch now s) = gs_valid s" "gs_fix (ntp_latch now s) = gs_fix s"
  "gs_fixOk (ntp_latch now s) = gs_fixOk s" "satellites_count (ntp_latch now s) = satellites_count s"
  "survey_completed (ntp_latch now s) = survey_completed s"
  by (simp_all add: ntp_latch_def)

lemma handle_ubx_valid:
  "gs_valid (snd (handle_ubx msg s)) = (gs_valid s \<and> \<not> power_off msg s)"
proof (cases msg)
  case (MonRf ok blocks)
  then show ?thesis
    by (simp add: handle_ubx_def power_off_def antenna_frame Let_def
        gnss_reset_session_navigation_data_def)
next
  case (TimSvin ok m)
  then show ?thesis
    by (simp add: handle_ubx_def power_off_def gnss_parse_ubx_tim_svin_def)
next
  case (TimTp ok m)
  then show ?thesis
    by (simp add: handle_ubx_def power_off_def gnss_parse_ubx_tim_tp_def Let_def split: option.split)
qed (simp_all add: handle_ubx_def power_off_def)

lemma collect_epoch_valid:
  "gs_valid (collect_epoch now e s) =
     (if haveFix e
      then ep_fix e \<ge> EPOCH_FIX_TIME \<and> ep_fixOk e \<and> gnss_get_satellites e > NUM_SAT_MIN
      else gs_valid s)"
  by (simp add: collect_epoch_def Let_def)

text \<open>When the session counts as valid after a round: never after a timeout or with the antenna
  power off; after an epoch with a fix exactly when the fix is at least a time fix, flagged ok, and
  more than three satellites are used; otherwise as before. In particular an epoch without a fix
  leaves an earlier validity standing, although it clears the fix and its flag.\<close>

theorem gnss_iter_valid:
  "gs_valid (session (snd (gnss_iter inp g))) \<longleftrightarrow>
     (case inp of
        RxTimeout \<Rightarrow> False
      | RxEpoch now e \<Rightarrow>
          (if haveFix e
           then ep_fix e \<ge> 3 \<and> ep_fixOk e \<and> gnss_get_satellites e > 3
           else gs_valid (session g))
      | RxMsg msg \<Rightarrow> gs_valid (session g) \<and> \<not> power_off msg (session g))"
  by (simp add: gnss_iter_eq Let_def gnss_receive_def gnss_reset_session_navigation_data_def
      collect_epoch_valid handle_ubx_valid case_prod_unfold EPOCH_FIX_TIME_def NUM_SAT_MIN_def
      split: gnss_input.split)

section \<open>Time\<close>

text \<open>C25. The time of the next pulse is the same whichever time base the receiver reports it in:
  the second of GPS week \<open>w\<close> and time of week \<open>t\<close>, off by less than half a second and given as
  Galileo, BeiDou, GLONASS or UTC time of week, yields one \<open>tai_time\<close>, once the leap seconds
  are known where they are needed.\<close>

theorem tai_time_agrees:
  assumes "lsset (gs_context s)" "- 500 \<le> e" "e < 500"
    and "leap = leap_seconds (gs_context s)"
  shows "list_all (\<lambda>(base, ref, week, tow).
      tai_time (gnss_parse_ubx_tim_tp True
        \<lparr>tp_towMs = tow * 1000 + e, tp_qErr = q, tp_week = week, tp_timebase = base,
         tp_refgnss = ref\<rparr> s) =
      to_i32 (315964819 + w * 604800 + t - 1))
    [(TIMEBASE_GNSS, REF_GPS, w, t),
     (TIMEBASE_GNSS, REF_GAL, w - 1024, t),
     (TIMEBASE_GNSS, REF_BDS, w - 1356, t - 14),
     (TIMEBASE_GNSS, REF_GLO, w, t - leap + 10800),
     (TIMEBASE_UTC, r, w, t - leap)]"
proof -
  have "(tow * 1000 + e + 500) div 1000 = tow" for tow :: int
    by (rule int_div_pos_eq [where r = "e + 500"]) (use assms(2,3) in auto)
  then have sec: "tp_seconds \<lparr>tp_towMs = tow * 1000 + e, tp_qErr = q, tp_week = week,
      tp_timebase = base, tp_refgnss = ref\<rparr> off = tow + week * 604800 + off - 1"
    for tow week base ref off
    by (simp add: tp_seconds_def SEC_IN_WEEK_def)
  have parse: "tai_time (gnss_parse_ubx_tim_tp True m s) = to_i32 (tp_seconds m off)"
    if "tai_offset (gs_context s) (tp_timebase m) (tp_refgnss m) = Some off" for m off
    using that by (simp add: gnss_parse_ubx_tim_tp_def Let_def)
  show ?thesis
    using assms(1,4)
    by (simp add: parse [where off = GPS_EPOCH_TO_TAI] parse [where off = GAL_EPOCH_TO_TAI]
        parse [where off = BDS_EPOCH_TO_TAI] parse [where off = "GLO_EPOCH_TO_TAI + leap"]
        parse [where off = "GPS_EPOCH_TO_TAI + leap"] tai_offset_def sec)
      (simp add: tai_consts algebra_simps)
qed

definition sample_session :: gps_session where
  "sample_session = \<lparr>gs_context = \<lparr>leap_seconds = 18, lsset = True, gc_leap_notify = 0, lsChange = 0,
     timeToLsEvent = 0, qErr = 0, qErr_last_epoch = 0\<rparr>, gs_valid = False, gs_fix = 1,
     gs_fixOk = False, satellites_count = 0, antenna_status = 5, antenna_power = 5,
     last_fix_utc_time = ts_zero, tai_time = 0, tai_time_set = False, bypass_survey = False,
     survey_completed = False, survey_mean_v = None, position_accuracy = -1, time_accuracy = -1,
     gs_pps_thread = \<lparr>fix_in = td_zero, pps_out = td_zero, ppsout_count = 0, pps_qErr = 0,
       qErr_time = ts_zero, report_hook_set = True\<rparr>\<rparr>"

lemma sample_session_leap: "lsset (gs_context sample_session)" "leap_seconds (gs_context sample_session) = 18"
  by (simp_all add: sample_session_def)

theorem tai_time_agrees_witness:
  "tai_time (gnss_parse_ubx_tim_tp True
     \<lparr>tp_towMs = 345585999, tp_qErr = 100, tp_week = 936, tp_timebase = TIMEBASE_GNSS,
      tp_refgnss = REF_BDS\<rparr> sample_session) = 1702512018"
  using tai_time_agrees [where s = sample_session and e = "-1" and leap = 18 and q = 100
      and w = 2292 and t = 345600 and r = REF_OTHER] sample_session_leap
  by (simp add: to_i32_def)

section \<open>Leap seconds, survey and antenna\<close>

text \<open>The leap notification a TIMELS message leaves behind: announced only for a one-second
  change less than 23 hours ahead, withdrawn when there is no event, none is near or the message is
  malformed; leap seconds are never kept from an older message.\<close>

theorem timels_leap_notify:
  "gc_leap_notify (gnss_parse_ubx_nav_timels ok m c) =
     (if ok \<and> tl_event_valid m \<and> 0 < tl_timeToLsEvent m \<and> tl_timeToLsEvent m < 82800 \<and> tl_lsChange m \<noteq> 0
      then if tl_lsChange m = 1 then LEAP_ADDSECOND
           else if tl_lsChange m = -1 then LEAP_DELSECOND else gc_leap_notify c
      else LEAP_NOWARNING) \<and>
   (let c' = gnss_parse_ubx_nav_timels True m c
    in lsset c' = tl_currls_valid m \<and> leap_seconds c' = (if tl_currls_valid m then tl_currLs m else 0))"
  by (auto simp: gnss_parse_ubx_nav_timels_def Let_def)

lemma collect_epoch_survey: "survey_completed (collect_epoch now e s) = survey_completed s"
  by (simp add: collect_epoch_def Let_def)

text \<open>The survey flag is a latch: a round sets it exactly when a well-formed TIM-SVIN message
  reports a finished, valid survey of at least 1200 seconds and the survey is not bypassed, and no
  round clears it.\<close>

theorem survey_latch:
  "survey_completed (session (snd (gnss_iter inp g))) \<longleftrightarrow>
     survey_completed (session g) \<or>
     (\<not> bypass_survey (session g) \<and>
      (case inp of RxMsg (TimSvin ok m) \<Rightarrow> ok \<and> \<not> sv_active m \<and> 1200 \<le> sv_dur m \<and> sv_valid m
       | _ \<Rightarrow> False))"
proof (cases inp)
  case (RxMsg msg)
  then show ?thesis
    by (cases msg)
      (simp_all add: gnss_iter_eq Let_def gnss_receive_def handle_ubx_def gnss_parse_ubx_tim_tp_def
        gnss_parse_ubx_tim_svin_def gnss_reset_session_navigation_data_def SVIN_MIN_DUR_def
        split: option.split)
qed (simp_all add: gnss_iter_eq Let_def gnss_receive_def gnss_reset_session_navigation_data_def
    collect_epoch_survey)

lemma antenna_blocks_fold:
  "antenna_status (fold antenna_block blocks s) = fold (\<lambda>b c. worst c b) (map fst blocks) (antenna_status s)"
  "antenna_power (fold antenna_block blocks s) = fold (\<lambda>b c. worst c b) (map snd blocks) (antenna_power s)"
  by (induction blocks arbitrary: s) (simp_all add: antenna_block_def)

text \<open>The values the protocol defines are below the undefined one.\<close>

abbreviation (input) antenna_value :: "int \<Rightarrow> bool" where
  "antenna_value x \<equiv> 0 \<le> x \<and> x < ANT_UNDEFINED"

lemma worst_simps:
  "antenna_value x \<Longrightarrow> worst 5 x = x" "antenna_value x \<Longrightarrow> worst 2 x = x"
  "c \<noteq> 2 \<Longrightarrow> c \<noteq> 5 \<Longrightarrow> worst c x = c"
  by (auto simp: worst_def ANT_UNDEFINED_def to_i8_def)

lemma worst_stays: "c \<noteq> 2 \<Longrightarrow> c \<noteq> 5 \<Longrightarrow> fold (\<lambda>b c. worst c b) xs c = c"
  by (induction xs) (simp_all add: worst_simps)

lemma worst_from_two:
  "list_all antenna_value xs \<Longrightarrow>
     fold (\<lambda>b c. worst c b) xs 2 = (case find (\<lambda>x. x \<noteq> 2) xs of None \<Rightarrow> 2 | Some x \<Rightarrow> x)"
  by (induction xs) (auto simp: worst_simps worst_stays ANT_UNDEFINED_def)

lemma worst_fold:
  "list_all antenna_value (x # xs) \<Longrightarrow>
     fold (\<lambda>b c. worst c b) (x # xs) 5 =
     (case find (\<lambda>x. x \<noteq> 2) (x # xs) of None \<Rightarrow> 2 | Some x \<Rightarrow> x)"
  by (auto simp: worst_simps worst_from_two worst_stays ANT_UNDEFINED_def)

text \<open>The antenna status of a message with several blocks is OK only when every block is OK, and
  otherwise that of the first block that is not; the power is combined the same way.\<close>

theorem antenna_status_worst:
  assumes "blocks \<noteq> []" "list_all antenna_value (map fst blocks)" "list_all antenna_value (map snd blocks)"
  shows "antenna_status (gnss_get_antenna_data True blocks s) =
      (case find (\<lambda>x. x \<noteq> 2) (map fst blocks) of None \<Rightarrow> 2 | Some x \<Rightarrow> x) \<and>
    antenna_power (gnss_get_antenna_data True blocks s) =
      (case find (\<lambda>x. x \<noteq> 2) (map snd blocks) of None \<Rightarrow> 2 | Some x \<Rightarrow> x)"
proof -
  obtain b bs where b: "map fst blocks = fst b # map fst bs" "map snd blocks = snd b # map snd bs"
    using assms(1) by (cases blocks) auto
  from worst_fold [OF assms(2) [unfolded b]] worst_fold [OF assms(3) [unfolded b]] show ?thesis
    by (simp add: gnss_get_antenna_data_def antenna_blocks_fold b ANT_UNDEFINED_def)
qed

theorem antenna_status_worst_witness:
  "antenna_status (gnss_get_antenna_data True [(2, 1), (4, 1)] sample_session) = 4"
  using antenna_status_worst [of "[(2, 1), (4, 1)]" sample_session] by (simp add: ANT_UNDEFINED_def)

section \<open>Stopping\<close>

lemma stopped_rounds:
  "\<not> gnss_running g \<Longrightarrow> fold gnss_thread (map GnssIter is) (cmds, g) = (cmds, g)"
  by (induction "is") (simp_all add: gnss_thread_def)

text \<open>After \<open>gnss_stop\<close> asked the thread to stop it finishes at most the round it is in.\<close>

theorem gnss_stop_one_round:
  "fold gnss_thread (map GnssIter (i # is)) (gnss_thread GnssStop (cmds, g)) =
   gnss_thread (GnssIter i) (gnss_thread GnssStop (cmds, g))"
proof (cases "gnss_running g")
  case True
  have "\<not> gnss_running (snd (gnss_thread (GnssIter i) (gnss_thread GnssStop (cmds, g))))"
    using True by (simp add: gnss_thread_def gnss_request_stop_def gnss_iter_eq Let_def)
  then show ?thesis
    using stopped_rounds [of "snd (gnss_thread (GnssIter i) (gnss_thread GnssStop (cmds, g)))" "is"
        "fst (gnss_thread (GnssIter i) (gnss_thread GnssStop (cmds, g)))"]
    by simp
next
  case False
  then have "\<not> gnss_running (gnss_request_stop g)" by (simp add: gnss_request_stop_def)
  then show ?thesis
    using stopped_rounds [of "gnss_request_stop g" "i # is" cmds]
      stopped_rounds [of "gnss_request_stop g" "[i]" cmds]
    by (simp add: gnss_thread_def)
qed

end
