(* ===== verification/Oscillator.thy ===== *)
theory Oscillator
  imports Config Timespec
begin

text \<open>
  The oscillator layer: the class a driver registers and the calls that dispatch through it
  (\<open>src/oscillator.c\<close>), the registry of drivers (\<open>src/oscillator_factory.c\<close>), and the two
  drivers without hardware (\<open>dummy_oscillator.c\<close>, \<open>sim_oscillator.c\<close>). A driver's operations
  are functions on its own state, of type \<open>'s\<close>; a missing one is \<open>None\<close>. Each takes the
  structure it writes to and returns the code, that structure and its state. A null pointer is
  \<open>None\<close>. Temperatures are numbers of thousandths of a degree.
\<close>

section \<open>Data\<close>

record oscillator_ctrl =
  dac :: int
  fine_ctrl :: int
  coarse_ctrl :: int

record oscillator_attributes =
  osc_phase_error :: int
  temperature :: int
  locked :: bool

text \<open>The disciplining library's monitoring data and its output; only the named actions are
  distinguished by the code.\<close>

record od_monitoring =
  clock_class :: int
  od_status :: int
  current_phase_convergence_count :: int
  valid_phase_convergence_threshold :: int
  convergence_progress :: int
  ready_for_holdover :: bool

datatype od_action = NO_OP | PHASE_JUMP | ADJUST_FINE | ADJUST_COARSE | CALIBRATE |
  SAVE_DISCIPLINING_PARAMETERS

record od_output =
  od_action :: od_action
  setpoint :: int
  value_phase_ctrl :: int

record 's osc_class =
  cls_name :: string
  cls_get_ctrl :: "('s \<Rightarrow> oscillator_ctrl \<Rightarrow> int \<times> oscillator_ctrl \<times> 's) option"
  cls_save :: "('s \<Rightarrow> unit \<Rightarrow> int \<times> unit \<times> 's) option"
  cls_parse_attributes :: "('s \<Rightarrow> oscillator_attributes \<Rightarrow> int \<times> oscillator_attributes \<times> 's) option"
  cls_apply_output :: "('s \<Rightarrow> od_output \<Rightarrow> int \<times> od_output \<times> 's) option"
  cls_get_phase_error :: "('s \<Rightarrow> int \<Rightarrow> int \<times> int \<times> 's) option"
  cls_get_disciplining_status :: "('s \<Rightarrow> od_monitoring \<Rightarrow> int \<times> od_monitoring \<times> 's) option"
  cls_push_gnss_info :: "('s \<Rightarrow> bool \<times> timespec option \<Rightarrow> int \<times> (bool \<times> timespec option) \<times> 's) option"
  cls_dac_max :: int
  cls_dac_min :: int

record 's oscillator =
  osc_name :: string
  osc_class :: "'s osc_class"
  dac_min :: int
  dac_max :: int
  osc_state :: 's

section \<open>Dispatch\<close>

definition oscillator_set_dac_min :: "'s oscillator option \<Rightarrow> int \<Rightarrow> int \<times> 's oscillator option" where
  "oscillator_set_dac_min osc v =
     (case osc of None \<Rightarrow> (- EINVAL, None) | Some o' \<Rightarrow> (0, Some (o'\<lparr>dac_min := v\<rparr>)))"

definition oscillator_set_dac_max :: "'s oscillator option \<Rightarrow> int \<Rightarrow> int \<times> 's oscillator option" where
  "oscillator_set_dac_max osc v =
     (case osc of None \<Rightarrow> (- EINVAL, None) | Some o' \<Rightarrow> (0, Some (o'\<lparr>dac_max := v\<rparr>)))"

text \<open>What the dispatching functions have in common: the null tests, the test for a missing
  operation, the call.\<close>

definition dispatch ::
  "('s osc_class \<Rightarrow> ('s \<Rightarrow> 'a \<Rightarrow> int \<times> 'a \<times> 's) option) \<Rightarrow> 's oscillator option \<Rightarrow> 'a option \<Rightarrow>
   int \<times> 'a option \<times> 's oscillator option" where
  "dispatch op osc arg =
     (case (osc, arg) of
        (Some o', Some a) \<Rightarrow>
          (case op (osc_class o') of
             None \<Rightarrow> (- ENOSYS, arg, osc)
           | Some f \<Rightarrow>
               (case f (osc_state o') a of (ret, a', s') \<Rightarrow> (ret, Some a', Some (o'\<lparr>osc_state := s'\<rparr>))))
      | _ \<Rightarrow> (- EINVAL, arg, osc))"

definition oscillator_get_ctrl where "oscillator_get_ctrl = dispatch cls_get_ctrl"
definition oscillator_save where "oscillator_save osc = dispatch cls_save osc (Some ())"
definition oscillator_parse_attributes where "oscillator_parse_attributes = dispatch cls_parse_attributes"
definition oscillator_apply_output where "oscillator_apply_output = dispatch cls_apply_output"
definition oscillator_get_phase_error where "oscillator_get_phase_error = dispatch cls_get_phase_error"
definition oscillator_get_disciplining_status where "oscillator_get_disciplining_status = dispatch cls_get_disciplining_status"
definition oscillator_push_gnss_info where "oscillator_push_gnss_info osc fixOk t = dispatch cls_push_gnss_info osc (Some (fixOk, t))"

text \<open>A calibration returns a pointer. Its types belong to the disciplining library, so the operation of the
  class is an argument; \<open>None\<close> is a class that lacks it.\<close>

definition oscillator_calibrate ::
  "('s \<Rightarrow> 'p \<Rightarrow> int \<Rightarrow> 'r option \<times> 's) option \<Rightarrow> 's oscillator option \<Rightarrow> 'p option \<Rightarrow> int \<Rightarrow>
   'r option \<times> 's oscillator option" where
  "oscillator_calibrate calibrate osc calib_params phase_sign =
     (case (osc, calib_params, calibrate) of
        (Some o', Some p, Some f) \<Rightarrow>
          (case f (osc_state o') p phase_sign of (r, s') \<Rightarrow> (r, Some (o'\<lparr>osc_state := s'\<rparr>)))
      | _ \<Rightarrow> (None, osc))"

section \<open>The registry\<close>

definition MAX_OSCILLATOR_FACTORIES :: nat where "MAX_OSCILLATOR_FACTORIES = 5"

text \<open>A factory: its class, its constructor (\<open>None\<close> when it fails) and whether it has a
  destructor; a null name is \<open>None\<close>.\<close>

record 's factory =
  fac_name :: "string option"
  fac_class :: "'s osc_class"
  fac_new :: "(devices_path \<Rightarrow> 's oscillator option) option"
  fac_destroy :: bool

fun oscillator_factory_get_by_name :: "'s factory list \<Rightarrow> string \<Rightarrow> 's factory option" where
  "oscillator_factory_get_by_name [] name = None"
| "oscillator_factory_get_by_name (f # fs) name =
     (if fac_name f = Some name then Some f else oscillator_factory_get_by_name fs name)"

definition oscillator_factory_is_valid :: "'s factory option \<Rightarrow> bool" where
  "oscillator_factory_is_valid factory \<longleftrightarrow>
     (case factory of
        None \<Rightarrow> False
      | Some f \<Rightarrow> fac_destroy f \<and> fac_name f \<noteq> None \<and> fac_name f \<noteq> Some '''' \<and> fac_new f \<noteq> None)"

definition oscillator_factory_register :: "'s factory option \<Rightarrow> 's factory list \<Rightarrow> int \<times> 's factory list" where
  "oscillator_factory_register factory factories =
     (if \<not> oscillator_factory_is_valid factory then (- EINVAL, factories)
      else if length factories = MAX_OSCILLATOR_FACTORIES then (- ENOMEM, factories)
      else (0, factories @ [the factory]))"

definition oscillator_factory_new ::
  "'s factory list \<Rightarrow> config \<Rightarrow> devices_path \<Rightarrow> 's oscillator option" where
  "oscillator_factory_new factories config dp =
     (case config_get config ''oscillator'' of
        None \<Rightarrow> None
      | Some name \<Rightarrow>
          (case oscillator_factory_get_by_name factories name of
             None \<Rightarrow> None
           | Some f \<Rightarrow> (case fac_new f of None \<Rightarrow> None | Some new \<Rightarrow> new dp)))"

definition OSCILLATOR_NAME_LENGTH :: nat where "OSCILLATOR_NAME_LENGTH = 50"

text \<open>The instance comes from \<open>calloc\<close>; \<open>dac_max\<close> is assigned twice.\<close>

definition oscillator_factory_init :: "'s osc_class \<Rightarrow> string \<Rightarrow> 's \<Rightarrow> 's oscillator" where
  "oscillator_factory_init cls printed s =
     \<lparr>osc_name = take (OSCILLATOR_NAME_LENGTH - 1) printed, osc_class = cls, dac_min = 0,
      dac_max = 2 ^ 32 - 1, osc_state = s\<rparr>"

definition oscillator_factory_destroy :: "'s factory list \<Rightarrow> 's oscillator option \<Rightarrow> 's oscillator option" where
  "oscillator_factory_destroy factories osc =
     (case osc of
        None \<Rightarrow> None
      | Some o' \<Rightarrow>
          (case oscillator_factory_get_by_name factories (cls_name (osc_class o')) of
             None \<Rightarrow> osc | Some f \<Rightarrow> None))"

section \<open>The contract of a settable oscillator\<close>

locale settable =
  fixes set_value :: "'v \<Rightarrow> 's \<Rightarrow> int \<times> 's"
    and get_value :: "'s \<Rightarrow> 'v"
    and wf :: "'s \<Rightarrow> bool"
  assumes set_ok: "wf s \<Longrightarrow> set_value v s = (0, s') \<Longrightarrow> get_value s' = v"
    and set_failed: "wf s \<Longrightarrow> set_value v s = (r, s') \<Longrightarrow> r \<noteq> 0 \<Longrightarrow> s' = s"
    and set_wf: "wf s \<Longrightarrow> wf (snd (set_value v s))"
begin

text \<open>After any sequence of writes the value read is that of a write that succeeded, or the first.\<close>

lemma last_success:
  "wf s \<Longrightarrow>
   get_value (fold (\<lambda>v s. snd (set_value v s)) vs s) \<in> insert (get_value s) (set vs)"
proof (induction vs arbitrary: s)
  case Nil
  then show ?case by simp
next
  case (Cons v vs)
  obtain r s' where s: "set_value v s = (r, s')" by (cases "set_value v s")
  then have "wf s'" using set_wf [OF Cons.prems, of v] by simp
  with s Cons.IH [of s'] set_ok [OF Cons.prems, of v s'] set_failed [OF Cons.prems s]
  show ?case by (cases "r = 0") auto
qed

end

section \<open>The simulated oscillator\<close>

record sim_oscillator =
  control_fifo_errno :: "int option" \<comment> \<open>the error \<open>write\<close> fails with, if it does\<close>
  sim_value :: int

definition sim_wf :: "sim_oscillator \<Rightarrow> bool" where
  "sim_wf sim \<longleftrightarrow> control_fifo_errno sim \<noteq> Some 0"

definition sim_oscillator_set_dac :: "int \<Rightarrow> sim_oscillator \<Rightarrow> int \<times> sim_oscillator" where
  "sim_oscillator_set_dac value sim =
     (case control_fifo_errno sim of
        Some e \<Rightarrow> (- e, sim)
      | None \<Rightarrow> (0, sim\<lparr>sim_value := value\<rparr>))"

definition sim_oscillator_get_ctrl :: "sim_oscillator \<Rightarrow> oscillator_ctrl \<Rightarrow> int \<times> oscillator_ctrl \<times> sim_oscillator" where
  "sim_oscillator_get_ctrl sim ctrl = (0, ctrl\<lparr>dac := sim_value sim\<rparr>, sim)"

definition sim_oscillator_apply_output :: "sim_oscillator \<Rightarrow> od_output \<Rightarrow> int \<times> od_output \<times> sim_oscillator" where
  "sim_oscillator_apply_output sim output =
     (case sim_oscillator_set_dac (setpoint output) sim of (r, sim') \<Rightarrow> (r, output, sim'))"

definition sim_oscillator_save :: "sim_oscillator \<Rightarrow> unit \<Rightarrow> int \<times> unit \<times> sim_oscillator" where
  "sim_oscillator_save sim u = (- ENOSYS, u, sim)"

text \<open>\<open>rnd\<close> is the result of \<open>rand\<close>.\<close>

definition random_attributes :: "int \<Rightarrow> oscillator_attributes \<Rightarrow> oscillator_attributes" where
  "random_attributes rnd a = a\<lparr>temperature := (rnd mod (55 - 10) + 10) * 1000, locked := False\<rparr>"

definition sim_oscillator_parse_attributes ::
  "int \<Rightarrow> sim_oscillator \<Rightarrow> oscillator_attributes \<Rightarrow> int \<times> oscillator_attributes \<times> sim_oscillator" where
  "sim_oscillator_parse_attributes rnd sim a = (0, random_attributes rnd a, sim)"

definition sim_class :: "int \<Rightarrow> sim_oscillator osc_class" where
  "sim_class rnd = \<lparr>cls_name = ''sim'', cls_get_ctrl = Some sim_oscillator_get_ctrl,
     cls_save = Some sim_oscillator_save,
     cls_parse_attributes = Some (sim_oscillator_parse_attributes rnd),
     cls_apply_output = Some sim_oscillator_apply_output, cls_get_phase_error = None,
     cls_get_disciplining_status = None, cls_push_gnss_info = None,
     cls_dac_max = 1000000, cls_dac_min = 0\<rparr>"

interpretation sim: settable sim_oscillator_set_dac sim_value sim_wf
  by unfold_locales (auto simp: sim_oscillator_set_dac_def sim_wf_def split: option.splits)

section \<open>The dummy oscillator\<close>

definition DUMMY_SETPOINT_MIN :: int where "DUMMY_SETPOINT_MIN = 31500"
definition DUMMY_SETPOINT_MAX :: int where "DUMMY_SETPOINT_MAX = 1016052"

definition dummy_oscillator_get_ctrl :: "int \<Rightarrow> unit \<Rightarrow> oscillator_ctrl \<Rightarrow> int \<times> oscillator_ctrl \<times> unit" where
  "dummy_oscillator_get_ctrl rnd s ctrl =
     (0, ctrl\<lparr>dac := rnd mod (DUMMY_SETPOINT_MAX - DUMMY_SETPOINT_MIN) + DUMMY_SETPOINT_MIN\<rparr>, s)"

definition dummy_oscillator_apply_output :: "unit \<Rightarrow> od_output \<Rightarrow> int \<times> od_output \<times> unit" where
  "dummy_oscillator_apply_output s output = (0, output, s)"

definition dummy_oscillator_save :: "unit \<Rightarrow> unit \<Rightarrow> int \<times> unit \<times> unit" where
  "dummy_oscillator_save s u = (0, u, s)"

definition dummy_oscillator_parse_attributes ::
  "int \<Rightarrow> unit \<Rightarrow> oscillator_attributes \<Rightarrow> int \<times> oscillator_attributes \<times> unit" where
  "dummy_oscillator_parse_attributes rnd s a = (0, random_attributes rnd a, s)"

definition dummy_class :: "int \<Rightarrow> unit osc_class" where
  "dummy_class rnd = \<lparr>cls_name = ''dummy'', cls_get_ctrl = Some (dummy_oscillator_get_ctrl rnd),
     cls_save = Some dummy_oscillator_save,
     cls_parse_attributes = Some (dummy_oscillator_parse_attributes rnd),
     cls_apply_output = Some dummy_oscillator_apply_output, cls_get_phase_error = None,
     cls_get_disciplining_status = None, cls_push_gnss_info = None,
     cls_dac_max = DUMMY_SETPOINT_MAX, cls_dac_min = DUMMY_SETPOINT_MIN\<rparr>"

section \<open>Properties\<close>

lemma get_by_name_append:
  "oscillator_factory_get_by_name (fs @ gs) n =
     (case oscillator_factory_get_by_name fs n of None \<Rightarrow> oscillator_factory_get_by_name gs n | r \<Rightarrow> r)"
  by (induction fs) (auto split: option.splits)

definition registry_ok :: "'s factory list \<Rightarrow> bool" where
  "registry_ok fs \<longleftrightarrow> length fs \<le> 5 \<and> list_all (\<lambda>f. oscillator_factory_is_valid (Some f)) fs"

interpretation registry: machine "\<lambda>f fs. snd (oscillator_factory_register f fs)" registry_ok
  by unfold_locales
    (auto simp: registry_ok_def oscillator_factory_register_def MAX_OSCILLATOR_FACTORIES_def
      oscillator_factory_is_valid_def split: option.splits)

text \<open>The registry of drivers: however many drivers register, it holds at most five and only
  valid ones; a driver that registers successfully is found by its name unless one of that name was
  there before, which then stays the one that is found.\<close>

theorem registry_correct:
  "registry_ok (fold (\<lambda>f fs. snd (oscillator_factory_register f fs)) fs []) \<and>
   (case oscillator_factory_register (Some f) regs of (ret, regs') \<Rightarrow>
      (ret = 0 \<longrightarrow> oscillator_factory_get_by_name regs' (the (fac_name f)) =
         (case oscillator_factory_get_by_name regs (the (fac_name f)) of Some g \<Rightarrow> Some g | None \<Rightarrow> Some f)) \<and>
      (ret \<noteq> 0 \<longrightarrow> regs' = regs))"
  using registry.run_inv [of "[]" fs]
  by (auto simp: registry_ok_def oscillator_factory_register_def oscillator_factory_is_valid_def
      get_by_name_append split: option.splits)

definition sim_factory :: "sim_oscillator factory" where
  "sim_factory = \<lparr>fac_name = Some ''sim'', fac_class = sim_class 7,
     fac_new = Some (\<lambda>_. Some (oscillator_factory_init (sim_class 7) ''sim-0''
       \<lparr>control_fifo_errno = None, sim_value = 0\<rparr>)), fac_destroy = True\<rparr>"

theorem registry_correct_witness:
  "map_option fac_name (oscillator_factory_get_by_name
     (snd (oscillator_factory_register (Some sim_factory) [])) ''sim'') = Some (Some ''sim'')"
  using registry_correct [of "[]" sim_factory "[]"]
  by (simp add: oscillator_factory_register_def oscillator_factory_is_valid_def sim_factory_def
      MAX_OSCILLATOR_FACTORIES_def)

text \<open>A driver reached through the dispatcher: on the simulated oscillator a control value read
  after any sequence of outputs is the setpoint of one of them or the value before them, the error
  of a failed write is handed on, and an operation a class lacks answers \<open>-ENOSYS\<close> and changes
  nothing.\<close>

theorem dispatch_sim:
  assumes "osc_class o' = sim_class rnd" "sim_wf (osc_state o')" "sim_wf s"
  shows "(case oscillator_apply_output (Some o') (Some out) of (ret, _, osc) \<Rightarrow>
      (ret = 0 \<longrightarrow> fst (snd (oscillator_get_ctrl osc (Some c))) = Some (c\<lparr>dac := setpoint out\<rparr>)) \<and>
      (ret \<noteq> 0 \<longrightarrow> osc = Some o' \<and> control_fifo_errno (osc_state o') = Some (- ret))) \<and>
    oscillator_get_phase_error (Some o') (Some p) = (- ENOSYS, Some p, Some o') \<and>
    oscillator_get_ctrl None (Some c) = (- EINVAL, Some c, None) \<and>
    sim_value (fold (\<lambda>v s. snd (sim_oscillator_set_dac v s)) vs s) \<in> insert (sim_value s) (set vs)"
proof -
  have "sim_value (fold (\<lambda>v s. snd (sim_oscillator_set_dac v s)) vs s) \<in> insert (sim_value s) (set vs)"
    using sim.last_success [OF assms(3), of vs] .
  then show ?thesis
    using assms(1,2)
    by (auto simp: oscillator_apply_output_def oscillator_get_ctrl_def oscillator_get_phase_error_def
        dispatch_def sim_class_def sim_oscillator_apply_output_def sim_oscillator_get_ctrl_def
        sim_wf_def sim_oscillator_set_dac_def [of "setpoint out"] split: option.splits)
qed

definition sample_sim :: "sim_oscillator oscillator" where
  "sample_sim = oscillator_factory_init (sim_class 7) ''sim-0'' \<lparr>control_fifo_errno = None, sim_value = 0\<rparr>"

theorem dispatch_sim_witness:
  "oscillator_get_phase_error (Some sample_sim) (Some 5) = (- ENOSYS, Some 5, Some sample_sim) \<and>
   sim_value (fold (\<lambda>v s. snd (sim_oscillator_set_dac v s)) [2400, 2500] (osc_state sample_sim)) \<in>
     {0, 2400, 2500}"
proof -
  have o: "osc_class sample_sim = sim_class 7" "sim_wf (osc_state sample_sim)"
      "sim_value (osc_state sample_sim) = 0"
    by (simp_all add: sample_sim_def oscillator_factory_init_def sim_wf_def)
  from dispatch_sim [OF o(1,2,2), where p = 5 and vs = "[2400, 2500]"
      and c = "\<lparr>dac = 0, fine_ctrl = 0, coarse_ctrl = 0\<rparr>"
      and out = "\<lparr>od_action = ADJUST_FINE, setpoint = 9, value_phase_ctrl = 0\<rparr>"] o(3)
  show ?thesis by auto
qed

end
