(* ===== verification/Monitoring.thy ===== *)
theory Monitoring
  imports Gnss Oscillator
begin

text \<open>
  \<open>src/monitoring.c\<close>: the socket server that answers JSON requests and leaves them for the main
  loop. A peer is the state machine \<open>peer_state_t\<close>; the epoll loop is the step \<open>mon_event\<close> on
  the table of peers and the registered interest. The JSON library is the parameter \<open>json_request\<close>: what
  \<open>json_tokener_parse\<close> followed by reading the field \<open>request\<close> as a number yields, \<open>None\<close> when
  the text does not parse. An \<open>assert\<close> that fails is the result \<open>None\<close> of the callback.
  Floating-point values are fixed-point numbers (temperatures in thousandths, the rest in
  hundredths); \<open>JFix\<close> is such a number before it is printed with two decimals.
\<close>

section \<open>Requests\<close>

datatype monitoring_request =
    REQUEST_NONE | REQUEST_CALIBRATION | REQUEST_GNSS_START | REQUEST_GNSS_STOP
  | REQUEST_GNSS_SOFT | REQUEST_GNSS_HARD | REQUEST_GNSS_COLD | REQUEST_READ_EEPROM
  | REQUEST_SAVE_EEPROM | REQUEST_FAKE_HOLDOVER_START | REQUEST_FAKE_HOLDOVER_STOP
  | REQUEST_MRO_COARSE_INC | REQUEST_MRO_COARSE_DEC | REQUEST_RESET_UBLOX_SERIAL

definition request_table :: "monitoring_request list" where
  "request_table = [REQUEST_NONE, REQUEST_CALIBRATION, REQUEST_GNSS_START, REQUEST_GNSS_STOP,
     REQUEST_GNSS_SOFT, REQUEST_GNSS_HARD, REQUEST_GNSS_COLD, REQUEST_READ_EEPROM,
     REQUEST_SAVE_EEPROM, REQUEST_FAKE_HOLDOVER_START, REQUEST_FAKE_HOLDOVER_STOP,
     REQUEST_MRO_COARSE_INC, REQUEST_MRO_COARSE_DEC, REQUEST_RESET_UBLOX_SERIAL]"

text \<open>The number in the message, taken as an enumerator; any other number meets the default.\<close>

definition request_of_int :: "int \<Rightarrow> monitoring_request" where
  "request_of_int n = (if 0 \<le> n \<and> n < 14 then request_table ! nat n else REQUEST_NONE)"

record monitoring =
  request :: monitoring_request
  disciplining :: od_monitoring
  ctrl_values :: oscillator_ctrl
  osc_attributes :: oscillator_attributes
  mon_gnss_info :: gnss_state
  oscillator_model :: string
  mon_stop :: bool
  disciplining_mode :: bool
  phase_error_supported :: bool

section \<open>Responses\<close>

datatype json = JStr string | JInt int | JFix int | JBool bool | JObj "(string \<times> json) list"

text \<open>\<open>eeprom\<close> is the object built from the disciplining parameters, when they could be read.\<close>

definition json_handle_request ::
  "json option \<Rightarrow> monitoring_request \<Rightarrow> monitoring \<Rightarrow> (string \<times> json) list \<times> monitoring" where
  "json_handle_request eeprom r m =
     (let act = (\<lambda>s. ([(''Action requested'', JStr s)], m\<lparr>request := r\<rparr>))
      in case r of
        REQUEST_CALIBRATION \<Rightarrow> act ''calibration''
      | REQUEST_GNSS_START \<Rightarrow> act ''GNSS start''
      | REQUEST_GNSS_STOP \<Rightarrow> act ''GNSS stop''
      | REQUEST_GNSS_SOFT \<Rightarrow> act ''GNSS soft''
      | REQUEST_GNSS_HARD \<Rightarrow> act ''GNSS hard''
      | REQUEST_GNSS_COLD \<Rightarrow> act ''GNSS cold''
      | REQUEST_READ_EEPROM \<Rightarrow>
          ((case eeprom of None \<Rightarrow> [] | Some j \<Rightarrow> [(''disciplining_parameters'', j)]), m)
      | REQUEST_SAVE_EEPROM \<Rightarrow> act ''Save EEPROM''
      | REQUEST_FAKE_HOLDOVER_START \<Rightarrow> act ''Start fake holdover''
      | REQUEST_FAKE_HOLDOVER_STOP \<Rightarrow> act ''Stop fake holdover''
      | REQUEST_MRO_COARSE_INC \<Rightarrow> act ''MRO coarse inc''
      | REQUEST_MRO_COARSE_DEC \<Rightarrow> act ''MRO coarse dec''
      | REQUEST_RESET_UBLOX_SERIAL \<Rightarrow> act ''Ublox Serial reset''
      | REQUEST_NONE \<Rightarrow> ([(''Action requested'', JStr ''None'')], m))"

text \<open>\<open>json_object_new_int\<close> takes a 32-bit number.\<close>

definition json_add_clock_data :: "(int \<Rightarrow> string) \<Rightarrow> monitoring \<Rightarrow> string \<times> json" where
  "json_add_clock_data class_name m =
     (''clock'', JObj [(''class'', JStr (class_name (clock_class (disciplining m)))),
        (''offset'', JInt (to_i32 (osc_phase_error (osc_attributes m))))])"

definition json_add_disciplining_data :: "(int \<Rightarrow> string) \<Rightarrow> monitoring \<Rightarrow> string \<times> json" where
  "json_add_disciplining_data status_name m =
     (let d = disciplining m
      in (''disciplining'', JObj [(''status'', JStr (status_name (od_status d))),
        (''current_phase_convergence_count'', JInt (to_i32 (current_phase_convergence_count d))),
        (''valid_phase_convergence_threshold'', JInt (to_i32 (valid_phase_convergence_threshold d))),
        (''convergence_progress'', JFix (convergence_progress d)),
        (''ready_for_holdover'', JBool (ready_for_holdover d))]))"

definition json_add_oscillator_data :: "monitoring \<Rightarrow> string \<times> json" where
  "json_add_oscillator_data m =
     (''oscillator'', JObj [(''model'', JStr (oscillator_model m)),
        (''fine_ctrl'', JInt (to_i32 (fine_ctrl (ctrl_values m)))),
        (''coarse_ctrl'', JInt (to_i32 (coarse_ctrl (ctrl_values m)))),
        (''lock'', JBool (locked (osc_attributes m))),
        (''temperature'', JFix (temperature (osc_attributes m)))])"

text \<open>The survey position error is truncated from a float; \<open>svin_error\<close> gives it.\<close>

definition json_add_gnss_data :: "(int option \<Rightarrow> int) \<Rightarrow> monitoring \<Rightarrow> string \<times> json" where
  "json_add_gnss_data svin_error m =
     (let g = mon_gnss_info m
      in (''gnss'', JObj [(''fix'', JInt (gi_fix g)), (''fixOk'', JBool (gi_fixOk g)),
        (''antenna_power'', JInt (gi_antenna_power g)),
        (''antenna_status'', JInt (gi_antenna_status g)),
        (''lsChange'', JInt (gi_lsChange g)), (''leap_seconds'', JInt (gi_leap_seconds g)),
        (''satellites_count'', JInt (gi_satellites_count g)),
        (''survey_in_position_error'', JInt (svin_error (gi_survey_mean_v g))),
        (''time_accuracy'', JInt (to_i32 (gi_time_accuracy g)))]))"

text \<open>The external naming functions and the EEPROM's contents.\<close>

record mon_env =
  json_request :: "string \<Rightarrow> int option"
  class_name :: "int \<Rightarrow> string"
  status_name :: "int \<Rightarrow> string"
  svin_error :: "int option \<Rightarrow> int"
  eeprom_json :: "json option"

definition build_response ::
  "mon_env \<Rightarrow> monitoring_request \<Rightarrow> monitoring \<Rightarrow> (string \<times> json) list \<times> monitoring" where
  "build_response env r m =
     (case json_handle_request (eeprom_json env) r m of (resp, m') \<Rightarrow>
        (resp @
         (if disciplining_mode m' \<or> phase_error_supported m'
          then [json_add_disciplining_data (status_name env) m'] else []) @
         [json_add_clock_data (class_name env) m', json_add_oscillator_data m',
          json_add_gnss_data (svin_error env) m'],
         m'))"

section \<open>Peers\<close>

definition SENDBUF_SIZE :: nat where "SENDBUF_SIZE = 1024"

datatype processing_state = INITIAL_ACK | WAIT_FOR_MSG | IN_MSG

record peer_state =
  peer_st :: processing_state
  recv_buf :: string
  buf_end :: nat
  buf_ptr :: nat

record fd_status =
  want_read :: bool
  want_write :: bool

definition fd_status_R :: fd_status where "fd_status_R = \<lparr>want_read = True, want_write = False\<rparr>"
definition fd_status_W :: fd_status where "fd_status_W = \<lparr>want_read = False, want_write = True\<rparr>"
definition fd_status_NORW :: fd_status where "fd_status_NORW = \<lparr>want_read = False, want_write = False\<rparr>"

lemmas fd_status_defs = fd_status_R_def fd_status_W_def fd_status_NORW_def

definition on_peer_connected :: "fd_status \<times> peer_state" where
  "on_peer_connected =
     (fd_status_R, \<lparr>peer_st = WAIT_FOR_MSG, recv_buf = replicate SENDBUF_SIZE (CHR 0x00),
                    buf_end = 0, buf_ptr = 0\<rparr>)"

text \<open>One byte of the receive loop; the flag is \<open>ready_to_send\<close>.\<close>

definition recv_byte :: "(string \<Rightarrow> int option) \<Rightarrow> char \<Rightarrow> peer_state \<times> bool \<Rightarrow> (peer_state \<times> bool) option" where
  "recv_byte tok c pr =
     (case pr of (p, ready) \<Rightarrow>
        (case peer_st p of
           INITIAL_ACK \<Rightarrow> None
         | WAIT_FOR_MSG \<Rightarrow>
             Some (if c = CHR ''{''
                   then (p\<lparr>peer_st := IN_MSG, recv_buf := (recv_buf p)[0 := c],
                           buf_end := buf_end p + 1\<rparr>, ready)
                   else (p, ready))
         | IN_MSG \<Rightarrow>
             (if tok (c_string (recv_buf p)) \<noteq> None
              then Some (p\<lparr>peer_st := WAIT_FOR_MSG\<rparr>, True)
              else if buf_end p < SENDBUF_SIZE
              then Some (p\<lparr>recv_buf := (recv_buf p)[buf_end p := c], buf_end := buf_end p + 1\<rparr>, ready)
              else None)))"

fun recv_bytes :: "(string \<Rightarrow> int option) \<Rightarrow> string \<Rightarrow> peer_state \<times> bool \<Rightarrow> (peer_state \<times> bool) option" where
  "recv_bytes tok [] pr = Some pr"
| "recv_bytes tok (c # cs) pr =
     (case recv_byte tok c pr of None \<Rightarrow> None | Some pr' \<Rightarrow> recv_bytes tok cs pr')"

datatype recv_result = RecvClosed | RecvAgain | RecvError | RecvData string

definition on_peer_ready_recv ::
  "(string \<Rightarrow> int option) \<Rightarrow> recv_result \<Rightarrow> peer_state \<Rightarrow> (fd_status \<times> peer_state) option" where
  "on_peer_ready_recv tok r p =
     (if peer_st p = INITIAL_ACK \<or> buf_ptr p < buf_end p then Some (fd_status_R, p)
      else case r of
        RecvClosed \<Rightarrow> Some (fd_status_NORW, p)
      | RecvAgain \<Rightarrow> Some (fd_status_R, p)
      | RecvError \<Rightarrow> Some (fd_status_NORW, p)
      | RecvData buf \<Rightarrow>
          (case recv_bytes tok buf (p, False) of
             None \<Rightarrow> None
           | Some (p1, ready) \<Rightarrow>
               let (p2, ready2) = (if tok (c_string (recv_buf p1)) \<noteq> None
                                   then (p1\<lparr>peer_st := WAIT_FOR_MSG\<rparr>, True) else (p1, ready))
               in Some (\<lparr>want_read = \<not> ready2, want_write = ready2\<rparr>, p2)))"

text \<open>Sending: the response that goes out, if any, and whether \<open>send\<close> takes it.\<close>

definition on_peer_ready_send ::
  "mon_env \<Rightarrow> bool \<Rightarrow> peer_state \<Rightarrow> monitoring \<Rightarrow>
   fd_status \<times> (string \<times> json) list option \<times> peer_state \<times> monitoring" where
  "on_peer_ready_send env send_ok p m =
     (let p0 = p\<lparr>recv_buf := replicate SENDBUF_SIZE (CHR 0x00)\<rparr>
      in case json_request env (c_string (recv_buf p)) of
           None \<Rightarrow> (fd_status_W, None, p0, m)
         | Some n \<Rightarrow>
             (case build_response env (request_of_int n) m of (resp, m') \<Rightarrow>
                if send_ok
                then (fd_status_R, Some resp,
                      p0\<lparr>buf_ptr := 0, buf_end := 0,
                         peer_st := (if peer_st p0 = INITIAL_ACK then WAIT_FOR_MSG else peer_st p0)\<rparr>, m')
                else (fd_status_W, None, p0, m')))"

section \<open>The epoll loop\<close>

record mon_sys =
  peers :: "nat \<Rightarrow> peer_state"
  interest :: "nat \<Rightarrow> fd_status option" \<comment> \<open>registered peers\<close>
  mon :: monitoring
  responses :: "(nat \<times> (string \<times> json) list) list"
  mon_alive :: bool

definition MAXFDS :: nat where "MAXFDS = 16 * 1024"

datatype peer_event = EvErr nat | EvAccept nat | EvAcceptAgain | EvAcceptFailed
  | EvIn nat recv_result | EvOut nat bool

text \<open>Registering the status a callback returned, or closing the peer.\<close>

definition set_interest :: "nat \<Rightarrow> fd_status \<Rightarrow> mon_sys \<Rightarrow> mon_sys" where
  "set_interest fd st s =
     (if \<not> want_read st \<and> \<not> want_write st then s\<lparr>interest := (interest s)(fd := None)\<rparr>
      else s\<lparr>interest := (interest s)(fd := Some st)\<rparr>)"

text \<open>One event of the epoll loop. The kernel reports an event only for what is registered.\<close>

definition mon_event :: "mon_env \<Rightarrow> peer_event \<Rightarrow> mon_sys \<Rightarrow> mon_sys" where
  "mon_event env e s =
     (if \<not> mon_alive s then s
      else case e of
        EvErr fd \<Rightarrow> s\<lparr>interest := (interest s)(fd := None)\<rparr>
      | EvAcceptAgain \<Rightarrow> s
      | EvAcceptFailed \<Rightarrow> s\<lparr>mon_alive := False\<rparr>
      | EvAccept fd \<Rightarrow>
          if fd \<ge> MAXFDS then s\<lparr>mon_alive := False\<rparr>
          else s\<lparr>peers := (peers s)(fd := snd on_peer_connected),
                 interest := (interest s)(fd := Some (fst on_peer_connected))\<rparr>
      | EvIn fd r \<Rightarrow>
          (case interest s fd of
             Some st \<Rightarrow>
               if \<not> want_read st then s
               else (case on_peer_ready_recv (json_request env) r (peers s fd) of
                       None \<Rightarrow> s\<lparr>mon_alive := False\<rparr>
                     | Some (st', p) \<Rightarrow> set_interest fd st' (s\<lparr>peers := (peers s)(fd := p)\<rparr>))
           | None \<Rightarrow> s)
      | EvOut fd send_ok \<Rightarrow>
          (case interest s fd of
             Some st \<Rightarrow>
               if \<not> want_write st then s
               else (case on_peer_ready_send env send_ok (peers s fd) (mon s) of
                       (st', resp, p, m) \<Rightarrow>
                         set_interest fd st'
                           (s\<lparr>peers := (peers s)(fd := p), mon := m,
                              responses := responses s @ (case resp of None \<Rightarrow> [] | Some j \<Rightarrow> [(fd, j)])\<rparr>))
           | None \<Rightarrow> s))"

text \<open>The main loop's critical section: publish its data and take the request.\<close>

definition take_request ::
  "monitoring \<Rightarrow> monitoring_request \<times> monitoring" where
  "take_request m = (request m, m\<lparr>request := REQUEST_NONE\<rparr>)"

definition publish_data ::
  "oscillator_attributes \<Rightarrow> oscillator_ctrl \<Rightarrow> od_monitoring \<Rightarrow> monitoring \<Rightarrow> monitoring" where
  "publish_data attrs ctrl d m =
     m\<lparr>osc_attributes := attrs, ctrl_values := ctrl, disciplining := d\<rparr>"

section \<open>The mailbox\<close>

definition posts :: "monitoring_request \<Rightarrow> bool" where
  "posts r \<longleftrightarrow> r \<noteq> REQUEST_NONE \<and> r \<noteq> REQUEST_READ_EEPROM"

lemma json_handle_request_mon:
  "snd (json_handle_request j r m) = (if posts r then m\<lparr>request := r\<rparr> else m)"
  by (cases r) (simp_all add: json_handle_request_def posts_def)

lemma build_response_mon: "snd (build_response env r m) = (if posts r then m\<lparr>request := r\<rparr> else m)"
  using json_handle_request_mon [of "eeprom_json env" r m]
  by (simp add: build_response_def case_prod_beta)

interpretation req: mailbox "\<lambda>r m. snd (build_response env r m)" take_request posts REQUEST_NONE for env
  by unfold_locales (simp_all add: build_response_mon take_request_def)

text \<open>Requests answered between two rounds of the main loop: the main loop takes the last one
  that asks for an action, takes it once, and finds none in the next round; reading the EEPROM or
  only asking for data leaves an action that waits in place.\<close>

theorem request_mailbox:
  "fst (take_request (fold (\<lambda>r m. snd (build_response env r m)) rs m)) =
     (if filter posts rs = [] then request m else last (filter posts rs)) \<and>
   fst (take_request (snd (take_request (fold (\<lambda>r m. snd (build_response env r m)) rs m)))) = REQUEST_NONE"
  using req.last_post_wins [of env rs m] req.served_once [of env rs m]
  by (simp add: take_request_def)

section \<open>The receive buffer\<close>

definition peer_ok :: "peer_state \<Rightarrow> bool" where
  "peer_ok p \<longleftrightarrow> length (recv_buf p) = SENDBUF_SIZE \<and> buf_end p \<le> SENDBUF_SIZE \<and> buf_ptr p = 0 \<and>
     peer_st p \<noteq> INITIAL_ACK"

lemma on_peer_connected_ok: "peer_ok (snd on_peer_connected)"
  by (simp add: on_peer_connected_def peer_ok_def)

text \<open>A byte advances the end of the buffer by at most one, and a peer in the middle of a message
  has received at least one byte of it.\<close>

lemma recv_byte_step:
  assumes "peer_ok p" "buf_end p < SENDBUF_SIZE"
  shows "\<exists>p' r'. recv_byte tok c (p, r) = Some (p', r') \<and> peer_ok p' \<and> buf_end p' \<le> buf_end p + 1"
  using assms by (cases "peer_st p") (auto simp: recv_byte_def peer_ok_def)

lemma recv_bytes_total:
  assumes "peer_ok p" "buf_end p + length cs \<le> SENDBUF_SIZE"
  shows "\<exists>p' r'. recv_bytes tok cs (p, r) = Some (p', r') \<and> peer_ok p' \<and> buf_end p' \<le> buf_end p + length cs"
  using assms
proof (induction cs arbitrary: p r)
  case Nil
  then show ?case by simp
next
  case (Cons c cs)
  obtain p1 r1 where b: "recv_byte tok c (p, r) = Some (p1, r1)" "peer_ok p1" "buf_end p1 \<le> buf_end p + 1"
    using recv_byte_step [OF Cons.prems(1), of tok c r] Cons.prems(2) by auto
  with Cons.IH [OF b(2), of r1] Cons.prems(2) show ?case by fastforce
qed

definition recv_fits :: "recv_result \<Rightarrow> bool" where
  "recv_fits r \<longleftrightarrow> (case r of RecvData buf \<Rightarrow> length buf \<le> SENDBUF_SIZE | _ \<Rightarrow> True)"

lemma on_peer_ready_recv_ok:
  assumes "peer_ok p" "recv_fits r"
  shows "\<exists>st p'. on_peer_ready_recv tok r p = Some (st, p') \<and> peer_ok p'"
proof (cases "buf_ptr p < buf_end p")
  case True
  with assms show ?thesis by (simp add: on_peer_ready_recv_def)
next
  case False
  with assms(1) have z: "buf_end p = 0" "buf_ptr p = 0" "peer_st p \<noteq> INITIAL_ACK" by (auto simp: peer_ok_def)
  show ?thesis
  proof (cases r)
    case (RecvData buf)
    then obtain p1 b where "recv_bytes tok buf (p, False) = Some (p1, b)" "peer_ok p1"
      using recv_bytes_total [OF assms(1), of buf tok False] z assms(2) by (auto simp: recv_fits_def)
    with RecvData z show ?thesis by (auto simp: on_peer_ready_recv_def peer_ok_def Let_def)
  qed (use z assms in \<open>simp_all add: on_peer_ready_recv_def\<close>)
qed

lemma on_peer_ready_send_ok:
  assumes "peer_ok p"
  shows "peer_ok (fst (snd (snd (on_peer_ready_send env ok p m))))"
  using assms
  by (simp add: on_peer_ready_send_def peer_ok_def Let_def case_prod_beta split: option.split)

definition mon_ok :: "mon_sys \<Rightarrow> bool" where
  "mon_ok s \<longleftrightarrow> (\<forall>fd st. interest s fd = Some st \<longrightarrow>
     peer_ok (peers s fd) \<and> want_read st \<noteq> want_write st)"

definition legal_event :: "peer_event \<Rightarrow> bool" where
  "legal_event e \<longleftrightarrow>
     (case e of EvIn fd r \<Rightarrow> recv_fits r | EvAccept fd \<Rightarrow> fd < MAXFDS | EvAcceptFailed \<Rightarrow> False | _ \<Rightarrow> True)"

lemma recv_status:
  "on_peer_ready_recv tok r p = Some (st, p') \<Longrightarrow>
     st = fd_status_NORW \<or> want_read st \<noteq> want_write st"
  by (auto simp: on_peer_ready_recv_def fd_status_defs Let_def
      split: if_splits recv_result.splits option.splits prod.splits)

lemma send_status:
  "fst (on_peer_ready_send env ok p m) \<in> {fd_status_R, fd_status_W}"
  by (simp add: on_peer_ready_send_def Let_def case_prod_beta split: option.split)

lemma set_interest_ok:
  assumes "mon_ok s" "st = fd_status_NORW \<or> want_read st \<noteq> want_write st" "peer_ok p"
  shows "mon_ok (set_interest fd st (s\<lparr>peers := (peers s)(fd := p)\<rparr>))"
  using assms by (auto simp: mon_ok_def set_interest_def fd_status_defs)

lemma mon_ok_upd [simp]:
  "mon_ok (s\<lparr>mon := m\<rparr>) = mon_ok s" "mon_ok (s\<lparr>responses := rs\<rparr>) = mon_ok s"
  "mon_ok (s\<lparr>mon_alive := a\<rparr>) = mon_ok s"
  by (simp_all add: mon_ok_def)

lemma set_interest_alive [simp]: "mon_alive (set_interest fd st s) = mon_alive s"
  by (simp add: set_interest_def)

lemma mon_in:
  "mon_alive s \<Longrightarrow> interest s fd = Some st \<Longrightarrow> want_read st \<Longrightarrow>
     on_peer_ready_recv (json_request env) r (peers s fd) = Some (st', p) \<Longrightarrow>
     mon_event env (EvIn fd r) s = set_interest fd st' (s\<lparr>peers := (peers s)(fd := p)\<rparr>)"
  by (simp add: mon_event_def)

lemma mon_out:
  "mon_alive s \<Longrightarrow> interest s fd = Some st \<Longrightarrow> want_write st \<Longrightarrow>
     on_peer_ready_send env ok (peers s fd) (mon s) = (st', resp, p, m) \<Longrightarrow>
     mon_event env (EvOut fd ok) s = set_interest fd st'
       (s\<lparr>peers := (peers s)(fd := p), mon := m,
          responses := responses s @ (case resp of None \<Rightarrow> [] | Some j \<Rightarrow> [(fd, j)])\<rparr>)"
  by (simp add: mon_event_def)

lemma mon_not_ready:
  "interest s fd = None \<Longrightarrow> mon_event env (EvIn fd r) s = s"
  "interest s fd = None \<Longrightarrow> mon_event env (EvOut fd ok) s = s"
  "interest s fd = Some st \<Longrightarrow> \<not> want_read st \<Longrightarrow> mon_event env (EvIn fd r) s = s"
  "interest s fd = Some st \<Longrightarrow> \<not> want_write st \<Longrightarrow> mon_event env (EvOut fd ok) s = s"
  by (simp_all add: mon_event_def)

lemma mon_in_ok:
  assumes ok: "mon_ok s" and fits: "recv_fits r" and alive: "mon_alive s"
  shows "mon_ok (mon_event env (EvIn fd r) s) \<and> mon_alive (mon_event env (EvIn fd r) s)"
proof (cases "interest s fd")
  case (Some st)
  show ?thesis
  proof (cases "want_read st")
    case True
    have "peer_ok (peers s fd)" using ok Some by (simp add: mon_ok_def)
    from on_peer_ready_recv_ok [OF this fits, of "json_request env"] obtain st' p where
      r: "on_peer_ready_recv (json_request env) r (peers s fd) = Some (st', p)" "peer_ok p" by blast
    show ?thesis
      using set_interest_ok [OF ok recv_status [OF r(1)] r(2)] mon_in [OF alive Some True r(1)] alive
      by simp
  qed (use Some ok alive mon_not_ready in simp)
qed (use ok alive mon_not_ready in simp)

lemma mon_out_ok:
  assumes ok: "mon_ok s" and alive: "mon_alive s"
  shows "mon_ok (mon_event env (EvOut fd b) s) \<and> mon_alive (mon_event env (EvOut fd b) s)"
proof (cases "interest s fd")
  case (Some st)
  show ?thesis
  proof (cases "want_write st")
    case True
    obtain st' resp p m where r: "on_peer_ready_send env b (peers s fd) (mon s) = (st', resp, p, m)"
      by (metis prod_cases4)
    have p: "peer_ok p"
      using on_peer_ready_send_ok [of "peers s fd" env b "mon s"] ok Some r by (simp add: mon_ok_def)
    have st': "st' = fd_status_NORW \<or> want_read st' \<noteq> want_write st'"
      using send_status [of env b "peers s fd" "mon s"] r by (auto simp: fd_status_defs)
    have "mon_ok (set_interest fd st' (s\<lparr>peers := (peers s)(fd := p), mon := m, responses := rs\<rparr>)) =
        mon_ok (set_interest fd st' (s\<lparr>peers := (peers s)(fd := p)\<rparr>))" for rs
      by (simp add: set_interest_def mon_ok_def)
    then show ?thesis
      using set_interest_ok [OF ok st' p] mon_out [OF alive Some True r] alive by simp
  qed (use Some ok alive mon_not_ready in simp)
qed (use ok alive mon_not_ready in simp)

lemma mon_accept_ok:
  assumes "mon_ok s" "mon_alive s" "fd < MAXFDS"
  shows "mon_ok (mon_event env (EvAccept fd) s) \<and> mon_alive (mon_event env (EvAccept fd) s)"
  using assms on_peer_connected_ok
  by (simp add: mon_event_def mon_ok_def on_peer_connected_def fd_status_defs)

lemma mon_event_ok:
  assumes "mon_ok s" "legal_event e" "mon_alive s"
  shows "mon_ok (mon_event env e s) \<and> mon_alive (mon_event env e s)"
  using assms
  by (cases e) (simp_all add: legal_event_def mon_in_ok mon_out_ok mon_accept_ok,
      simp_all add: mon_event_def mon_ok_def)

definition mon_start :: "monitoring \<Rightarrow> mon_sys" where
  "mon_start m = \<lparr>peers = (\<lambda>_. snd on_peer_connected), interest = (\<lambda>_. None), mon = m,
     responses = [], mon_alive = True\<rparr>"

lemma mon_run_ok:
  "mon_ok s \<Longrightarrow> mon_alive s \<Longrightarrow> list_all legal_event es \<Longrightarrow>
     mon_ok (fold (mon_event env) es s) \<and> mon_alive (fold (mon_event env) es s)"
  by (induction es arbitrary: s) (auto simp: mon_event_ok)


section \<open>A request from end to end\<close>

text \<open>\<open>utils/art_monitoring_client.c\<close>: the request a name on the command line stands for, and
  the number the client sends for it.\<close>

definition client_request :: "string \<Rightarrow> monitoring_request option" where
  "client_request optarg =
     (if optarg = ''calibration'' then Some REQUEST_CALIBRATION
      else if optarg = ''gnss_start'' then Some REQUEST_GNSS_START
      else if optarg = ''gnss_stop'' then Some REQUEST_GNSS_STOP
      else if optarg = ''gnss_soft'' then Some REQUEST_GNSS_SOFT
      else if optarg = ''gnss_hard'' then Some REQUEST_GNSS_HARD
      else if optarg = ''gnss_cold'' then Some REQUEST_GNSS_COLD
      else if optarg = ''read_eeprom'' then Some REQUEST_READ_EEPROM
      else if optarg = ''save_eeprom'' then Some REQUEST_SAVE_EEPROM
      else if optarg = ''fake_holdover_start'' then Some REQUEST_FAKE_HOLDOVER_START
      else if optarg = ''fake_holdover_stop'' then Some REQUEST_FAKE_HOLDOVER_STOP
      else if optarg = ''mro_coarse_inc'' then Some REQUEST_MRO_COARSE_INC
      else if optarg = ''mro_coarse_dec'' then Some REQUEST_MRO_COARSE_DEC
      else None)"

definition request_code :: "monitoring_request \<Rightarrow> int" where
  "request_code r = int (length (takeWhile (\<lambda>x. x \<noteq> r) request_table))"

lemma request_of_code: "request_of_int (request_code r) = r"
  by (cases r) (simp_all add: request_code_def request_of_int_def request_table_def)

definition buf_of :: "string \<Rightarrow> string" where
  "buf_of xs = xs @ replicate (SENDBUF_SIZE - length xs) (CHR 0x00)"

lemma buf_of_Nil: "buf_of [] = replicate SENDBUF_SIZE (CHR 0x00)"
  by (simp add: buf_of_def)

lemma buf_of_snoc:
  assumes "length xs < SENDBUF_SIZE"
  shows "(buf_of xs)[length xs := c] = buf_of (xs @ [c])"
proof -
  obtain n where "SENDBUF_SIZE - length xs = Suc n" using assms by (metis Suc_diff_Suc)
  then show ?thesis by (simp add: buf_of_def list_update_append)
qed

lemma c_string_buf:
  assumes "CHR 0x00 \<notin> set xs" "length xs < SENDBUF_SIZE"
  shows "c_string (buf_of xs) = xs"
proof -
  obtain n where "SENDBUF_SIZE - length xs = Suc n" using assms(2) by (metis Suc_diff_Suc)
  then show ?thesis
    unfolding c_string_def buf_of_def using assms(1) by (subst takeWhile_append2) auto
qed

definition in_msg :: "string \<Rightarrow> peer_state" where
  "in_msg xs = \<lparr>peer_st = IN_MSG, recv_buf = buf_of xs, buf_end = length xs, buf_ptr = 0\<rparr>"

lemma recv_bytes_msg:
  assumes "CHR 0x00 \<notin> set (xs @ ys)" "length (xs @ ys) < SENDBUF_SIZE"
    and "\<forall>k < length ys. tok (xs @ take k ys) = None"
  shows "recv_bytes tok ys (in_msg xs, False) = Some (in_msg (xs @ ys), False)"
  using assms
proof (induction ys arbitrary: xs)
  case Nil
  then show ?case by simp
next
  case (Cons y ys)
  have "tok xs = None" using Cons.prems(3)[rule_format, of 0] by simp
  then have "recv_byte tok y (in_msg xs, False) = Some (in_msg (xs @ [y]), False)"
    using Cons.prems(1,2) by (simp add: recv_byte_def in_msg_def c_string_buf buf_of_snoc)
  moreover have "recv_bytes tok ys (in_msg (xs @ [y]), False) = Some (in_msg ((xs @ [y]) @ ys), False)"
    by (rule Cons.IH) (use Cons.prems in \<open>fastforce dest: spec [where x = "Suc _"]\<close>)+
  ultimately show ?case by simp
qed

lemma recv_first: "recv_byte tok (CHR ''{'') (snd on_peer_connected, False) = Some (in_msg ''{'', False)"
  using buf_of_snoc [of "[]" "CHR ''{''"]
  by (simp add: recv_byte_def on_peer_connected_def in_msg_def buf_of_Nil SENDBUF_SIZE_def)

text \<open>A JSON text that arrives whole: it starts with a brace, has no NUL, fits the buffer with its
  terminator and none of its beginnings parses.\<close>

definition whole_json :: "(string \<Rightarrow> int option) \<Rightarrow> string \<Rightarrow> bool" where
  "whole_json tok m \<longleftrightarrow> m \<noteq> [] \<and> hd m = CHR ''{'' \<and> CHR 0x00 \<notin> set m \<and> length m < SENDBUF_SIZE \<and>
     (\<forall>k < length m. 0 < k \<longrightarrow> tok (take k m) = None)"

lemma recv_whole:
  assumes "whole_json tok m"
  shows "recv_bytes tok m (snd on_peer_connected, False) = Some (in_msg m, False)"
proof -
  obtain ys where m: "m = CHR ''{'' # ys" using assms by (cases m) (auto simp: whole_json_def)
  have "recv_bytes tok ys (in_msg ''{'', False) = Some (in_msg (''{'' @ ys), False)"
  proof (rule recv_bytes_msg)
    show "\<forall>k < length ys. tok (''{'' @ take k ys) = None"
      using assms m by (fastforce simp: whole_json_def dest: spec [where x = "Suc _"])
  qed (use assms m in \<open>auto simp: whole_json_def\<close>)
  with m show ?thesis by (simp add: recv_first)
qed

lemma peer_recv_whole:
  assumes "whole_json tok m"
  shows "on_peer_ready_recv tok (RecvData m) (snd on_peer_connected) =
    Some (if tok m \<noteq> None then (fd_status_W, (in_msg m)\<lparr>peer_st := WAIT_FOR_MSG\<rparr>)
          else (fd_status_R, in_msg m))"
proof -
  have "c_string (recv_buf (in_msg m)) = m"
    using assms by (simp add: in_msg_def c_string_buf whole_json_def)
  then show ?thesis
    using recv_whole [OF assms]
    by (simp add: on_peer_ready_recv_def Let_def fd_status_defs) (simp add: on_peer_connected_def)
qed

lemma peer_send_whole:
  assumes "whole_json (json_request env) m" "json_request env m = Some n"
  shows "on_peer_ready_send env True ((in_msg m)\<lparr>peer_st := WAIT_FOR_MSG\<rparr>) mo =
    (fd_status_R, Some (fst (build_response env (request_of_int n) mo)), snd on_peer_connected,
     snd (build_response env (request_of_int n) mo))"
  using assms
  by (simp add: on_peer_ready_send_def in_msg_def c_string_buf whole_json_def Let_def case_prod_beta
      on_peer_connected_def)

definition accepted :: "nat \<Rightarrow> monitoring \<Rightarrow> mon_sys" where
  "accepted fd mo =
     (mon_start mo)\<lparr>interest := (\<lambda>_. None)(fd := Some fd_status_R)\<rparr>"

lemma accepted_simps [simp]:
  "mon_alive (accepted fd mo)" "interest (accepted fd mo) fd = Some fd_status_R"
  "peers (accepted fd mo) fd' = snd on_peer_connected" "responses (accepted fd mo) = []"
  "mon (accepted fd mo) = mo"
  by (simp_all add: accepted_def mon_start_def)

lemma accepts: "fd < MAXFDS \<Longrightarrow> mon_event env (EvAccept fd) (mon_start mo) = accepted fd mo"
  by (simp add: mon_event_def mon_start_def accepted_def on_peer_connected_def fun_upd_def)

lemma set_interest_R:
  "set_interest fd fd_status_R s = s\<lparr>interest := (interest s)(fd := Some fd_status_R)\<rparr>"
  "set_interest fd fd_status_W s = s\<lparr>interest := (interest s)(fd := Some fd_status_W)\<rparr>"
  by (simp_all add: set_interest_def fd_status_defs)

lemma wants [simp]: "want_read fd_status_R" "want_write fd_status_W"
  by (simp_all add: fd_status_defs)

text \<open>A request of the command-line client reaches the main loop: the client's name for it
  becomes a number, the server reads the message that carries the number, answers it, is ready for
  the next message, and the main loop takes exactly the request the name stands for.\<close>

theorem client_request_served:
  assumes "client_request name = Some r" "whole_json (json_request env) m"
    and "json_request env m = Some (request_code r)" "fd < MAXFDS"
  shows "let s = fold (mon_event env) [EvAccept fd, EvIn fd (RecvData m), EvOut fd True] (mon_start mo)
    in responses s = [(fd, fst (build_response env r mo))] \<and>
       peers s fd = snd on_peer_connected \<and> interest s fd = Some fd_status_R \<and>
       fst (take_request (mon s)) = (if r = REQUEST_READ_EEPROM then request mo else r)"
proof -
  let ?s1 = "accepted fd mo"
  have s2: "mon_event env (EvIn fd (RecvData m)) ?s1 =
      set_interest fd fd_status_W (?s1\<lparr>peers := (peers ?s1)(fd := (in_msg m)\<lparr>peer_st := WAIT_FOR_MSG\<rparr>)\<rparr>)"
    (is "_ = ?s2")
    by (rule mon_in [where st = fd_status_R])
      (use peer_recv_whole [OF assms(2)] assms(3) in simp_all)
  have s3: "mon_event env (EvOut fd True) ?s2 =
      set_interest fd fd_status_R
       (?s2\<lparr>peers := (peers ?s2)(fd := snd on_peer_connected),
            mon := snd (build_response env r mo),
            responses := responses ?s2 @
              (case Some (fst (build_response env r mo)) of None \<Rightarrow> [] | Some j \<Rightarrow> [(fd, j)])\<rparr>)"
    by (rule mon_out [where st = fd_status_W])
      (use peer_send_whole [OF assms(2,3), of mo] in
        \<open>simp_all add: set_interest_R request_of_code\<close>)
  have "r \<noteq> REQUEST_NONE" using assms(1) by (auto simp: client_request_def split: if_splits)
  then show ?thesis
    using s3 by (simp add: accepts [OF assms(4)] s2 Let_def)
      (simp add: set_interest_R build_response_mon take_request_def posts_def)
qed

text \<open>C40. A message that arrives in two pieces is never completed: after the first piece the server
  does not read from that peer again, so whatever is sent later, and even when the peer
  disconnects, nothing changes.\<close>

theorem partial_message_stuck:
  assumes "whole_json (json_request env) piece" "json_request env piece = None" "fd < MAXFDS"
  shows "let s = fold (mon_event env) [EvAccept fd, EvIn fd (RecvData piece)] (mon_start mo)
    in fold (mon_event env) (map (EvIn fd) rs) s = s \<and> interest s fd = Some fd_status_R \<and>
       responses s = []"
proof -
  let ?s1 = "accepted fd mo"
  have s2: "mon_event env (EvIn fd (RecvData piece)) ?s1 =
      set_interest fd fd_status_R (?s1\<lparr>peers := (peers ?s1)(fd := in_msg piece)\<rparr>)" (is "_ = ?s2")
    by (rule mon_in [where st = fd_status_R])
      (use peer_recv_whole [OF assms(1)] assms(2) in simp_all)
  have len: "0 < length piece" using assms(1) by (simp add: whole_json_def)
  have again: "mon_event env (EvIn fd r) ?s2 = ?s2" for r
  proof -
    have "on_peer_ready_recv (json_request env) r (in_msg piece) = Some (fd_status_R, in_msg piece)"
      using len by (simp add: on_peer_ready_recv_def in_msg_def)
    then have "mon_event env (EvIn fd r) ?s2 =
        set_interest fd fd_status_R (?s2\<lparr>peers := (peers ?s2)(fd := in_msg piece)\<rparr>)"
      by (intro mon_in [where st = fd_status_R]) (simp_all add: set_interest_R)
    then show ?thesis by (simp add: set_interest_R)
  qed
  have "fold (mon_event env) (map (EvIn fd) rs) ?s2 = ?s2"
    by (induction rs) (simp_all only: list.map fold_simps again)
  then show ?thesis
    by (simp add: accepts [OF assms(3)] s2 Let_def) (simp add: set_interest_R)
qed

section \<open>A concrete run\<close>

definition sample_text :: string where
  "sample_text = ''{ '' @ [CHR 0x22] @ ''request'' @ [CHR 0x22] @ '': 3 }''"

definition sample_env :: mon_env where
  "sample_env = \<lparr>json_request = (\<lambda>s. if s = sample_text then Some 3 else None),
     class_name = (\<lambda>_. ''Uncalibrated''), status_name = (\<lambda>_. ''WARMUP''), svin_error = (\<lambda>_. -1),
     eeprom_json = None\<rparr>"

definition sample_monitoring :: monitoring where
  "sample_monitoring = \<lparr>request = REQUEST_NONE,
     disciplining = \<lparr>clock_class = 0, od_status = 0, current_phase_convergence_count = -1,
       valid_phase_convergence_threshold = -1, convergence_progress = 0, ready_for_holdover = False\<rparr>,
     ctrl_values = \<lparr>dac = 0, fine_ctrl = -1, coarse_ctrl = -1\<rparr>,
     osc_attributes = \<lparr>osc_phase_error = 0, temperature = -400000, locked = False\<rparr>,
     mon_gnss_info = gnss_mirror sample_session, oscillator_model = ''mRO50'', mon_stop = False,
     disciplining_mode = True, phase_error_supported = False\<rparr>"

lemma sample_text_whole: "whole_json (json_request sample_env) sample_text"
proof -
  have "take k sample_text \<noteq> sample_text" if "k < length sample_text" for k
    using that by simp
  then have "\<forall>k < length sample_text. 0 < k \<longrightarrow> json_request sample_env (take k sample_text) = None"
    by (simp add: sample_env_def)
  moreover have "sample_text \<noteq> []" "hd sample_text = CHR ''{''" "CHR 0x00 \<notin> set sample_text"
      "length sample_text < SENDBUF_SIZE"
    by (simp_all add: sample_text_def SENDBUF_SIZE_def)
  ultimately show ?thesis by (simp only: whole_json_def simp_thms)
qed


theorem client_request_served_witness:
  "fst (take_request (mon (fold (mon_event sample_env) [EvAccept 5, EvIn 5 (RecvData sample_text), EvOut 5 True]
     (mon_start sample_monitoring)))) = REQUEST_GNSS_STOP"
proof -
  have "json_request sample_env sample_text = Some (request_code REQUEST_GNSS_STOP)"
    by (simp add: sample_env_def request_code_def request_table_def)
  moreover have "client_request ''gnss_stop'' = Some REQUEST_GNSS_STOP" by (simp add: client_request_def)
  moreover have "5 < MAXFDS" by (simp add: MAXFDS_def)
  ultimately show ?thesis
    using client_request_served [of "''gnss_stop''" REQUEST_GNSS_STOP sample_env sample_text 5 sample_monitoring]
      sample_text_whole by (simp add: Let_def)
qed

theorem partial_message_stuck_witness:
  "responses (fold (mon_event sample_env) [EvAccept 5, EvIn 5 (RecvData ''{'')] (mon_start sample_monitoring)) = []"
proof -
  have "whole_json (json_request sample_env) ''{''" "json_request sample_env ''{'' = None" "5 < MAXFDS"
    by (auto simp: whole_json_def sample_env_def sample_text_def SENDBUF_SIZE_def MAXFDS_def)
  from partial_message_stuck [OF this, where mo = sample_monitoring and rs = "[]"] show ?thesis
    by (simp add: Let_def)
qed

end
