(* ===== verification/Phasemeter.thy ===== *)
theory Phasemeter
  imports Prelude
begin

text \<open>
  \<open>src/phasemeter.c\<close>: the thread that pairs the external timestamps of the GNSS PPS and of the
  card's internal PPS into a phase error. The PTP clock is an input list of read results; the
  thread is a machine that consumes one result per step, with the program points of
  \<open>phasemeter_thread\<close> (waiting for the first or for the second timestamp), its local copy of
  \<open>stop\<close> and the structure it shares with its clients. Every update of the shared structure under
  the mutex is one publication. Status codes come from the disciplining library's header, which
  is not in the tree; they are an enumeration.
\<close>

datatype pm_status = PHASEMETER_INIT | PHASEMETER_NO_GNSS_TIMESTAMPS |
  PHASEMETER_NO_ART_INTERNAL_TIMESTAMPS | PHASEMETER_BOTH_TIMESTAMPS

definition EXTTS_INDEX_ART_INTERNAL_PPS :: int where "EXTTS_INDEX_ART_INTERNAL_PPS = 5"
definition EXTTS_INDEX_GNSS_PPS :: int where "EXTTS_INDEX_GNSS_PPS = 0"
definition MILLISECONDS_500 :: int where "MILLISECONDS_500 = 500000000"

lemmas pm_consts = EXTTS_INDEX_ART_INTERNAL_PPS_def EXTTS_INDEX_GNSS_PPS_def MILLISECONDS_500_def

record external_timestamp =
  ts_timestamp :: int
  ts_index :: int

text \<open>One \<open>read\<close> of the PTP clock: short, or an event with its seconds, nanoseconds and index.
  The result is the returned index and what was stored through \<open>nsec\<close>, if anything.\<close>

datatype extts_read = ExttsShort | ExttsEvent int int int

definition read_extts :: "extts_read \<Rightarrow> int \<times> int option" where
  "read_extts r =
     (case r of
        ExttsShort \<Rightarrow> (-1, None)
      | ExttsEvent sec ns idx \<Rightarrow>
          if sec < 0 then (- EINVAL, None)
          else (to_i32 idx, Some (to_i64 (sec * 1000000000 + ns))))"

text \<open>\<open>enable_extts\<close> and \<open>disable_extts\<close>: -1 when the ioctl fails.\<close>

definition enable_extts :: "int \<Rightarrow> int" where
  "enable_extts ioctl_ret = (if ioctl_ret < 0 then -1 else 0)"

definition disable_extts :: "int \<Rightarrow> int" where
  "disable_extts ioctl_ret = (if ioctl_ret < 0 then -1 else 0)"

record phasemeter =
  phase_error :: int
  pm_status :: pm_status
  pm_stop :: bool

datatype pm_pc = WaitFirst | WaitSecond external_timestamp | PmDone

record pm_thread =
  shared :: phasemeter
  pm_pc :: pm_pc
  pm_stop_seen :: bool \<comment> \<open>the local variable \<open>stop\<close>\<close>
  published :: "(pm_status \<times> int) list" \<comment> \<open>the shared structure at each signal, oldest first\<close>

text \<open>The fresh structure: \<open>malloc\<close> leaves \<open>phase_error\<close> unspecified.\<close>

definition phasemeter_init :: "int \<Rightarrow> phasemeter" where
  "phasemeter_init junk = \<lparr>phase_error = junk, pm_status = PHASEMETER_INIT, pm_stop = False\<rparr>"

text \<open>Enabling the two timestamp channels: the thread returns at once when either fails.\<close>

definition phasemeter_start :: "int \<Rightarrow> int \<Rightarrow> phasemeter \<Rightarrow> pm_thread" where
  "phasemeter_start ioctl_internal ioctl_gnss p =
     \<lparr>shared = p,
      pm_pc = (if enable_extts ioctl_internal \<noteq> 0 then PmDone
               else if enable_extts ioctl_gnss \<noteq> 0 then PmDone else WaitFirst),
      pm_stop_seen = pm_stop p, published = []\<rparr>"

text \<open>The critical section: new contents, re-read \<open>stop\<close>, signal.\<close>

definition publish :: "phasemeter \<Rightarrow> pm_thread \<Rightarrow> pm_thread" where
  "publish p t = t\<lparr>shared := p, pm_stop_seen := pm_stop p,
                   published := published t @ [(pm_status p, phase_error p)]\<rparr>"

text \<open>Back at the head of the while loop with a first timestamp in hand.\<close>

definition loop_head :: "external_timestamp \<Rightarrow> pm_thread \<Rightarrow> pm_thread" where
  "loop_head ts1 t = t\<lparr>pm_pc := (if pm_stop_seen t then PmDone else WaitSecond ts1)\<rparr>"

definition same_index :: "external_timestamp \<Rightarrow> external_timestamp \<Rightarrow> bool" where
  "same_index ts1 ts2 \<longleftrightarrow> ts_index ts1 = ts_index ts2"

definition pair_timestamps :: "external_timestamp \<Rightarrow> external_timestamp \<Rightarrow> pm_thread \<Rightarrow> pm_thread" where
  "pair_timestamps ts1 ts2 t =
     (if ts_index ts1 = EXTTS_INDEX_ART_INTERNAL_PPS \<and> same_index ts1 ts2 then
        loop_head ts2 (publish ((shared t)\<lparr>pm_status := PHASEMETER_NO_GNSS_TIMESTAMPS\<rparr>) t)
      else if ts_index ts1 = EXTTS_INDEX_GNSS_PPS \<and> same_index ts1 ts2 then
        loop_head ts2 (publish ((shared t)\<lparr>pm_status := PHASEMETER_NO_ART_INTERNAL_TIMESTAMPS\<rparr>) t)
      else
        let d0 = to_i64 (ts_timestamp ts2 - ts_timestamp ts1);
            d = (if ts_index ts1 = EXTTS_INDEX_GNSS_PPS then to_i64 (- d0) else d0)
        in if d > MILLISECONDS_500 \<or> d < - MILLISECONDS_500
           then loop_head ts2 t
           else (publish ((shared t)\<lparr>pm_status := PHASEMETER_BOTH_TIMESTAMPS,
                                     phase_error := to_i32 d\<rparr>) t)\<lparr>pm_pc := WaitFirst\<rparr>)"

text \<open>One read of the clock: the two \<open>do ... while\<close> loops skip every index but the two they
  asked for.\<close>

definition wanted_stamp :: "extts_read \<Rightarrow> external_timestamp option" where
  "wanted_stamp r =
     (case read_extts r of (i, ns) \<Rightarrow>
        if i \<noteq> EXTTS_INDEX_ART_INTERNAL_PPS \<and> i \<noteq> EXTTS_INDEX_GNSS_PPS then None
        else map_option (\<lambda>n. \<lparr>ts_timestamp = n, ts_index = i\<rparr>) ns)"

datatype pm_event = PmRead extts_read | PmStop

definition phasemeter_stop :: "pm_thread \<Rightarrow> pm_thread" where
  "phasemeter_stop t = t\<lparr>shared := (shared t)\<lparr>pm_stop := True\<rparr>\<rparr>"

definition take_stamp :: "external_timestamp \<Rightarrow> pm_thread \<Rightarrow> pm_thread" where
  "take_stamp ts t =
     (case pm_pc t of
        PmDone \<Rightarrow> t
      | WaitFirst \<Rightarrow> loop_head ts t
      | WaitSecond ts1 \<Rightarrow> pair_timestamps ts1 ts t)"

definition phasemeter_thread :: "pm_event \<Rightarrow> pm_thread \<Rightarrow> pm_thread" where
  "phasemeter_thread e t =
     (case e of
        PmStop \<Rightarrow> phasemeter_stop t
      | PmRead r \<Rightarrow> (case wanted_stamp r of None \<Rightarrow> t | Some ts \<Rightarrow> take_stamp ts t))"

definition get_phase_error :: "pm_thread \<Rightarrow> pm_status \<times> int" where
  "get_phase_error t = (pm_status (shared t), phase_error (shared t))"

section \<open>The invariant of the thread\<close>

definition is_stamp :: "external_timestamp \<Rightarrow> bool" where
  "is_stamp ts \<longleftrightarrow>
     (ts_index ts = EXTTS_INDEX_ART_INTERNAL_PPS \<or> ts_index ts = EXTTS_INDEX_GNSS_PPS)"

definition sound_measure :: "pm_status \<times> int \<Rightarrow> bool" where
  "sound_measure m \<longleftrightarrow>
     fst m \<noteq> PHASEMETER_INIT \<and>
     (fst m = PHASEMETER_BOTH_TIMESTAMPS \<longrightarrow> \<bar>snd m\<bar> \<le> MILLISECONDS_500)"

definition pm_ok :: "pm_thread \<Rightarrow> bool" where
  "pm_ok t \<longleftrightarrow>
     (\<forall>m \<in> set (published t). sound_measure m) \<and>
     (published t \<noteq> [] \<longrightarrow> last (published t) = get_phase_error t) \<and>
     (case pm_pc t of WaitSecond ts1 \<Rightarrow> is_stamp ts1 | _ \<Rightarrow> True)"

lemma wanted_is_stamp: "wanted_stamp r = Some ts \<Longrightarrow> is_stamp ts"
  by (auto simp: wanted_stamp_def is_stamp_def split: prod.splits if_splits)

lemma small_diff_fits: "\<not> (d > MILLISECONDS_500 \<or> d < - MILLISECONDS_500) \<Longrightarrow> to_i32 d = d"
  by (simp add: pm_consts to_i32_id fits_i32_def)

lemma pair_ok:
  assumes "pm_ok t" "is_stamp ts1" "is_stamp ts2"
  shows "pm_ok (pair_timestamps ts1 ts2 t)"
  using assms small_diff_fits
  by (auto simp: pair_timestamps_def pm_ok_def loop_head_def publish_def sound_measure_def
      get_phase_error_def Let_def split: if_splits)

lemma thread_read:
  "wanted_stamp r = None \<Longrightarrow> phasemeter_thread (PmRead r) t = t"
  "wanted_stamp r = Some ts \<Longrightarrow> phasemeter_thread (PmRead r) t = take_stamp ts t"
  by (simp_all add: phasemeter_thread_def)

lemma thread_stop [simp]: "phasemeter_thread PmStop t = phasemeter_stop t"
  by (simp add: phasemeter_thread_def)

lemma take_ok: "pm_ok t \<Longrightarrow> is_stamp ts \<Longrightarrow> pm_ok (take_stamp ts t)"
proof (cases "pm_pc t")
  case (WaitSecond ts1)
  moreover assume "pm_ok t" "is_stamp ts"
  ultimately show ?thesis using pair_ok [of t ts1 ts] by (simp add: take_stamp_def pm_ok_def)
qed (auto simp: take_stamp_def pm_ok_def loop_head_def get_phase_error_def)

lemma pm_step_ok: "pm_ok t \<Longrightarrow> pm_ok (phasemeter_thread e t)"
proof (cases e)
  case (PmRead r)
  moreover assume "pm_ok t"
  ultimately show ?thesis
    by (cases "wanted_stamp r") (simp_all add: thread_read take_ok wanted_is_stamp)
next
  case PmStop
  moreover assume "pm_ok t"
  ultimately show ?thesis
    by (simp add: phasemeter_stop_def pm_ok_def get_phase_error_def)
qed

interpretation pm: machine phasemeter_thread pm_ok
  by unfold_locales (rule pm_step_ok)

lemma pm_start_ok: "pm_ok (phasemeter_start a b p)"
  by (simp add: pm_ok_def phasemeter_start_def)

text \<open>Whatever the clock delivers and whenever the thread is stopped, every published
  measure has a real status and, when both timestamps were there, a phase error of at most 500 ms
  in absolute value; a client that is signalled reads exactly the last published measure.\<close>

theorem phasemeter_measures_sound:
  assumes "t = fold phasemeter_thread es (phasemeter_start a b (phasemeter_init junk))"
  shows "(\<forall>m \<in> set (published t). fst m \<noteq> PHASEMETER_INIT \<and>
            (fst m = PHASEMETER_BOTH_TIMESTAMPS \<longrightarrow> \<bar>snd m\<bar> \<le> 500000000)) \<and>
         (published t \<noteq> [] \<longrightarrow> get_phase_error t = last (published t))"
  using pm.run_inv [OF pm_start_ok, of es a b "phasemeter_init junk"]
  by (auto simp: assms pm_ok_def sound_measure_def MILLISECONDS_500_def)

section \<open>The pairing the thread promises\<close>

text \<open>The contract, over the timestamps of the two channels in order of arrival: two in a row
  from one channel mean the other one is missing and the later one is kept; two from different
  channels give GNSS minus internal, unless that is more than 500 ms, when the earlier one is
  dropped; a measured pair is consumed whole.\<close>

definition gnss_minus_internal :: "external_timestamp \<Rightarrow> external_timestamp \<Rightarrow> int" where
  "gnss_minus_internal a b =
     (if ts_index a = EXTTS_INDEX_GNSS_PPS then ts_timestamp a - ts_timestamp b
      else ts_timestamp b - ts_timestamp a)"

fun pairing :: "external_timestamp list \<Rightarrow> (pm_status \<times> int option) list" where
  "pairing (a # b # xs) =
     (if ts_index a = ts_index b
      then ((if ts_index a = EXTTS_INDEX_GNSS_PPS then PHASEMETER_NO_ART_INTERNAL_TIMESTAMPS
             else PHASEMETER_NO_GNSS_TIMESTAMPS), None) # pairing (b # xs)
      else if \<bar>gnss_minus_internal a b\<bar> > MILLISECONDS_500 then pairing (b # xs)
      else (PHASEMETER_BOTH_TIMESTAMPS, Some (gnss_minus_internal a b)) # pairing xs)"
| "pairing _ = []"

definition measure_of :: "pm_status \<times> int \<Rightarrow> pm_status \<times> int option" where
  "measure_of m = (fst m, if fst m = PHASEMETER_BOTH_TIMESTAMPS then Some (snd m) else None)"

definition stamp_in_range :: "external_timestamp \<Rightarrow> bool" where
  "stamp_in_range ts \<longleftrightarrow> is_stamp ts \<and> 0 \<le> ts_timestamp ts \<and> ts_timestamp ts < 2 ^ 63"

definition pm_pending :: "pm_thread \<Rightarrow> external_timestamp list" where
  "pm_pending t = (case pm_pc t of WaitSecond ts1 \<Rightarrow> [ts1] | _ \<Rightarrow> [])"

definition pm_running :: "pm_thread \<Rightarrow> bool" where
  "pm_running t \<longleftrightarrow> \<not> pm_stop (shared t) \<and> \<not> pm_stop_seen t \<and> pm_pc t \<noteq> PmDone \<and>
     (\<forall>ts \<in> set (pm_pending t). stamp_in_range ts)"

lemma diff_exact:
  assumes "stamp_in_range a" "stamp_in_range b"
  shows "to_i64 (ts_timestamp b - ts_timestamp a) = ts_timestamp b - ts_timestamp a"
    "to_i64 (ts_timestamp a - ts_timestamp b) = ts_timestamp a - ts_timestamp b"
  using assms by (simp_all add: stamp_in_range_def to_i64_id)

lemma pair_timestamps_pairing:
  assumes run: "pm_running t" and pc: "pm_pc t = WaitSecond a" and b: "stamp_in_range b"
  shows "pm_running (pair_timestamps a b t) \<and>
    map measure_of (published (pair_timestamps a b t)) @ pairing (pm_pending (pair_timestamps a b t) @ xs) =
    map measure_of (published t) @ pairing (a # b # xs)"
proof -
  have a: "stamp_in_range a" and st: "\<not> pm_stop (shared t)" "\<not> pm_stop_seen t"
    using run pc by (simp_all add: pm_running_def pm_pending_def)
  have idx: "is_stamp a" "is_stamp b" using a b by (simp_all add: stamp_in_range_def)
  show ?thesis
    using idx a b st diff_exact [OF a b] small_diff_fits [of "gnss_minus_internal a b"]
    by (auto simp: pair_timestamps_def same_index_def loop_head_def publish_def pm_running_def
        pm_pending_def measure_of_def gnss_minus_internal_def is_stamp_def Let_def pm_consts)
qed

lemma take_stamp_pairing:
  assumes run: "pm_running t" and b: "stamp_in_range b"
  shows "pm_running (take_stamp b t) \<and>
    map measure_of (published (take_stamp b t)) @ pairing (pm_pending (take_stamp b t) @ xs) =
    map measure_of (published t) @ pairing (pm_pending t @ b # xs)"
proof (cases "pm_pc t")
  case (WaitSecond a)
  with pair_timestamps_pairing [OF run WaitSecond b] show ?thesis
    by (simp add: take_stamp_def pm_pending_def)
qed (use run b in \<open>auto simp: take_stamp_def pm_pending_def loop_head_def pm_running_def\<close>)

lemma thread_pairing:
  assumes "pm_running t" and "\<forall>r \<in> set rs. \<forall>ts. wanted_stamp r = Some ts \<longrightarrow> stamp_in_range ts"
  shows "map measure_of (published (fold phasemeter_thread (map PmRead rs) t)) =
    map measure_of (published t) @ pairing (pm_pending t @ List.map_filter wanted_stamp rs)"
  using assms
proof (induction rs arbitrary: t)
  case Nil
  then show ?case by (simp add: pm_pending_def split: pm_pc.splits)
next
  case (Cons r rs)
  show ?case
  proof (cases "wanted_stamp r")
    case None
    with Cons show ?thesis by (simp add: thread_read List.map_filter_simps)
  next
    case (Some b)
    then have b: "stamp_in_range b" using Cons.prems(2) by auto
    note step = take_stamp_pairing [OF Cons.prems(1) b, of "List.map_filter wanted_stamp rs"]
    have "map measure_of (published (fold phasemeter_thread (map PmRead rs) (take_stamp b t))) =
      map measure_of (published (take_stamp b t)) @
        pairing (pm_pending (take_stamp b t) @ List.map_filter wanted_stamp rs)"
      using Cons.IH [of "take_stamp b t"] step Cons.prems(2) by simp
    with step Some show ?thesis by (simp add: thread_read List.map_filter_simps)
  qed
qed

text \<open>An event whose fields are those of a clock set before the year 2262 is in range.\<close>

definition sane_event :: "extts_read \<Rightarrow> bool" where
  "sane_event r \<longleftrightarrow>
     (case r of ExttsShort \<Rightarrow> True
      | ExttsEvent sec ns idx \<Rightarrow> sec \<le> 9223372031 \<and> 0 \<le> ns \<and> ns < 2 ^ 32)"

lemma sane_in_range: "sane_event r \<Longrightarrow> wanted_stamp r = Some ts \<Longrightarrow> stamp_in_range ts"
  using wanted_is_stamp [of r ts]
  by (cases r) (auto simp: sane_event_def wanted_stamp_def read_extts_def stamp_in_range_def to_i64_id
      split: if_splits)

text \<open>C2. The measures the thread publishes are exactly the pairing of the timestamps of the two
  channels, in order, with failed reads and the other channels ignored.\<close>

theorem phasemeter_refines_pairing:
  assumes "\<forall>r \<in> set rs. sane_event r"
  shows "map measure_of (published (fold phasemeter_thread (map PmRead rs)
           (phasemeter_start 0 0 (phasemeter_init junk)))) =
         pairing (List.map_filter wanted_stamp rs)"
  using thread_pairing [of "phasemeter_start 0 0 (phasemeter_init junk)" rs] assms sane_in_range
  by (auto simp: phasemeter_start_def phasemeter_init_def enable_extts_def pm_running_def pm_pending_def)

definition sample_reads :: "extts_read list" where
  "sample_reads = [ExttsEvent 10 100 0, ExttsShort, ExttsEvent 10 400 5, ExttsEvent 11 7 5,
     ExttsEvent 12 9 5, ExttsEvent 12 900000000 2, ExttsEvent 13 5 0, ExttsEvent 13 1 5]"

theorem phasemeter_measures_sound_witness:
  "get_phase_error (fold phasemeter_thread (map PmRead sample_reads)
     (phasemeter_start 0 0 (phasemeter_init 7))) = (PHASEMETER_BOTH_TIMESTAMPS, 4)"
proof -
  let ?t = "fold phasemeter_thread (map PmRead sample_reads) (phasemeter_start 0 0 (phasemeter_init 7))"
  have "published ?t \<noteq> []" "last (published ?t) = (PHASEMETER_BOTH_TIMESTAMPS, 4)"
    by code_simp+
  then show ?thesis
    using phasemeter_measures_sound [OF refl, of "map PmRead sample_reads" 0 0 7] by simp
qed

theorem phasemeter_refines_pairing_witness:
  "map measure_of (published (fold phasemeter_thread (map PmRead sample_reads)
       (phasemeter_start 0 0 (phasemeter_init 7)))) =
   [(PHASEMETER_BOTH_TIMESTAMPS, Some (- 300)), (PHASEMETER_NO_GNSS_TIMESTAMPS, None),
    (PHASEMETER_BOTH_TIMESTAMPS, Some 4)]"
proof -
  have "\<forall>r \<in> set sample_reads. sane_event r"
    by (simp add: sample_reads_def sane_event_def)
  from phasemeter_refines_pairing [OF this, of 7] show ?thesis
    by (simp add: sample_reads_def wanted_stamp_def read_extts_def List.map_filter_simps
        pm_consts gnss_minus_internal_def to_i64_def to_i32_def)
qed

section \<open>Stopping\<close>

text \<open>Publications still to come after a stop request, counted with those already made.\<close>

definition stop_budget :: "pm_thread \<Rightarrow> nat" where
  "stop_budget t = length (published t) + (if pm_stop_seen t then 0 else 1)"

definition seen_ok :: "pm_thread \<Rightarrow> bool" where
  "seen_ok t \<longleftrightarrow> (pm_stop_seen t \<longrightarrow> (\<forall>a. pm_pc t \<noteq> WaitSecond a))"

lemma pair_seen:
  assumes "\<not> pm_stop_seen t"
  shows "seen_ok (pair_timestamps a b t)"
    and "pm_stop (shared (pair_timestamps a b t)) = pm_stop (shared t)"
    and "pm_stop (shared t) \<Longrightarrow> stop_budget (pair_timestamps a b t) \<le> stop_budget t"
  using assms
  by (auto simp: seen_ok_def stop_budget_def pair_timestamps_def loop_head_def publish_def Let_def)

lemma take_seen:
  assumes "seen_ok t"
  shows "seen_ok (take_stamp ts t) \<and> pm_stop (shared (take_stamp ts t)) = pm_stop (shared t) \<and>
    (pm_stop (shared t) \<longrightarrow> stop_budget (take_stamp ts t) \<le> stop_budget t)"
proof (cases "pm_pc t")
  case (WaitSecond a)
  with assms have "\<not> pm_stop_seen t" by (auto simp: seen_ok_def)
  with WaitSecond show ?thesis by (simp add: take_stamp_def pair_seen)
qed (use assms in \<open>auto simp: take_stamp_def loop_head_def seen_ok_def stop_budget_def\<close>)

lemma step_seen:
  assumes "seen_ok t"
  shows "seen_ok (phasemeter_thread e t) \<and>
    (pm_stop (shared t) \<longrightarrow> pm_stop (shared (phasemeter_thread e t)) \<and>
       stop_budget (phasemeter_thread e t) \<le> stop_budget t)"
proof (cases e)
  case (PmRead r)
  with assms take_seen [OF assms] show ?thesis
    by (cases "wanted_stamp r") (simp_all add: thread_read)
qed (use assms in \<open>simp add: phasemeter_stop_def seen_ok_def stop_budget_def\<close>)

interpretation pm_seen: machine phasemeter_thread seen_ok
  by unfold_locales (simp add: step_seen)

lemma run_stopping:
  "seen_ok t \<Longrightarrow> pm_stop (shared t) \<Longrightarrow>
     stop_budget (fold phasemeter_thread es t) \<le> stop_budget t"
proof (induction es arbitrary: t)
  case (Cons e es)
  note s = step_seen [OF Cons.prems(1), of e]
  have "stop_budget (fold phasemeter_thread es (phasemeter_thread e t)) \<le>
      stop_budget (phasemeter_thread e t)"
    using Cons.IH s Cons.prems(2) by blast
  also have "\<dots> \<le> stop_budget t" using s Cons.prems(2) by blast
  finally show ?case by simp
qed simp

text \<open>C36. After a stop request the thread publishes at most one more measure, whatever the
  clock still delivers.\<close>

theorem phasemeter_stop_bound:
  "length (published (fold phasemeter_thread later (phasemeter_stop
       (fold phasemeter_thread es (phasemeter_start a b (phasemeter_init junk)))))) \<le>
   length (published (fold phasemeter_thread es (phasemeter_start a b (phasemeter_init junk)))) + 1"
proof -
  let ?t = "fold phasemeter_thread es (phasemeter_start a b (phasemeter_init junk))"
  have "seen_ok ?t"
    by (rule pm_seen.run_inv) (simp add: seen_ok_def phasemeter_start_def phasemeter_init_def)
  then have "seen_ok (phasemeter_stop ?t)" "pm_stop (shared (phasemeter_stop ?t))"
    by (simp_all add: seen_ok_def phasemeter_stop_def)
  from run_stopping [OF this, of later] show ?thesis
    by (auto simp: stop_budget_def phasemeter_stop_def split: if_splits)
qed

end
