(* ===== verification/OdMain.thy ===== *)
theory OdMain
  imports Monitoring Phasemeter
begin

text \<open>
  \<open>src/oscillatord.c\<close>: the main loop. One round is \<open>main_round\<close>, made of the disciplining
  branch, the monitoring-only branch and the exchange with the monitoring thread; it changes
  \<open>main_state\<close>, which holds the local variables of \<open>main\<close>, the structures shared with the
  monitoring and receiver threads, and the list of calls with an effect outside. What the round
  meets (the phasemeter, the oscillator, the clock and the disciplining library, which is not in
  the tree) is the record \<open>main_env\<close>. The library's constants (\<open>CLOCK_CLASS_UNCALIBRATED\<close>, \<open>WARMUP\<close>, \<open>INIT\<close>) are fields of \<open>main_cfg\<close>.
\<close>

section \<open>Phase offsets\<close>

text \<open>The seconds and nanoseconds \<open>apply_phase_offset\<close> hands to \<open>clock_adjtime\<close>. \<open>floor\<close> of an
  integer quotient is that quotient, truncated towards zero.\<close>

definition apply_phase_offset :: "int \<Rightarrow> timespec" where
  "apply_phase_offset offset =
     (if offset > 0 \<or> offset smod NS_IN_SECOND = 0
      then \<lparr>tv_sec = offset sdiv NS_IN_SECOND, tv_nsec = offset smod NS_IN_SECOND\<rparr>
      else \<lparr>tv_sec = offset sdiv NS_IN_SECOND - 1,
            tv_nsec = offset smod NS_IN_SECOND + NS_IN_SECOND\<rparr>)"

lemma phase_offset_split:
  "tv_sec (apply_phase_offset e) * NS_IN_SECOND + tv_nsec (apply_phase_offset e) = e \<and>
     0 \<le> tv_nsec (apply_phase_offset e) \<and> tv_nsec (apply_phase_offset e) < NS_IN_SECOND"
proof (cases "e > 0 \<or> e smod NS_IN_SECOND = 0")
  case True
  then show ?thesis
    using sdiv_smod_eq [of e NS_IN_SECOND] NS_IN_SECOND_pos smod_pos [of e NS_IN_SECOND] pos_mod_bound [OF NS_IN_SECOND_pos, of e]
    by (auto simp: apply_phase_offset_def)
next
  case False
  then have neg: "e < 0" using NS_IN_SECOND_pos by (cases "e = 0") auto
  have "e smod NS_IN_SECOND < 0" "- NS_IN_SECOND < e smod NS_IN_SECOND"
    using False neg smod_neg [OF neg NS_IN_SECOND_pos] smod_range [OF NS_IN_SECOND_pos, of e] pos_mod_sign [OF NS_IN_SECOND_pos, of "- e"]
    by (auto simp: less_le)
  with False sdiv_smod_eq [of e NS_IN_SECOND] show ?thesis
    by (simp add: apply_phase_offset_def algebra_simps)
qed

text \<open>C37. A phase offset is split exactly: the nanoseconds lie in \<open>[0, NS_IN_SECOND)\<close>, as
  \<open>clock_adjtime\<close> demands, and seconds and nanoseconds add up to the offset, whatever its sign.\<close>

theorem apply_phase_offset_exact:
  "case apply_phase_offset e of t \<Rightarrow>
     tv_sec t * NS_IN_SECOND + tv_nsec t = e \<and> 0 \<le> tv_nsec t \<and> tv_nsec t < NS_IN_SECOND"
  using phase_offset_split by simp

section \<open>State\<close>

record od_input =
  in_valid :: bool
  in_survey_completed :: bool
  in_qErr :: int
  in_phasemeter_status :: pm_status
  in_coarse_setpoint :: int
  in_fine_setpoint :: int
  in_temperature :: int
  in_lock :: bool
  in_phase_error :: timespec
  calibration_requested :: bool

definition empty_input :: od_input where
  "empty_input = \<lparr>in_valid = False, in_survey_completed = False, in_qErr = 0,
     in_phasemeter_status = PHASEMETER_INIT, in_coarse_setpoint = 0, in_fine_setpoint = 0,
     in_temperature = 0, in_lock = False, in_phase_error = ts_zero, calibration_requested = False\<rparr>"

text \<open>\<open>IgnoredInput\<close> and \<open>TookRequest\<close> stand for the log messages of a dropped round and of a
  request taken from the monitoring thread.\<close>

datatype main_effect =
    OdProcess od_input
  | PhaseOffset timespec
  | OdCalibrate
  | WriteParameters
  | ConfigSaved
  | ApplyOutput od_output
  | SaveThread
  | PushGnss bool timespec
  | IgnoredInput
  | TookRequest monitoring_request

record main_cfg =
  cfg_disciplining :: bool
  cfg_monitoring :: bool
  cfg_sign :: int
  cfg_phase_error_supported :: bool
  cfg_class_uncalibrated :: int
  cfg_status_warmup :: int
  cfg_status_init :: int

record main_state =
  m_input :: od_input
  m_output :: od_output
  m_attr :: oscillator_attributes
  m_ctrl :: oscillator_ctrl
  ignore_next_irq :: bool
  fake_holdover_activated :: bool
  m_monitoring :: monitoring
  m_gnss :: gnss
  m_config :: config
  start_save :: int
  effects :: "main_effect list"

text \<open>What a round meets. \<open>e_parse\<close> and \<open>e_ctrl\<close> give the code and what was stored; \<open>e_process\<close>
  is \<open>od_process\<close>; the remaining fields are the codes of the calls they are named after, the
  results of the calibration, the flag \<open>loop\<close> after it and the time in seconds.\<close>

record main_env =
  e_phase :: "pm_status \<times> int"
  e_parse :: "int \<times> int \<times> bool"
  e_ctrl :: "int \<times> oscillator_ctrl"
  e_process :: "od_input \<Rightarrow> od_output \<Rightarrow> int \<times> od_output"
  e_adjtime :: int
  e_calib_params :: bool
  e_calib_results :: bool
  e_loop :: bool
  e_get_parameters :: int
  e_now :: int
  e_monitoring :: "int \<times> od_monitoring"
  e_hw_phase :: "int \<times> int"
  e_hw_status :: "int \<times> od_monitoring"

datatype flow = Next | ContinueLoop | BreakLoop | ExitProgram

definition add_effect :: "main_effect \<Rightarrow> main_state \<Rightarrow> main_state" where
  "add_effect x s = s\<lparr>effects := effects s @ [x]\<rparr>"

definition UPDATE_DISCIPLINING_PARAMETERS_SEC :: int where
  "UPDATE_DISCIPLINING_PARAMETERS_SEC = 3600"

section \<open>The disciplining branch\<close>

text \<open>Reading the attributes; a missing operation counts as cold and unlocked.\<close>

definition read_attributes :: "main_env \<Rightarrow> main_state \<Rightarrow> int \<times> main_state" where
  "read_attributes env s =
     (case e_parse env of (ret, t, l) \<Rightarrow>
        if ret = - ENOSYS then (0, s\<lparr>m_attr := (m_attr s)\<lparr>temperature := 0, locked := False\<rparr>\<rparr>)
        else (ret, s\<lparr>m_attr := (m_attr s)\<lparr>temperature := t, locked := l\<rparr>\<rparr>))"

definition fill_input :: "main_cfg \<Rightarrow> pm_status \<Rightarrow> main_state \<Rightarrow> od_input" where
  "fill_input cfg status s =
     (m_input s)\<lparr>in_phasemeter_status := status,
       in_coarse_setpoint := coarse_ctrl (m_ctrl s), in_fine_setpoint := fine_ctrl (m_ctrl s),
       in_temperature := temperature (m_attr s), in_lock := locked (m_attr s),
       in_phase_error :=
         \<lparr>tv_sec = (cfg_sign cfg * osc_phase_error (m_attr s)) sdiv NS_IN_SECOND,
          tv_nsec = (cfg_sign cfg * osc_phase_error (m_attr s)) smod NS_IN_SECOND\<rparr>,
       in_valid := in_valid (m_input s) \<and> \<not> fake_holdover_activated s\<rparr>"

text \<open>The output of the algorithm.\<close>

definition handle_output :: "main_cfg \<Rightarrow> main_env \<Rightarrow> main_state \<Rightarrow> flow \<times> main_state" where
  "handle_output cfg env s =
     (case od_action (m_output s) of
        PHASE_JUMP \<Rightarrow>
          (let s1 = add_effect (PhaseOffset (apply_phase_offset
                                  (- value_phase_ctrl (m_output s)))) s
           in if e_adjtime env < 0 then (ExitProgram, s1) else (Next, s1\<lparr>ignore_next_irq := True\<rparr>))
      | CALIBRATE \<Rightarrow>
          (let s1 = (if cfg_monitoring cfg
                     then s\<lparr>m_monitoring := (m_monitoring s)\<lparr>disciplining := snd (e_monitoring env)\<rparr>\<rparr>
                     else s)
           in if \<not> e_calib_params env then (ExitProgram, s1)
              else if e_calib_results env then (Next, add_effect OdCalibrate s1)
              else if \<not> e_loop env then (BreakLoop, s1)
              else (ExitProgram, s1))
      | SAVE_DISCIPLINING_PARAMETERS \<Rightarrow>
          (Next, add_effect ConfigSaved
             ((add_effect WriteParameters s)\<lparr>m_config := config_set (m_config s) ''calibrate_first'' ''false''\<rparr>))
      | NO_OP \<Rightarrow> (Next, s)
      | _ \<Rightarrow> (Next, add_effect (ApplyOutput (m_output s)) s))"

definition periodic_save :: "main_env \<Rightarrow> main_state \<Rightarrow> main_state" where
  "periodic_save env s =
     (if e_now env - start_save s \<ge> UPDATE_DISCIPLINING_PARAMETERS_SEC
      then (add_effect SaveThread s)\<lparr>start_save := e_now env\<rparr> else s)"

definition run_algorithm :: "main_cfg \<Rightarrow> main_env \<Rightarrow> main_state \<Rightarrow> flow \<times> main_state" where
  "run_algorithm cfg env s =
     (let inp = fill_input cfg (fst (e_phase env)) s;
          s1 = add_effect (OdProcess inp) s
      in case e_process env inp (m_output s) of (ret, out) \<Rightarrow>
           if ret < 0 then (ExitProgram, s1)
           else (case handle_output cfg env (s1\<lparr>m_input := empty_input, m_output := out\<rparr>) of
                   (Next, s2) \<Rightarrow> (Next, periodic_save env s2)
                 | r \<Rightarrow> r))"

definition disciplining_branch :: "main_cfg \<Rightarrow> main_env \<Rightarrow> main_state \<Rightarrow> flow \<times> main_state" where
  "disciplining_branch cfg env s0 =
     (case gnss_get_epoch_data (m_gnss s0) of (v, sv, q) \<Rightarrow>
        let s1 = s0\<lparr>m_attr := (m_attr s0)\<lparr>osc_phase_error := snd (e_phase env)\<rparr>,
                    m_input := (m_input s0)\<lparr>in_valid := v, in_survey_completed := sv, in_qErr := q\<rparr>\<rparr>
        in case read_attributes env s1 of (ret, s2) \<Rightarrow>
             if ret < 0 then (ContinueLoop, s2)
             else let s3 = s2\<lparr>m_ctrl := snd (e_ctrl env)\<rparr>
                  in if fst (e_ctrl env) \<noteq> 0 then (ContinueLoop, s3)
                     else if ignore_next_irq s3 then (ContinueLoop, (add_effect IgnoredInput s3)\<lparr>ignore_next_irq := False\<rparr>)
                     else run_algorithm cfg env s3)"

section \<open>The monitoring-only branch\<close>

definition monitoring_branch :: "main_cfg \<Rightarrow> main_env \<Rightarrow> main_state \<Rightarrow> flow \<times> main_state" where
  "monitoring_branch cfg env s0 =
     (case read_attributes env s0 of (ret, s1) \<Rightarrow>
        if ret < 0 then (ExitProgram, s1)
        else let s2 = (if cfg_phase_error_supported cfg
                       then (case gnss_get_fix_info (m_gnss s1) of (v, t) \<Rightarrow> add_effect (PushGnss v t) s1)
                       else s1);
                 s3 = s2\<lparr>m_ctrl := snd (e_ctrl env)\<rparr>
             in if fst (e_ctrl env) \<noteq> 0 then (ContinueLoop, s3) else (Next, s3))"

section \<open>The exchange with the monitoring thread\<close>

definition default_disciplining :: "main_cfg \<Rightarrow> od_monitoring" where
  "default_disciplining cfg = \<lparr>clock_class = cfg_class_uncalibrated cfg, od_status = cfg_status_warmup cfg, current_phase_convergence_count = -1,
     valid_phase_convergence_threshold = -1, convergence_progress = 0, ready_for_holdover = False\<rparr>"

text \<open>The data to publish, and the phase error with the configured sign.\<close>

definition monitored_data :: "main_cfg \<Rightarrow> main_env \<Rightarrow> main_state \<Rightarrow> od_monitoring \<times> main_state" where
  "monitored_data cfg env s =
     (if cfg_disciplining cfg then
        ((if fst (e_monitoring env) \<noteq> 0
          then (snd (e_monitoring env))\<lparr>clock_class := cfg_class_uncalibrated cfg, od_status := cfg_status_init cfg,
                 current_phase_convergence_count := -1, valid_phase_convergence_threshold := -1,
                 convergence_progress := 0\<rparr>
          else snd (e_monitoring env)),
         s\<lparr>m_attr := (m_attr s)\<lparr>osc_phase_error := osc_phase_error (m_attr s) * cfg_sign cfg\<rparr>\<rparr>)
      else if cfg_phase_error_supported cfg then
        (snd (e_hw_status env), s\<lparr>m_attr := (m_attr s)\<lparr>osc_phase_error := snd (e_hw_phase env)\<rparr>\<rparr>)
      else (default_disciplining cfg, s))"

definition coarse_step :: "int \<Rightarrow> main_state \<Rightarrow> od_output" where
  "coarse_step d s = \<lparr>od_action = ADJUST_COARSE, setpoint = to_u32 (coarse_ctrl (m_ctrl s) + d),
     value_phase_ctrl = 0\<rparr>"

definition serve_request :: "monitoring_request \<Rightarrow> main_state \<Rightarrow> main_state" where
  "serve_request r s =
     (case r of
        REQUEST_CALIBRATION \<Rightarrow> s\<lparr>m_input := (m_input s)\<lparr>calibration_requested := True\<rparr>\<rparr>
      | REQUEST_GNSS_START \<Rightarrow> s\<lparr>m_gnss := gnss_set_action GNSS_ACTION_START (m_gnss s)\<rparr>
      | REQUEST_GNSS_STOP \<Rightarrow> s\<lparr>m_gnss := gnss_set_action GNSS_ACTION_STOP (m_gnss s)\<rparr>
      | REQUEST_GNSS_SOFT \<Rightarrow> s\<lparr>m_gnss := gnss_set_action GNSS_ACTION_SOFT (m_gnss s)\<rparr>
      | REQUEST_GNSS_HARD \<Rightarrow> s\<lparr>m_gnss := gnss_set_action GNSS_ACTION_HARD (m_gnss s)\<rparr>
      | REQUEST_GNSS_COLD \<Rightarrow> s\<lparr>m_gnss := gnss_set_action GNSS_ACTION_COLD (m_gnss s)\<rparr>
      | REQUEST_SAVE_EEPROM \<Rightarrow> add_effect SaveThread s
      | REQUEST_FAKE_HOLDOVER_START \<Rightarrow> s\<lparr>fake_holdover_activated := True\<rparr>
      | REQUEST_FAKE_HOLDOVER_STOP \<Rightarrow> s\<lparr>fake_holdover_activated := False\<rparr>
      | REQUEST_RESET_UBLOX_SERIAL \<Rightarrow> s\<lparr>m_gnss := gnss_set_action GNSS_ACTION_RESET_SERIAL (m_gnss s)\<rparr>
      | REQUEST_MRO_COARSE_INC \<Rightarrow> add_effect (ApplyOutput (coarse_step 1 s)) s
      | REQUEST_MRO_COARSE_DEC \<Rightarrow> add_effect (ApplyOutput (coarse_step (-1) s)) s
      | REQUEST_READ_EEPROM \<Rightarrow> s
      | REQUEST_NONE \<Rightarrow> s)"

definition exchange :: "main_cfg \<Rightarrow> main_env \<Rightarrow> main_state \<Rightarrow> main_state" where
  "exchange cfg env s0 =
     (case monitored_data cfg env s0 of (d, s) \<Rightarrow>
        case take_request (publish_data (m_attr s) (m_ctrl s) d (m_monitoring s)) of (r, m) \<Rightarrow>
          serve_request r (add_effect (TookRequest r) (s\<lparr>m_monitoring := m\<rparr>)))"

definition main_branch :: "main_cfg \<Rightarrow> main_env \<Rightarrow> main_state \<Rightarrow> flow \<times> main_state" where
  "main_branch cfg env s =
     (if cfg_disciplining cfg then disciplining_branch cfg env s else monitoring_branch cfg env s)"

section \<open>What the algorithm is given\<close>

lemma add_effect_simps [simp]:
  "effects (add_effect x s) = effects s @ [x]" "m_input (add_effect x s) = m_input s"
  "m_output (add_effect x s) = m_output s" "m_attr (add_effect x s) = m_attr s"
  "m_ctrl (add_effect x s) = m_ctrl s" "ignore_next_irq (add_effect x s) = ignore_next_irq s"
  "fake_holdover_activated (add_effect x s) = fake_holdover_activated s"
  "m_monitoring (add_effect x s) = m_monitoring s" "m_gnss (add_effect x s) = m_gnss s"
  "m_config (add_effect x s) = m_config s" "start_save (add_effect x s) = start_save s"
  by (simp_all add: add_effect_def)

definition is_input :: "main_effect \<Rightarrow> bool" where
  "is_input x = (case x of OdProcess _ \<Rightarrow> True | _ \<Rightarrow> False)"

lemma read_attributes_frame [simp]:
  "effects (snd (read_attributes env s)) = effects s"
  "m_input (snd (read_attributes env s)) = m_input s"
  "ignore_next_irq (snd (read_attributes env s)) = ignore_next_irq s"
  "fake_holdover_activated (snd (read_attributes env s)) = fake_holdover_activated s"
  "m_monitoring (snd (read_attributes env s)) = m_monitoring s"
  "m_gnss (snd (read_attributes env s)) = m_gnss s"
  "osc_phase_error (m_attr (snd (read_attributes env s))) = osc_phase_error (m_attr s)"
  by (simp_all add: read_attributes_def split: prod.split)

lemma read_attributes_fst: "fst (read_attributes env s) = (if fst (e_parse env) = - ENOSYS then 0 else fst (e_parse env))"
  by (simp add: read_attributes_def split: prod.split)

lemma handle_output_frame:
  "filter is_input (effects (snd (handle_output cfg env s))) = filter is_input (effects s)"
  "m_input (snd (handle_output cfg env s)) = m_input s"
  "fake_holdover_activated (snd (handle_output cfg env s)) = fake_holdover_activated s"
  "m_gnss (snd (handle_output cfg env s)) = m_gnss s"
  "request (m_monitoring (snd (handle_output cfg env s))) = request (m_monitoring s)"
  by (simp_all add: handle_output_def Let_def is_input_def split: od_action.split)

lemma periodic_save_frame [simp]:
  "filter is_input (effects (periodic_save env s)) = filter is_input (effects s)"
  "m_input (periodic_save env s) = m_input s"
  "ignore_next_irq (periodic_save env s) = ignore_next_irq s"
  "fake_holdover_activated (periodic_save env s) = fake_holdover_activated s"
  "m_gnss (periodic_save env s) = m_gnss s" "m_monitoring (periodic_save env s) = m_monitoring s"
  by (simp_all add: periodic_save_def is_input_def)

lemma run_algorithm_inputs:
  "filter is_input (effects (snd (run_algorithm cfg env s))) =
     filter is_input (effects s) @ [OdProcess (fill_input cfg (fst (e_phase env)) s)]"
proof -
  let ?i = "fill_input cfg (fst (e_phase env)) s"
  obtain ret out where p: "e_process env ?i (m_output s) = (ret, out)" by fastforce
  let ?s1 = "(add_effect (OdProcess ?i) s)\<lparr>m_input := empty_input, m_output := out\<rparr>"
  obtain f s2 where h: "handle_output cfg env ?s1 = (f, s2)" by fastforce
  have "filter is_input (effects s2) = filter is_input (effects s) @ [OdProcess ?i]"
    using handle_output_frame(1) [of cfg env ?s1] h by (simp add: is_input_def)
  then show ?thesis
    using p h by (cases f) (simp_all add: run_algorithm_def Let_def, simp_all add: is_input_def)
qed

definition input_state :: "main_env \<Rightarrow> main_state \<Rightarrow> main_state" where
  "input_state env s =
     (snd (read_attributes env
        (s\<lparr>m_attr := (m_attr s)\<lparr>osc_phase_error := snd (e_phase env)\<rparr>,
           m_input := (m_input s)\<lparr>in_valid := gs_valid (session (m_gnss s)),
             in_survey_completed := survey_completed (session (m_gnss s)),
             in_qErr := qErr_last_epoch (gs_context (session (m_gnss s)))\<rparr>\<rparr>)))
     \<lparr>m_ctrl := snd (e_ctrl env)\<rparr>"

lemma disciplining_inputs:
  "filter is_input (effects (snd (disciplining_branch cfg env s))) = filter is_input (effects s) @
     (if fst (read_attributes env s) < 0 \<or> fst (e_ctrl env) \<noteq> 0 \<or> ignore_next_irq s then []
      else [OdProcess (fill_input cfg (fst (e_phase env)) (input_state env s))])"
  by (simp add: disciplining_branch_def gnss_get_epoch_data_def Let_def case_prod_beta read_attributes_fst
      run_algorithm_inputs is_input_def flip: input_state_def)
    (simp add: input_state_def)

text \<open>C20. What the disciplining algorithm is given in a round: a reference that is valid only when the
  receiver's epoch was and no fake holdover is on, the survey and quantisation error of that
  epoch, the control values read in the round, the calibration request that was pending, and the
  measured phase error with the configured sign, split without loss into seconds and nanoseconds.\<close>

theorem od_input_faithful:
  assumes "filter is_input (effects (snd (disciplining_branch cfg env s))) =
      filter is_input (effects s) @ [OdProcess i]"
  shows "in_valid i = (gs_valid (session (m_gnss s)) \<and> \<not> fake_holdover_activated s) \<and>
    in_survey_completed i = survey_completed (session (m_gnss s)) \<and>
    in_qErr i = qErr_last_epoch (gs_context (session (m_gnss s))) \<and>
    tv_sec (in_phase_error i) * NS_IN_SECOND + tv_nsec (in_phase_error i) =
      cfg_sign cfg * snd (e_phase env) \<and>
    in_coarse_setpoint i = coarse_ctrl (snd (e_ctrl env)) \<and>
    in_fine_setpoint i = fine_ctrl (snd (e_ctrl env)) \<and>
    calibration_requested i = calibration_requested (m_input s) \<and>
    in_phasemeter_status i = fst (e_phase env)"
proof -
  have "i = fill_input cfg (fst (e_phase env)) (input_state env s)"
    using assms by (simp add: disciplining_inputs split: if_splits)
  then show ?thesis by (simp add: fill_input_def input_state_def sdiv_smod_eq)
qed

section \<open>A concrete state\<close>

definition sample_cfg :: main_cfg where
  "sample_cfg = \<lparr>cfg_disciplining = True, cfg_monitoring = True, cfg_sign = -1,
     cfg_phase_error_supported = True, cfg_class_uncalibrated = 0,
     cfg_status_warmup = 1, cfg_status_init = 0\<rparr>"

definition sample_gnss :: gnss where
  "sample_gnss = \<lparr>session = sample_session, action = GNSS_ACTION_NONE, gnss_stop_flag = False,
     gnss_running = True, gnss_info = None, data_signals = 0, time_signals = 0\<rparr>"

definition sample_main :: main_state where
  "sample_main = \<lparr>m_input = empty_input,
     m_output = \<lparr>od_action = NO_OP, setpoint = 0, value_phase_ctrl = 0\<rparr>,
     m_attr = osc_attributes sample_monitoring, m_ctrl = ctrl_values sample_monitoring,
     ignore_next_irq = False, fake_holdover_activated = False, m_monitoring = sample_monitoring,
     m_gnss = sample_gnss, m_config = \<lparr>argz = [], config_path = ''''\<rparr>, start_save = 0, effects = []\<rparr>"

definition sample_main_env :: main_env where
  "sample_main_env = \<lparr>e_phase = (PHASEMETER_BOTH_TIMESTAMPS, 1500), e_parse = (0, 42000, True),
     e_ctrl = (0, \<lparr>dac = 0, fine_ctrl = 2400, coarse_ctrl = 4186000\<rparr>),
     e_process = (\<lambda>i out. (0, out\<lparr>od_action := PHASE_JUMP, value_phase_ctrl := 1500\<rparr>)),
     e_adjtime = 0, e_calib_params = True, e_calib_results = True, e_loop = True,
     e_get_parameters = 0, e_now = 100, e_monitoring = (0, disciplining sample_monitoring),
     e_hw_phase = (0, 0), e_hw_status = (0, disciplining sample_monitoring)\<rparr>"

lemmas sample_defs = sample_cfg_def sample_gnss_def sample_main_def sample_main_env_def

theorem od_input_faithful_witness:
  "\<exists>i. OdProcess i \<in> set (effects (snd (disciplining_branch sample_cfg sample_main_env sample_main))) \<and>
     tv_sec (in_phase_error i) * NS_IN_SECOND + tv_nsec (in_phase_error i) = -1500"
proof -
  let ?e = "effects (snd (disciplining_branch sample_cfg sample_main_env sample_main))"
  obtain i where i: "filter is_input ?e = filter is_input (effects sample_main) @ [OdProcess i]"
    unfolding disciplining_inputs by (auto simp: read_attributes_fst sample_defs)
  moreover have "OdProcess i \<in> set ?e"
    using i by (metis Un_iff filter_is_subset insert_iff list.set(2) set_append subsetD)
  ultimately show ?thesis using od_input_faithful [OF i] by (auto simp: sample_cfg_def sample_main_env_def)
qed

end
