(* ===== verification/OdStart.thy ===== *)
theory OdStart
  imports OdMain
begin

text \<open>
  \<open>src/oscillatord.c\<close>: what \<open>main\<close> does before and after its loop. \<open>od_start\<close> is the part up to the loop,
  \<open>od_shutdown\<close> the part behind it; both are lists of the calls with an effect. A call is listed when
  it succeeded. What the calls return is the record \<open>start_env\<close>.
\<close>

section \<open>Effects and results\<close>

datatype od_effect =
    MonitoringInit | OscillatorNew | ClockOpen | GnssInit | ReadParameters | OdNew | PhasemeterInit
  | SetClockTime | InitialJump timespec | PpsEnable bool | NtpContextInit | LinkActivate
  | LinkDeactivate | GnssStopped | SaveJoin | PhasemeterStopped | SaveParameters | OdDestroyed
  | MonitoringStopped | ClockClose | OscillatorDestroyed

text \<open>\<open>se_phases\<close>: what the phasemeter delivers until the initial jump can be made; \<open>se_loop i\<close>: the flag
  \<open>loop\<close> at the \<open>i\<close>-th test.\<close>

record start_env =
  se_argc :: nat
  se_file :: file_io
  se_dir :: "string \<Rightarrow> int + sys_ent list"
  se_search :: "string \<Rightarrow> string \<Rightarrow> string option"
  se_monitoring :: bool
  se_oscillator :: bool
  se_get_phase :: int
  se_clock :: bool
  se_gnss :: bool
  se_parameters :: int
  se_od :: bool
  se_phasemeter :: bool
  se_set_clock1 :: int
  se_phases :: "(pm_status \<times> int) list"
  se_adjtime :: int
  se_set_clock2 :: int
  se_loop :: "nat \<Rightarrow> bool"

record start_vars =
  sv_config :: config
  sv_devices :: devices_path
  disciplining_mode :: bool
  monitoring_mode :: bool
  sv_sign :: int
  sv_phase_error_supported :: bool
  sv_clock_open :: bool
  sv_link :: bool

text \<open>The program ends with an exit code, waits for ever, or goes on.\<close>

datatype 'a outcome = Exits int | Blocked | Goes 'a

type_synonym 'a run = "od_effect list \<Rightarrow> 'a outcome \<times> od_effect list"

definition goes :: "'a \<Rightarrow> 'a run" where "goes x log = (Goes x, log)"
definition emit :: "od_effect \<Rightarrow> unit run" where "emit e log = (Goes (), log @ [e])"
definition require :: "bool \<Rightarrow> int \<Rightarrow> unit run" where
  "require b code log = (if b then Goes () else Exits code, log)"

definition and_then :: "'a run \<Rightarrow> ('a \<Rightarrow> 'b run) \<Rightarrow> 'b run" where
  "and_then m f log =
     (case m log of (Goes x, l) \<Rightarrow> f x l | (Exits c, l) \<Rightarrow> (Exits c, l) | (Blocked, l) \<Rightarrow> (Blocked, l))"

definition acquire :: "bool \<Rightarrow> int \<Rightarrow> od_effect \<Rightarrow> unit run" where
  "acquire ok code e = and_then (require ok code) (\<lambda>_. emit e)"

definition EXIT_FAILURE :: int where "EXIT_FAILURE = 1"

section \<open>Signals and settings\<close>

text \<open>The first signal ends the loop, the next one the program (\<open>None\<close>).\<close>

definition signal_handler :: "bool \<Rightarrow> bool option" where
  "signal_handler loop = (if loop then Some False else None)"

text \<open>The settings for the disciplining library, as they are read from the configuration.\<close>

record minipod_config =
  calibrate_first :: bool
  debug :: int
  fine_stop_tolerance :: int
  max_allowed_coarse :: int
  nb_calibration :: int
  phase_jump_threshold_ns :: int
  phase_resolution_ns :: int
  reactivity_max :: int
  reactivity_min :: int
  reactivity_power :: int
  ref_fluctuations_ns :: int
  oscillator_factory_settings :: bool
  learn_temperature_table :: bool
  use_temperature_table :: bool
  fine_table_output_path :: string

definition prepare_minipod_config :: "int \<Rightarrow> config \<Rightarrow> minipod_config" where
  "prepare_minipod_config errno config =
     (let num = config_get_unsigned_number errno config
      in \<lparr>calibrate_first = config_get_bool_default config ''calibrate_first'' False,
          debug = num ''debug'', fine_stop_tolerance = num ''fine_stop_tolerance'',
          max_allowed_coarse = num ''max_allowed_coarse'', nb_calibration = num ''nb_calibration'',
          phase_jump_threshold_ns = num ''phase_jump_threshold_ns'', phase_resolution_ns = num ''phase_resolution_ns'',
          reactivity_max = num ''reactivity_max'', reactivity_min = num ''reactivity_min'',
          reactivity_power = num ''reactivity_power'', ref_fluctuations_ns = num ''ref_fluctuations_ns'',
          oscillator_factory_settings = config_get_bool_default config ''oscillator_factory_settings'' True,
          learn_temperature_table = config_get_bool_default config ''learn_temperature_table'' False,
          use_temperature_table = config_get_bool_default config ''use_temperature_table'' False,
          fine_table_output_path = config_get_default config ''fine_table_output_path'' ''/tmp/''\<rparr>)"

text \<open>A setting that is missing is not noticed: the negative error code is the value.\<close>

lemma missing_setting:
  "config_get config ''reactivity_min'' = None \<Longrightarrow> reactivity_min (prepare_minipod_config 0 config) = - ESRCH"
  by (simp add: prepare_minipod_config_def config_get_unsigned_number_def Let_def)

section \<open>Before the loop\<close>

definition read_config :: "string \<Rightarrow> start_env \<Rightarrow> start_vars run" where
  "read_config path env =
     and_then (require (se_argc env = 2) EXIT_FAILURE) (\<lambda>_.
       (case config_init path (se_file env) of (ret, config) \<Rightarrow>
          let d = config_get_bool_default config ''disciplining'' False;
              m = config_get_bool_default config ''monitoring'' False;
              none = \<lparr>disciplining_config_path = [], gnss_path = [], mac_path = [], mro_path = [],
                      pps_path = [], ptp_path = [], temperature_table_path = []\<rparr>
          in and_then (require (ret = 0) EXIT_FAILURE) (\<lambda>_.
               and_then (require (d \<or> m) (- EINVAL)) (\<lambda>_.
                 (case config_discover_devices config (se_dir env) (se_search env) none of (ret2, dp) \<Rightarrow>
                    and_then (require (ret2 = 0) EXIT_FAILURE) (\<lambda>_.
                      goes \<lparr>sv_config = config, sv_devices = dp, disciplining_mode = d, monitoring_mode = m,
                            sv_sign = 0, sv_phase_error_supported = False, sv_clock_open = False,
                            sv_link = False\<rparr>))))))"

definition start_monitoring :: "start_env \<Rightarrow> start_vars \<Rightarrow> start_vars run" where
  "start_monitoring env v =
     (if monitoring_mode v then and_then (acquire (se_monitoring env) (- EINVAL) MonitoringInit) (\<lambda>_. goes v)
      else goes v)"

definition start_oscillator :: "start_env \<Rightarrow> start_vars \<Rightarrow> start_vars run" where
  "start_oscillator env v =
     and_then (acquire (se_oscillator env) EXIT_FAILURE OscillatorNew) (\<lambda>_.
       goes (if monitoring_mode v
             then (let sup = (se_get_phase env \<noteq> - ENOSYS)
                   in v\<lparr>sv_phase_error_supported := sup, sv_sign := (if sup then 1 else sv_sign v)\<rparr>)
             else v))"

definition open_clock :: "start_env \<Rightarrow> start_vars \<Rightarrow> start_vars run" where
  "open_clock env v =
     (if se_clock env then and_then (emit ClockOpen) (\<lambda>_. goes (v\<lparr>sv_clock_open := True\<rparr>))
      else and_then (require (\<not> disciplining_mode v) EXIT_FAILURE) (\<lambda>_. goes v))"

definition start_gnss :: "start_env \<Rightarrow> start_vars \<Rightarrow> start_vars run" where
  "start_gnss env v = and_then (acquire (se_gnss env) EXIT_FAILURE GnssInit) (\<lambda>_. goes v)"

text \<open>The first phase error with both time stamps; without one the program waits, whatever \<open>loop\<close> is.\<close>

definition first_phase :: "start_env \<Rightarrow> int run" where
  "first_phase env log =
     (case find (\<lambda>p. fst p = PHASEMETER_BOTH_TIMESTAMPS) (se_phases env) of
        None \<Rightarrow> (Blocked, log) | Some p \<Rightarrow> (Goes (snd p), log))"

definition initial_jump :: "start_env \<Rightarrow> start_vars \<Rightarrow> unit run" where
  "initial_jump env v =
     and_then (first_phase env) (\<lambda>phase_error.
       and_then (acquire (se_adjtime env \<ge> 0) EXIT_FAILURE
                  (InitialJump (apply_phase_offset (- phase_error * sv_sign v)))) (\<lambda>_.
         acquire (se_set_clock2 env = 0) (- EINVAL) SetClockTime))"

definition start_disciplining :: "start_env \<Rightarrow> start_vars \<Rightarrow> start_vars run" where
  "start_disciplining env v0 =
     (if \<not> disciplining_mode v0 then goes v0
      else and_then (acquire (se_parameters env = 0) (- EINVAL) ReadParameters) (\<lambda>_.
        let v = v0\<lparr>sv_sign := (if config_get_bool_default (sv_config v0) ''opposite-phase-error'' False then - 1 else 1),
                   sv_phase_error_supported := True\<rparr>
        in and_then (acquire (se_od env) EXIT_FAILURE OdNew) (\<lambda>_.
             and_then (acquire (se_phasemeter env) (- EINVAL) PhasemeterInit) (\<lambda>_.
               and_then (if se_loop env 0 then acquire (se_set_clock1 env = 0) (- EINVAL) SetClockTime else goes ()) (\<lambda>_.
                 and_then (if se_loop env 1 then initial_jump env v else goes ()) (\<lambda>_. goes v))))))"

definition start_ntp :: "start_env \<Rightarrow> start_vars \<Rightarrow> start_vars run" where
  "start_ntp env v =
     (if se_loop env 2 then
        and_then (emit (PpsEnable True)) (\<lambda>_. and_then (emit NtpContextInit) (\<lambda>_.
          if pps_path (sv_devices v) \<noteq> [] then and_then (emit LinkActivate) (\<lambda>_. goes (v\<lparr>sv_link := True\<rparr>))
          else goes v))
      else goes v)"

definition od_start :: "string \<Rightarrow> start_env \<Rightarrow> start_vars run" where
  "od_start path env =
     and_then (read_config path env) (\<lambda>v1. and_then (start_monitoring env v1) (\<lambda>v2.
       and_then (start_oscillator env v2) (\<lambda>v3. and_then (open_clock env v3) (\<lambda>v4.
         and_then (start_gnss env v4) (\<lambda>v5. and_then (start_disciplining env v5) (start_ntp env))))))"

text \<open>The parameters of the loop; the constants are the library's.\<close>

definition loop_cfg :: "int \<Rightarrow> int \<Rightarrow> int \<Rightarrow> start_vars \<Rightarrow> main_cfg" where
  "loop_cfg uncalibrated warmup init v =
     \<lparr>cfg_disciplining = disciplining_mode v, cfg_monitoring = monitoring_mode v, cfg_sign = sv_sign v,
      cfg_phase_error_supported = sv_phase_error_supported v,
      cfg_class_uncalibrated = uncalibrated, cfg_status_warmup = warmup, cfg_status_init = init\<rparr>"

section \<open>Behind the loop\<close>

text \<open>The clock is closed once by the code and once more by the cleanup attribute of its variable.\<close>

definition od_shutdown :: "start_vars \<Rightarrow> int \<Rightarrow> od_effect list" where
  "od_shutdown v get_parameters =
     [PpsEnable False] @ (if sv_link v then [LinkDeactivate] else []) @ [GnssStopped] @
     (if disciplining_mode v
      then [SaveJoin, PhasemeterStopped] @ (if get_parameters \<noteq> 0 then [] else [SaveParameters]) @ [OdDestroyed]
      else []) @
     (if monitoring_mode v then [MonitoringStopped] else []) @
     (if sv_clock_open v then [ClockClose] else []) @ [OscillatorDestroyed] @
     (if sv_clock_open v then [ClockClose] else [])"

section \<open>What a start does\<close>

lemma and_then_Goes:
  "and_then m f log = (Goes y, l) \<longleftrightarrow> (\<exists>x k. m log = (Goes x, k) \<and> f x k = (Goes y, l))"
  by (auto simp: and_then_def split: prod.splits outcome.splits)

lemma run_Goes:
  "goes x log = (Goes y, l) \<longleftrightarrow> y = x \<and> l = log"
  "emit e log = (Goes u, l) \<longleftrightarrow> l = log @ [e]"
  "require b code log = (Goes u, l) \<longleftrightarrow> b \<and> l = log"
  "acquire b code e log = (Goes u, l) \<longleftrightarrow> b \<and> l = log @ [e]"
  by (auto simp: goes_def emit_def require_def acquire_def and_then_def)

lemmas run_simps = and_then_Goes run_Goes

lemma read_config_Goes:
  "read_config path env log = (Goes v, l) \<Longrightarrow>
     l = log \<and> (disciplining_mode v \<or> monitoring_mode v) \<and> \<not> sv_link v \<and> \<not> sv_clock_open v \<and> sv_sign v = 0"
  by (auto simp: read_config_def run_simps Let_def split: prod.splits)

lemma first_phase_Goes:
  "first_phase env log = (Goes e, l) \<Longrightarrow>
     l = log \<and> (\<exists>p. find (\<lambda>p. fst p = PHASEMETER_BOTH_TIMESTAMPS) (se_phases env) = Some p \<and> e = snd p)"
  by (auto simp: first_phase_def split: option.splits)

text \<open>The jump that a start in disciplining mode makes.\<close>

definition jump_made :: "start_env \<Rightarrow> start_vars \<Rightarrow> od_effect list" where
  "jump_made env v =
     (case find (\<lambda>p. fst p = PHASEMETER_BOTH_TIMESTAMPS) (se_phases env) of
        None \<Rightarrow> []
      | Some p \<Rightarrow> [InitialJump (apply_phase_offset (- snd p * sv_sign v)), SetClockTime])"

definition start_log :: "start_env \<Rightarrow> start_vars \<Rightarrow> od_effect list" where
  "start_log env v =
     (if monitoring_mode v then [MonitoringInit] else []) @ [OscillatorNew] @
     (if sv_clock_open v then [ClockOpen] else []) @ [GnssInit] @
     (if disciplining_mode v
      then [ReadParameters, OdNew, PhasemeterInit] @ (if se_loop env 0 then [SetClockTime] else []) @
           (if se_loop env 1 then jump_made env v else [])
      else []) @
     (if se_loop env 2 then [PpsEnable True, NtpContextInit] else []) @
     (if sv_link v then [LinkActivate] else [])"

lemma start_disciplining_Goes:
  assumes "start_disciplining env v0 log = (Goes v, l)"
  shows "(\<not> disciplining_mode v0 \<longrightarrow> v = v0 \<and> l = log) \<and>
    (disciplining_mode v0 \<longrightarrow>
       (\<exists>s. v = v0\<lparr>sv_sign := s, sv_phase_error_supported := True\<rparr> \<and> (s = 1 \<or> s = - 1)) \<and>
       l = log @ [ReadParameters, OdNew, PhasemeterInit] @ (if se_loop env 0 then [SetClockTime] else []) @
         (if se_loop env 1 then jump_made env v else []))"
  using assms
  by (auto simp: start_disciplining_def initial_jump_def run_simps jump_made_def Let_def dest!: first_phase_Goes split: if_splits)

lemma start_facts:
  assumes "od_start path env [] = (Goes v, log)"
  shows "log = start_log env v \<and> (disciplining_mode v \<or> monitoring_mode v) \<and>
    (disciplining_mode v \<longrightarrow> sv_clock_open v \<and> (sv_sign v = 1 \<or> sv_sign v = - 1)) \<and>
    (sv_link v \<longleftrightarrow> se_loop env 2 \<and> pps_path (sv_devices v) \<noteq> [])"
proof -
  obtain v1 v2 v3 v4 v5 v6 l1 l2 l3 l4 l5 l6 where s:
    "read_config path env [] = (Goes v1, l1)" "start_monitoring env v1 l1 = (Goes v2, l2)"
    "start_oscillator env v2 l2 = (Goes v3, l3)" "open_clock env v3 l3 = (Goes v4, l4)"
    "start_gnss env v4 l4 = (Goes v5, l5)" "start_disciplining env v5 l5 = (Goes v6, l6)"
    "start_ntp env v6 l6 = (Goes v, log)"
    using assms by (auto simp: od_start_def and_then_Goes)
  have 2: "v2 = v1" "l2 = (if monitoring_mode v1 then [MonitoringInit] else [])"
    using s(1,2) by (auto simp: start_monitoring_def run_simps dest!: read_config_Goes split: if_splits)
  have 3: "l3 = l2 @ [OscillatorNew]" "disciplining_mode v3 = disciplining_mode v1"
      "monitoring_mode v3 = monitoring_mode v1" "sv_link v3 = sv_link v1" "sv_clock_open v3 = sv_clock_open v1"
    using s(3) 2 by (auto simp: start_oscillator_def run_simps Let_def split: if_splits)
  have 4: "l4 = l3 @ (if sv_clock_open v4 then [ClockOpen] else [])" "disciplining_mode v4 \<longrightarrow> sv_clock_open v4"
      "disciplining_mode v4 = disciplining_mode v3" "monitoring_mode v4 = monitoring_mode v3" "\<not> sv_link v4"
    using s(4) 3 read_config_Goes [OF s(1)] by (auto simp: open_clock_def run_simps split: if_splits)
  have 5: "v5 = v4" "l5 = l4 @ [GnssInit]" using s(5) by (auto simp: start_gnss_def run_simps)
  note 6 = start_disciplining_Goes [OF s(6)]
  have 7: "v = v6\<lparr>sv_link := se_loop env 2 \<and> pps_path (sv_devices v6) \<noteq> []\<rparr>"
      "log = l6 @ (if se_loop env 2 then [PpsEnable True, NtpContextInit] else []) @ (if sv_link v then [LinkActivate] else [])"
    using s(7) 4 5 6 by (auto simp: start_ntp_def run_simps split: if_splits)
  have "sv_sign v = sv_sign v6" by (simp add: 7(1))
  then have j: "jump_made env v = jump_made env v6" by (simp add: jump_made_def split: option.split)
  show ?thesis
    using read_config_Goes [OF s(1)] 2 3 4 5 6 7 j by (cases "disciplining_mode v4") (auto simp: start_log_def)
qed

text \<open>C9. The order of a start that reaches the loop in disciplining mode with the program still running:
  the receiver, the stored parameters, the algorithm and the phasemeter come first; the clock is
  set, moved by exactly the first measured phase error with the configured sign reversed, and set
  again; only then are the pulse output and the NTP segments enabled.\<close>

theorem start_order:
  assumes "od_start path env [] = (Goes v, log)" "disciplining_mode v"
    and "se_loop env 0" "se_loop env 1" "se_loop env 2" "pps_path (sv_devices v) \<noteq> []"
    and "find (\<lambda>p. fst p = PHASEMETER_BOTH_TIMESTAMPS) (se_phases env) = Some p"
  shows "\<exists>t pre. log = pre @ [GnssInit, ReadParameters, OdNew, PhasemeterInit, SetClockTime, InitialJump t,
      SetClockTime, PpsEnable True, NtpContextInit, LinkActivate] \<and>
    ClockOpen \<in> set pre \<and> OscillatorNew \<in> set pre \<and>
    (sv_sign v = 1 \<or> sv_sign v = - 1) \<and>
    tv_sec t * NS_IN_SECOND + tv_nsec t = - snd p * sv_sign v \<and> 0 \<le> tv_nsec t \<and> tv_nsec t < NS_IN_SECOND"
proof -
  note f = start_facts [OF assms(1)]
  let ?t = "apply_phase_offset (- snd p * sv_sign v)"
  let ?pre = "(if monitoring_mode v then [MonitoringInit] else []) @ [OscillatorNew, ClockOpen]"
  have "log = ?pre @ [GnssInit, ReadParameters, OdNew, PhasemeterInit, SetClockTime, InitialJump ?t,
       SetClockTime, PpsEnable True, NtpContextInit, LinkActivate]"
    using f assms(2-7) by (simp add: start_log_def jump_made_def)
  then show ?thesis
    using f assms(2) phase_offset_split [of "- snd p * sv_sign v"]
    by (intro exI [of _ ?t] exI [of _ ?pre]) auto
qed

section \<open>The life of the resources\<close>

text \<open>What a call needs alive, what it ends and what it begins. Closing the clock twice is let pass.\<close>

definition needs :: "od_effect \<Rightarrow> od_effect list" where
  "needs e =
     (case e of
        SetClockTime \<Rightarrow> [GnssInit, ClockOpen] | InitialJump _ \<Rightarrow> [ClockOpen, PhasemeterInit]
      | PhasemeterInit \<Rightarrow> [ClockOpen] | LinkDeactivate \<Rightarrow> [LinkActivate] | GnssStopped \<Rightarrow> [GnssInit]
      | PhasemeterStopped \<Rightarrow> [PhasemeterInit] | SaveParameters \<Rightarrow> [OdNew] | OdDestroyed \<Rightarrow> [OdNew]
      | MonitoringStopped \<Rightarrow> [MonitoringInit] | OscillatorDestroyed \<Rightarrow> [OscillatorNew] | _ \<Rightarrow> [])"

definition ends :: "od_effect \<Rightarrow> od_effect option" where
  "ends e =
     (case e of
        LinkDeactivate \<Rightarrow> Some LinkActivate | GnssStopped \<Rightarrow> Some GnssInit | PhasemeterStopped \<Rightarrow> Some PhasemeterInit
      | OdDestroyed \<Rightarrow> Some OdNew | MonitoringStopped \<Rightarrow> Some MonitoringInit | ClockClose \<Rightarrow> Some ClockOpen
      | OscillatorDestroyed \<Rightarrow> Some OscillatorNew | _ \<Rightarrow> None)"

definition begins :: "od_effect \<Rightarrow> bool" where
  "begins e \<longleftrightarrow> e \<in> {MonitoringInit, OscillatorNew, ClockOpen, GnssInit, OdNew, PhasemeterInit, LinkActivate}"

definition life :: "od_effect set \<Rightarrow> od_effect \<Rightarrow> od_effect set option" where
  "life alive e =
     (if \<not> set (needs e) \<subseteq> alive then None
      else Some (case ends e of Some r \<Rightarrow> alive - {r} | None \<Rightarrow> if begins e then insert e alive else alive))"

lemma life_simps:
  "life A MonitoringInit = Some (insert MonitoringInit A)" "life A OscillatorNew = Some (insert OscillatorNew A)"
  "life A ClockOpen = Some (insert ClockOpen A)" "life A GnssInit = Some (insert GnssInit A)"
  "life A OdNew = Some (insert OdNew A)" "life A LinkActivate = Some (insert LinkActivate A)"
  "ClockOpen \<in> A \<Longrightarrow> life A PhasemeterInit = Some (insert PhasemeterInit A)"
  "life A ReadParameters = Some A" "life A (PpsEnable b) = Some A" "life A NtpContextInit = Some A"
  "life A SaveJoin = Some A" "OdNew \<in> A \<Longrightarrow> life A SaveParameters = Some A"
  "GnssInit \<in> A \<Longrightarrow> ClockOpen \<in> A \<Longrightarrow> life A SetClockTime = Some A"
  "ClockOpen \<in> A \<Longrightarrow> PhasemeterInit \<in> A \<Longrightarrow> life A (InitialJump t) = Some A"
  "LinkActivate \<in> A \<Longrightarrow> life A LinkDeactivate = Some (A - {LinkActivate})"
  "GnssInit \<in> A \<Longrightarrow> life A GnssStopped = Some (A - {GnssInit})"
  "PhasemeterInit \<in> A \<Longrightarrow> life A PhasemeterStopped = Some (A - {PhasemeterInit})"
  "OdNew \<in> A \<Longrightarrow> life A OdDestroyed = Some (A - {OdNew})"
  "MonitoringInit \<in> A \<Longrightarrow> life A MonitoringStopped = Some (A - {MonitoringInit})"
  "life A ClockClose = Some (A - {ClockOpen})"
  "OscillatorNew \<in> A \<Longrightarrow> life A OscillatorDestroyed = Some (A - {OscillatorNew})"
  by (simp_all add: life_def needs_def ends_def begins_def)

text \<open>What is alive in the loop.\<close>

definition alive_in_loop :: "start_vars \<Rightarrow> od_effect set" where
  "alive_in_loop v =
     {e. e = OscillatorNew \<or> e = GnssInit \<or> monitoring_mode v \<and> e = MonitoringInit \<or>
         sv_clock_open v \<and> e = ClockOpen \<or> sv_link v \<and> e = LinkActivate \<or>
         disciplining_mode v \<and> (e = OdNew \<or> e = PhasemeterInit)}"

lemma traces_jump:
  "GnssInit \<in> A \<Longrightarrow> ClockOpen \<in> A \<Longrightarrow> PhasemeterInit \<in> A \<Longrightarrow>
     traces life A (if b then jump_made env v else []) = Some A"
  by (simp add: jump_made_def life_simps split: option.split)

lemma traces_set_clock:
  "GnssInit \<in> A \<Longrightarrow> ClockOpen \<in> A \<Longrightarrow> traces life A (if b then [SetClockTime] else []) = Some A"
  by (simp add: life_simps)

lemma traces_pps: "traces life A (if b then [PpsEnable True, NtpContextInit] else []) = Some A"
  by (simp add: life_simps)

lemma traces_start:
  assumes "disciplining_mode v \<longrightarrow> sv_clock_open v"
  shows "traces life {} (start_log env v) = Some (alive_in_loop v)"
  using assms unfolding start_log_def alive_in_loop_def
  by (cases "monitoring_mode v"; cases "sv_clock_open v"; cases "disciplining_mode v"; cases "sv_link v")
    (auto simp: life_simps traces_jump traces_set_clock traces_pps)

lemma traces_shutdown: "traces life (alive_in_loop v) (od_shutdown v r) = Some {}"
  unfolding od_shutdown_def alive_in_loop_def
  by (cases "monitoring_mode v"; cases "sv_clock_open v"; cases "disciplining_mode v"; cases "sv_link v"; cases "r = 0")
    (auto simp: life_simps)


definition sample_start :: start_env where
  "sample_start = \<lparr>se_argc = 2,
     se_file = ReadAll (''disciplining=true'' @ [NL] @ ''sysfs-path=/s'' @ [NL] @ ''opposite-phase-error=true''),
     se_dir = (\<lambda>_. Inr [\<lparr>ent_name = ''pps'', ent_dir = False, ent_data = SysFile ''pps1'', ent_sub = None\<rparr>]), se_search = (\<lambda>_ _. None), se_monitoring = True, se_oscillator = True,
     se_get_phase = 0, se_clock = True, se_gnss = True, se_parameters = 0, se_od = True, se_phasemeter = True,
     se_set_clock1 = 0, se_phases = [(PHASEMETER_NO_GNSS_TIMESTAMPS, 0), (PHASEMETER_BOTH_TIMESTAMPS, 1500)],
     se_adjtime = 0, se_set_clock2 = 0, se_loop = (\<lambda>_. True)\<rparr>"

lemma sample_started:
  "case od_start ''/c'' sample_start [] of (Goes v, log) \<Rightarrow>
     disciplining_mode v \<and> sv_sign v = - 1 \<and> pps_path (sv_devices v) = ''/dev/pps1''
   | _ \<Rightarrow> False"
  by code_simp

lemma sample_started_run:
  obtains v log where "od_start ''/c'' sample_start [] = (Goes v, log)" "disciplining_mode v"
    "sv_sign v = - 1" "pps_path (sv_devices v) \<noteq> []"
  using sample_started
  by (cases "od_start ''/c'' sample_start []"; cases "fst (od_start ''/c'' sample_start [])") auto

theorem start_order_witness:
  "\<exists>v log t pre. od_start ''/c'' sample_start [] = (Goes v, log) \<and>
     log = pre @ [GnssInit, ReadParameters, OdNew, PhasemeterInit, SetClockTime, InitialJump t,
       SetClockTime, PpsEnable True, NtpContextInit, LinkActivate] \<and>
     tv_sec t * NS_IN_SECOND + tv_nsec t = 1500"
proof -
  obtain v log where s: "od_start ''/c'' sample_start [] = (Goes v, log)" "disciplining_mode v"
      "sv_sign v = - 1" "pps_path (sv_devices v) \<noteq> []" by (rule sample_started_run)
  have e: "se_loop sample_start 0" "se_loop sample_start 1" "se_loop sample_start 2"
    "find (\<lambda>p. fst p = PHASEMETER_BOTH_TIMESTAMPS) (se_phases sample_start) = Some (PHASEMETER_BOTH_TIMESTAMPS, 1500)"
    by (simp_all add: sample_start_def)
  from start_order [OF s(1) s(2) e(1-3) s(4) e(4)] s(1,3) show ?thesis by auto
qed


end
