(* ===== verification/NtpShmConc.thy ===== *)
theory NtpShmConc
  imports NtpShm
begin

text \<open>
  The mode 1 protocol of \<open>ntp_write\<close> and \<open>ntp_read\<close> as two concurrent processes over one
  segment. A writer step is one store of \<open>ntp_write_stores\<close>; a reader step is one access of
  \<open>ntp_read\<close>: the test of \<open>valid\<close>, the read of \<open>count\<close>, the copy of one field, the store of
  \<open>valid\<close> when consuming, the comparison of \<open>count\<close>. Ghost components count the increments
  of \<open>count\<close> and remember every payload that was ever published as a whole.
\<close>

section \<open>Processes\<close>

datatype shm_field = FMode | FCount | FClockSec | FClockUSec | FReceiveSec | FReceiveUSec |
  FLeap | FPrecision | FNsamples | FValid | FClockNSec | FReceiveNSec

definition all_fields :: "shm_field list" where
  "all_fields = [FMode, FCount, FClockSec, FClockUSec, FReceiveSec, FReceiveUSec, FLeap,
     FPrecision, FNsamples, FValid, FClockNSec, FReceiveNSec]"

fun copy_field :: "shm_field \<Rightarrow> shmTime \<Rightarrow> shmTime \<Rightarrow> shmTime" where
  "copy_field FMode m c = c\<lparr>shm_mode := shm_mode m\<rparr>"
| "copy_field FCount m c = c\<lparr>shm_count := shm_count m\<rparr>"
| "copy_field FClockSec m c = c\<lparr>clockTimeStampSec := clockTimeStampSec m\<rparr>"
| "copy_field FClockUSec m c = c\<lparr>clockTimeStampUSec := clockTimeStampUSec m\<rparr>"
| "copy_field FReceiveSec m c = c\<lparr>receiveTimeStampSec := receiveTimeStampSec m\<rparr>"
| "copy_field FReceiveUSec m c = c\<lparr>receiveTimeStampUSec := receiveTimeStampUSec m\<rparr>"
| "copy_field FLeap m c = c\<lparr>shm_leap := shm_leap m\<rparr>"
| "copy_field FPrecision m c = c\<lparr>shm_precision := shm_precision m\<rparr>"
| "copy_field FNsamples m c = c\<lparr>shm_nsamples := shm_nsamples m\<rparr>"
| "copy_field FValid m c = c\<lparr>shm_valid := shm_valid m\<rparr>"
| "copy_field FClockNSec m c = c\<lparr>clockTimeStampNSec := clockTimeStampNSec m\<rparr>"
| "copy_field FReceiveNSec m c = c\<lparr>receiveTimeStampNSec := receiveTimeStampNSec m\<rparr>"

text \<open>The reader's program points; \<open>t0\<close> and \<open>t1\<close> are the ghost increment counts at the two
  reads of \<open>count\<close>.\<close>

datatype reader =
    RIdle
  | RValid
  | RCopy "32 word" nat shmTime "shm_field list"
  | RCheck "32 word" nat shmTime
  | RDone segstat_t nat nat shmTime

record shm_sys =
  seg :: shmTime
  pending :: "shm_store list"
  rdr :: reader
  incs :: nat
  pubs :: "(int \<times> int \<times> 32 word \<times> int \<times> int \<times> 32 word \<times> int \<times> int) set"

definition payload ::
  "shmTime \<Rightarrow> int \<times> int \<times> 32 word \<times> int \<times> int \<times> 32 word \<times> int \<times> int" where
  "payload m = (clockTimeStampSec m, clockTimeStampUSec m, clockTimeStampNSec m,
     receiveTimeStampSec m, receiveTimeStampUSec m, receiveTimeStampNSec m,
     shm_leap m, shm_precision m)"

text \<open>One store of the writer, and the store after which nothing is pending starts a new write.\<close>

definition start_write :: "timedelta_t \<Rightarrow> int \<Rightarrow> int \<Rightarrow> shm_sys \<Rightarrow> shm_sys" where
  "start_write td p l s =
     s\<lparr>pending := ntp_write_stores td p l,
       pubs := insert (payload (fst (ntp_write (seg s) td p l))) (pubs s)\<rparr>"

definition writer_store :: "shm_store \<Rightarrow> shm_store list \<Rightarrow> shm_sys \<Rightarrow> shm_sys" where
  "writer_store st rest s =
     s\<lparr>seg := exec_store st (seg s), pending := rest,
       incs := (if st = StCountInc then Suc (incs s) else incs s)\<rparr>"

definition done_status :: "32 word \<Rightarrow> shmTime \<Rightarrow> 32 word \<Rightarrow> segstat_t" where
  "done_status cnt c now =
     fst (read_finish cnt c now
       \<lparr>st_status = NOT_READY, st_tvc = ts_zero, st_tvr = ts_zero, st_tvt = ts_zero,
        st_precision = 0, st_leap = 0\<rparr>)"

inductive shm_step :: "bool \<Rightarrow> shm_sys \<Rightarrow> shm_sys \<Rightarrow> bool" for consume where
  w_start: "pending s = [] \<Longrightarrow> shm_step consume s (start_write td p l s)"
| w_store: "pending s = st # rest \<Longrightarrow> shm_step consume s (writer_store st rest s)"
| r_start: "rdr s = RIdle \<Longrightarrow> shm_valid (seg s) \<noteq> 0 \<Longrightarrow> shm_step consume s (s\<lparr>rdr := RValid\<rparr>)"
| r_not_ready: "rdr s = RIdle \<Longrightarrow> shm_valid (seg s) = 0 \<Longrightarrow>
    shm_step consume s (s\<lparr>rdr := RDone NOT_READY (incs s) (incs s) (seg s)\<rparr>)"
| r_count: "rdr s = RValid \<Longrightarrow>
    shm_step consume s (s\<lparr>rdr := RCopy (shm_count (seg s)) (incs s) c all_fields\<rparr>)"
| r_copy: "rdr s = RCopy cnt t0 c todo \<Longrightarrow> f \<in> set todo \<Longrightarrow>
    shm_step consume s (s\<lparr>rdr := RCopy cnt t0 (copy_field f (seg s) c) (remove1 f todo)\<rparr>)"
| r_consume: "rdr s = RCopy cnt t0 c [] \<Longrightarrow>
    shm_step consume s
      (s\<lparr>seg := (if consume then (seg s)\<lparr>shm_valid := 0\<rparr> else seg s), rdr := RCheck cnt t0 c\<rparr>)"
| r_check: "rdr s = RCheck cnt t0 c \<Longrightarrow>
    shm_step consume s
      (s\<lparr>rdr := RDone (done_status cnt c (shm_count (seg s))) t0 (incs s) c\<rparr>)"
| r_again: "rdr s = RDone r t0 t1 c \<Longrightarrow> shm_step consume s (s\<lparr>rdr := RIdle\<rparr>)"

inductive shm_reach :: "bool \<Rightarrow> shmTime \<Rightarrow> shm_sys \<Rightarrow> bool" for consume m0 where
  init: "shm_reach consume m0
     \<lparr>seg = m0, pending = [], rdr = RIdle, incs = 0, pubs = {payload m0}\<rparr>"
| step: "shm_reach consume m0 s \<Longrightarrow> shm_step consume s t \<Longrightarrow> shm_reach consume m0 t"

section \<open>The writer's contract\<close>

text \<open>
  What the reader's safety needs from any writer: its stores bracket the payload between two
  increments of \<open>count\<close>, and no other store touches the payload.
\<close>

fun is_payload_store :: "shm_store \<Rightarrow> bool" where
  "is_payload_store (StValid v) = False"
| "is_payload_store StCountInc = False"
| "is_payload_store st = True"

lemma payload_other: "\<not> is_payload_store st \<Longrightarrow> payload (exec_store st m) = payload m"
  by (cases st) (simp_all add: payload_def)

definition count_incs :: "shm_store list \<Rightarrow> nat" where
  "count_incs sts = length (filter (\<lambda>st. st = StCountInc) sts)"

lemma count_incs_simps [simp]:
  "count_incs [] = 0"
  "count_incs (st # sts) = (if st = StCountInc then Suc (count_incs sts) else count_incs sts)"
  "count_incs (xs @ ys) = count_incs xs + count_incs ys"
  by (simp_all add: count_incs_def)

text \<open>A pending tail is fenced when every payload store comes before exactly one increment.\<close>

fun fenced :: "shm_store list \<Rightarrow> bool" where
  "fenced [] \<longleftrightarrow> True"
| "fenced (st # sts) \<longleftrightarrow> (is_payload_store st \<longrightarrow> count_incs sts = 1) \<and> fenced sts"

locale seq_writer =
  fixes stores :: "'a \<Rightarrow> shm_store list"
  assumes stores_fenced: "fenced (stores a)"
    and stores_incs: "count_incs (stores a) = 2"
begin

lemma writer_starts_even: "even (count_incs (stores a))"
  by (simp add: stores_incs)

lemma payload_store_inside: "stores a = xs @ st # ys \<Longrightarrow> is_payload_store st \<Longrightarrow> odd (count_incs ys)"
proof -
  assume a: "stores a = xs @ st # ys" and p: "is_payload_store st"
  have "fenced (xs @ st # ys) \<Longrightarrow> count_incs ys = 1"
    using p by (induction xs) auto
  with a show ?thesis using stores_fenced [of a] by simp
qed

end

lemma fenced_payload_append: "\<forall>st\<in>set ps. is_payload_store st \<Longrightarrow>
   fenced (ps @ [StCountInc, StValid v])"
proof (induction ps)
  case (Cons p ps)
  moreover from Cons.prems have "count_incs ps = 0" by (induction ps) auto
  ultimately show ?case by simp
qed simp

lemma payload_stores_ok: "\<forall>st\<in>set (ntp_payload_stores td p l). is_payload_store st"
  by (simp add: ntp_payload_stores_def)

interpretation ntpw: seq_writer "\<lambda>(td, p, l). ntp_write_stores td p l"
proof
  fix a :: "timedelta_t \<times> int \<times> int"
  show "fenced (case a of (td, p, l) \<Rightarrow> ntp_write_stores td p l)"
    using fenced_payload_append [OF payload_stores_ok]
    by (cases a) (simp add: ntp_write_stores_def)
  show "count_incs (case a of (td, p, l) \<Rightarrow> ntp_write_stores td p l) = 2"
    by (cases a) (simp add: ntp_write_stores_def ntp_payload_stores_def)
qed

section \<open>The invariant\<close>

text \<open>
  Parity: the increments done so far and those still pending add up to an even number. The
  payload is whole whenever the increments done are even. A reader that sampled the count at an
  even \<open>t0\<close> and sees no increment since then has copied from one payload only.
\<close>

definition writer_inv :: "shm_sys \<Rightarrow> bool" where
  "writer_inv s \<longleftrightarrow> fenced (pending s) \<and> even (incs s + count_incs (pending s)) \<and>
     count_incs (pending s) \<le> 2 \<and>
     payload (fold exec_store (pending s) (seg s)) \<in> pubs s \<and>
     (even (incs s) \<longrightarrow> payload (seg s) \<in> pubs s)"

text \<open>The fields already copied agree with the segment.\<close>

definition copied_from :: "shm_field list \<Rightarrow> shmTime \<Rightarrow> shmTime \<Rightarrow> bool" where
  "copied_from todo c m \<longleftrightarrow>
     (FClockSec \<in> set todo \<or> clockTimeStampSec c = clockTimeStampSec m) \<and>
     (FClockUSec \<in> set todo \<or> clockTimeStampUSec c = clockTimeStampUSec m) \<and>
     (FClockNSec \<in> set todo \<or> clockTimeStampNSec c = clockTimeStampNSec m) \<and>
     (FReceiveSec \<in> set todo \<or> receiveTimeStampSec c = receiveTimeStampSec m) \<and>
     (FReceiveUSec \<in> set todo \<or> receiveTimeStampUSec c = receiveTimeStampUSec m) \<and>
     (FReceiveNSec \<in> set todo \<or> receiveTimeStampNSec c = receiveTimeStampNSec m) \<and>
     (FLeap \<in> set todo \<or> shm_leap c = shm_leap m) \<and>
     (FPrecision \<in> set todo \<or> shm_precision c = shm_precision m)"

definition mode_copied :: "shm_field list \<Rightarrow> shmTime \<Rightarrow> int \<Rightarrow> bool" where
  "mode_copied todo c md \<longleftrightarrow> FMode \<in> set todo \<or> shm_mode c = md"

fun reader_inv :: "32 word \<Rightarrow> int \<Rightarrow> reader \<Rightarrow> shm_sys \<Rightarrow> bool" where
  "reader_inv c0 md (RCopy cnt t0 c todo) s \<longleftrightarrow>
     distinct todo \<and> cnt = c0 + of_nat t0 \<and> t0 \<le> incs s \<and> mode_copied todo c md \<and>
     (even t0 \<and> t0 = incs s \<longrightarrow> copied_from todo c (seg s)) \<and>
     (todo = [] \<and> even t0 \<and> t0 = incs s \<longrightarrow> payload c \<in> pubs s)"
| "reader_inv c0 md (RCheck cnt t0 c) s \<longleftrightarrow>
     cnt = c0 + of_nat t0 \<and> t0 \<le> incs s \<and> shm_mode c = md \<and>
     (even t0 \<and> t0 = incs s \<longrightarrow> payload c \<in> pubs s)"
| "reader_inv c0 md (RDone r t0 t1 c) s \<longleftrightarrow>
     t0 \<le> t1 \<and> (r = OK \<and> even t0 \<and> t1 - t0 < 2 ^ 32 \<longrightarrow> payload c \<in> pubs s)"
| "reader_inv c0 md RIdle s \<longleftrightarrow> True"
| "reader_inv c0 md RValid s \<longleftrightarrow> True"

definition shm_inv :: "32 word \<Rightarrow> int \<Rightarrow> shm_sys \<Rightarrow> bool" where
  "shm_inv c0 md s \<longleftrightarrow> writer_inv s \<and> shm_count (seg s) = c0 + of_nat (incs s) \<and>
     shm_mode (seg s) = md \<and> reader_inv c0 md (rdr s) s"

lemma copied_from_all: "copied_from all_fields c m"
  by (simp add: copied_from_def all_fields_def)

lemma copied_from_done: "copied_from [] c m \<Longrightarrow> payload c = payload m"
  by (simp add: copied_from_def payload_def)

lemma copied_from_step:
  "distinct todo \<Longrightarrow> copied_from todo c m \<Longrightarrow> copied_from (remove1 f todo) (copy_field f m c) m"
  by (cases f) (auto simp: copied_from_def set_remove1_eq)

lemma mode_copied_step:
  "distinct todo \<Longrightarrow> mode_copied todo c (shm_mode m) \<Longrightarrow>
   mode_copied (remove1 f todo) (copy_field f m c) (shm_mode m)"
  by (cases f) (auto simp: mode_copied_def set_remove1_eq)

lemma exec_store_frame [simp]:
  "shm_mode (exec_store st m) = shm_mode m"
  "shm_count (exec_store st m) = (if st = StCountInc then shm_count m + 1 else shm_count m)"
  by (cases st; simp)+

lemma copied_from_payload:
  "payload m = payload m' \<Longrightarrow> copied_from todo c m \<longleftrightarrow> copied_from todo c m'"
  by (auto simp: copied_from_def payload_def)

lemma fenced_no_incs:
  "fenced sts \<Longrightarrow> count_incs sts = 0 \<Longrightarrow> payload (fold exec_store sts m) = payload m"
proof (induction sts arbitrary: m)
  case (Cons st sts)
  then show ?case by (auto simp: payload_other split: if_splits)
qed simp

section \<open>Every step keeps the invariant\<close>

lemma writer_inv_start: "writer_inv s \<Longrightarrow> pending s = [] \<Longrightarrow> writer_inv (start_write td p l s)"
  using ntpw.stores_fenced [of "(td, p, l)"] ntpw.stores_incs [of "(td, p, l)"]
  by (simp add: writer_inv_def start_write_def ntp_write_def)

lemma even_no_payload_store:
  "writer_inv s \<Longrightarrow> pending s = st # rest \<Longrightarrow> even (incs s) \<Longrightarrow> \<not> is_payload_store st"
  by (auto simp: writer_inv_def split: if_splits)

lemma writer_inv_store:
  assumes "writer_inv s" "pending s = st # rest"
  shows "writer_inv (writer_store st rest s)"
proof (cases "st = StCountInc")
  case True
  have "count_incs rest = 0" if "odd (incs s)"
  proof -
    have "even (incs s + Suc (count_incs rest))" "Suc (count_incs rest) \<le> 2"
      using assms True by (simp_all add: writer_inv_def)
    with that show ?thesis by (cases "count_incs rest") auto
  qed
  then show ?thesis
    using assms True fenced_no_incs [of rest "exec_store st (seg s)"]
    by (auto simp: writer_inv_def writer_store_def)
next
  case False
  then show ?thesis
    using assms even_no_payload_store [OF assms]
    by (auto simp: writer_inv_def writer_store_def payload_other)
qed

lemma reader_inv_start: "reader_inv c0 md r s \<Longrightarrow> reader_inv c0 md r (start_write td p l s)"
  by (cases r) (auto simp: start_write_def)

lemma reader_inv_store:
  assumes "writer_inv s" "pending s = st # rest" "reader_inv c0 md r s"
  shows "reader_inv c0 md r (writer_store st rest s)"
proof -
  have "payload (exec_store st (seg s)) = payload (seg s)" if "even (incs s)"
    using even_no_payload_store [OF assms(1,2) that] by (rule payload_other)
  then show ?thesis
    using assms(3) copied_from_payload [of "exec_store st (seg s)" "seg s"]
    by (cases r) (auto simp: writer_store_def)
qed

lemma done_status_OK: "done_status cnt c now = OK \<Longrightarrow> shm_mode c = 1 \<Longrightarrow> cnt = now"
  by (simp add: done_status_def read_finish_def split: if_splits)

lemma of_nat_window:
  assumes "c0 + of_nat t0 = c0 + (of_nat t1 :: 32 word)" "t0 \<le> t1" "t1 - t0 < 2 ^ 32"
  shows "t0 = t1"
proof -
  have "(of_nat (t1 - t0) :: 32 word) = 0"
    using assms(1,2) by (simp add: of_nat_diff)
  then have "2 ^ 32 dvd t1 - t0"
    by (simp add: word_of_nat_eq_0_iff)
  with assms(2,3) show ?thesis by (auto dest: dvd_imp_le)
qed

lemma shm_step_inv:
  assumes "shm_step consume s t" "shm_inv c0 1 s"
  shows "shm_inv c0 1 t"
  using assms(1)
proof (cases rule: shm_step.cases)
  case (w_start td p l)
  then show ?thesis
    using assms(2) writer_inv_start [of s td p l] reader_inv_start [of c0 1 "rdr s" s td p l]
    by (simp add: shm_inv_def) (simp add: start_write_def)
next
  case (w_store st rest)
  then show ?thesis
    using assms(2) writer_inv_store [of s st rest] reader_inv_store [of s st rest c0 1 "rdr s"]
    by (simp add: shm_inv_def) (simp add: writer_store_def)
next
  case (r_count c)
  then show ?thesis
    using assms(2) copied_from_all
    by (simp add: shm_inv_def writer_inv_def)
      (simp add: mode_copied_def all_fields_def copied_from_def)
next
  case (r_copy cnt t0 c todo f)
  have "copied_from (remove1 f todo) (copy_field f (seg s) c) (seg s)" if "even t0" "t0 = incs s"
    using assms(2) r_copy that copied_from_step [of todo c "seg s" f] by (simp add: shm_inv_def)
  moreover have "mode_copied (remove1 f todo) (copy_field f (seg s) c) 1"
    using assms(2) r_copy mode_copied_step [of todo c "seg s" f] by (simp add: shm_inv_def)
  ultimately show ?thesis
    using assms(2) r_copy copied_from_done [of "copy_field f (seg s) c" "seg s"]
    by (auto simp: shm_inv_def writer_inv_def)
next
  case (r_consume cnt t0 c)
  have "payload (fold exec_store sts (m\<lparr>shm_valid := v\<rparr>)) = payload (fold exec_store sts m)"
    for sts m v
  proof (induction sts arbitrary: m)
    case (Cons st sts)
    have "exec_store st (m\<lparr>shm_valid := v\<rparr>) =
      (if \<exists>w. st = StValid w then exec_store st m else (exec_store st m)\<lparr>shm_valid := v\<rparr>)"
      by (cases st) auto
    then show ?case using Cons.IH by simp
  qed (simp add: payload_def)
  moreover have "payload (seg s\<lparr>shm_valid := v\<rparr>) = payload (seg s)" for v
    by (simp add: payload_def)
  ultimately show ?thesis
    using assms(2) r_consume by (auto simp: shm_inv_def writer_inv_def mode_copied_def)
next
  case (r_check cnt t0 c)
  then show ?thesis
    using assms(2) done_status_OK [of cnt c "shm_count (seg s)"] of_nat_window [of c0 t0 "incs s"]
    by (auto simp: shm_inv_def writer_inv_def)
qed (use assms(2) in \<open>auto simp: shm_inv_def writer_inv_def\<close>)

lemma shm_reach_inv: "shm_reach consume m0 s \<Longrightarrow> shm_mode m0 = 1 \<Longrightarrow> shm_inv (shm_count m0) 1 s"
proof (induction rule: shm_reach.induct)
  case init
  then show ?case by (simp add: shm_inv_def writer_inv_def)
next
  case (step s t)
  then show ?case by (blast intro: shm_step_inv)
qed

section \<open>Schedules\<close>

text \<open>An executable scheduler, to exhibit runs of the relation.\<close>

datatype move = MWrite timedelta_t int int | MStore | MStart | MCount | MCopy | MConsume | MCheck

fun do_move :: "bool \<Rightarrow> move \<Rightarrow> shm_sys \<Rightarrow> shm_sys option" where
  "do_move consume (MWrite td p l) s =
     (if pending s = [] then Some (start_write td p l s) else None)"
| "do_move consume MStore s =
     (case pending s of [] \<Rightarrow> None | st # rest \<Rightarrow> Some (writer_store st rest s))"
| "do_move consume MStart s =
     (if rdr s = RIdle \<and> shm_valid (seg s) \<noteq> 0 then Some (s\<lparr>rdr := RValid\<rparr>) else None)"
| "do_move consume MCount s =
     (if rdr s = RValid
      then Some (s\<lparr>rdr := RCopy (shm_count (seg s)) (incs s) shm_zero all_fields\<rparr>) else None)"
| "do_move consume MCopy s =
     (case rdr s of
        RCopy cnt t0 c (f # todo) \<Rightarrow> Some (s\<lparr>rdr := RCopy cnt t0 (copy_field f (seg s) c) todo\<rparr>)
      | _ \<Rightarrow> None)"
| "do_move consume MConsume s =
     (case rdr s of
        RCopy cnt t0 c [] \<Rightarrow>
          Some (s\<lparr>seg := (if consume then (seg s)\<lparr>shm_valid := 0\<rparr> else seg s), rdr := RCheck cnt t0 c\<rparr>)
      | _ \<Rightarrow> None)"
| "do_move consume MCheck s =
     (case rdr s of
        RCheck cnt t0 c \<Rightarrow>
          Some (s\<lparr>rdr := RDone (done_status cnt c (shm_count (seg s))) t0 (incs s) c\<rparr>)
      | _ \<Rightarrow> None)"

lemma do_move_step: "do_move consume mv s = Some t \<Longrightarrow> shm_step consume s t"
proof (cases mv)
  case MCopy
  assume "do_move consume mv s = Some t"
  then obtain cnt t0 c f todo where r: "rdr s = RCopy cnt t0 c (f # todo)"
      and t: "t = s\<lparr>rdr := RCopy cnt t0 (copy_field f (seg s) c) todo\<rparr>"
    using MCopy by (auto split: reader.splits list.splits)
  from shm_step.r_copy [OF r, of f] show ?thesis by (simp add: t)
next
  case MConsume
  assume "do_move consume mv s = Some t"
  then obtain cnt t0 c where "rdr s = RCopy cnt t0 c []"
      and "t = s\<lparr>seg := (if consume then (seg s)\<lparr>shm_valid := 0\<rparr> else seg s), rdr := RCheck cnt t0 c\<rparr>"
    using MConsume by (auto split: reader.splits list.splits)
  then show ?thesis by (simp only: shm_step.r_consume)
qed (auto split: if_splits list.splits reader.splits intro: shm_step.intros)

fun do_moves :: "bool \<Rightarrow> move list \<Rightarrow> shm_sys \<Rightarrow> shm_sys option" where
  "do_moves consume [] s = Some s"
| "do_moves consume (mv # mvs) s =
     (case do_move consume mv s of None \<Rightarrow> None | Some t \<Rightarrow> do_moves consume mvs t)"

lemma do_moves_reach:
  "shm_reach consume m0 s \<Longrightarrow> do_moves consume mvs s = Some t \<Longrightarrow> shm_reach consume m0 t"
  by (induction mvs arbitrary: s)
    (auto split: option.splits dest: do_move_step intro: shm_reach.step)

definition fresh_segment :: shmTime where
  "fresh_segment = shm_zero\<lparr>shm_mode := 1\<rparr>"

definition start_sys :: shm_sys where
  "start_sys = \<lparr>seg = fresh_segment, pending = [], rdr = RIdle, incs = 0,
     pubs = {payload fresh_segment}\<rparr>"

definition sample_td :: "int \<Rightarrow> timedelta_t" where
  "sample_td n = \<lparr>td_real = \<lparr>tv_sec = n, tv_nsec = 0\<rparr>, td_clock = \<lparr>tv_sec = n, tv_nsec = 7\<rparr>\<rparr>"

text \<open>One write, then a read that is not disturbed.\<close>

definition quiet_schedule :: "move list" where
  "quiet_schedule = MWrite (sample_td 1000) (-20) 0 # replicate 12 MStore @
     [MStart, MCount] @ replicate 12 MCopy @ [MConsume, MCheck]"

text \<open>The reader tests \<open>valid\<close> before the second write starts and samples \<open>count\<close> inside it.\<close>

definition torn_schedule :: "move list" where
  "torn_schedule = MWrite (sample_td 1000) (-20) 0 # replicate 12 MStore @
     [MStart, MWrite (sample_td 1001) (-20) 0, MStore, MStore, MStore, MCount] @
     replicate 12 MCopy @ [MConsume, MCheck]"

definition read_outcome :: "shm_sys option \<Rightarrow> (segstat_t \<times> nat \<times> nat \<times> bool) option" where
  "read_outcome r =
     (case r of
        None \<Rightarrow> None
      | Some s \<Rightarrow> (case rdr s of RDone st t0 t1 c \<Rightarrow> Some (st, t0, t1, payload c \<in> pubs s) | _ \<Rightarrow> None))"

lemma quiet_outcome: "read_outcome (do_moves True quiet_schedule start_sys) = Some (OK, 2, 2, True)"
  by code_simp

lemma torn_outcome: "read_outcome (do_moves True torn_schedule start_sys) = Some (OK, 3, 3, False)"
  by code_simp

lemma start_reach: "shm_reach consume fresh_segment start_sys"
  unfolding start_sys_def by (rule shm_reach.init)

lemma outcome_reach:
  assumes "read_outcome (do_moves True sched start_sys) = Some (st, t0, t1, b)"
  shows "\<exists>s c. shm_reach True fresh_segment s \<and> rdr s = RDone st t0 t1 c \<and> (payload c \<in> pubs s) = b"
proof -
  from assms obtain s c where s: "do_moves True sched start_sys = Some s"
      and "rdr s = RDone st t0 t1 c" "(payload c \<in> pubs s) = b"
    by (auto simp: read_outcome_def split: option.splits reader.splits)
  with do_moves_reach [OF start_reach s] show ?thesis by blast
qed

section \<open>Properties\<close>

text \<open>C1. No torn read: under every interleaving of the writer and a mode 1 reader, a read that
  reports OK and sampled \<open>count\<close> outside a write (an even number of increments) has copied
  exactly the payload of one write, as long as \<open>count\<close> did not wrap around completely between
  the two samples.\<close>

theorem shm_read_not_torn:
  assumes "shm_reach consume m0 s" "shm_mode m0 = 1" "rdr s = RDone OK t0 t1 c"
    and "even t0" "t1 - t0 < 2 ^ 32"
  shows "payload c \<in> pubs s"
  using shm_reach_inv [OF assms(1,2)] assms(3-5) by (simp add: shm_inv_def)

theorem shm_read_not_torn_witness:
  "\<exists>s c. shm_reach True fresh_segment s \<and> rdr s = RDone OK 2 2 c \<and> payload c \<in> pubs s"
proof -
  obtain s c where s: "shm_reach True fresh_segment s" "rdr s = RDone OK 2 2 c"
    using outcome_reach [OF quiet_outcome] by blast
  have "shm_mode fresh_segment = 1" by (simp add: fresh_segment_def)
  from shm_read_not_torn [OF s(1) this s(2)] s show ?thesis by auto
qed

text \<open>The evenness hypothesis cannot be dropped: the reader tests \<open>valid\<close> before it samples
  \<open>count\<close>, so a writer that starts in between and stalls between its two increments makes
  \<open>ntp_read\<close> report OK for a mixture of two samples that was never published.\<close>

theorem shm_torn_read_reachable:
  "\<exists>s t0 c. shm_reach True fresh_segment s \<and> rdr s = RDone OK t0 t0 c \<and> odd t0 \<and> payload c \<notin> pubs s"
proof -
  have "odd (3 :: nat)" by simp
  then show ?thesis using outcome_reach [OF torn_outcome] by blast
qed

end
