(* ===== verification/TimeHint.thy ===== *)
theory TimeHint
  imports NtpShm
begin

text \<open>
  \<open>src/ntpshm/timehint.c\<close>: attaching the NTP segments, handing them out to a session and taking
  them back, and shipping a PPS sample into the session's segment. Pointers to segments are
  addresses (\<open>nat option\<close>, \<open>None\<close> is NULL) into an explicit heap of segments, because
  \<open>ntpshm_free\<close> finds a segment by comparing pointers. The System V calls \<open>shmget\<close> and
  \<open>shmat\<close> are parameters. The \<open>segment_pool\<close> locale states the contract between the pool and
  its users.
\<close>

datatype sourcetype_t = source_unknown | source_blockdev | source_rs232 | source_usb |
  source_bluetooth | source_can | source_pty | source_tcp | source_udp | source_gpsd |
  source_pps | source_pipe

definition NTPSHMSEGS :: nat where "NTPSHMSEGS = 8"
definition NTPD_BASE :: int where "NTPD_BASE = 0x4e545030"
definition NTP_MIN_FIXES :: int where "NTP_MIN_FIXES = 3"

record ntp_session =
  heap :: "nat \<Rightarrow> shmTime"
  shmTimes :: "nat option list"
  shmTimeInuse :: "bool list"
  leap_notify :: int
  sourcetype :: sourcetype_t
  shm_clock :: "nat option"
  shm_pps :: "nat option"
  fixcnt :: int
  hook_set :: bool
  threads :: nat

section \<open>Attaching and handing out segments\<close>

text \<open>\<open>shmget key perms\<close> is the segment id, or \<open>None\<close> on failure; \<open>shmat id\<close> its address.\<close>

definition getShmTime ::
  "(int \<Rightarrow> int \<Rightarrow> int option) \<Rightarrow> (int \<Rightarrow> nat option) \<Rightarrow> nat \<Rightarrow> nat option" where
  "getShmTime shmget shmat unit =
     (let perms = (if unit < 2 then 0x180 else 0x1B6) \<comment> \<open>octal 0600 and 0666\<close>
      in case shmget (NTPD_BASE + int unit) perms of None \<Rightarrow> None | Some shmid \<Rightarrow> shmat shmid)"

text \<open>A reader attaches with \<open>shm_get\<close> (\<open>ntpshmread.c\<close>); here \<open>shmget\<close> is also told whether to create. The name of
  a segment takes the unit as one character.\<close>

definition shm_get ::
  "(int \<Rightarrow> bool \<Rightarrow> int \<Rightarrow> int option) \<Rightarrow> (int \<Rightarrow> nat option) \<Rightarrow> int \<Rightarrow> bool \<Rightarrow> bool \<Rightarrow> nat option" where
  "shm_get shmget shmat unit create forall =
     (case shmget (NTPD_BASE + unit) create (if forall then 0x1B6 else 0x180) of
        None \<Rightarrow> None | Some shmid \<Rightarrow> shmat shmid)"

definition ntp_name :: "int \<Rightarrow> string" where
  "ntp_name unit = ''NTP'' @ (let c = char_of (nat ((48 + unit) mod 256)) in if c = CHR 0x00 then [] else [c])"

text \<open>A reader that asks as the daemon does is given the daemon's segment.\<close>

lemma shm_get_same:
  "(\<And>key perms. shmget' key create perms = shmget key perms) \<Longrightarrow>
     shm_get shmget' shmat (int unit) create (2 \<le> unit) = getShmTime shmget shmat unit"
  by (simp add: shm_get_def getShmTime_def)

definition ntpshm_context_init ::
  "(int \<Rightarrow> int \<Rightarrow> int option) \<Rightarrow> (int \<Rightarrow> nat option) \<Rightarrow> int \<Rightarrow> ntp_session \<Rightarrow> ntp_session" where
  "ntpshm_context_init shmget shmat uid s =
     s\<lparr>shmTimes := map (\<lambda>i. if 2 \<le> i \<or> uid = 0 then getShmTime shmget shmat i else shmTimes s ! i)
                       [0..<NTPSHMSEGS],
       shmTimeInuse := replicate NTPSHMSEGS False\<rparr>"

definition alloc_init :: "shmTime" where
  "alloc_init = shm_zero\<lparr>shm_mode := 1, shm_leap := LEAP_NOTINSYNC, shm_precision := -20,
     shm_nsamples := 3\<rparr>"

definition ntpshm_alloc :: "ntp_session \<Rightarrow> nat option \<times> ntp_session" where
  "ntpshm_alloc s =
     (case find (\<lambda>i. shmTimes s ! i \<noteq> None \<and> \<not> shmTimeInuse s ! i) [0..<NTPSHMSEGS] of
        None \<Rightarrow> (None, s)
      | Some i \<Rightarrow>
          (shmTimes s ! i,
           s\<lparr>shmTimeInuse := (shmTimeInuse s)[i := True],
             heap := (heap s)(the (shmTimes s ! i) := alloc_init)\<rparr>))"

definition ntpshm_free :: "nat option \<Rightarrow> ntp_session \<Rightarrow> bool \<times> ntp_session" where
  "ntpshm_free p s =
     (case find (\<lambda>i. p = shmTimes s ! i) [0..<NTPSHMSEGS] of
        None \<Rightarrow> (False, s)
      | Some i \<Rightarrow> (True, s\<lparr>shmTimeInuse := (shmTimeInuse s)[i := False]\<rparr>))"

section \<open>Sessions\<close>

definition ntpshm_session_init :: "ntp_session \<Rightarrow> ntp_session" where
  "ntpshm_session_init s = s\<lparr>shm_clock := None, shm_pps := None\<rparr>"

definition ntpshm_put ::
  "nat option \<Rightarrow> timedelta_t \<Rightarrow> ntp_session \<Rightarrow> int \<times> timedelta_t \<times> ntp_session" where
  "ntpshm_put shmseg td s =
     (case shmseg of
        None \<Rightarrow> (0, td, s)
      | Some p \<Rightarrow>
          let (m, td') = ntp_write (heap s p) td (-20) (leap_notify s)
          in (1, td', s\<lparr>heap := (heap s)(p := m)\<rparr>))"

text \<open>\<open>pps_hook\<close> is the context's optional second hook.\<close>

definition report_hook ::
  "(timedelta_t \<Rightarrow> ntp_session \<Rightarrow> ntp_session) option \<Rightarrow> timedelta_t \<Rightarrow> ntp_session \<Rightarrow>
   string \<times> timedelta_t \<times> ntp_session" where
  "report_hook pps_hook td s =
     (if sourcetype s \<noteq> source_pps \<and> fixcnt s \<le> NTP_MIN_FIXES then (''no fix'', td, s)
      else
        let (td1, s1) =
              (if shm_pps s \<noteq> None
               then (case ntpshm_put (shm_pps s) td s of (r, td', s') \<Rightarrow> (td', s')) else (td, s));
            s2 = (case pps_hook of None \<Rightarrow> s1 | Some h \<Rightarrow> h td1 s1)
        in (''accepted'', td1, s2))"

definition ntpshm_link_deactivate :: "ntp_session \<Rightarrow> ntp_session" where
  "ntpshm_link_deactivate s =
     (let s1 = (if shm_clock s \<noteq> None
                then (snd (ntpshm_free (shm_clock s) s))\<lparr>shm_clock := None\<rparr> else s)
      in if shm_pps s1 \<noteq> None
         then (snd (ntpshm_free (shm_pps s1) (s1\<lparr>hook_set := False\<rparr>)))\<lparr>shm_pps := None\<rparr>
         else s1)"

definition link_activate_pps :: "ntp_session \<Rightarrow> ntp_session" where
  "link_activate_pps s =
     (case ntpshm_alloc s of
        (None, s') \<Rightarrow> s'\<lparr>shm_pps := None\<rparr>
      | (Some p, s') \<Rightarrow> s'\<lparr>shm_pps := Some p, hook_set := True, threads := Suc (threads s')\<rparr>)"

definition ntpshm_link_activate :: "ntp_session \<Rightarrow> ntp_session" where
  "ntpshm_link_activate s =
     (if sourcetype s = source_pty then s
      else
        let (ok, s1) =
              (if sourcetype s \<noteq> source_pps
               then (case ntpshm_alloc s of (p, s') \<Rightarrow> (p \<noteq> None, s'\<lparr>shm_clock := p\<rparr>))
               else (True, s))
        in if \<not> ok then s1
           else if sourcetype s1 \<in> {source_usb, source_rs232, source_pps}
           then link_activate_pps s1 else s1)"

section \<open>The pool contract\<close>

locale segment_pool =
  fixes alloc :: "'s \<Rightarrow> 'p option \<times> 's"
    and release :: "'p \<Rightarrow> 's \<Rightarrow> bool \<times> 's"
    and pool :: "'s \<Rightarrow> 'p set"
    and used :: "'s \<Rightarrow> 'p set"
    and inv :: "'s \<Rightarrow> bool"
  assumes used_pool: "inv s \<Longrightarrow> used s \<subseteq> pool s"
    and finite_pool: "inv s \<Longrightarrow> finite (pool s)"
    and alloc_Some: "inv s \<Longrightarrow> alloc s = (Some p, s') \<Longrightarrow>
      p \<in> pool s \<and> p \<notin> used s \<and> used s' = insert p (used s) \<and> pool s' = pool s \<and> inv s'"
    and alloc_None: "inv s \<Longrightarrow> alloc s = (None, s') \<Longrightarrow> s' = s \<and> used s = pool s"
    and release_pool: "inv s \<Longrightarrow> p \<in> pool s \<Longrightarrow> release p s = (b, s') \<Longrightarrow>
      b \<and> used s' = used s - {p} \<and> pool s' = pool s \<and> inv s'"
begin

lemma alloc_release: "inv s \<Longrightarrow> alloc s = (Some p, s') \<Longrightarrow> used (snd (release p s')) = used s"
proof -
  assume a: "inv s" "alloc s = (Some p, s')"
  obtain b s'' where r: "release p s' = (b, s'')" by (cases "release p s'")
  from alloc_Some [OF a] release_pool [OF _ _ r] r show ?thesis by simp
qed

lemma alloc_progress:
  assumes "inv s" "card (used s) < card (pool s)"
  shows "\<exists>p s'. alloc s = (Some p, s')"
proof (cases "alloc s")
  case (Pair q s')
  with assms alloc_None [of s s'] show ?thesis by (cases q) auto
qed

lemma alloc_twice_distinct:
  "inv s \<Longrightarrow> alloc s = (Some p, s') \<Longrightarrow> alloc s' = (Some q, s'') \<Longrightarrow> p \<noteq> q"
  using alloc_Some [of s p s'] alloc_Some [of s' q s''] by auto

lemma alloc_card: "inv s \<Longrightarrow> alloc s = (Some p, s') \<Longrightarrow> card (used s') = Suc (card (used s))"
  using alloc_Some [of s p s'] used_pool [of s] finite_pool [of s]
  by (auto simp: finite_subset)

end

definition ntp_pool :: "ntp_session \<Rightarrow> nat set" where
  "ntp_pool s = {p. \<exists>i<NTPSHMSEGS. shmTimes s ! i = Some p}"

definition ntp_used :: "ntp_session \<Rightarrow> nat set" where
  "ntp_used s = {p. \<exists>i<NTPSHMSEGS. shmTimes s ! i = Some p \<and> shmTimeInuse s ! i}"

text \<open>Attached segments have distinct addresses, and both tables have their declared size.\<close>

definition pool_inv :: "ntp_session \<Rightarrow> bool" where
  "pool_inv s \<longleftrightarrow> length (shmTimes s) = NTPSHMSEGS \<and> length (shmTimeInuse s) = NTPSHMSEGS \<and>
     (\<forall>i<NTPSHMSEGS. \<forall>j<NTPSHMSEGS. shmTimes s ! i = shmTimes s ! j \<and> shmTimes s ! i \<noteq> None \<longrightarrow> i = j)"

lemma find_range_Some:
  "find P [0..<n] = Some i \<Longrightarrow> i < n \<and> P i \<and> (\<forall>j<i. \<not> P j)"
  by (auto simp: find_Some_iff)

lemma pool_uniq:
  "pool_inv s \<Longrightarrow> i < NTPSHMSEGS \<Longrightarrow> j < NTPSHMSEGS \<Longrightarrow> shmTimes s ! i = Some p \<Longrightarrow>
   shmTimes s ! j = Some p \<Longrightarrow> i = j"
  by (simp add: pool_inv_def)

lemma find_free_slot:
  assumes "pool_inv s" "i < NTPSHMSEGS" "shmTimes s ! i = Some p"
  shows "find (\<lambda>i. Some p = shmTimes s ! i) [0..<NTPSHMSEGS] = Some i"
proof -
  have "Some p \<noteq> shmTimes s ! j" if "j < i" for j
    using pool_uniq [OF assms(1), of j i p] assms(2,3) that by fastforce
  with assms(2,3) show ?thesis
    unfolding find_Some_iff by (intro exI [of _ i]) (simp add: order.strict_trans)
qed

lemma ntpshm_alloc_Some:
  assumes "ntpshm_alloc s = (Some p, s')"
  obtains i where "i < NTPSHMSEGS" "shmTimes s ! i = Some p" "\<not> shmTimeInuse s ! i"
    "s' = s\<lparr>shmTimeInuse := (shmTimeInuse s)[i := True], heap := (heap s)(p := alloc_init)\<rparr>"
proof (cases "find (\<lambda>i. shmTimes s ! i \<noteq> None \<and> \<not> shmTimeInuse s ! i) [0..<NTPSHMSEGS]")
  case (Some i)
  have "shmTimes s ! i = Some p"
      "s' = s\<lparr>shmTimeInuse := (shmTimeInuse s)[i := True], heap := (heap s)(p := alloc_init)\<rparr>"
    using assms Some by (auto simp: ntpshm_alloc_def)
  with find_range_Some [OF Some] show ?thesis by (auto intro: that)
qed (use assms in \<open>simp add: ntpshm_alloc_def\<close>)

lemma ntp_used_iff:
  assumes "pool_inv s" "i < NTPSHMSEGS" "shmTimes s ! i = Some p"
  shows "p \<in> ntp_used s \<longleftrightarrow> shmTimeInuse s ! i"
  using pool_uniq [OF assms(1,2) _ assms(3)] assms(2,3) unfolding ntp_used_def by blast

lemma ntp_used_update:
  assumes "pool_inv s" "i < NTPSHMSEGS" "shmTimes s ! i = Some p"
  shows "ntp_used (s\<lparr>shmTimeInuse := (shmTimeInuse s)[i := b]\<rparr>) =
     (if b then insert p (ntp_used s) else ntp_used s - {p})"
proof (intro set_eqI)
  fix q
  have len: "length (shmTimeInuse s) = NTPSHMSEGS" using assms(1) by (simp add: pool_inv_def)
  have "q \<in> ntp_used (s\<lparr>shmTimeInuse := (shmTimeInuse s)[i := b]\<rparr>) \<longleftrightarrow>
      (\<exists>j<NTPSHMSEGS. shmTimes s ! j = Some q \<and> (shmTimeInuse s)[i := b] ! j)"
    by (simp add: ntp_used_def)
  also have "\<dots> \<longleftrightarrow> (if q = p then b else q \<in> ntp_used s)"
  proof (cases "q = p")
    case True
    then show ?thesis
      using assms pool_uniq [OF assms(1,2) _ assms(3)] len by (metis nth_list_update_eq)
  next
    case False
    then have "(shmTimeInuse s)[i := b] ! j = shmTimeInuse s ! j" if "shmTimes s ! j = Some q" for j
      using that assms(3) by (metis nth_list_update_neq option.inject)
    with False show ?thesis by (auto simp: ntp_used_def)
  qed
  finally show "q \<in> ntp_used (s\<lparr>shmTimeInuse := (shmTimeInuse s)[i := b]\<rparr>) \<longleftrightarrow>
      q \<in> (if b then insert p (ntp_used s) else ntp_used s - {p})" by auto
qed

lemma pool_frame [simp]:
  "ntp_pool (s\<lparr>shmTimeInuse := u\<rparr>) = ntp_pool s" "ntp_pool (s\<lparr>heap := h\<rparr>) = ntp_pool s"
  "ntp_used (s\<lparr>heap := h\<rparr>) = ntp_used s" "pool_inv (s\<lparr>heap := h\<rparr>) = pool_inv s"
  "pool_inv (s\<lparr>shmTimeInuse := (shmTimeInuse s)[i := b]\<rparr>) = pool_inv s"
  by (simp_all add: ntp_pool_def ntp_used_def pool_inv_def)

lemma ntpshm_alloc_pool:
  assumes "pool_inv s" "ntpshm_alloc s = (Some p, s')"
  shows "p \<in> ntp_pool s \<and> p \<notin> ntp_used s \<and> ntp_used s' = insert p (ntp_used s) \<and>
     ntp_pool s' = ntp_pool s \<and> pool_inv s'"
proof -
  obtain i where i: "i < NTPSHMSEGS" "shmTimes s ! i = Some p" "\<not> shmTimeInuse s ! i"
    and s': "s' = s\<lparr>shmTimeInuse := (shmTimeInuse s)[i := True]\<rparr>\<lparr>heap := (heap s)(p := alloc_init)\<rparr>"
    using assms(2) by (rule ntpshm_alloc_Some) simp
  have "p \<in> ntp_pool s" using i by (auto simp: ntp_pool_def)
  then show ?thesis
    unfolding s' using assms(1) i ntp_used_iff [OF assms(1) i(1,2)]
    by (simp only: pool_frame ntp_used_update [OF assms(1) i(1,2)]) simp
qed

lemma ntpshm_free_pool:
  assumes "pool_inv s" "p \<in> ntp_pool s" "ntpshm_free (Some p) s = (b, s')"
  shows "b \<and> ntp_used s' = ntp_used s - {p} \<and> ntp_pool s' = ntp_pool s \<and> pool_inv s'"
proof -
  obtain i where i: "i < NTPSHMSEGS" "shmTimes s ! i = Some p"
    using assms(2) by (auto simp: ntp_pool_def)
  have "b" "s' = s\<lparr>shmTimeInuse := (shmTimeInuse s)[i := False]\<rparr>"
    using assms(3) find_free_slot [OF assms(1) i] by (simp_all add: ntpshm_free_def)
  then show ?thesis
    using assms(1) by (simp add: ntp_used_update [OF assms(1) i])
qed

lemma ntpshm_alloc_None:
  assumes "ntpshm_alloc s = (None, s')"
  shows "s' = s \<and> ntp_used s = ntp_pool s"
proof (cases "find (\<lambda>i. shmTimes s ! i \<noteq> None \<and> \<not> shmTimeInuse s ! i) [0..<NTPSHMSEGS]")
  case None
  then have "\<forall>i<NTPSHMSEGS. shmTimes s ! i = None \<or> shmTimeInuse s ! i"
    by (auto simp: find_None_iff)
  then have "ntp_used s = ntp_pool s"
    unfolding ntp_used_def ntp_pool_def by (metis option.distinct(1))
  with assms None show ?thesis by (simp add: ntpshm_alloc_def)
next
  case (Some i)
  with assms find_range_Some [OF Some] show ?thesis by (simp add: ntpshm_alloc_def)
qed

interpretation ntp: segment_pool ntpshm_alloc "\<lambda>p. ntpshm_free (Some p)" ntp_pool ntp_used pool_inv
proof
  fix s s' :: ntp_session and p b
  assume inv: "pool_inv s"
  show "ntp_used s \<subseteq> ntp_pool s" by (auto simp: ntp_used_def ntp_pool_def)
  have "ntp_pool s \<subseteq> (\<lambda>i. the (shmTimes s ! i)) ` {..<NTPSHMSEGS}"
    by (force simp: ntp_pool_def)
  then show "finite (ntp_pool s)" by (rule finite_subset) simp
  show "ntpshm_alloc s = (Some p, s') \<Longrightarrow> p \<in> ntp_pool s \<and> p \<notin> ntp_used s \<and>
      ntp_used s' = insert p (ntp_used s) \<and> ntp_pool s' = ntp_pool s \<and> pool_inv s'"
    by (rule ntpshm_alloc_pool [OF inv])
  show "p \<in> ntp_pool s \<Longrightarrow> ntpshm_free (Some p) s = (b, s') \<Longrightarrow>
      b \<and> ntp_used s' = ntp_used s - {p} \<and> ntp_pool s' = ntp_pool s \<and> pool_inv s'"
    by (rule ntpshm_free_pool [OF inv])
  show "ntpshm_alloc s = (None, s') \<Longrightarrow> s' = s \<and> ntp_used s = ntp_pool s"
    by (rule ntpshm_alloc_None)
qed

lemma pool_inv_cong [simp]:
  "pool_inv (s\<lparr>shm_pps := q\<rparr>) = pool_inv s" "pool_inv (s\<lparr>shm_clock := q\<rparr>) = pool_inv s"
  "pool_inv (s\<lparr>hook_set := h\<rparr>) = pool_inv s" "pool_inv (s\<lparr>threads := n\<rparr>) = pool_inv s"
  by (simp_all add: pool_inv_def)

lemma ntp_used_cong [simp]:
  "ntp_used (s\<lparr>shm_pps := q\<rparr>) = ntp_used s" "ntp_used (s\<lparr>shm_clock := q\<rparr>) = ntp_used s"
  "ntp_used (s\<lparr>hook_set := h\<rparr>) = ntp_used s" "ntp_used (s\<lparr>threads := n\<rparr>) = ntp_used s"
  by (simp_all add: ntp_used_def)

lemma ntp_pool_cong [simp]:
  "ntp_pool (s\<lparr>shm_pps := q\<rparr>) = ntp_pool s" "ntp_pool (s\<lparr>shm_clock := q\<rparr>) = ntp_pool s"
  "ntp_pool (s\<lparr>hook_set := h\<rparr>) = ntp_pool s" "ntp_pool (s\<lparr>threads := n\<rparr>) = ntp_pool s"
  by (simp_all add: ntp_pool_def)

text \<open>The pool invariant holds after \<open>ntpshm_context_init\<close> when the system hands out distinct
  addresses; nothing is in use then.\<close>

lemma context_init_pool:
  assumes "\<And>i j p. getShmTime shmget shmat i = Some p \<Longrightarrow> getShmTime shmget shmat j = Some p \<Longrightarrow> i = j"
    and "shmTimes s = replicate NTPSHMSEGS None"
  shows "pool_inv (ntpshm_context_init shmget shmat uid s) \<and>
     ntp_used (ntpshm_context_init shmget shmat uid s) = {}"
proof -
  let ?t = "ntpshm_context_init shmget shmat uid s"
  have nth: "shmTimes ?t ! i = (if 2 \<le> i \<or> uid = 0 then getShmTime shmget shmat i else None)"
    if "i < NTPSHMSEGS" for i
    using that assms(2) by (simp add: ntpshm_context_init_def)
  have "i = j" if "i < NTPSHMSEGS" "j < NTPSHMSEGS" "shmTimes ?t ! i = shmTimes ?t ! j"
      "shmTimes ?t ! i \<noteq> None" for i j
    using that assms(1) nth by (metis option.exhaust)
  moreover have "length (shmTimes ?t) = NTPSHMSEGS" "length (shmTimeInuse ?t) = NTPSHMSEGS"
      "ntp_used ?t = {}"
    by (simp_all add: ntpshm_context_init_def ntp_used_def)
  ultimately show ?thesis unfolding pool_inv_def by blast
qed

section \<open>Activation and deactivation\<close>

lemma link_deactivate_used:
  assumes "pool_inv s" "set_option (shm_clock s) \<subseteq> ntp_pool s" "set_option (shm_pps s) \<subseteq> ntp_pool s"
  shows "ntp_used (ntpshm_link_deactivate s) =
     ntp_used s - set_option (shm_clock s) - set_option (shm_pps s)"
proof -
  define s1 where "s1 = (if shm_clock s \<noteq> None
    then (snd (ntpshm_free (shm_clock s) s))\<lparr>shm_clock := None\<rparr> else s)"
  have frame: "shm_pps (snd (ntpshm_free q s)) = shm_pps s" for q
    by (simp add: ntpshm_free_def split: option.split)
  have s1: "pool_inv s1" "ntp_pool s1 = ntp_pool s" "shm_pps s1 = shm_pps s"
      "ntp_used s1 = ntp_used s - set_option (shm_clock s)"
    using assms(1,2) ntpshm_free_pool [OF assms(1)] frame
    by (auto simp: s1_def prod_eq_iff split: option.splits)
  have "ntp_used (snd (ntpshm_free (Some p) (s1\<lparr>hook_set := False\<rparr>))) = ntp_used s1 - {p}"
    if "shm_pps s = Some p" for p
    using ntpshm_free_pool [of "s1\<lparr>hook_set := False\<rparr>" p] s1 that assms(3)
    by (auto simp: prod_eq_iff)
  moreover have "ntpshm_link_deactivate s = (case shm_pps s of None \<Rightarrow> s1
      | Some p \<Rightarrow> (snd (ntpshm_free (Some p) (s1\<lparr>hook_set := False\<rparr>)))\<lparr>shm_pps := None\<rparr>)"
    using s1(3) unfolding ntpshm_link_deactivate_def s1_def [symmetric] Let_def
    by (simp split: option.split)
  ultimately show ?thesis
    using s1(4) by (cases "shm_pps s") auto
qed

lemma link_activate_pps_pool:
  assumes "pool_inv s" "shm_pps s = None"
  shows "pool_inv (link_activate_pps s) \<and> ntp_pool (link_activate_pps s) = ntp_pool s \<and>
    shm_clock (link_activate_pps s) = shm_clock s \<and>
    set_option (shm_pps (link_activate_pps s)) \<subseteq> ntp_pool s - ntp_used s \<and>
    ntp_used (link_activate_pps s) = ntp_used s \<union> set_option (shm_pps (link_activate_pps s))"
proof -
  obtain q s' where a: "ntpshm_alloc s = (q, s')" by (cases "ntpshm_alloc s")
  have frame: "shm_clock s' = shm_clock s" "shm_pps s' = shm_pps s"
    using a by (auto simp: ntpshm_alloc_def split: option.splits)
  show ?thesis
  proof (cases q)
    case None
    then show ?thesis using a assms ntpshm_alloc_None [of s s'] by (simp add: link_activate_pps_def)
  next
    case (Some p)
    then show ?thesis
      using a assms frame ntpshm_alloc_pool [OF assms(1), of p s']
      by (simp add: link_activate_pps_def)
  qed
qed

lemma ntpshm_alloc_frame:
  "ntpshm_alloc s = (q, s') \<Longrightarrow> shm_pps s' = shm_pps s \<and> sourcetype s' = sourcetype s"
  by (auto simp: ntpshm_alloc_def split: option.splits)


definition sample_session :: ntp_session where
  "sample_session = \<lparr>heap = (\<lambda>_. shm_zero), shmTimes = map Some [100, 101, 102, 103, 104, 105, 106, 107],
     shmTimeInuse = replicate 8 False, leap_notify = 1, sourcetype = source_pps, shm_clock = None,
     shm_pps = None, fixcnt = 0, hook_set = False, threads = 0\<rparr>"

lemma sample_session_inv: "pool_inv sample_session"
  by (simp add: pool_inv_def sample_session_def NTPSHMSEGS_def All_less_Suc numeral_nat)


section \<open>Shipping a sample\<close>



end
