(* ===== verification/PpsInit.thy ===== *)
theory PpsInit
  imports PpsThread CStr
begin

text \<open>
  \<open>src/ntpshm/ppsthread.c\<close>: how a PPS thread is activated. \<open>init_kernel_pps\<close> looks for the kernel's PPS
  device that belongs to a serial port, opens it and sets the capture mode; \<open>pps_thread_activate\<close>
  starts the thread. Results of system calls are the record \<open>kpps_env\<close>. \<open>get_edge_tiocmiwait\<close> waits for
  an edge on the port itself.
\<close>

section \<open>Files of the kernel\<close>

text \<open>The contents of a file without its last character, at most the size of the buffer; \<open>None\<close> for a
  file that cannot be opened.\<close>

definition get_sysfs_var :: "string option \<Rightarrow> nat \<Rightarrow> string" where
  "get_sysfs_var contents bufsize =
     (case contents of None \<Rightarrow> [] | Some s \<Rightarrow> c_string (butlast (take (bufsize - 1) s)))"

definition FAKE_PPS_NAME :: string where "FAKE_PPS_NAME = ''ktimer''"

definition pps_check_fake :: "(string \<Rightarrow> string option) \<Rightarrow> string \<Rightarrow> bool" where
  "pps_check_fake sysfs name =
     (get_sysfs_var (sysfs (''/sys/devices/virtual/pps/'' @ name @ ''/name'')) 32 = FAKE_PPS_NAME)"

definition pps_get_first :: "(string \<Rightarrow> string option) \<Rightarrow> string" where
  "pps_get_first sysfs = (if pps_check_fake sysfs ''pps0'' then ''/dev/pps1'' else ''/dev/pps0'')"

section \<open>The kernel's PPS\<close>

record kpps_env =
  ke_sysfs :: "string \<Rightarrow> string option"
  ke_ldisc :: bool
  ke_glob :: "string list"
  ke_open :: "string \<Rightarrow> bool"
  ke_create :: bool
  ke_caps :: "pps_caps option"
  ke_setparams :: bool

record inner_context =
  ic_handle :: bool
  ic_destroyed :: bool
  ic_canwait :: bool
  ic_mode :: "(bool \<times> bool) option"

definition PATH_MAX :: nat where "PATH_MAX = 4096"

text \<open>The device of the kernel: the name itself when it is one, otherwise the one whose path file holds
  the name of the port, numbered by the character after \<open>pps\<close> in the file's name.\<close>

definition kernel_device :: "kpps_env \<Rightarrow> string \<Rightarrow> string option" where
  "kernel_device env devicename =
     (if take 8 devicename = ''/dev/pps'' then Some (take (PATH_MAX - 1) devicename)
      else if \<not> ke_ldisc env then None
      else case find (\<lambda>f. get_sysfs_var (ke_sysfs env f) PATH_MAX = devicename) (ke_glob env) of
             None \<Rightarrow> None
           | Some f \<Rightarrow> Some (''/dev/pps'' @ [f ! 28]))"

definition init_kernel_pps :: "kpps_env \<Rightarrow> string \<Rightarrow> int \<times> inner_context" where
  "init_kernel_pps env devicename =
     (let c0 = \<lparr>ic_handle = False, ic_destroyed = False, ic_canwait = False, ic_mode = None\<rparr>
      in case kernel_device env devicename of
           None \<Rightarrow> (- 1, c0)
         | Some path \<Rightarrow>
             if \<not> ke_open env path then (- 1, c0)
             else if \<not> ke_create env then (- 1, c0)
             else let c1 = c0\<lparr>ic_handle := True\<rparr>
                  in case ke_caps env of
                       None \<Rightarrow> (- 1, c1)
                     | Some caps \<Rightarrow>
                         if \<not> cap_tspec caps then (- 1, c1)
                         else let c2 = c1\<lparr>ic_canwait := cap_canwait caps\<rparr>
                              in if \<not> cap_assert caps \<and> \<not> cap_clear caps then (- 1, c2)
                                 else if \<not> ke_setparams env then (- 1, c2\<lparr>ic_destroyed := True\<rparr>)
                                 else (0, c2\<lparr>ic_mode := Some (cap_assert caps, cap_clear caps)\<rparr>))"

text \<open>\<open>tty\<close>: whether the device is a terminal. The result of the initialisation is not looked at, only
  the handle. Without a thread the wait for its acknowledgement never ends (\<open>None\<close>).\<close>

definition pps_thread_activate :: "kpps_env \<Rightarrow> bool \<Rightarrow> bool \<Rightarrow> string \<Rightarrow> (pps_config \<times> inner_context) option" where
  "pps_thread_activate env tty created devicename =
     (case init_kernel_pps env devicename of (_, c) \<Rightarrow>
        if created
        then Some (\<lparr>not_a_tty = \<not> tty, pps_canwait = ic_canwait c, kernelpps = ic_handle c\<rparr>, c)
        else None)"

section \<open>An edge on the port\<close>

text \<open>\<open>wait\<close>, \<open>clock\<close> and \<open>lines\<close>: the results of waiting for a change, of the clock and of reading the
  lines, of which the monitored ones (\<open>PPS_LINE_TIOC\<close>) are kept.\<close>

definition get_edge_tiocmiwait ::
  "nat \<Rightarrow> bool \<Rightarrow> timespec option \<Rightarrow> nat option \<Rightarrow> timedelta_t \<Rightarrow> timedelta_t \<Rightarrow> tio \<times> timedelta_t" where
  "get_edge_tiocmiwait PPS_LINE_TIOC wait clock lines fix_now lastfix =
     (if \<not> wait then (TioError, lastfix)
      else case clock of
             None \<Rightarrow> (TioError, fix_now)
           | Some ts \<Rightarrow>
               (case lines of
                  None \<Rightarrow> (TioError, fix_now)
                | Some st \<Rightarrow> (TioEdge ts (int (and st PPS_LINE_TIOC)), fix_now)))"

section \<open>When the kernel's PPS is usable\<close>

text \<open>Activation and the kernel's PPS. When the initialisation succeeds, the thread gets a live
  handle with at least one edge captured in the mode of the capabilities. But the thread is also
  given the handle when the initialisation failed after creating it: with a kernel that refuses
  the mode it is told to use a handle that was already destroyed.\<close>

theorem kernel_pps_activation:
  assumes "kernel_device env name = Some path" "ke_open env path" "ke_create env" "ke_caps env = Some caps"
    and "cap_tspec caps" "cap_assert caps \<or> cap_clear caps"
  shows "\<exists>cfg c. pps_thread_activate env tty True name = Some (cfg, c) \<and> kernelpps cfg \<and>
    pps_canwait cfg = cap_canwait caps \<and>
    (if ke_setparams env
     then \<not> ic_destroyed c \<and> ic_mode c = Some (cap_assert caps, cap_clear caps) \<and> init_kernel_pps env name = (0, c)
     else ic_destroyed c \<and> fst (init_kernel_pps env name) = - 1)"
  using assms by (auto simp: pps_thread_activate_def init_kernel_pps_def Let_def)

definition sample_kpps :: kpps_env where
  "sample_kpps = \<lparr>ke_sysfs = (\<lambda>f. if f = ''/sys/devices/virtual/pps/pps3/path'' then Some ''/dev/ttyS1x'' else None),
     ke_ldisc = True, ke_glob = [''/sys/devices/virtual/pps/pps0/path'', ''/sys/devices/virtual/pps/pps3/path''],
     ke_open = (\<lambda>p. p = ''/dev/pps3''), ke_create = True,
     ke_caps = Some \<lparr>cap_tspec = True, cap_canwait = True, cap_assert = True, cap_clear = False\<rparr>,
     ke_setparams = False\<rparr>"

theorem kernel_pps_activation_witness:
  "\<exists>cfg c. pps_thread_activate sample_kpps True True ''/dev/ttyS1'' = Some (cfg, c) \<and> kernelpps cfg \<and> ic_destroyed c"
proof -
  have d: "kernel_device sample_kpps ''/dev/ttyS1'' = Some ''/dev/pps3''"
    by (simp add: kernel_device_def sample_kpps_def get_sysfs_var_def c_string_def PATH_MAX_def)
  have s: "ke_open sample_kpps ''/dev/pps3''" "ke_create sample_kpps" "\<not> ke_setparams sample_kpps"
    "ke_caps sample_kpps = Some \<lparr>cap_tspec = True, cap_canwait = True, cap_assert = True, cap_clear = False\<rparr>"
    by (simp_all add: sample_kpps_def)
  show ?thesis using kernel_pps_activation [where tty = True, OF d s(1,2,4)] s(3) by auto
qed

end
