(* ===== verification/OdSystem.thy ===== *)
theory OdSystem
  imports OdMain
begin

text \<open>
  The three threads of \<open>oscillatord\<close> that share the monitoring and receiver structures, interleaved:
  a round of the main loop is two atomic steps (the branch that reads the receiver and drives the
  algorithm, then the exchange under the monitoring mutex), between which the socket server and
  the receiver thread may run. The server's \<open>monitoring\<close> is the main loop's, and the receiver's
  mirror is the part of it that the responses report. What the main loop does outside is its log
  of effects; observers of that log state the properties.
\<close>

section \<open>The system\<close>

datatype main_pc = AtTop | AtExchange | Halted flow

record od_sys =
  pc :: main_pc
  od_main :: main_state
  server :: mon_sys
  rx_cmds :: "rx_cmd list"

datatype sys_event = Branch main_env | Exchange main_env | Server peer_event | Receiver gnss_input

definition branch_step :: "main_cfg \<Rightarrow> main_env \<Rightarrow> od_sys \<Rightarrow> od_sys" where
  "branch_step cfg env s =
     (case main_branch cfg env (od_main s) of (f, m) \<Rightarrow>
        s\<lparr>od_main := m,
          pc := (case f of
                   Next \<Rightarrow> if cfg_monitoring cfg then AtExchange else AtTop
                 | ContinueLoop \<Rightarrow> AtTop
                 | _ \<Rightarrow> Halted f)\<rparr>)"

definition server_step :: "mon_env \<Rightarrow> peer_event \<Rightarrow> od_sys \<Rightarrow> od_sys" where
  "server_step menv e s =
     (let v = mon_event menv e ((server s)\<lparr>mon := m_monitoring (od_main s)\<rparr>)
      in s\<lparr>server := v, od_main := (od_main s)\<lparr>m_monitoring := mon v\<rparr>\<rparr>)"

definition receiver_step :: "gnss_input \<Rightarrow> od_sys \<Rightarrow> od_sys" where
  "receiver_step inp s =
     (case gnss_thread (GnssIter inp) (rx_cmds s, m_gnss (od_main s)) of (cmds, g) \<Rightarrow>
        s\<lparr>rx_cmds := cmds,
          od_main := (od_main s)\<lparr>m_gnss := g,
            m_monitoring := (case gnss_info g of
                               None \<Rightarrow> m_monitoring (od_main s)
                             | Some i \<Rightarrow> (m_monitoring (od_main s))\<lparr>mon_gnss_info := i\<rparr>)\<rparr>\<rparr>)"

definition sys_step :: "main_cfg \<Rightarrow> mon_env \<Rightarrow> sys_event \<Rightarrow> od_sys \<Rightarrow> od_sys" where
  "sys_step cfg menv ev s =
     (case ev of
        Branch env \<Rightarrow> if pc s = AtTop then branch_step cfg env s else s
      | Exchange env \<Rightarrow>
          if pc s = AtExchange then s\<lparr>od_main := exchange cfg env (od_main s), pc := AtTop\<rparr> else s
      | Server e \<Rightarrow> if cfg_monitoring cfg then server_step menv e s else s
      | Receiver inp \<Rightarrow> receiver_step inp s)"

definition sys_start :: "main_state \<Rightarrow> od_sys" where
  "sys_start m =
     \<lparr>pc = AtTop,
      od_main = m\<lparr>m_input := empty_input, ignore_next_irq := False, fake_holdover_activated := False,
                  effects := []\<rparr>,
      server = mon_start (m_monitoring m), rx_cmds = []\<rparr>"

section \<open>Observers\<close>

text \<open>After a phase jump the next thing that happens to the algorithm's input is that one is
  dropped; an input is dropped at no other time.\<close>

definition jump_watch :: "bool \<Rightarrow> main_effect \<Rightarrow> bool option" where
  "jump_watch jumped x =
     (case x of
        OdProcess _ \<Rightarrow> if jumped then None else Some False
      | PhaseOffset _ \<Rightarrow> if jumped then None else Some True
      | IgnoredInput \<Rightarrow> if jumped then Some False else None
      | _ \<Rightarrow> Some jumped)"

text \<open>An input carries a calibration request when and only when one was taken since the input
  before it.\<close>

definition calibration_watch :: "bool \<Rightarrow> main_effect \<Rightarrow> bool option" where
  "calibration_watch asked x =
     (case x of
        OdProcess i \<Rightarrow> if calibration_requested i = asked then Some False else None
      | TookRequest r \<Rightarrow> Some (asked \<or> r = REQUEST_CALIBRATION)
      | _ \<Rightarrow> Some asked)"

text \<open>Between a request to start and one to stop the fake holdover no input is valid.\<close>

definition holdover_watch :: "bool \<Rightarrow> main_effect \<Rightarrow> bool option" where
  "holdover_watch faked x =
     (case x of
        OdProcess i \<Rightarrow> if faked \<and> in_valid i then None else Some faked
      | TookRequest r \<Rightarrow>
          Some (if r = REQUEST_FAKE_HOLDOVER_START then True
                else if r = REQUEST_FAKE_HOLDOVER_STOP then False else faked)
      | _ \<Rightarrow> Some faked)"

text \<open>What the observers have seen, and the variables of \<open>main\<close> that remember it.\<close>

definition watched :: "main_state \<Rightarrow> bool" where
  "watched m \<longleftrightarrow>
     traces jump_watch False (effects m) = Some (ignore_next_irq m) \<and>
     traces calibration_watch False (effects m) = Some (calibration_requested (m_input m)) \<and>
     traces holdover_watch False (effects m) = Some (fake_holdover_activated m)"

definition accepted_log :: "main_state \<Rightarrow> bool" where
  "accepted_log m \<longleftrightarrow>
     traces jump_watch False (effects m) \<noteq> None \<and>
     traces calibration_watch False (effects m) \<noteq> None \<and>
     traces holdover_watch False (effects m) \<noteq> None"

lemma watched_accepted: "watched m \<Longrightarrow> accepted_log m"
  by (simp add: watched_def accepted_log_def)

lemma read_attributes_watched: "watched (snd (read_attributes env m)) = watched m"
  by (simp add: watched_def)

lemma handle_output_watched:
  assumes "watched m" "\<not> ignore_next_irq m" "handle_output cfg env m = (f, m')"
  shows "accepted_log m' \<and> (f = Next \<longrightarrow> watched m') \<and> f \<noteq> ContinueLoop"
  using assms
  by (auto simp: handle_output_def watched_def accepted_log_def Let_def jump_watch_def
      calibration_watch_def holdover_watch_def split: od_action.splits if_splits)

lemma periodic_save_watched: "watched (periodic_save env m) = watched m"
  by (simp add: watched_def periodic_save_def jump_watch_def calibration_watch_def
      holdover_watch_def split: option.split)

lemma run_algorithm_watched:
  assumes "watched m" "\<not> ignore_next_irq m" "run_algorithm cfg env m = (f, m')"
  shows "accepted_log m' \<and> (f = Next \<longrightarrow> watched m') \<and> f \<noteq> ContinueLoop"
proof -
  let ?i = "fill_input cfg (fst (e_phase env)) m"
  let ?m1 = "add_effect (OdProcess ?i) m"
  obtain ret out where p: "e_process env ?i (m_output m) = (ret, out)" by fastforce
  let ?m2 = "?m1\<lparr>m_input := empty_input, m_output := out\<rparr>"
  obtain g m3 where h: "handle_output cfg env ?m2 = (g, m3)" by fastforce
  have w: "watched ?m2" "\<not> ignore_next_irq ?m2" "accepted_log ?m1"
    using assms(1,2)
    by (simp_all add: watched_def accepted_log_def jump_watch_def calibration_watch_def holdover_watch_def
        fill_input_def empty_input_def)
  from handle_output_watched [OF w(1,2) h] w(3) assms(3) p h periodic_save_watched [of env m3] show ?thesis
    by (auto simp: run_algorithm_def Let_def watched_accepted split: if_splits flow.splits)
qed

lemma disciplining_branch_eq:
  "disciplining_branch cfg env m =
     (if fst (read_attributes env m) < 0
      then (ContinueLoop, (input_state env m)\<lparr>m_ctrl := m_ctrl m\<rparr>)
      else if fst (e_ctrl env) \<noteq> 0 then (ContinueLoop, input_state env m)
      else if ignore_next_irq m
      then (ContinueLoop, (add_effect IgnoredInput (input_state env m))\<lparr>ignore_next_irq := False\<rparr>)
      else run_algorithm cfg env (input_state env m))"
  by (simp add: disciplining_branch_def gnss_get_epoch_data_def Let_def case_prod_beta read_attributes_def
      input_state_def)

lemma disciplining_branch_watched:
  assumes "watched m" "disciplining_branch cfg env m = (f, m')"
  shows "accepted_log m' \<and> (f \<in> {Next, ContinueLoop} \<longrightarrow> watched m')"
proof -
  have w: "watched (input_state env m)" "watched ((input_state env m)\<lparr>m_ctrl := c\<rparr>)"
      "ignore_next_irq (input_state env m) = ignore_next_irq m" for c
    using assms(1) by (simp_all add: watched_def input_state_def)
  have i: "watched ((add_effect IgnoredInput (input_state env m))\<lparr>ignore_next_irq := False\<rparr>)"
    if "ignore_next_irq m"
    using that w by (simp add: watched_def jump_watch_def calibration_watch_def holdover_watch_def)
  show ?thesis
  proof (cases "fst (read_attributes env m) < 0 \<or> fst (e_ctrl env) \<noteq> 0 \<or> ignore_next_irq m")
    case True
    then have "watched m'"
      using assms(2) i w(1,2) unfolding disciplining_branch_eq by (simp split: if_splits) (blast+)?
    then show ?thesis using watched_accepted by simp
  next
    case False
    then have "run_algorithm cfg env (input_state env m) = (f, m')"
      using assms(2) unfolding disciplining_branch_eq by simp
    then show ?thesis using run_algorithm_watched [OF w(1)] w(3) False by blast
  qed
qed

lemma main_branch_watched:
  assumes "watched m" "main_branch cfg env m = (f, m')"
  shows "accepted_log m' \<and> (f \<in> {Next, ContinueLoop} \<longrightarrow> watched m')"
proof (cases "cfg_disciplining cfg")
  case True
  then show ?thesis
    using assms(2) disciplining_branch_watched [OF assms(1), of cfg env f m'] by (simp add: main_branch_def)
next
  case False
  have "watched (snd (main_branch cfg env m))"
    using assms(1) False
    by (simp add: main_branch_def monitoring_branch_def gnss_get_fix_info_def Let_def case_prod_beta watched_def
        jump_watch_def calibration_watch_def holdover_watch_def)
  then show ?thesis using assms(2) watched_accepted [of m'] by simp
qed

lemma monitored_data_frame [simp]:
  "effects (snd (monitored_data cfg env m)) = effects m"
  "m_input (snd (monitored_data cfg env m)) = m_input m"
  "ignore_next_irq (snd (monitored_data cfg env m)) = ignore_next_irq m"
  "fake_holdover_activated (snd (monitored_data cfg env m)) = fake_holdover_activated m"
  "m_monitoring (snd (monitored_data cfg env m)) = m_monitoring m"
  "m_gnss (snd (monitored_data cfg env m)) = m_gnss m"
  by (simp_all add: monitored_data_def)

lemma exchange_watched: "watched m \<Longrightarrow> watched (exchange cfg env m)"
  by (auto simp: exchange_def take_request_def case_prod_beta serve_request_def watched_def
      jump_watch_def calibration_watch_def holdover_watch_def split: monitoring_request.split)

section \<open>Every run\<close>

definition sys_ok :: "od_sys \<Rightarrow> bool" where
  "sys_ok s \<longleftrightarrow> (case pc s of Halted _ \<Rightarrow> accepted_log (od_main s) | _ \<Rightarrow> watched (od_main s))"

lemma sys_ok_accepted: "sys_ok s \<Longrightarrow> accepted_log (od_main s)"
  by (simp add: sys_ok_def watched_accepted split: main_pc.splits)

lemma watched_frame [simp]:
  "watched (m\<lparr>m_monitoring := x\<rparr>) = watched m" "watched (m\<lparr>m_gnss := g\<rparr>) = watched m"
  "accepted_log (m\<lparr>m_monitoring := x\<rparr>) = accepted_log m" "accepted_log (m\<lparr>m_gnss := g\<rparr>) = accepted_log m"
  "watched (m\<lparr>m_monitoring := x, m_gnss := g\<rparr>) = watched m"
  "accepted_log (m\<lparr>m_monitoring := x, m_gnss := g\<rparr>) = accepted_log m"
  by (simp_all add: watched_def accepted_log_def)

lemma branch_step_ok:
  assumes "sys_ok s" "pc s = AtTop"
  shows "sys_ok (branch_step cfg env s)"
proof -
  obtain f m where b: "main_branch cfg env (od_main s) = (f, m)" by fastforce
  have "watched (od_main s)" using assms by (simp add: sys_ok_def)
  from main_branch_watched [OF this b] show ?thesis
    using b by (cases f) (simp_all add: branch_step_def sys_ok_def)
qed

lemma sys_step_ok: "sys_ok s \<Longrightarrow> sys_ok (sys_step cfg menv ev s)"
proof (cases ev)
  case (Branch env)
  then show "sys_ok s \<Longrightarrow> ?thesis" by (simp add: sys_step_def branch_step_ok)
next
  case (Exchange env)
  then show "sys_ok s \<Longrightarrow> ?thesis" by (auto simp: sys_step_def sys_ok_def exchange_watched)
next
  case (Server e)
  then show "sys_ok s \<Longrightarrow> ?thesis"
    by (simp add: sys_step_def server_step_def sys_ok_def Let_def split: main_pc.splits)
next
  case (Receiver inp)
  then show "sys_ok s \<Longrightarrow> ?thesis"
    by (simp add: sys_step_def receiver_step_def sys_ok_def case_prod_beta split: main_pc.splits)
qed

interpretation sys: machine "sys_step cfg menv" sys_ok for cfg menv
  by unfold_locales (rule sys_step_ok)

lemma sys_start_ok: "sys_ok (sys_start m)"
  by (simp add: sys_ok_def sys_start_def watched_def empty_input_def)

text \<open>C8. A phase jump is followed by exactly one dropped input before the algorithm runs again, in
  every interleaving of the main loop with the server and the receiver, and no other input is
  dropped.\<close>

theorem jump_drops_one_input:
  "traces jump_watch False (effects (od_main (fold (sys_step cfg menv) evs (sys_start m)))) \<noteq> None"
  using sys_ok_accepted [OF sys.run_inv [OF sys_start_ok]] by (simp add: accepted_log_def)

text \<open>C5. A calibration that a client asks for is passed to the algorithm with the first input after
  the request was taken, once, and no input carries one nobody asked for, in every interleaving
  and although rounds may be abandoned in between.\<close>

theorem calibration_delivered_once:
  "traces calibration_watch False (effects (od_main (fold (sys_step cfg menv) evs (sys_start m)))) \<noteq> None"
  using sys_ok_accepted [OF sys.run_inv [OF sys_start_ok]] by (simp add: accepted_log_def)

text \<open>C24. From the moment the main loop takes a request for the fake holdover until it takes one to
  end it, the algorithm is given no valid reference, in every interleaving.\<close>

theorem fake_holdover_hides_reference:
  "traces holdover_watch False (effects (od_main (fold (sys_step cfg menv) evs (sys_start m)))) \<noteq> None"
  using sys_ok_accepted [OF sys.run_inv [OF sys_start_ok]] by (simp add: accepted_log_def)

section \<open>From the client to the receiver\<close>

definition gnss_request :: "monitoring_request \<Rightarrow> gnss_action option" where
  "gnss_request r =
     (case r of
        REQUEST_GNSS_START \<Rightarrow> Some GNSS_ACTION_START
      | REQUEST_GNSS_STOP \<Rightarrow> Some GNSS_ACTION_STOP
      | REQUEST_GNSS_SOFT \<Rightarrow> Some GNSS_ACTION_SOFT
      | REQUEST_GNSS_HARD \<Rightarrow> Some GNSS_ACTION_HARD
      | REQUEST_GNSS_COLD \<Rightarrow> Some GNSS_ACTION_COLD
      | _ \<Rightarrow> None)"

lemma exchange_gnss:
  "m_gnss (exchange cfg env m) =
     (case gnss_request (request (m_monitoring m)) of
        Some a \<Rightarrow> gnss_set_action a (m_gnss m) | None \<Rightarrow> m_gnss m)"
proof -
  have r: "gnss_set_action GNSS_ACTION_RESET_SERIAL g = g" for g
    by (simp add: gnss_set_action_def)
  show ?thesis
    by (cases "request (m_monitoring m)")
      (simp_all add: exchange_def take_request_def publish_data_def case_prod_beta serve_request_def gnss_request_def r)
qed

lemma run_algorithm_frame:
  "m_gnss (snd (run_algorithm cfg env m)) = m_gnss m"
  "request (m_monitoring (snd (run_algorithm cfg env m))) = request (m_monitoring m)"
proof -
  let ?i = "fill_input cfg (fst (e_phase env)) m"
  obtain ret out where p: "e_process env ?i (m_output m) = (ret, out)" by fastforce
  let ?m = "(add_effect (OdProcess ?i) m)\<lparr>m_input := empty_input, m_output := out\<rparr>"
  obtain f m2 where h: "handle_output cfg env ?m = (f, m2)" by fastforce
  have "m_gnss m2 = m_gnss m" "request (m_monitoring m2) = request (m_monitoring m)"
    using handle_output_frame(4,5) [of cfg env ?m] h by simp_all
  then show "m_gnss (snd (run_algorithm cfg env m)) = m_gnss m"
      "request (m_monitoring (snd (run_algorithm cfg env m))) = request (m_monitoring m)"
    using p h by (cases f; simp add: run_algorithm_def Let_def)+
qed

lemma input_state_frame [simp]:
  "m_gnss (input_state env m) = m_gnss m" "m_monitoring (input_state env m) = m_monitoring m"
  by (simp_all add: input_state_def)

lemma main_branch_frame:
  "m_gnss (snd (main_branch cfg env m)) = m_gnss m"
  "request (m_monitoring (snd (main_branch cfg env m))) = request (m_monitoring m)"
  by (simp_all add: main_branch_def disciplining_branch_eq run_algorithm_frame monitoring_branch_def
      gnss_get_fix_info_def Let_def case_prod_beta)

text \<open>Whether a round reaches the exchange does not depend on what the server shares.\<close>

lemma handle_output_flow:
  "m_output m = m_output m' \<Longrightarrow> fst (handle_output cfg env m) = fst (handle_output cfg env m')"
  by (simp add: handle_output_def Let_def split: od_action.split)

lemma run_algorithm_flow:
  assumes "fill_input cfg (fst (e_phase env)) m = fill_input cfg (fst (e_phase env)) m'"
    and "m_output m = m_output m'"
  shows "fst (run_algorithm cfg env m) = fst (run_algorithm cfg env m')"
proof -
  let ?i = "fill_input cfg (fst (e_phase env)) m"
  have run: "fst (run_algorithm cfg env u) =
      (case e_process env (fill_input cfg (fst (e_phase env)) u) (m_output u) of (ret, out) \<Rightarrow>
         if ret < 0 then ExitProgram
         else fst (handle_output cfg env ((add_effect (OdProcess (fill_input cfg (fst (e_phase env)) u)) u)
                \<lparr>m_input := empty_input, m_output := out\<rparr>)))" for u
    by (simp add: run_algorithm_def Let_def split: prod.split flow.split)
  obtain ret out where p: "e_process env ?i (m_output m) = (ret, out)" by fastforce
  have "fst (handle_output cfg env ((add_effect (OdProcess ?i) m)\<lparr>m_input := empty_input, m_output := out\<rparr>)) =
      fst (handle_output cfg env ((add_effect (OdProcess ?i) m')\<lparr>m_input := empty_input, m_output := out\<rparr>))"
    by (rule handle_output_flow) simp
  then show ?thesis using p assms by (simp add: run)
qed

lemma main_branch_flow: "fst (main_branch cfg env (m\<lparr>m_monitoring := x\<rparr>)) = fst (main_branch cfg env m)"
proof -
  have i: "input_state env (m\<lparr>m_monitoring := x\<rparr>) = (input_state env m)\<lparr>m_monitoring := x\<rparr>"
    by (simp add: input_state_def read_attributes_def case_prod_beta)
  have r: "fst (run_algorithm cfg env ((input_state env m)\<lparr>m_monitoring := x\<rparr>)) =
      fst (run_algorithm cfg env (input_state env m))"
    by (rule run_algorithm_flow) (simp_all add: fill_input_def)
  show ?thesis
    by (simp add: main_branch_def disciplining_branch_eq i r monitoring_branch_def read_attributes_fst
        gnss_get_fix_info_def Let_def case_prod_beta)
qed



end
