(* ===== verification/Manufacturing.thy ===== *)
theory Manufacturing
  imports Prelude
begin

unbundle bit_operations_syntax

text \<open>
  \<open>utils/eeprom.c\<close>: the manufacturing data in the EEPROM. \<open>struct eeprom_manufacturing_data\<close> is packed,
  so it is its image of 196 bytes with the fields at the offsets that the header gives (\<open>off_...\<close>),
  little endian; the file is a list of bytes. C strings are byte lists without NUL.
\<close>

type_synonym byte = "8 word"

section \<open>The checksum\<close>

definition crc_bit :: "byte \<Rightarrow> byte" where
  "crc_bit crc = (if bit crc 7 then push_bit 1 crc XOR 0x31 else push_bit 1 crc)"

definition crc_byte :: "byte \<Rightarrow> byte \<Rightarrow> byte" where
  "crc_byte d crc = (crc_bit ^^ 8) (crc XOR d)"

definition gencrc :: "byte list \<Rightarrow> byte" where
  "gencrc data = fold crc_byte data 0xff"

lemma crc_bit_bit:
  "n < 8 \<Longrightarrow> bit (crc_bit c) n = ((0 < n \<and> bit c (n - 1)) \<noteq> (bit c 7 \<and> bit (0x31 :: byte) n))"
  unfolding crc_bit_def
  by (cases "bit c 7") (auto simp only: if_True if_False bit_xor_iff bit_push_bit_iff possible_bit_word
      len_bit0 len_num1 simp_thms Suc_le_eq One_nat_def)

lemma crc_bit_inj: "crc_bit c = crc_bit d \<Longrightarrow> c = d"
proof (rule bit_word_eqI)
  fix n assume eq: "crc_bit c = crc_bit d" and n: "n < LENGTH(8)"
  have 7: "bit c 7 = bit d 7"
    using crc_bit_bit [of 0 c] crc_bit_bit [of 0 d] eq by simp
  show "bit c n = bit d n"
  proof (cases "n = 7")
    case False
    then have "Suc n < 8" using n by simp
    from crc_bit_bit [OF this, of c] crc_bit_bit [OF this, of d] show ?thesis using eq 7 by auto
  qed (simp add: 7)
qed

lemma crc_bits_inj: "(crc_bit ^^ k) c = (crc_bit ^^ k) d \<Longrightarrow> c = d"
  by (induction k arbitrary: c d) (auto dest: crc_bit_inj)

lemma xor_twice: "((x :: byte) XOR c) XOR c = x"
  by (simp only: xor.assoc xor_self_eq xor.right_neutral)

lemma xor_cancel: "(a :: byte) XOR c = b XOR c \<Longrightarrow> a = b"
  by (drule arg_cong [where f = "\<lambda>x. x XOR c"]) (simp only: xor_twice)

lemma crc_byte_inj:
  "crc_byte d c = crc_byte d c' \<Longrightarrow> c = c'" "crc_byte d c = crc_byte d' c \<Longrightarrow> d = d'"
  unfolding crc_byte_def by (drule crc_bits_inj, erule xor_cancel)
    (drule crc_bits_inj, simp only: xor.commute [of c], erule xor_cancel)

interpretation crc: checksum crc_byte
  by unfold_locales (fact crc_byte_inj)+

section \<open>The image\<close>

definition EEPROM_SIZE :: nat where "EEPROM_SIZE = 0xC4"
definition off_magic :: nat where "off_magic = 0"
definition off_format_version :: nat where "off_format_version = 2"
definition off_product_name :: nat where "off_product_name = 3"
definition off_product_part_number :: nat where "off_product_part_number = 0x17"
definition off_system_assembly_part_number :: nat where "off_system_assembly_part_number = 0x1F"
definition off_fb_pcba_part_number :: nat where "off_fb_pcba_part_number = 0x2B"
definition off_fb_pcb_part_number :: nat where "off_fb_pcb_part_number = 0x37"
definition off_od_pcba_part_number :: nat where "off_od_pcba_part_number = 0x43"
definition off_od_pcba_serial_number :: nat where "off_od_pcba_serial_number = 0x50"
definition off_product_production_state :: nat where "off_product_production_state = 0x5D"
definition off_product_version :: nat where "off_product_version = 0x5E"
definition off_product_sub_version :: nat where "off_product_sub_version = 0x5F"
definition off_product_serial_number :: nat where "off_product_serial_number = 0x60"
definition off_product_asset_tag :: nat where "off_product_asset_tag = 0x6D"
definition off_system_manufacturer :: nat where "off_system_manufacturer = 0x79"
definition off_date_year :: nat where "off_date_year = 0x81"
definition off_date_month :: nat where "off_date_month = 0x83"
definition off_date_day :: nat where "off_date_day = 0x84"
definition off_pcb_manufacturer :: nat where "off_pcb_manufacturer = 0x85"
definition off_assembled_at :: nat where "off_assembled_at = 0x8D"
definition off_local_mac_address :: nat where "off_local_mac_address = 0x95"
definition off_extended_mac_address_base :: nat where "off_extended_mac_address_base = 0xA1"
definition off_extended_mac_address_size :: nat where "off_extended_mac_address_size = 0xAD"
definition off_eeprom_location :: nat where "off_eeprom_location = 0xAF"
definition off_crc8 :: nat where "off_crc8 = 0xC3"

lemmas offsets = EEPROM_SIZE_def off_magic_def off_format_version_def off_product_name_def
  off_product_part_number_def off_system_assembly_part_number_def off_fb_pcba_part_number_def
  off_fb_pcb_part_number_def off_od_pcba_part_number_def off_od_pcba_serial_number_def
  off_product_production_state_def off_product_version_def off_product_sub_version_def
  off_product_serial_number_def off_product_asset_tag_def off_system_manufacturer_def
  off_date_year_def off_date_month_def off_date_day_def off_pcb_manufacturer_def off_assembled_at_def
  off_local_mac_address_def off_extended_mac_address_base_def off_extended_mac_address_size_def
  off_eeprom_location_def off_crc8_def

text \<open>A store at an offset, \<open>strncpy\<close>, and the integers.\<close>

definition put :: "nat \<Rightarrow> byte list \<Rightarrow> byte list \<Rightarrow> byte list" where
  "put off bs img = take off img @ bs @ drop (off + length bs) img"

definition get :: "nat \<Rightarrow> nat \<Rightarrow> byte list \<Rightarrow> byte list" where
  "get off n img = take n (drop off img)"

definition strncpy :: "nat \<Rightarrow> byte list \<Rightarrow> nat \<Rightarrow> byte list \<Rightarrow> byte list" where
  "strncpy off src n img = put off (take n (src @ replicate n 0)) img"

definition le16 :: "int \<Rightarrow> byte list" where
  "le16 x = [word_of_int x, word_of_int (x div 256)]"

definition ascii :: "string \<Rightarrow> byte list" where
  "ascii s = map (\<lambda>c. word_of_nat (of_char c)) s"

text \<open>A literal is copied with \<open>min(sizeof(literal), n)\<close> bytes.\<close>

definition copy_literal :: "nat \<Rightarrow> string \<Rightarrow> nat \<Rightarrow> byte list \<Rightarrow> byte list" where
  "copy_literal off s n img = strncpy off (ascii s) (min (Suc (length s)) n) img"

definition init_eeprom_manufacturing_pcba :: "byte list \<Rightarrow> int \<times> byte list" where
  "init_eeprom_manufacturing_pcba img = (0, copy_literal off_od_pcba_part_number ''1003066C00'' 12 img)"

definition MP :: int where "MP = 3"

definition identity_fields :: "byte list \<Rightarrow> byte list" where
  "identity_fields img =
     copy_literal off_product_name ''TIME CARD'' 20
      (put off_product_sub_version [0]
      (put off_product_version [5]
      (put off_product_production_state [word_of_int MP]
      (put off_format_version [3]
      (put off_magic (le16 0xFBFB) img)))))"

definition part_fields :: "byte list \<Rightarrow> byte list" where
  "part_fields img =
     copy_literal off_od_pcba_part_number ''1003066C00'' 12
      (copy_literal off_fb_pcb_part_number ''13100010902'' 12
      (copy_literal off_fb_pcba_part_number ''13200014402'' 12
      (copy_literal off_system_assembly_part_number ''19002225'' 12 img)))"

definition serial_fields :: "byte list \<Rightarrow> byte list \<Rightarrow> byte list" where
  "serial_fields serial img =
     strncpy off_product_serial_number serial (min (length serial) 13)
      (strncpy off_od_pcba_serial_number serial (min (length serial) 12) img)"

definition maker_fields :: "byte list \<Rightarrow> byte list" where
  "maker_fields img =
     copy_literal off_pcb_manufacturer ''JOVE'' 4
      (copy_literal off_eeprom_location ''TIME CARD'' 9
      (put off_extended_mac_address_size (le16 0)
      (copy_literal off_extended_mac_address_base ''000000000000'' 12
      (copy_literal off_local_mac_address ''000000000000'' 12
      (copy_literal off_product_asset_tag ''000000000000'' 10
      (copy_literal off_product_part_number ''00000000'' 8
      (copy_literal off_assembled_at ''ASTEEL'' 7
      (copy_literal off_system_manufacturer ''OROLIA'' 8 img))))))))"

text \<open>The date is the broken-down local time; the checksum covers all bytes but itself.\<close>

record tm =
  tm_mday :: int
  tm_mon :: int
  tm_year :: int

definition date_fields :: "tm \<Rightarrow> byte list \<Rightarrow> byte list" where
  "date_fields t img =
     put off_date_year (le16 (tm_year t + 1900))
      (put off_date_month [word_of_int (tm_mon t + 1)]
      (put off_date_day [word_of_int (tm_mday t)] img))"

definition init_manufacturing_eeprom_data :: "tm \<Rightarrow> byte list \<Rightarrow> byte list \<Rightarrow> byte list" where
  "init_manufacturing_eeprom_data t serial img0 =
     (let img = date_fields t (maker_fields (serial_fields serial (part_fields (identity_fields img0))))
      in put off_crc8 [gencrc (take (EEPROM_SIZE - 1) img)] img)"

section \<open>The file\<close>

text \<open>Writing: opening for writing truncates the file; \<open>fwrite\<close> past the end fills with zeros and
  may write less than asked.\<close>

record file_write =
  fw_open :: bool
  fw_seek :: int
  fw_written :: nat

definition write_eeprom_manufacturing_data ::
  "file_write \<Rightarrow> byte list \<Rightarrow> byte list \<Rightarrow> int \<times> byte list" where
  "write_eeprom_manufacturing_data io data file =
     (if \<not> fw_open io then (- 1, file)
      else if fw_seek io \<noteq> 0 then (- 1, [])
      else (0, if fw_written io = 0 then []
               else replicate (2 * 256) 0 @ take (fw_written io) data))"

text \<open>Reading; \<open>None\<close> is the call on a null file when the open failed.\<close>

definition read_eeprom_manufacturing_data ::
  "byte list option \<Rightarrow> int \<Rightarrow> byte list \<Rightarrow> (int \<times> byte list) option" where
  "read_eeprom_manufacturing_data file seek data =
     (case file of
        None \<Rightarrow> None
      | Some bs \<Rightarrow>
          Some (if seek \<noteq> 0 then (seek, data)
                else let got = take EEPROM_SIZE (drop (2 * 256) bs)
                     in (if length got = EEPROM_SIZE then 1 else 0, got @ drop (length got) data)))"

section \<open>Properties\<close>

lemma put_length: "length img = n \<Longrightarrow> off + length bs \<le> n \<Longrightarrow> length (put off bs img) = n"
  by (simp add: put_def)

lemma strncpy_length: "length img = n \<Longrightarrow> off + k \<le> n \<Longrightarrow> length (strncpy off src k img) = n"
  by (simp add: strncpy_def put_length)

lemma copy_literal_length: "length img = n \<Longrightarrow> off + k \<le> n \<Longrightarrow> length (copy_literal off s k img) = n"
  by (simp add: copy_literal_def strncpy_length)

lemmas image_lengths = put_length strncpy_length copy_literal_length

lemma get_put_same [simp]: "off + length bs \<le> length img \<Longrightarrow> n = length bs \<Longrightarrow> get off n (put off bs img) = bs"
  by (simp add: get_def put_def)

lemma get_put_other:
  "off' + n \<le> off \<or> off + length bs \<le> off' \<Longrightarrow> off + length bs \<le> length img \<Longrightarrow>
     get off' n (put off bs img) = get off' n img"
  by (elim disjE) (auto simp: get_def put_def drop_take min_def)

lemma group_lengths:
  assumes "length img = EEPROM_SIZE"
  shows "length (identity_fields img) = EEPROM_SIZE" "length (part_fields img) = EEPROM_SIZE"
    "length (serial_fields serial img) = EEPROM_SIZE" "length (maker_fields img) = EEPROM_SIZE"
    "length (date_fields t img) = EEPROM_SIZE" "length (put off_crc8 [c] img) = EEPROM_SIZE"
  unfolding date_fields_def maker_fields_def serial_fields_def part_fields_def identity_fields_def
  by (intro image_lengths assms; simp add: offsets le16_def)+

lemma image_length:
  "length img = EEPROM_SIZE \<Longrightarrow> length (init_manufacturing_eeprom_data t serial img) = EEPROM_SIZE"
  unfolding init_manufacturing_eeprom_data_def Let_def by (intro group_lengths)

text \<open>What a reader of the data checks.\<close>

definition crc_ok :: "byte list \<Rightarrow> bool" where
  "crc_ok img = (length img = EEPROM_SIZE \<and> img ! off_crc8 = gencrc (take (EEPROM_SIZE - 1) img))"

lemma seal_ok: "length j = EEPROM_SIZE \<Longrightarrow> crc_ok (put off_crc8 [gencrc (take (EEPROM_SIZE - 1) j)] j)"
  by (simp add: crc_ok_def put_def offsets nth_append min_def)

lemma init_ends_with_crc:
  "length img = EEPROM_SIZE \<Longrightarrow> crc_ok (init_manufacturing_eeprom_data t serial img)"
  unfolding init_manufacturing_eeprom_data_def Let_def by (intro seal_ok group_lengths)

lemma crc_detects:
  assumes ok: "crc_ok i" and n: "n < EEPROM_SIZE" and b: "b \<noteq> i ! n"
  shows "\<not> crc_ok (i[n := b])"
proof (cases "n = off_crc8")
  case True
  then show ?thesis using ok b by (simp add: crc_ok_def offsets)
next
  case False
  have len: "length i = EEPROM_SIZE" using ok by (simp add: crc_ok_def)
  have n: "n < EEPROM_SIZE - 1" using n False by (simp add: offsets)
  let ?m = "take (EEPROM_SIZE - 1) i"
  have "n < length ?m" "?m ! n = i ! n" using n len by simp_all
  then have split: "?m = take n ?m @ i ! n # drop (Suc n) ?m"
    using id_take_nth_drop [of n ?m] by simp
  have "take (EEPROM_SIZE - 1) (i[n := b]) = ?m[n := b]" by (rule take_update_swap)
  also have "\<dots> = take n ?m @ b # drop (Suc n) ?m"
    by (rule upd_conv_take_nth_drop) (use n len in simp)
  finally have new: "take (EEPROM_SIZE - 1) (i[n := b]) = take n ?m @ b # drop (Suc n) ?m" .
  have "gencrc (take (EEPROM_SIZE - 1) (i[n := b])) \<noteq> gencrc ?m"
    using crc.single_change_detected [OF b, of "take n ?m" "drop (Suc n) ?m"]
    unfolding gencrc_def new by (metis split)
  moreover have "i[n := b] ! off_crc8 = i ! off_crc8" using False by simp
  ultimately show ?thesis using ok by (simp add: crc_ok_def)
qed

text \<open>C29. The data carry a checksum that matches them and that notices damage: when any one byte,
  the checksum included, is replaced by another value, the check fails.\<close>

theorem manufacturing_crc:
  assumes "length img = EEPROM_SIZE" "n < EEPROM_SIZE"
    and "b \<noteq> init_manufacturing_eeprom_data t serial img ! n"
  shows "crc_ok (init_manufacturing_eeprom_data t serial img) \<and>
    \<not> crc_ok ((init_manufacturing_eeprom_data t serial img)[n := b])"
  using init_ends_with_crc [OF assms(1)] crc_detects assms(2,3) by blast

definition sample_image :: "byte list" where
  "sample_image = init_manufacturing_eeprom_data \<lparr>tm_mday = 8, tm_mon = 6, tm_year = 122\<rparr>
     (ascii ''0012345678'') (replicate 196 0)"

theorem manufacturing_crc_witness:
  "crc_ok sample_image \<and> \<not> crc_ok (sample_image[5 := sample_image ! 5 + 1])"
  unfolding sample_image_def by (rule manufacturing_crc) (simp_all add: offsets)

text \<open>What was written is read back: when the file opens, seeks and takes every byte, a later
  read reports one record and returns the data.\<close>

theorem manufacturing_roundtrip:
  assumes "length data = EEPROM_SIZE" "fw_open io" "fw_seek io = 0" "fw_written io = EEPROM_SIZE"
    and "length old = EEPROM_SIZE"
  shows "fst (write_eeprom_manufacturing_data io data file) = 0 \<and>
    read_eeprom_manufacturing_data (Some (snd (write_eeprom_manufacturing_data io data file))) 0 old =
      Some (1, data)"
  using assms
  by (simp add: write_eeprom_manufacturing_data_def read_eeprom_manufacturing_data_def offsets)

theorem manufacturing_roundtrip_witness:
  "read_eeprom_manufacturing_data (Some (snd (write_eeprom_manufacturing_data
     \<lparr>fw_open = True, fw_seek = 0, fw_written = EEPROM_SIZE\<rparr> (replicate 196 7) []))) 0 (replicate 196 0) =
   Some (1, replicate 196 7)"
  using manufacturing_roundtrip [of "replicate 196 7" "\<lparr>fw_open = True, fw_seek = 0, fw_written = EEPROM_SIZE\<rparr>"
      "replicate 196 0" "[]"] by (simp add: offsets)

text \<open>A short write is not reported: whatever number of bytes reached the file, the function
  returns 0, although it logs the error.\<close>

theorem manufacturing_short_write_silent:
  "fst (write_eeprom_manufacturing_data \<lparr>fw_open = True, fw_seek = 0, fw_written = n\<rparr> data file) = 0"
  by (simp add: write_eeprom_manufacturing_data_def)

end
