(* ===== verification/ArtFormat.thy ===== *)
theory ArtFormat
  imports Manufacturing CStr
begin

text \<open>
  \<open>utils/art_eeprom_format.c\<close> and \<open>utils/art_eeprom_reformat.c\<close>: the programs that write the
  manufacturing data. What the operating system does (the file, the directory listing, the local
  time, the bytes an uninitialised structure holds) is an argument; the messages are left out.
\<close>

section \<open>The serial number\<close>

text \<open>\<open>removeChar\<close> closes the gap at each occurrence and looks at the same index again.\<close>

function removeChar_from :: "char \<Rightarrow> nat \<Rightarrow> string \<Rightarrow> string" where
  "removeChar_from c i str =
     (if i < length str
      then if str ! i = c then removeChar_from c i (take i str @ drop (Suc i) str)
           else removeChar_from c (Suc i) str
      else str)"
  by auto
termination by (relation "measure (\<lambda>(c, i, str). length str - i)") auto

declare removeChar_from.simps [simp del]

definition removeChar :: "string \<Rightarrow> char \<Rightarrow> string" where
  "removeChar str c = removeChar_from c 0 str"

definition c_isdigit :: "char \<Rightarrow> bool" where
  "c_isdigit c \<longleftrightarrow> CHR ''0'' \<le> c \<and> c \<le> CHR ''9''"

definition validate_serial :: "string option \<Rightarrow> bool \<times> string option" where
  "validate_serial serial =
     (case serial of
        None \<Rightarrow> (False, None)
      | Some s0 \<Rightarrow>
          (let s = removeChar s0 (CHR ''-'')
           in (if take 1 s \<noteq> ''F'' then False
               else if length s \<noteq> 9 then False
               else list_all (\<lambda>i. c_isdigit (s ! i)) [1..<9], Some s)))"

section \<open>art-eeprom-format\<close>

text \<open>\<open>main\<close> after the options are parsed: the return value and the file. \<open>garbage\<close> is what
  \<open>data_read\<close> holds before the read; \<open>io\<close> describes the write, \<open>rd\<close> the seek of the read back.\<close>

definition art_eeprom_format ::
  "tm \<Rightarrow> file_write \<Rightarrow> int \<Rightarrow> byte list \<Rightarrow> bool \<Rightarrow> string option \<Rightarrow> byte list \<Rightarrow> int \<times> byte list" where
  "art_eeprom_format t io rd garbage path_given serial_number file =
     (if \<not> path_given then (- 1, file)
      else case validate_serial serial_number of
             (True, Some serial) \<Rightarrow>
               (let data = init_manufacturing_eeprom_data t (ascii serial) (replicate EEPROM_SIZE 0)
                in case write_eeprom_manufacturing_data io data file of (ret, file') \<Rightarrow>
                     if ret \<noteq> 0 then (ret, file')
                     else case read_eeprom_manufacturing_data (Some file') rd garbage of
                            Some (_, data_read) \<Rightarrow> (if data \<noteq> data_read then - 1 else 0, file')
                          | None \<Rightarrow> (- 1, file'))
           | _ \<Rightarrow> (- 1, file))"

section \<open>art-eeprom-reformat\<close>

text \<open>The path of the last entry that matches, if any.\<close>

definition detect_eeprom_path :: "string \<Rightarrow> string list option \<Rightarrow> string option" where
  "detect_eeprom_path ocp_path dir =
     (case dir of
        None \<Rightarrow> None
      | Some names \<Rightarrow>
          fold (\<lambda>d_name found.
                  if drop 1 d_name = ''-0050'' \<or> drop 2 d_name = ''-0050''
                  then Some (ocp_path @ ''/i2c/'' @ d_name @ ''/eeprom'') else found) names None)"

text \<open>The file when the card and its EEPROM are found: read, set the part number, write, read
  again. \<open>None\<close> is the read of a null file.\<close>

definition reformat :: "int \<Rightarrow> file_write \<Rightarrow> byte list \<Rightarrow> byte list option \<Rightarrow> (int \<times> byte list) option" where
  "reformat rd io garbage file =
     (case read_eeprom_manufacturing_data file rd garbage of
        None \<Rightarrow> None
      | Some (_, data) \<Rightarrow>
          Some (write_eeprom_manufacturing_data io (snd (init_eeprom_manufacturing_pcba data))
                  (case file of Some f \<Rightarrow> f | None \<Rightarrow> [])))"

text \<open>The whole program. \<open>dir\<close>: the entries of a directory; \<open>files\<close>: the EEPROM of a path. The result is
  the exit code and the EEPROM that was written, if one was.\<close>

definition art_eeprom_reformat ::
  "string list \<Rightarrow> (string \<Rightarrow> bool) \<Rightarrow> (string \<Rightarrow> string list option) \<Rightarrow> int \<Rightarrow> file_write \<Rightarrow> byte list \<Rightarrow>
   (string \<Rightarrow> byte list option) \<Rightarrow> (int \<times> (string \<times> byte list) option) option" where
  "art_eeprom_reformat args exists dir rd io garbage files =
     (case args of
        [ocp] \<Rightarrow>
          (let ocp_path = take 254 (''/sys/class/timecard/'' @ ocp)
           in if \<not> exists ocp_path then Some (0, None)
              else case detect_eeprom_path ocp_path (dir (ocp_path @ ''/i2c'')) of
                     None \<Rightarrow> Some (0, None)
                   | Some path \<Rightarrow>
                       (case reformat rd io garbage (files path) of
                          None \<Rightarrow> None
                        | Some (ret, data) \<Rightarrow> Some (ret, Some (path, data))))
      | _ \<Rightarrow> Some (0, None))"

section \<open>Properties\<close>

lemma removeChar_from_filter: "removeChar_from c i str = take i str @ filter (\<lambda>x. x \<noteq> c) (drop i str)"
proof (induction c i str rule: removeChar_from.induct)
  case (1 c i str)
  show ?case
  proof (cases "i < length str")
    case True
    then have d: "drop i str = str ! i # drop (Suc i) str" by (simp add: Cons_nth_drop_Suc)
    show ?thesis
    proof (cases "str ! i = c")
      case eq: True
      then show ?thesis
        using 1(1) [OF True eq] True d by (subst removeChar_from.simps) simp
    next
      case False
      then show ?thesis
        using 1(2) [OF True False] True d
        by (subst removeChar_from.simps) (simp add: take_Suc_conv_app_nth)
    qed
  next
    case False
    then show ?thesis by (subst removeChar_from.simps) simp
  qed
qed

lemma removeChar_filter: "removeChar str c = filter (\<lambda>x. x \<noteq> c) str"
  by (simp add: removeChar_def removeChar_from_filter)

text \<open>The in-place removal of a character, which walks the string and closes every gap, terminates
  and yields the string without that character; so a serial number is accepted exactly when what
  remains without its dashes is an F and eight digits.\<close>

theorem validate_serial_correct:
  "removeChar str c = filter (\<lambda>x. x \<noteq> c) str \<and>
   (fst (validate_serial (Some s)) =
     (\<exists>ds. filter (\<lambda>x. x \<noteq> CHR ''-'') s = CHR ''F'' # ds \<and> length ds = 8 \<and> filter c_isdigit ds = ds))"
proof -
  let ?s = "filter (\<lambda>x. x \<noteq> CHR ''-'') s"
  have "fst (validate_serial (Some s)) =
      (take 1 ?s = ''F'' \<and> length ?s = 9 \<and> list_all (\<lambda>i. c_isdigit (?s ! i)) [1..<9])"
    by (simp add: validate_serial_def Let_def removeChar_filter)
  also have "\<dots> = (\<exists>ds. ?s = CHR ''F'' # ds \<and> length ds = 8 \<and> filter c_isdigit ds = ds)"
  proof (cases ?s)
    case (Cons x ds)
    have "list_all (\<lambda>i. c_isdigit ((x # ds) ! i)) [1..<9] = list_all c_isdigit ds" if "length ds = 8"
    proof -
      have "[1..<9] = map Suc [0..<length ds]" using that by (simp add: map_Suc_upt)
      then have "list_all (\<lambda>i. c_isdigit ((x # ds) ! i)) [1..<9] = list_all (\<lambda>i. c_isdigit (ds ! i)) [0..<length ds]"
        by (simp add: list.pred_map comp_def del: map_Suc_upt)
      then show ?thesis by (simp add: list_all_length)
    qed
    moreover have "filter c_isdigit ds = ds \<longleftrightarrow> list_all c_isdigit ds"
      by (simp add: filter_id_conv list_all_iff)
    ultimately show ?thesis using Cons by auto
  qed simp
  finally show ?thesis by (simp add: removeChar_filter)
qed

text \<open>The serial number of a card, and the part number the reformatting sets.\<close>

definition same_serial :: "byte list \<Rightarrow> byte list \<Rightarrow> bool" where
  "same_serial img x \<longleftrightarrow> length img = EEPROM_SIZE \<and> length x = EEPROM_SIZE \<and>
     get off_product_serial_number 9 x = get off_product_serial_number 9 img"

lemma same_serial_put:
  assumes "same_serial img x" "off + length bs \<le> EEPROM_SIZE"
    and "off_product_serial_number + 9 \<le> off \<or> off + length bs \<le> off_product_serial_number"
  shows "same_serial img (put off bs x)"
  using assms get_put_other [OF assms(3), of x] by (simp add: same_serial_def put_length)

lemma same_serial_strncpy:
  "same_serial img x \<Longrightarrow> off + k \<le> EEPROM_SIZE \<Longrightarrow>
     off_product_serial_number + 9 \<le> off \<or> off + k \<le> off_product_serial_number \<Longrightarrow>
     same_serial img (strncpy off s k x)"
  unfolding strncpy_def by (rule same_serial_put) auto

lemma same_serial_literal:
  "same_serial img x \<Longrightarrow> off + k \<le> EEPROM_SIZE \<Longrightarrow>
     off_product_serial_number + 9 \<le> off \<or> off + k \<le> off_product_serial_number \<Longrightarrow>
     same_serial img (copy_literal off s k x)"
  unfolding copy_literal_def by (rule same_serial_strncpy) auto

lemma same_serial_groups:
  assumes "same_serial img x"
  shows "same_serial img (put off_crc8 [c] x)" "same_serial img (date_fields t x)"
    "same_serial img (maker_fields x)"
  unfolding date_fields_def maker_fields_def
  by (intro same_serial_put same_serial_literal assms; simp add: offsets le16_def)+

lemma serial_stored:
  assumes "length img = EEPROM_SIZE" "length serial = 9"
  shows "get off_product_serial_number 9 (init_manufacturing_eeprom_data t serial img) = serial"
proof -
  let ?p = "part_fields (identity_fields img)"
  have p: "length ?p = EEPROM_SIZE" by (intro group_lengths assms)
  have s: "get off_product_serial_number 9 (serial_fields serial ?p) = serial"
    unfolding serial_fields_def using assms(2) p
    by (simp add: strncpy_def) (subst get_put_same; simp add: put_def offsets)
  have "same_serial (serial_fields serial ?p) (init_manufacturing_eeprom_data t serial img)"
    unfolding init_manufacturing_eeprom_data_def Let_def
    by (intro same_serial_groups) (simp add: same_serial_def group_lengths assms(1))
  with s show ?thesis by (simp add: same_serial_def)
qed

text \<open>C38. Formatting a card whose file takes every byte succeeds for a valid serial number, and leaves
  data that pass the checksum and hold the serial number without its dashes.\<close>

theorem art_eeprom_format_correct:
  assumes "fst (validate_serial (Some s))" "fw_open io" "fw_seek io = 0" "fw_written io = EEPROM_SIZE"
    and "length garbage = EEPROM_SIZE"
  shows "case art_eeprom_format t io 0 garbage True (Some s) old of (ret, file') \<Rightarrow>
     ret = 0 \<and> crc_ok (drop (2 * 256) file') \<and>
     get off_product_serial_number 9 (drop (2 * 256) file') = ascii (filter (\<lambda>c. c \<noteq> CHR ''-'') s)"
proof -
  let ?s = "filter (\<lambda>c. c \<noteq> CHR ''-'') s"
  let ?d = "init_manufacturing_eeprom_data t (ascii ?s) (replicate EEPROM_SIZE 0)"
  have v: "validate_serial (Some s) = (True, Some ?s)"
    using assms(1) by (simp add: validate_serial_def Let_def removeChar_filter)
  have "length ?s = 9"
    using assms(1) by (simp add: validate_serial_def Let_def removeChar_filter split: if_splits)
  then have n: "length (ascii ?s) = 9" by (simp add: ascii_def)
  have l: "length ?d = EEPROM_SIZE" by (rule image_length) simp
  have w: "write_eeprom_manufacturing_data io ?d old = (0, replicate (2 * 256) 0 @ ?d)"
    using assms(2-4) l by (simp add: write_eeprom_manufacturing_data_def offsets)
  have r: "read_eeprom_manufacturing_data (Some (replicate (2 * 256) 0 @ ?d)) 0 garbage = Some (1, ?d)"
    using l assms(5) by (simp add: read_eeprom_manufacturing_data_def)
  have f: "art_eeprom_format t io 0 garbage True (Some s) old = (0, replicate (2 * 256) 0 @ ?d)"
    unfolding art_eeprom_format_def v Let_def
    by (simp only: prod.case option.case bool.case w r refl if_True if_False simp_thms not_False_eq_True)
  have "crc_ok ?d" by (rule init_ends_with_crc) simp
  moreover have "get off_product_serial_number 9 ?d = ascii ?s" by (rule serial_stored) (use n in simp_all)
  ultimately show ?thesis unfolding f by simp
qed

text \<open>Reformatting replaces the part number without renewing the checksum: data that were intact
  and whose part number differs from the new one in a single character fail the check afterwards.\<close>

theorem reformat_breaks_crc:
  assumes "crc_ok data" "k < 11" "b \<noteq> (ascii ''1003066C00'' @ [0]) ! k"
    and "get off_od_pcba_part_number 11 data = (ascii ''1003066C00'' @ [0])[k := b]"
    and "length garbage = EEPROM_SIZE" "length pre = 2 * 256"
    and "fw_open io" "fw_seek io = 0" "fw_written io = EEPROM_SIZE"
  shows "\<exists>data'. reformat 0 io garbage (Some (pre @ data)) = Some (0, replicate (2 * 256) 0 @ data') \<and>
     \<not> crc_ok data'"
proof -
  let ?t = "ascii ''1003066C00'' @ [0]" and ?o = off_od_pcba_part_number
  let ?n = "put ?o ?t data"
  have len: "length data = EEPROM_SIZE" using assms(1) by (simp add: crc_ok_def)
  have t: "length ?t = 11" by (simp add: ascii_def)
  have pcba: "init_eeprom_manufacturing_pcba data = (0, ?n)"
    by (simp add: init_eeprom_manufacturing_pcba_def copy_literal_def strncpy_def ascii_def)
  have old: "data = take ?o data @ ?t[k := b] @ drop (?o + 11) data"
    using assms(4) by (metis append_take_drop_id drop_drop add.commute get_def)
  have o: "length (take ?o data) = ?o" using len by (simp add: offsets)
  have "data[?o + k := ?t ! k] = take ?o data @ (?t[k := b])[k := ?t ! k] @ drop (?o + 11) data"
    using o t assms(2) by (subst old) (simp add: list_update_append)
  then have new: "?n = data[?o + k := ?t ! k]" by (simp only: put_def t list_update_overwrite list_update_id)
  have "data ! (?o + k) = b"
    using o t assms(2) by (subst old) (simp add: nth_append)
  then have "\<not> crc_ok ?n"
    unfolding new using crc_detects [OF assms(1), of "?o + k" "?t ! k"] assms(2,3) by (simp add: offsets)
  moreover have "reformat 0 io garbage (Some (pre @ data)) = Some (0, replicate (2 * 256) 0 @ ?n)"
    using assms(5-9) len pcba
    by (simp add: reformat_def read_eeprom_manufacturing_data_def write_eeprom_manufacturing_data_def
        offsets put_def ascii_def)
  ultimately show ?thesis by blast
qed

section \<open>Concrete runs\<close>

theorem art_eeprom_format_correct_witness:
  "fst (art_eeprom_format \<lparr>tm_mday = 8, tm_mon = 6, tm_year = 122\<rparr>
      \<lparr>fw_open = True, fw_seek = 0, fw_written = EEPROM_SIZE\<rparr> 0 (replicate 196 0) True
      (Some ''F12-345-678'') []) = 0"
proof -
  have "fst (validate_serial (Some ''F12-345-678''))"
    using validate_serial_correct [of "[]" "CHR ''-''" "''F12-345-678''"] by (simp add: c_isdigit_def)
  from art_eeprom_format_correct [OF this, where t = "\<lparr>tm_mday = 8, tm_mon = 6, tm_year = 122\<rparr>"
      and io = "\<lparr>fw_open = True, fw_seek = 0, fw_written = EEPROM_SIZE\<rparr>" and garbage = "replicate 196 0"
      and old = "[]"]
  show ?thesis by (simp add: offsets split: prod.splits)
qed

definition other_part :: "byte list" where
  "other_part = put off_od_pcba_part_number ((ascii ''1003066C00'' @ [0])[9 := 0x31]) (replicate 196 0)"

theorem reformat_breaks_crc_witness:
  "\<exists>data'. reformat 0 \<lparr>fw_open = True, fw_seek = 0, fw_written = EEPROM_SIZE\<rparr> (replicate 196 0)
      (Some (replicate 512 0 @ put off_crc8 [gencrc (take (EEPROM_SIZE - 1) other_part)] other_part)) =
    Some (0, replicate (2 * 256) 0 @ data') \<and> \<not> crc_ok data'"
proof (rule reformat_breaks_crc [where k = 9 and b = "0x31"])
  have l: "length other_part = EEPROM_SIZE"
    by (simp add: other_part_def put_def offsets ascii_def)
  show "crc_ok (put off_crc8 [gencrc (take (EEPROM_SIZE - 1) other_part)] other_part)"
    by (rule seal_ok [OF l])
  show "get off_od_pcba_part_number 11 (put off_crc8 [gencrc (take (EEPROM_SIZE - 1) other_part)] other_part) =
      (ascii ''1003066C00'' @ [0])[9 := 0x31]"
    by (subst get_put_other) (use l in \<open>simp_all add: offsets other_part_def ascii_def put_def get_def\<close>)
qed (simp_all add: ascii_def offsets)

end
