(* ===== verification/SerialPort.thy ===== *)
theory SerialPort
  imports CStr
begin

text \<open>
  What the drivers of the serial oscillators (\<open>sa5x_oscillator.c\<close>, \<open>mRo50_oscillator.c\<close>) share: a
  static buffer of characters and the loop that polls the port and appends what it reads. How
  the device reacts to a command is an \<open>exchange_io\<close>: whether the command could be written whole,
  and the results of the polls until one times out (the end of the list).
\<close>

datatype poll = PollError | ReadError | PollRead string

record exchange_io =
  x_write :: bool
  x_polls :: "poll list"

text \<open>Bytes stored in the buffer from index \<open>i\<close>, and \<open>memset(answer_str, 0, n)\<close>.\<close>

definition buf_put :: "nat \<Rightarrow> string \<Rightarrow> string \<Rightarrow> string" where
  "buf_put i bs buf = take i buf @ bs @ drop (i + length bs) buf"

definition buf_clear :: "nat \<Rightarrow> string \<Rightarrow> string" where
  "buf_clear n buf = buf_put 0 (replicate n (CHR 0x00)) buf"

text \<open>The loop on a buffer of which \<open>len\<close> bytes may be used: whether it ended at a timeout, the bytes
  read, the buffer.\<close>

fun poll_loop :: "nat \<Rightarrow> poll list \<Rightarrow> string \<Rightarrow> nat \<Rightarrow> bool \<times> nat \<times> string" where
  "poll_loop len [] buf rbytes = (True, rbytes, buf)"
| "poll_loop len (PollError # ps) buf rbytes = (False, rbytes, buf)"
| "poll_loop len (ReadError # ps) buf rbytes = (False, rbytes, buf)"
| "poll_loop len (PollRead bs # ps) buf rbytes =
     (let got = take (len - rbytes) bs
      in poll_loop len ps (buf_put rbytes got buf) (rbytes + length got))"

section \<open>Answers in pieces\<close>

lemma buf_put_length: "i + length bs \<le> length buf \<Longrightarrow> length (buf_put i bs buf) = length buf"
  by (simp add: buf_put_def)

lemma buf_clear_length: "n \<le> length buf \<Longrightarrow> length (buf_clear n buf) = length buf"
  by (simp add: buf_clear_def buf_put_length)

lemma buf_clear_over: "buf_clear (length a) (a @ t) = replicate (length a) (CHR 0x00) @ t"
  by (simp add: buf_clear_def buf_put_def)

lemma poll_loop_reads:
  assumes "len \<le> length buf" "length pre = n" "take n buf = pre" "n + length (concat chunks) \<le> len"
  shows "poll_loop len (map PollRead chunks) buf n =
    (True, n + length (concat chunks), pre @ concat chunks @ drop (n + length (concat chunks)) buf)"
  using assms
proof (induction chunks arbitrary: buf n pre)
  case Nil
  then show ?case by simp (metis append_take_drop_id)
next
  case (Cons c cs)
  have c: "take (len - n) c = c" using Cons.prems(4) by simp
  have b: "buf_put n c buf = pre @ c @ drop (n + length c) buf"
    using Cons.prems(3) by (simp add: buf_put_def)
  have "poll_loop len (map PollRead cs) (buf_put n c buf) (n + length c) =
      (True, n + length c + length (concat cs),
       (pre @ c) @ concat cs @ drop (n + length c + length (concat cs)) (buf_put n c buf))"
    by (rule Cons.IH) (use Cons.prems b in \<open>simp_all add: buf_put_length\<close>)
  then show ?case using c b Cons.prems(2) by (simp add: Let_def ac_simps)
qed

text \<open>A whole answer, in a buffer of any contents.\<close>

lemma poll_loop_answer:
  "len \<le> length buf \<Longrightarrow> length (concat chunks) \<le> len \<Longrightarrow>
     poll_loop len (map PollRead chunks) buf 0 =
       (True, length (concat chunks), concat chunks @ drop (length (concat chunks)) buf)"
  using poll_loop_reads [of len buf "[]" 0 chunks] by simp

lemma c_string_append: "CHR 0x00 \<notin> set a \<Longrightarrow> c_string (a @ t) = a @ c_string t"
  unfolding c_string_def by (subst takeWhile_append2) auto

text \<open>The bytes used never exceed the buffer.\<close>

lemma poll_loop_bound:
  "n \<le> len \<Longrightarrow> poll_loop len ps buf n = (ok, m, buf') \<Longrightarrow> m \<le> len"
  by (induction len ps buf n rule: poll_loop.induct) (auto simp: Let_def)

lemma poll_loop_length:
  "n \<le> len \<Longrightarrow> len \<le> length buf \<Longrightarrow> poll_loop len ps buf n = (ok, m, buf') \<Longrightarrow> length buf' = length buf"
  by (induction len ps buf n rule: poll_loop.induct) (auto simp: Let_def buf_put_length)

text \<open>The device takes the command and answers with exactly these bytes, in any number of reads.\<close>

definition is_read :: "poll \<Rightarrow> bool" where
  "is_read x = (case x of PollRead _ \<Rightarrow> True | _ \<Rightarrow> False)"

definition poll_data :: "poll \<Rightarrow> string" where
  "poll_data x = (case x of PollRead bs \<Rightarrow> bs | _ \<Rightarrow> [])"

definition answers :: "exchange_io \<Rightarrow> string \<Rightarrow> bool" where
  "answers x a \<longleftrightarrow> x_write x \<and> list_all is_read (x_polls x) \<and> concat (map poll_data (x_polls x)) = a"

lemma reads_eq: "list_all is_read ps \<Longrightarrow> ps = map PollRead (map poll_data ps)"
  by (induction ps) (auto simp: is_read_def poll_data_def split: poll.splits)

lemma answers_loop:
  assumes "answers x a" "length a \<le> len" "len \<le> length buf"
  shows "poll_loop len (x_polls x) buf 0 = (True, length a, a @ drop (length a) buf)"
proof -
  from assms(1) have "x_polls x = map PollRead (map poll_data (x_polls x))" "concat (map poll_data (x_polls x)) = a"
    by (auto simp: answers_def dest: reads_eq)
  then show ?thesis using poll_loop_answer [of len buf "map poll_data (x_polls x)"] assms(2,3) by simp
qed

end
