(* ===== verification/Sa5x.thy ===== *)
theory Sa5x
  imports Oscillator SerialPort
begin

text \<open>
  \<open>src/oscillators/sa5x_oscillator.c\<close>: the driver of the SA5x atomic clock, which disciplines
  itself. The serial port is \<open>sa_port\<close>: \<open>script n\<close> is how the device reacts to the \<open>n\<close>-th command
  and \<open>sent\<close> the commands so far; the static buffer \<open>answer_str\<close> is kept with what earlier
  answers left in it. \<open>sa_clock n\<close> is the \<open>n\<close>-th reading of the monotonic clock, in seconds, and
  \<open>sa_junk\<close> the value of a variable that is read before it is written. A phase is in plain decimal
  notation; exponents are not scanned.
\<close>

section \<open>The serial port\<close>

record sa_port =
  sent :: "string list"
  answer_str :: string
  script :: "nat \<Rightarrow> exchange_io"
  sa_clock :: "nat \<Rightarrow> int"
  sa_clock_reads :: nat
  sa_junk :: int

definition answer_len :: nat where "answer_len = 4101"

definition sa5x_oscillator_cmd :: "string \<Rightarrow> sa_port \<Rightarrow> int \<times> sa_port" where
  "sa5x_oscillator_cmd cmd p =
     (let x = script p (length (sent p)); p1 = p\<lparr>sent := sent p @ [cmd]\<rparr>
      in if \<not> x_write x then (- 1, p1)
         else (case poll_loop answer_len (x_polls x) (answer_str p1) 0 of
                 (ok, n, buf) \<Rightarrow>
                   if \<not> ok then (- 1, p1\<lparr>answer_str := buf\<rparr>)
                   else if n = 0 then (- 1, p1\<lparr>answer_str := buf\<rparr>)
                   else if n < 5 \<or> buf ! 0 \<noteq> CHR ''['' \<or> buf ! 1 \<noteq> CHR ''=''
                   then (- 1, p1\<lparr>answer_str := buf_clear n buf\<rparr>)
                   else (int n, p1\<lparr>answer_str := buf\<rparr>)))"

text \<open>A command printed into the buffer and sent from there.\<close>

definition set_cmd :: "string \<Rightarrow> sa_port \<Rightarrow> int \<times> sa_port" where
  "set_cmd cmd p = sa5x_oscillator_cmd cmd (p\<lparr>answer_str := buf_put 0 (cmd @ [CHR 0x00]) (answer_str p)\<rparr>)"

definition CMD_SET_TAU :: "nat \<Rightarrow> string" where
  "CMD_SET_TAU n = ''{set,TauPps0,'' @ dec n @ ''}''"

definition CMD_SET_DISCIPLINING :: "nat \<Rightarrow> string" where
  "CMD_SET_DISCIPLINING n = ''{set,Disciplining,'' @ dec n @ ''}''"

definition CMD_SET_PHASELIMIT :: "nat \<Rightarrow> string" where
  "CMD_SET_PHASELIMIT n = ''{set,PhaseLimit,'' @ dec n @ ''}''"

section \<open>Reading the answer\<close>

text \<open>\<open>sscanf(answer_str, "[=%d]")\<close>: what it returns, and the number when one was stored. The end of
  the string before the conversion is -1.\<close>

definition after_head :: "string \<Rightarrow> int + string" where
  "after_head s =
     (case s of
        [] \<Rightarrow> Inl (- 1)
      | c # cs \<Rightarrow>
          if c \<noteq> CHR ''['' then Inl 0
          else (case cs of [] \<Rightarrow> Inl (- 1) | d # ds \<Rightarrow> if d \<noteq> CHR ''='' then Inl 0 else Inr ds))"

definition scan_answer :: "(string \<Rightarrow> int option) \<Rightarrow> string \<Rightarrow> int \<times> int option" where
  "scan_answer conv s =
     (case after_head s of
        Inl r \<Rightarrow> (r, None)
      | Inr rest \<Rightarrow>
          if dropWhile c_isspace rest = [] then (- 1, None)
          else case conv rest of None \<Rightarrow> (0, None) | Some v \<Rightarrow> (1, Some v))"

definition conv_long :: "string \<Rightarrow> int option" where
  "conv_long s = (case scan_int 10 s of None \<Rightarrow> None | Some _ \<Rightarrow> Some (fst (strtol s 10)))"

definition conv_int :: "string \<Rightarrow> int option" where
  "conv_int s = map_option to_i32 (conv_long s)"

text \<open>A decimal number, rounded to the nearest integer, halves away from zero.\<close>

definition round_half_away :: "int \<Rightarrow> int \<Rightarrow> int" where
  "round_half_away m d =
     (if m \<ge> 0 then (2 * m + d) div (2 * d) else - ((2 * (- m) + d) div (2 * d)))"

definition conv_phase :: "string \<Rightarrow> int option" where
  "conv_phase s =
     (case scan_sign (dropWhile c_isspace s) of (neg, s1) \<Rightarrow>
        case scan_digits 10 0 s1 of (w, s2) \<Rightarrow>
          let frac = (if take 1 s2 = ''.'' then takeWhile (\<lambda>c. digit_of c < 10) (drop 1 s2) else []);
              m = int (fst (scan_digits 10 w frac))
          in if s2 = s1 \<and> frac = [] then None
             else Some (round_half_away (if neg then - m else m) (10 ^ length frac)))"

text \<open>The three readers: the result, the value when one was stored, and the cleared buffer.\<close>

definition read_answer :: "(string \<Rightarrow> int option) \<Rightarrow> int \<Rightarrow> sa_port \<Rightarrow> int \<times> int option \<times> sa_port" where
  "read_answer conv len p =
     (if len > 0
      then case scan_answer conv (c_string (answer_str p)) of (res, v) \<Rightarrow>
             (res, v, p\<lparr>answer_str := buf_clear (nat len) (answer_str p)\<rparr>)
      else (len, None, p))"

definition sa5x_oscillator_read_intval where "sa5x_oscillator_read_intval = read_answer conv_int"
definition sa5x_oscillator_read_int64val where "sa5x_oscillator_read_int64val = read_answer conv_long"

definition sa5x_oscillator_read_phase :: "int \<Rightarrow> sa_port \<Rightarrow> int \<times> int option \<times> sa_port" where
  "sa5x_oscillator_read_phase len p =
     (case read_answer conv_phase len p of (res, v, p1) \<Rightarrow>
        (res, (if res = 0 then None else if res < 0 then Some (sa_junk p) else v), p1))"

text \<open>A command followed by reading an integer.\<close>

definition sa_query :: "string \<Rightarrow> sa_port \<Rightarrow> int \<times> int option \<times> sa_port" where
  "sa_query cmd p = (case sa5x_oscillator_cmd cmd p of (n, p1) \<Rightarrow> sa5x_oscillator_read_intval n p1)"

definition stored :: "int \<Rightarrow> int option \<Rightarrow> int" where
  "stored old v = (case v of None \<Rightarrow> old | Some x \<Rightarrow> x)"

section \<open>Attributes\<close>

record sa5x_attributes =
  alarms :: int
  phaseoffset :: int
  lastcorrection :: int
  sa_temperature :: int
  digitaltuning :: int
  tau :: int
  ppsindetected :: bool
  sa_locked :: bool
  disciplinelocked :: bool
  sa_disciplining :: bool

definition zero_attributes :: sa5x_attributes where
  "zero_attributes = \<lparr>alarms = 0, phaseoffset = 0, lastcorrection = 0, sa_temperature = 0,
     digitaltuning = 0, tau = 0, ppsindetected = False, sa_locked = False, disciplinelocked = False,
     sa_disciplining = False\<rparr>"

datatype sa_attr = ATTR_CTRL | ATTR_STATUS | ATTR_PHASE | ATTR_STATUS_PPS | ATTR_STATUS_TEMPERATURE

text \<open>The parts of \<open>sa5x_oscillator_get_attributes\<close>. \<open>val\<close> is the local variable that one query
  leaves to the next; a bit field keeps the lowest bit. The first part may return.\<close>

definition read_pps ::
  "int \<Rightarrow> sa5x_attributes \<Rightarrow> sa_port \<Rightarrow> int option \<times> int \<times> sa5x_attributes \<times> sa_port" where
  "read_pps val a p =
     (case sa_query ''{get,DisciplineLocked}'' p of (err, v, p1) \<Rightarrow>
        let val1 = stored val v;
            a1 = (if err > 0 then a\<lparr>disciplinelocked := odd val1\<rparr> else a)
        in case sa_query ''{get,PpsInDetected}'' p1 of (err2, v2, p2) \<Rightarrow>
             let val2 = stored val1 v2
             in if err2 > 0 then (None, val2, a1\<lparr>ppsindetected := odd val2\<rparr>, p2)
                else (Some err2, val2, a1, p2))"

definition read_ctrl :: "int \<Rightarrow> sa5x_attributes \<Rightarrow> sa_port \<Rightarrow> int \<times> sa5x_attributes \<times> sa_port" where
  "read_ctrl val a p =
     (case sa5x_oscillator_cmd ''{get,DigitalTuning}'' p of (n, p0) \<Rightarrow>
      case sa5x_oscillator_read_int64val n p0 of (_, dt, p1) \<Rightarrow>
      case sa_query ''{get,Locked}'' p1 of (err, v, p2) \<Rightarrow>
      case sa_query ''{get,TauPps0}'' p2 of (err2, v2, p3) \<Rightarrow>
      case sa_query ''{get,LastCorrection}'' p3 of (_, lc, p4) \<Rightarrow>
        let val1 = stored val v; val2 = stored val1 v2
        in (val2,
            a\<lparr>digitaltuning := stored (digitaltuning a) dt,
              sa_locked := (if err > 0 then odd val1 else sa_locked a),
              tau := (if err2 > 0 then to_u32 val2 else tau a),
              lastcorrection := stored (lastcorrection a) lc\<rparr>, p4))"

text \<open>The last component says whether the phase is to be read as well.\<close>

definition read_status ::
  "int \<Rightarrow> sa5x_attributes \<Rightarrow> sa_port \<Rightarrow> sa5x_attributes \<times> sa_port \<times> bool" where
  "read_status val a p =
     (case sa_query ''{get,Alarms}'' p of (res, v, p1) \<Rightarrow>
      case sa_query ''{get,Disciplining}'' p1 of (err, v2, p2) \<Rightarrow>
        let val1 = stored val v; val2 = stored val1 v2;
            a1 = (if res \<noteq> 0 then a\<lparr>alarms := to_u32 val1\<rparr> else a)
        in if err > 0 then (a1\<lparr>sa_disciplining := odd val2\<rparr>, p2, val2 = 0) else (a1, p2, False))"

definition read_phase_part :: "bool \<Rightarrow> sa5x_attributes \<Rightarrow> sa_port \<Rightarrow> sa5x_attributes \<times> sa_port" where
  "read_phase_part status a p =
     (case sa5x_oscillator_cmd ''{get,Phase}'' p of (n, p0) \<Rightarrow>
      case sa5x_oscillator_read_phase n p0 of (_, v, p1) \<Rightarrow>
        let a1 = a\<lparr>phaseoffset := stored (phaseoffset a) v\<rparr>
        in (a1, if status \<and> \<not> sa_disciplining a1 \<and> phaseoffset a1 = 0
                then snd (set_cmd (CMD_SET_DISCIPLINING 1) p1) else p1))"

definition read_temperature :: "sa5x_attributes \<Rightarrow> sa_port \<Rightarrow> int \<times> sa5x_attributes \<times> sa_port" where
  "read_temperature a p =
     (case sa_query ''{get,Temperature}'' p of (err, v, p1) \<Rightarrow>
        ((if err \<le> 0 then err else 0), a\<lparr>sa_temperature := stored (sa_temperature a) v\<rparr>, p1))"

definition sa5x_oscillator_get_attributes ::
  "sa_attr set \<Rightarrow> sa5x_attributes \<Rightarrow> sa_port \<Rightarrow> int \<times> sa5x_attributes \<times> sa_port" where
  "sa5x_oscillator_get_attributes m a p =
     (case (if ATTR_STATUS_PPS \<in> m \<or> ATTR_STATUS \<in> m then read_pps (sa_junk p) a p
            else (None, sa_junk p, a, p)) of
        (Some err, _, a1, p1) \<Rightarrow> (err, a1, p1)
      | (None, val1, a1, p1) \<Rightarrow>
          (case (if ATTR_CTRL \<in> m then read_ctrl val1 a1 p1 else (val1, a1, p1)) of (val2, a2, p2) \<Rightarrow>
           case (if ATTR_STATUS \<in> m then read_status val2 a2 p2 else (a2, p2, False)) of
             (a3, p3, phase_too) \<Rightarrow>
           case (if ATTR_PHASE \<in> m \<or> phase_too then read_phase_part (ATTR_STATUS \<in> m) a3 p3
                 else (a3, p3)) of (a4, p4) \<Rightarrow>
             if ATTR_STATUS_TEMPERATURE \<in> m then read_temperature a4 p4 else (0, a4, p4)))"

section \<open>The driver\<close>

datatype SA5x_ClockClass = SA5X_CLOCK_CLASS_UNCALIBRATED | SA5X_CLOCK_CLASS_CALIBRATING |
  SA5X_CLOCK_CLASS_HOLDOVER | SA5X_CLOCK_CLASS_LOCK

datatype SA5x_Disciplining_State = SA5X_INIT | SA5X_TRACKING | SA5X_HOLDOVER | SA5X_CALIBRATION

text \<open>The numbers of the enumerators, as the monitoring structure takes them over.\<close>

definition class_number :: "SA5x_ClockClass \<Rightarrow> int" where
  "class_number c =
     (case c of SA5X_CLOCK_CLASS_UNCALIBRATED \<Rightarrow> 0 | SA5X_CLOCK_CLASS_CALIBRATING \<Rightarrow> 1
      | SA5X_CLOCK_CLASS_HOLDOVER \<Rightarrow> 2 | SA5X_CLOCK_CLASS_LOCK \<Rightarrow> 3)"

definition state_number :: "SA5x_Disciplining_State \<Rightarrow> int" where
  "state_number s = (case s of SA5X_INIT \<Rightarrow> 0 | SA5X_TRACKING \<Rightarrow> 1 | SA5X_HOLDOVER \<Rightarrow> 2 | SA5X_CALIBRATION \<Rightarrow> 3)"

record sa5x =
  sa_port :: sa_port
  disciplining_phase :: nat
  sa_class :: SA5x_ClockClass
  sa_state :: SA5x_Disciplining_State
  holdover_ready :: bool
  disciplining_start :: int
  gnss_last_fix :: int
  gnss_last_fix_utc :: timespec
  mac_last_latch :: int
  gnss_fix_status :: bool
  latch_fixed :: bool
  sa_version :: string
  sa_serial :: string

definition DISCIPLINING_PHASES :: nat where "DISCIPLINING_PHASES = 3"
definition DIGITAL_TUNING_MAX :: int where "DIGITAL_TUNING_MAX = 20000000"
definition DEFAULT_PHASELIMIT :: nat where "DEFAULT_PHASELIMIT = 100000"
definition NO_GNSS_FIX_TIMEOUT :: int where "NO_GNSS_FIX_TIMEOUT = 9"
definition tau_values :: "nat list" where "tau_values = [50, 500, 10000]"
definition tau_interval :: "int list" where "tau_interval = [600, 7200, 86400]"

text \<open>One reading of the monotonic clock.\<close>

definition sa_now :: "sa5x \<Rightarrow> int \<times> sa5x" where
  "sa_now r = (let p = sa_port r
     in (sa_clock p (sa_clock_reads p), r\<lparr>sa_port := p\<lparr>sa_clock_reads := Suc (sa_clock_reads p)\<rparr>\<rparr>))"

text \<open>The firmware branch of \<open>get_attributes\<close>: version, serial number, phase limit.\<close>

definition scan_version :: "string \<Rightarrow> (int \<times> int) option" where
  "scan_version s =
     (if take 1 s \<noteq> ''V'' then None
      else case scan_int 10 (drop 1 s) of
             None \<Rightarrow> None
           | Some (major, rest) \<Rightarrow>
               if take 1 rest \<noteq> ''.'' then None
               else case scan_int 10 (drop 1 rest) of
                      None \<Rightarrow> None
                    | Some (minor, _) \<Rightarrow> Some (to_i32 major, to_i32 minor))"

definition read_firmware :: "sa5x \<Rightarrow> sa5x" where
  "read_firmware r =
     (case sa5x_oscillator_cmd (CHR 0x5C # ''{swrev?}'') (sa_port r) of (err, p1) \<Rightarrow>
      case sa5x_oscillator_cmd ''{serial?}'' (if err > 0 then p1\<lparr>answer_str := buf_clear (nat err) (answer_str p1)\<rparr> else p1) of
        (err2, p2) \<Rightarrow>
        let text1 = c_string (answer_str p1); text2 = c_string (answer_str p2);
            ver = take 19 (takeWhile (\<lambda>c. c \<noteq> CHR '','') (drop 2 text1));
            version' = (if err > 0 \<and> take 2 text1 = ''[='' \<and> ver \<noteq> [] then ver else sa_version r);
            serial' = (if err2 > 0 \<and> take 2 text2 = ''[='' \<and> drop 2 text2 \<noteq> [] then take 11 (drop 2 text2) else sa_serial r);
            p3 = (if err2 > 0 then p2\<lparr>answer_str := buf_clear (nat err2) (answer_str p2)\<rparr> else p2)
        in case sa_query ''{get,PhaseLimit}'' p3 of (err3, v, p4) \<Rightarrow>
             r\<lparr>sa_version := version', sa_serial := serial',
               latch_fixed := (case scan_version version' of
                                 None \<Rightarrow> latch_fixed r
                               | Some (major, minor) \<Rightarrow> latch_fixed r \<or> to_i32 (major * 0x100 + minor) \<ge> 0x101),
               sa_port := (if err3 > 0 \<and> stored (sa_junk p3) v \<noteq> int DEFAULT_PHASELIMIT
                           then snd (set_cmd (CMD_SET_PHASELIMIT DEFAULT_PHASELIMIT) p4) else p4)\<rparr>)"

text \<open>\<open>sa5x_oscillator_new\<close> on an opened port.\<close>

definition sa5x_oscillator_new :: "sa_port \<Rightarrow> sa5x" where
  "sa5x_oscillator_new p =
     (let o1 = read_firmware
            \<lparr>sa_port = p, disciplining_phase = 0, sa_class = SA5X_CLOCK_CLASS_UNCALIBRATED, sa_state = SA5X_INIT,
             holdover_ready = False, disciplining_start = 0, gnss_last_fix = 0, gnss_last_fix_utc = ts_zero,
             mac_last_latch = 0, gnss_fix_status = False, latch_fixed = False, sa_version = [], sa_serial = []\<rparr>
      in case sa_now (o1\<lparr>sa_class := SA5X_CLOCK_CLASS_CALIBRATING, sa_state := SA5X_INIT, holdover_ready := False\<rparr>) of
           (ts, o2) \<Rightarrow>
             o2\<lparr>disciplining_start := ts,
                sa_port := snd (set_cmd (CMD_SET_TAU (tau_values ! 0)) (sa_port o2))\<rparr>)"

section \<open>The latch procedure\<close>

text \<open>Switching disciplining off, at most \<open>retry\<close> times: whether it failed and the tries left.\<close>

fun latch_off :: "nat \<Rightarrow> sa5x_attributes \<Rightarrow> sa_port \<Rightarrow> bool \<times> nat \<times> sa5x_attributes \<times> sa_port" where
  "latch_off 0 a p = (False, 0, a, p)"
| "latch_off (Suc retry) a p =
     (if \<not> sa_disciplining a then (False, Suc retry, a, p)
      else case set_cmd (CMD_SET_DISCIPLINING 0) p of (n, p1) \<Rightarrow>
             if n = - 1 then (True, Suc retry, a, p1)
             else case sa_query ''{get,Disciplining}'' p1 of (err, v, p2) \<Rightarrow>
                    if err = - 1 then (True, Suc retry, a, p2)
                    else latch_off retry (a\<lparr>sa_disciplining := odd (stored (sa_junk p2) v)\<rparr>) p2)"

definition sa5x_oscillator_latch :: "sa5x_attributes \<Rightarrow> sa5x \<Rightarrow> bool \<times> sa5x_attributes \<times> sa5x" where
  "sa5x_oscillator_latch a r =
     (case latch_off 3 a (sa_port r) of (failed, retry, a1, p1) \<Rightarrow>
        let o1 = r\<lparr>sa_port := p1\<rparr>
        in if failed \<or> retry = 0 then (True, a1, o1)
           else case sa5x_oscillator_cmd ''{latch}'' p1 of (err, p2) \<Rightarrow>
                  if err = - 1 then (True, a1, o1\<lparr>sa_port := p2\<rparr>)
                  else case sa5x_oscillator_read_intval err p2 of (res, v, p3) \<Rightarrow>
                         if res \<le> 0 \<or> stored (sa_junk p3) v = 0 then (True, a1, o1\<lparr>sa_port := p3\<rparr>)
                         else case sa_now (o1\<lparr>sa_port := p3\<rparr>) of (ts, o2) \<Rightarrow>
                                (False, a1, o2\<lparr>mac_last_latch := ts\<rparr>))"

section \<open>Alarms and destruction\<close>

definition sa5x_alarm_table :: "(nat \<times> string) list" where
  "sa5x_alarm_table =
     [(0, ''FPGA Fault''), (1, ''PLL Fault''), (2, ''Flash Fault''), (3, ''Acquisition Failed''),
      (4, ''No External Oscillator''), (5, ''Cell Heater Fault''), (6, ''Incompatible Firmware''),
      (16, ''Temperature Warning''), (17, ''No PPS Input''), (18, ''Disciplining Range Warning'')]"

text \<open>The alarms that are logged.\<close>

definition sa5x_log_active_alarms :: "int \<Rightarrow> string list" where
  "sa5x_log_active_alarms al = map snd (filter (\<lambda>(b, _). bit al b) sa5x_alarm_table)"

text \<open>The open descriptors after destroying an oscillator with descriptor \<open>fd\<close>.\<close>

definition sa5x_oscillator_destroy :: "int option \<Rightarrow> int set \<Rightarrow> int set" where
  "sa5x_oscillator_destroy oscillator fds =
     (case oscillator of None \<Rightarrow> fds | Some fd \<Rightarrow> if fd \<noteq> - 1 then fds - {fd} else fds)"

section \<open>The control loop\<close>

definition range_alarm :: "sa5x_attributes \<Rightarrow> bool" where
  "range_alarm a \<longleftrightarrow> bit (alarms a) 18"

definition no_pps :: "sa5x_attributes \<Rightarrow> bool" where
  "no_pps a \<longleftrightarrow> \<not> ppsindetected a \<or> bit (alarms a) 17"

definition latch_needed :: "int \<Rightarrow> sa5x_attributes \<Rightarrow> sa5x \<Rightarrow> bool" where
  "latch_needed ts a r \<longleftrightarrow>
     (if alarms a \<noteq> 0 then range_alarm a \<and> lastcorrection a = 0 \<and> \<not> latch_fixed r
      else lastcorrection a = 0 \<and> \<not> disciplinelocked a \<and>
        (digitaltuning a = DIGITAL_TUNING_MAX \<or> digitaltuning a = - DIGITAL_TUNING_MAX) \<and>
        ts - mac_last_latch r > tau_interval ! 0 \<and> \<not> latch_fixed r)"

definition in_holdover :: "int \<Rightarrow> sa5x_attributes \<Rightarrow> sa5x \<Rightarrow> bool" where
  "in_holdover ts a r \<longleftrightarrow> (\<not> gnss_fix_status r \<and> ts - gnss_last_fix r \<ge> NO_GNSS_FIX_TIMEOUT) \<or> no_pps a"

text \<open>The class and state after the alarms were looked at; the flag is \<open>adjust_tau\<close>.\<close>

definition class_step :: "int \<Rightarrow> bool \<Rightarrow> bool \<Rightarrow> sa5x_attributes \<Rightarrow> sa5x \<Rightarrow> bool \<times> sa5x" where
  "class_step ts holdover latch a r =
     (if holdover then
        (latch, r\<lparr>sa_class := (if sa_class r = SA5X_CLOCK_CLASS_CALIBRATING \<or> ts - gnss_last_fix r > 24 * 3600
                              then SA5X_CLOCK_CLASS_UNCALIBRATED else SA5X_CLOCK_CLASS_HOLDOVER),
                  sa_state := SA5X_HOLDOVER\<rparr>)
      else if latch then
        (True, r\<lparr>sa_class := SA5X_CLOCK_CLASS_UNCALIBRATED, sa_state := SA5X_HOLDOVER\<rparr>)
      else
        (let restart = (\<lambda>u. u\<lparr>sa_class := SA5X_CLOCK_CLASS_CALIBRATING, sa_state := SA5X_TRACKING,
                              disciplining_phase := 0, disciplining_start := ts\<rparr>);
             back = (sa_class r = SA5X_CLOCK_CLASS_HOLDOVER \<or> sa_class r = SA5X_CLOCK_CLASS_UNCALIBRATED);
             o1 = (if back then restart r else r)
         in if \<not> disciplinelocked a then
              (if sa_class o1 \<noteq> SA5X_CLOCK_CLASS_CALIBRATING then (True, restart o1)
               else (back, o1\<lparr>disciplining_start := ts\<rparr>))
            else (back, o1)))"

definition phase_due :: "int \<Rightarrow> sa5x \<Rightarrow> bool" where
  "phase_due ts r \<longleftrightarrow> disciplining_phase r < DISCIPLINING_PHASES - 1 \<and>
     ts - disciplining_start r > tau_interval ! disciplining_phase r"

definition adjust_step :: "sa5x \<Rightarrow> sa5x" where
  "adjust_step r =
     r\<lparr>sa_port := snd (set_cmd (CMD_SET_TAU (tau_values ! disciplining_phase r)) (sa_port r)),
       sa_class := (if disciplining_phase r = 0 then SA5X_CLOCK_CLASS_CALIBRATING else SA5X_CLOCK_CLASS_LOCK),
       sa_state := (if disciplining_phase r = 0 then SA5X_TRACKING else SA5X_CALIBRATION),
       holdover_ready := (disciplining_phase r = DISCIPLINING_PHASES - 1)\<rparr>"

definition control_step :: "int \<Rightarrow> bool \<Rightarrow> sa5x_attributes \<Rightarrow> sa5x \<Rightarrow> sa5x" where
  "control_step ts latch a r =
     (case class_step ts (in_holdover ts a r) latch a r of (adjust, o1) \<Rightarrow>
        let o2 = (if phase_due ts o1 then o1\<lparr>disciplining_phase := Suc (disciplining_phase o1)\<rparr> else o1)
        in if adjust \<or> phase_due ts o1 then adjust_step o2 else o2)"

definition sa5x_oscillator_get_ctrl :: "sa5x \<Rightarrow> oscillator_ctrl \<Rightarrow> int \<times> oscillator_ctrl \<times> sa5x" where
  "sa5x_oscillator_get_ctrl r ctrl =
     (case sa5x_oscillator_get_attributes {ATTR_CTRL, ATTR_STATUS, ATTR_PHASE} zero_attributes (sa_port r) of
        (err, a, p) \<Rightarrow>
          let o1 = r\<lparr>sa_port := p\<rparr>
          in if err \<noteq> 0 then (0, ctrl\<lparr>fine_ctrl := to_u32 (- 1), coarse_ctrl := 0\<rparr>, o1)
             else case sa_now o1 of (ts, o2) \<Rightarrow>
                    let latch = latch_needed ts a o2
                    in case (if latch then sa5x_oscillator_latch a o2 else (False, a, o2)) of (_, a2, o3) \<Rightarrow>
                         (0, ctrl\<lparr>fine_ctrl := to_u32 (lastcorrection a), coarse_ctrl := tau a\<rparr>,
                          control_step ts latch a2 o3))"

section \<open>The other operations\<close>

definition sa5x_oscillator_parse_attributes ::
  "sa5x \<Rightarrow> oscillator_attributes \<Rightarrow> int \<times> oscillator_attributes \<times> sa5x" where
  "sa5x_oscillator_parse_attributes r attributes =
     (case sa5x_oscillator_get_attributes {ATTR_STATUS_TEMPERATURE, ATTR_STATUS_PPS} zero_attributes (sa_port r) of
        (err, a, p) \<Rightarrow>
          (0, (if err = 0
               then attributes\<lparr>temperature := sa_temperature a, locked := ppsindetected a \<and> disciplinelocked a\<rparr>
               else attributes\<lparr>temperature := - 400000, locked := False\<rparr>), r\<lparr>sa_port := p\<rparr>))"

text \<open>The structure starts out uninitialised, so a phase that is not stored is junk.\<close>

definition sa5x_oscillator_get_phase_error :: "sa5x \<Rightarrow> int \<Rightarrow> int \<times> int \<times> sa5x" where
  "sa5x_oscillator_get_phase_error r phase_error =
     (case sa5x_oscillator_get_attributes {ATTR_PHASE} (zero_attributes\<lparr>phaseoffset := sa_junk (sa_port r)\<rparr>) (sa_port r) of
        (err, a, p) \<Rightarrow>
          ((if err = 0 then 0 else - EINVAL), (if err = 0 then phaseoffset a else 0), r\<lparr>sa_port := p\<rparr>))"

definition sa5x_oscillator_get_disciplining_status :: "sa5x \<Rightarrow> od_monitoring \<Rightarrow> int \<times> od_monitoring \<times> sa5x" where
  "sa5x_oscillator_get_disciplining_status r _ =
     (0, \<lparr>clock_class = class_number (sa_class r), od_status = state_number (sa_state r),
          current_phase_convergence_count = -1, valid_phase_convergence_threshold = -1,
          convergence_progress = 0, ready_for_holdover = holdover_ready r\<rparr>, r)"

definition sa5x_oscillator_push_gnss_info ::
  "sa5x \<Rightarrow> bool \<times> timespec option \<Rightarrow> int \<times> (bool \<times> timespec option) \<times> sa5x" where
  "sa5x_oscillator_push_gnss_info r info =
     (case info of (fixOk, t) \<Rightarrow>
        let o1 = r\<lparr>gnss_fix_status := fixOk\<rparr>
        in case t of
             Some utc \<Rightarrow>
               (if fixOk then case sa_now o1 of (ts, o2) \<Rightarrow>
                   (0, info, o2\<lparr>gnss_last_fix_utc := utc, gnss_last_fix := ts\<rparr>)
                else (0, info, o1))
           | None \<Rightarrow> (0, info, o1))"

definition sa5x_class :: "sa5x osc_class" where
  "sa5x_class =
     \<lparr>cls_name = ''sa5x'', cls_get_ctrl = Some sa5x_oscillator_get_ctrl, cls_save = None,
      cls_parse_attributes = Some sa5x_oscillator_parse_attributes, cls_apply_output = None,
      cls_get_phase_error = Some sa5x_oscillator_get_phase_error,
      cls_get_disciplining_status = Some sa5x_oscillator_get_disciplining_status,
      cls_push_gnss_info = Some sa5x_oscillator_push_gnss_info, cls_dac_max = 0, cls_dac_min = 0\<rparr>"

section \<open>Answers in pieces\<close>

definition answer_text :: "nat \<Rightarrow> string" where
  "answer_text n = ''[='' @ dec n @ [CHR '']'', CHR 0x0D, CHR 0x0A]"

lemma answer_text_simps: "after_head (answer_text n @ t) = Inr (dec n @ ([CHR '']'', CHR 0x0D, CHR 0x0A] @ t))"
  by (simp add: answer_text_def after_head_def)

lemma scan_answer_text:
  assumes "int n < 2 ^ 31"
  shows "scan_answer conv_int (answer_text n @ t) = (1, Some (int n))"
proof -
  let ?r = "dec n @ ([CHR '']'', CHR 0x0D, CHR 0x0A] @ t)"
  have e: "ends_number ([CHR '']'', CHR 0x0D, CHR 0x0A] @ t)" by (simp add: ends_number_def digit_of_def)
  have s: "scan_int 10 ?r = Some (int n, [CHR '']'', CHR 0x0D, CHR 0x0A] @ t)"
    by (rule scan_int_dec_rest [OF _ e]) simp
  have "dropWhile c_isspace ?r \<noteq> []"
    by (auto simp: dropWhile_eq_Nil_conv c_isspace_def)
  then show ?thesis
    using s assms
    by (simp add: scan_answer_def answer_text_simps conv_int_def conv_long_def strtol_def to_i32_id fits_i32_def
        del: append.simps)
qed

lemma answer_no_nul: "CHR 0x00 \<notin> set (answer_text n)"
  using dec_digits [of "CHR 0x00" n] by (auto simp: answer_text_def digit_of_def)

lemma dec_length: "n < 10 ^ Suc k \<Longrightarrow> length (dec n) \<le> Suc k"
proof (induction k arbitrary: n)
  case 0
  then show ?case by (simp add: dec.simps)
next
  case (Suc k)
  show ?case
  proof (cases "n < 10")
    case False
    have "n div 10 < 10 ^ Suc k" using Suc.prems by (simp add: div_less_iff_less_mult mult.commute)
    from Suc.IH [OF this] False show ?thesis by (subst dec.simps) simp
  qed (simp add: dec.simps)
qed

lemma answer_text_length: "int n < 2 ^ 31 \<Longrightarrow> 5 < length (answer_text n) \<and> length (answer_text n) \<le> answer_len"
  using dec_length [of n 9] dec_hd [of n] by (cases "dec n") (simp_all add: answer_text_def answer_len_def)

text \<open>An answer of the device is understood however it is cut into reads and whatever earlier
  answers left in the buffer: the number is stored, and the buffer is cleared of the answer.\<close>

theorem sa_query_reads:
  assumes "concat chunks = answer_text n" "int n < 2 ^ 31" "length (answer_str p) = answer_len"
    and "script p (length (sent p)) = \<lparr>x_write = True, x_polls = map PollRead chunks\<rparr>"
  shows "sa_query cmd p =
    (1, Some (int n), p\<lparr>sent := sent p @ [cmd], answer_str := buf_clear (length (answer_text n)) (answer_str p)\<rparr>)"
proof -
  let ?a = "answer_text n" and ?buf = "answer_str p"
  have len: "5 < length ?a" "length ?a \<le> answer_len" "?a \<noteq> []"
    using answer_text_length [OF assms(2)] by (simp_all add: answer_text_def)
  have loop: "poll_loop answer_len (map PollRead chunks) ?buf 0 =
      (True, length ?a, ?a @ drop (length ?a) ?buf)"
    using poll_loop_answer [of answer_len ?buf chunks] assms(1,3) len by simp
  have head: "(?a @ t) ! 0 = CHR ''[''" "(?a @ t) ! 1 = CHR ''=''" for t
    by (simp_all add: answer_text_def)
  have cmd: "sa5x_oscillator_cmd cmd p =
      (int (length ?a), p\<lparr>sent := sent p @ [cmd], answer_str := ?a @ drop (length ?a) ?buf\<rparr>)"
    using loop len head [of "drop (length ?a) ?buf"] assms(4) by (simp add: sa5x_oscillator_cmd_def Let_def)
  have "c_string (?a @ drop (length ?a) ?buf) = ?a @ c_string (drop (length ?a) ?buf)"
    by (rule c_string_append [OF answer_no_nul])
  moreover have "buf_clear (length ?a) (?a @ drop (length ?a) ?buf) = buf_clear (length ?a) ?buf"
    by (simp add: buf_clear_def buf_put_def)
  ultimately show ?thesis
    using cmd len scan_answer_text [OF assms(2)]
    by (simp add: sa_query_def sa5x_oscillator_read_intval_def read_answer_def)
qed

definition two_reads_port :: sa_port where
  "two_reads_port = \<lparr>sent = [], answer_str = replicate answer_len (CHR ''x''),
     script = (\<lambda>_. \<lparr>x_write = True, x_polls = map PollRead [''[=4'', ''2]'' @ [CHR 0x0D, CHR 0x0A]]\<rparr>),
     sa_clock = (\<lambda>n. 0), sa_clock_reads = 0, sa_junk = 0\<rparr>"

theorem sa_query_reads_witness:
  "fst (sa_query ''{get,TauPps0}'' two_reads_port) = 1 \<and> fst (snd (sa_query ''{get,TauPps0}'' two_reads_port)) = Some 42"
proof -
  have "dec 42 = ''42''" by code_simp
  then have "concat [''[=4'', ''2]'' @ [CHR 0x0D, CHR 0x0A]] = answer_text 42" by (simp add: answer_text_def)
  from sa_query_reads [OF this, of two_reads_port "''{get,TauPps0}''"] show ?thesis
    by (simp add: two_reads_port_def)
qed

section \<open>The commands that set the time constant\<close>

definition is_tau :: "string \<Rightarrow> bool" where
  "is_tau c \<longleftrightarrow> take 13 c = ''{set,TauPps0,''"

definition taus :: "sa_port \<Rightarrow> string list" where
  "taus p = filter is_tau (sent p)"

lemma is_tau_simps [simp]:
  "is_tau (CMD_SET_TAU n)" "\<not> is_tau (CMD_SET_DISCIPLINING n)" "\<not> is_tau (CMD_SET_PHASELIMIT n)"
  by (simp_all add: is_tau_def CMD_SET_TAU_def CMD_SET_DISCIPLINING_def CMD_SET_PHASELIMIT_def)

lemma is_tau_literals [simp]:
  "\<not> is_tau ''{get,DisciplineLocked}''" "\<not> is_tau ''{get,PpsInDetected}''" "\<not> is_tau ''{get,DigitalTuning}''"
  "\<not> is_tau ''{get,Locked}''" "\<not> is_tau ''{get,TauPps0}''" "\<not> is_tau ''{get,LastCorrection}''"
  "\<not> is_tau ''{get,Alarms}''" "\<not> is_tau ''{get,Disciplining}''" "\<not> is_tau ''{get,Phase}''"
  "\<not> is_tau ''{get,Temperature}''" "\<not> is_tau ''{get,PhaseLimit}''" "\<not> is_tau ''{latch}''"
  "\<not> is_tau ''{serial?}''" "\<not> is_tau (CHR 0x5C # ''{swrev?}'')"
  by (simp_all add: is_tau_def)

lemma cmd_taus [simp]:
  "taus (snd (sa5x_oscillator_cmd c p)) = taus p @ (if is_tau c then [c] else [])"
  by (simp add: sa5x_oscillator_cmd_def Let_def taus_def split: prod.split)

lemma taus_frame [simp]:
  "taus (p\<lparr>answer_str := b\<rparr>) = taus p" "taus (p\<lparr>sa_clock_reads := n\<rparr>) = taus p"
  by (simp_all add: taus_def)

lemma set_cmd_taus [simp]: "taus (snd (set_cmd c p)) = taus p @ (if is_tau c then [c] else [])"
  by (simp add: set_cmd_def)

lemma read_taus [simp]:
  "taus (snd (snd (read_answer conv n p))) = taus p"
  "taus (snd (snd (sa5x_oscillator_read_intval n p))) = taus p"
  "taus (snd (snd (sa5x_oscillator_read_int64val n p))) = taus p"
  "taus (snd (snd (sa5x_oscillator_read_phase n p))) = taus p"
  by (simp_all add: read_answer_def sa5x_oscillator_read_intval_def sa5x_oscillator_read_int64val_def
      sa5x_oscillator_read_phase_def case_prod_beta)

lemma query_taus [simp]: "\<not> is_tau c \<Longrightarrow> taus (snd (snd (sa_query c p))) = taus p"
  by (simp add: sa_query_def case_prod_beta)

lemma part_taus [simp]:
  "taus (snd (snd (snd (read_pps v a p)))) = taus p" "taus (snd (snd (read_ctrl v a p))) = taus p"
  "taus (fst (snd (read_status v a p))) = taus p" "taus (snd (read_phase_part b a p)) = taus p"
  "taus (snd (snd (read_temperature a p))) = taus p"
  by (simp_all add: read_pps_def read_ctrl_def read_status_def read_phase_part_def read_temperature_def
      case_prod_beta Let_def)

lemma get_attributes_taus [simp]: "taus (snd (snd (sa5x_oscillator_get_attributes m a p))) = taus p"
  by (simp add: sa5x_oscillator_get_attributes_def case_prod_beta split: option.split)

lemma latch_off_taus: "taus (snd (snd (snd (latch_off n a p)))) = taus p"
  by (induction n arbitrary: a p) (simp_all add: case_prod_beta)

lemma read_firmware_taus: "taus (sa_port (read_firmware r)) = taus (sa_port r)"
  by (simp add: read_firmware_def case_prod_beta Let_def)

section \<open>The state machine\<close>

text \<open>What holds between two calls of the driver.\<close>

definition sa_ok :: "sa5x \<Rightarrow> bool" where
  "sa_ok r \<longleftrightarrow>
     disciplining_phase r < DISCIPLINING_PHASES \<and>
     (holdover_ready r \<longleftrightarrow> disciplining_phase r = DISCIPLINING_PHASES - 1) \<and>
     (sa_class r = SA5X_CLOCK_CLASS_LOCK \<longrightarrow> 0 < disciplining_phase r) \<and>
     (sa_class r = SA5X_CLOCK_CLASS_CALIBRATING \<longrightarrow> disciplining_phase r = 0) \<and>
     taus (sa_port r) \<noteq> [] \<and>
     last (taus (sa_port r)) = CMD_SET_TAU (tau_values ! disciplining_phase r)"

definition sa_view :: "sa5x \<Rightarrow> nat \<times> bool \<times> SA5x_ClockClass \<times> string list" where
  "sa_view r = (disciplining_phase r, holdover_ready r, sa_class r, taus (sa_port r))"

lemma sa_ok_view: "sa_view r = sa_view r' \<Longrightarrow> sa_ok r = sa_ok r'"
  by (simp add: sa_view_def sa_ok_def)

lemma sa_now_view [simp]: "sa_view (snd (sa_now r)) = sa_view r"
  by (simp add: sa_now_def sa_view_def Let_def)

lemma sa_view_frame [simp]:
  "sa_view (r\<lparr>mac_last_latch := t\<rparr>) = sa_view r" "sa_view (r\<lparr>gnss_fix_status := b\<rparr>) = sa_view r"
  "sa_view (r\<lparr>gnss_last_fix_utc := u, gnss_last_fix := t\<rparr>) = sa_view r"
  "taus p = taus (sa_port r) \<Longrightarrow> sa_view (r\<lparr>sa_port := p\<rparr>) = sa_view r"
  by (simp_all add: sa_view_def)

lemma latch_view: "sa_view (snd (snd (sa5x_oscillator_latch a r))) = sa_view r"
  using latch_off_taus [of 3 a "sa_port r"]
  by (simp add: sa5x_oscillator_latch_def case_prod_beta Let_def)

lemmas sa_consts = DISCIPLINING_PHASES_def tau_interval_def tau_values_def

text \<open>The step in three: the class, the phase, the time constant. When the time constant is adjusted
  nothing but the bound on the phase matters, since the adjustment settles the rest.\<close>

lemma adjust_step_ok: "disciplining_phase r < DISCIPLINING_PHASES \<Longrightarrow> sa_ok (adjust_step r)"
  by (simp add: sa_ok_def adjust_step_def)

lemma class_step_ok:
  assumes "sa_ok r" "class_step ts holdover latch a r = (adjust, r')"
  shows "disciplining_phase r' < DISCIPLINING_PHASES" "\<not> adjust \<Longrightarrow> sa_ok r'"
  using assms
  by (auto simp: class_step_def sa_ok_def Let_def DISCIPLINING_PHASES_def split: if_splits)

lemma control_step_ok:
  assumes "sa_ok r"
  shows "sa_ok (control_step ts latch a r)"
proof -
  obtain adjust r' where c: "class_step ts (in_holdover ts a r) latch a r = (adjust, r')" by fastforce
  note ok = class_step_ok [OF assms c]
  show ?thesis
  proof (cases "phase_due ts r'")
    case True
    then have "disciplining_phase (r'\<lparr>disciplining_phase := Suc (disciplining_phase r')\<rparr>) < DISCIPLINING_PHASES"
      by (auto simp: phase_due_def)
    from adjust_step_ok [OF this] show ?thesis using c True by (simp add: control_step_def)
  next
    case False
    then show ?thesis using c ok adjust_step_ok by (simp add: control_step_def)
  qed
qed

lemma get_ctrl_ok: "sa_ok r \<Longrightarrow> sa_ok (snd (snd (sa5x_oscillator_get_ctrl r ctrl)))"
proof -
  assume "sa_ok r"
  then have r: "sa_ok x" if "sa_view x = sa_view r" for x using sa_ok_view that by metis
  show ?thesis
    by (auto simp: sa5x_oscillator_get_ctrl_def case_prod_beta Let_def latch_view
        intro!: r control_step_ok)
qed

datatype sa_op = SaGetCtrl oscillator_ctrl | SaParse oscillator_attributes | SaPhase int | SaStatus od_monitoring
  | SaPush bool "timespec option"

definition sa_run :: "sa_op \<Rightarrow> sa5x \<Rightarrow> sa5x" where
  "sa_run x r =
     (case x of
        SaGetCtrl c \<Rightarrow> snd (snd (sa5x_oscillator_get_ctrl r c))
      | SaParse a \<Rightarrow> snd (snd (sa5x_oscillator_parse_attributes r a))
      | SaPhase e \<Rightarrow> snd (snd (sa5x_oscillator_get_phase_error r e))
      | SaStatus d \<Rightarrow> snd (snd (sa5x_oscillator_get_disciplining_status r d))
      | SaPush b t \<Rightarrow> snd (snd (sa5x_oscillator_push_gnss_info r (b, t))))"

lemma other_ops_view:
  "sa_view (snd (snd (sa5x_oscillator_parse_attributes r at))) = sa_view r"
  "sa_view (snd (snd (sa5x_oscillator_get_phase_error r e))) = sa_view r"
  "sa_view (snd (snd (sa5x_oscillator_get_disciplining_status r d))) = sa_view r"
  "sa_view (snd (snd (sa5x_oscillator_push_gnss_info r (b, t)))) = sa_view r"
  by (simp_all add: sa5x_oscillator_parse_attributes_def sa5x_oscillator_get_phase_error_def
      sa5x_oscillator_get_disciplining_status_def sa5x_oscillator_push_gnss_info_def case_prod_beta Let_def
      split: option.split)

interpretation sa5x: machine sa_run sa_ok
proof unfold_locales
  fix r x assume "sa_ok r"
  then show "sa_ok (sa_run x r)"
    using get_ctrl_ok other_ops_view [THEN sa_ok_view] by (cases x) (simp_all add: sa_run_def)
qed

lemma sa5x_new_ok: "sa_ok (sa5x_oscillator_new p)"
  by (simp add: sa5x_oscillator_new_def Let_def case_prod_beta sa_ok_def sa_now_def read_firmware_def sa_consts)

text \<open>C18. The driver's state after any sequence of calls, whatever the device answers: the phase of
  disciplining is one of three, holdover is announced as ready exactly in the last, the clock
  class is never "locked" in the first phase nor "calibrating" after it, and the time constant
  last asked of the device is the one of the phase.\<close>

theorem sa5x_state_sound:
  "sa_ok (fold sa_run xs (sa5x_oscillator_new p))"
  by (rule sa5x.run_inv [OF sa5x_new_ok])


definition quiet_port :: sa_port where
  "quiet_port = \<lparr>sent = [], answer_str = replicate answer_len (CHR 0x00),
     script = (\<lambda>_. \<lparr>x_write = True, x_polls = []\<rparr>), sa_clock = (\<lambda>n. 0), sa_clock_reads = 0, sa_junk = 0\<rparr>"


end
