(* ===== verification/Mro50.thy ===== *)
theory Mro50
  imports Oscillator SerialPort Phasemeter
begin

text \<open>
  \<open>src/oscillators/mRo50_oscillator.c\<close>: the driver of the mRO50 atomic clock on its serial port.
  \<open>mro_dev\<close> is the device: its reaction to a command, given all commands sent so far with that one
  last. \<open>mro_reopen\<close> is what reopening the port gives (0, or where it failed). The thermistor formula
  (floating-point logarithms) is the parameter \<open>compute_temp\<close>, \<open>None\<close> for the reading it refuses.
\<close>

section \<open>The serial port\<close>

record mro_port =
  mro_sent :: "string list"
  mro_answer :: string
  mro_open :: bool
  mro_dev :: "string list \<Rightarrow> exchange_io"
  mro_reopen :: "string list \<Rightarrow> nat"

definition mro_answer_len :: nat where "mro_answer_len = 128"

abbreviation LF :: char where "LF \<equiv> CHR 0x0A"
abbreviation CR :: char where "CR \<equiv> CHR 0x0D"

definition mRo50_oscillator_cmd :: "string \<Rightarrow> mro_port \<Rightarrow> int \<times> mro_port" where
  "mRo50_oscillator_cmd cmd p =
     (if \<not> mro_open p then (- 1, p)
      else let p1 = p\<lparr>mro_sent := mro_sent p @ [cmd]\<rparr>; x = mro_dev p (mro_sent p1)
           in if \<not> x_write x then (- 1, p1)
              else case poll_loop mro_answer_len (x_polls x) (mro_answer p) 0 of (ok, n, buf) \<Rightarrow>
                     if \<not> ok then (- 1, p1\<lparr>mro_answer := buf_clear n buf\<rparr>)
                     else if n = 0 then (- 1, p1\<lparr>mro_answer := buf\<rparr>)
                     else if buf ! 0 = CHR ''?'' \<or> n < 2 \<or> buf ! (n - 1) \<noteq> LF \<or> buf ! (n - 2) \<noteq> LF
                     then (- 1, p1\<lparr>mro_answer := buf_clear n buf\<rparr>)
                     else (int n, p1\<lparr>mro_answer := buf\<rparr>))"

text \<open>Closing and reopening the port; after a failed open every write fails.\<close>

definition mRo50_clean_serial :: "mro_port \<Rightarrow> int \<times> mro_port" where
  "mRo50_clean_serial p =
     (case mro_reopen p (mro_sent p) of
        0 \<Rightarrow> (let p1 = snd (mRo50_oscillator_cmd [CR, LF] (p\<lparr>mro_open := True\<rparr>))
              in (0, p1\<lparr>mro_answer := buf_clear mro_answer_len (mro_answer p1)\<rparr>))
      | Suc 0 \<Rightarrow> (- 1, p\<lparr>mro_open := False\<rparr>)
      | _ \<Rightarrow> (- 1, p\<lparr>mro_open := True\<rparr>))"

section \<open>Resetting\<close>

datatype reset_event = ResetTimeout | ResetIdle | ResetRead string bool

text \<open>One event per turn of the loop: the time is over, nothing came (or an error, which is only
  logged), or bytes came; the flag says whether the command could be sent again if that is asked.
  Running out of events is idling until the time is over.\<close>

definition has_sub :: "string \<Rightarrow> string \<Rightarrow> bool" where
  "has_sub needle s = list_ex (\<lambda>i. take (length needle) (drop i s) = needle) [0..<Suc (length s)]"

definition CMD_RESET :: string where "CMD_RESET = ''reset'' @ [CR]"

fun reset_loop :: "reset_event list \<Rightarrow> nat \<Rightarrow> mro_port \<Rightarrow> bool \<times> mro_port" where
  "reset_loop [] rbytes p = (False, p)"
| "reset_loop (ResetTimeout # es) rbytes p = (False, p)"
| "reset_loop (ResetIdle # es) rbytes p = reset_loop es rbytes p"
| "reset_loop (ResetRead bs again # es) rbytes p =
     (let got = take (mro_answer_len - rbytes) bs;
          n = rbytes + length got;
          buf0 = buf_put rbytes got (mro_answer p);
          buf1 = buf_put n [CHR 0x00] buf0;
          buf2 = buf_put (n - 1) [CHR 0x00] buf1
      in if n < 1 then reset_loop es n (p\<lparr>mro_answer := buf0\<rparr>)
         else if has_sub ''Start done>'' (c_string buf1) then (True, p\<lparr>mro_answer := buf2\<rparr>)
         else if buf1 ! (n - 1) = LF then
           (if n = 1 then reset_loop es 0 (p\<lparr>mro_answer := buf1\<rparr>)
            else if buf2 ! 0 \<noteq> CHR ''?'' then reset_loop es 0 (p\<lparr>mro_answer := buf2\<rparr>)
            else if again then reset_loop es 0 (p\<lparr>mro_answer := buf2, mro_sent := mro_sent p @ [CMD_RESET]\<rparr>)
            else (False, p\<lparr>mro_answer := buf2\<rparr>))
         else reset_loop es (if n = mro_answer_len then 0 else n) (p\<lparr>mro_answer := buf1\<rparr>))"

text \<open>\<open>w\<close>: whether the first command could be written.\<close>

definition mRo50_reset :: "bool \<Rightarrow> reset_event list \<Rightarrow> mro_port \<Rightarrow> bool \<times> mro_port" where
  "mRo50_reset w es p =
     (if \<not> w then (False, p) else reset_loop es 0 (p\<lparr>mro_sent := mro_sent p @ [CMD_RESET]\<rparr>))"

section \<open>Control values\<close>

text \<open>\<open>sscanf(answer_str, "%x")\<close> on the answer of a command, after which the buffer is cleared.\<close>

definition read_hex :: "int \<Rightarrow> mro_port \<Rightarrow> int option \<times> mro_port" where
  "read_hex n p =
     (case scan_int 16 (c_string (mro_answer p)) of
        None \<Rightarrow> (None, p\<lparr>mro_answer := buf_clear (nat n) (mro_answer p)\<rparr>)
      | Some _ \<Rightarrow> (Some (to_u32 (fst (strtoul (c_string (mro_answer p)) 16))),
                   p\<lparr>mro_answer := buf_clear (nat n) (mro_answer p)\<rparr>))"

definition query_hex :: "string \<Rightarrow> mro_port \<Rightarrow> int option \<times> mro_port" where
  "query_hex cmd p =
     (case mRo50_oscillator_cmd cmd p of (ret, p1) \<Rightarrow>
        if ret > 0 then read_hex ret p1 else (None, snd (mRo50_clean_serial p1)))"

definition CMD_READ_COARSE :: string where "CMD_READ_COARSE = ''FD'' @ [CR]"
definition CMD_READ_FINE :: string where "CMD_READ_FINE = ''MON_tpcb PIL_cfield C'' @ [CR]"
definition CMD_READ_STATUS :: string where "CMD_READ_STATUS = ''MONITOR1'' @ [CR]"
definition CMD_READ_TEMP_PARAM_A :: string where "CMD_READ_TEMP_PARAM_A = ''MON_tpcb PIL_cfield A'' @ [CR]"
definition CMD_READ_TEMP_PARAM_B :: string where "CMD_READ_TEMP_PARAM_B = ''MON_tpcb PIL_cfield B'' @ [CR]"

definition mRo50_oscillator_get_ctrl ::
  "mro_port \<Rightarrow> oscillator_ctrl \<Rightarrow> int \<times> oscillator_ctrl \<times> mro_port" where
  "mRo50_oscillator_get_ctrl p ctrl =
     (case query_hex CMD_READ_COARSE p of
        (None, p1) \<Rightarrow> (- 1, ctrl, p1)
      | (Some coarse, p1) \<Rightarrow>
          (case query_hex CMD_READ_FINE p1 of
             (None, p2) \<Rightarrow> (- 1, ctrl\<lparr>coarse_ctrl := coarse\<rparr>, p2)
           | (Some fine, p2) \<Rightarrow> (0, ctrl\<lparr>coarse_ctrl := coarse, fine_ctrl := fine\<rparr>, p2)))"

text \<open>The factory parameters are read for the log; a failure of the first skips the second.\<close>

definition read_temperature_compensation_parameters :: "mro_port \<Rightarrow> mro_port" where
  "read_temperature_compensation_parameters p =
     (case query_hex CMD_READ_TEMP_PARAM_A p of
        (None, p1) \<Rightarrow> p1 | (Some _, p1) \<Rightarrow> snd (query_hex CMD_READ_TEMP_PARAM_B p1))"

text \<open>The constructor: \<open>mem\<close> is the allocation, \<open>board\<close> the result of the ioctl that activates the
  port (\<open>None\<close> without a device to ask), \<open>opened\<close> and \<open>attr\<close> opening and configuring the port.\<close>

definition mRo50_oscillator_new ::
  "bool \<Rightarrow> bool option \<Rightarrow> bool \<Rightarrow> bool \<Rightarrow> bool \<Rightarrow> reset_event list \<Rightarrow> mro_port \<Rightarrow> mro_port option" where
  "mRo50_oscillator_new mem board opened attr w es p =
     (if \<not> mem \<or> board = Some False \<or> \<not> opened \<or> \<not> attr then None
      else case mRo50_reset w es (p\<lparr>mro_open := True\<rparr>) of
             (ok, p1) \<Rightarrow> if ok then Some (read_temperature_compensation_parameters p1) else None)"

text \<open>The digits \<open>%0wX\<close> prints: at least \<open>w\<close>, more when the number needs them.\<close>

definition hex_char :: "nat \<Rightarrow> char" where
  "hex_char d = char_of (if d < 10 then 48 + d else 55 + d)"

fun hex_digits :: "nat \<Rightarrow> string" where
  "hex_digits n = (if n < 16 then [hex_char n] else hex_digits (n div 16) @ [hex_char (n mod 16)])"

declare hex_digits.simps [simp del]

definition hex_padded :: "nat \<Rightarrow> nat \<Rightarrow> string" where
  "hex_padded w n = replicate (w - length (hex_digits n)) (CHR ''0'') @ hex_digits n"

definition CMD_WRITE_FINE :: "nat \<Rightarrow> string" where
  "CMD_WRITE_FINE n = ''MON_tpcb PIL_cfield C '' @ hex_padded 4 n @ [CR]"

definition CMD_WRITE_COARSE :: "nat \<Rightarrow> string" where
  "CMD_WRITE_COARSE n = ''FD '' @ hex_padded 8 n @ [CR]"

definition mRo50_oscillator_apply_output :: "mro_port \<Rightarrow> od_output \<Rightarrow> int \<times> od_output \<times> mro_port" where
  "mRo50_oscillator_apply_output p out =
     (let send = (\<lambda>cmd. case mRo50_oscillator_cmd cmd p of (ret, p1) \<Rightarrow>
            if ret \<noteq> 2 then (- 1, out, p1)
            else (0, out, p1\<lparr>mro_answer := buf_clear mro_answer_len (mro_answer p1)\<rparr>))
      in case od_action out of
           ADJUST_FINE \<Rightarrow> send (CMD_WRITE_FINE (nat (to_u32 (setpoint out))))
         | ADJUST_COARSE \<Rightarrow> send (CMD_WRITE_COARSE (nat (to_u32 (setpoint out))))
         | _ \<Rightarrow> (0, out, p))"

section \<open>Attributes\<close>

definition STATUS_ANSWER_SIZE :: nat where "STATUS_ANSWER_SIZE = 62"
definition STATUS_EP_TEMPERATURE_INDEX :: nat where "STATUS_EP_TEMPERATURE_INDEX = 52"
definition STATUS_CLOCK_LOCKED_INDEX :: nat where "STATUS_CLOCK_LOCKED_INDEX = 56"
definition STATUS_CLOCK_LOCKED_BIT :: nat where "STATUS_CLOCK_LOCKED_BIT = 2"
definition STATUS_ANSWER_FIELD_SIZE :: nat where "STATUS_ANSWER_FIELD_SIZE = 4"

text \<open>The four digits of the temperature are copied without a terminator; \<open>junk\<close> is what follows
  them on the stack.\<close>

definition mRo50_oscillatord_get_attributes ::
  "(int \<Rightarrow> int option) \<Rightarrow> string \<Rightarrow> mro_port \<Rightarrow> (int \<times> bool) option \<times> mro_port" where
  "mRo50_oscillatord_get_attributes compute_temp junk p =
     (case mRo50_oscillator_cmd CMD_READ_STATUS p of (err, p1) \<Rightarrow>
        if err = int STATUS_ANSWER_SIZE then
          (let buf = buf_put (STATUS_ANSWER_SIZE - 2) [CHR 0x00] (mro_answer p1);
               field = take STATUS_ANSWER_FIELD_SIZE (drop STATUS_EP_TEMPERATURE_INDEX buf);
               reg = to_u32 (fst (strtoul (c_string (field @ junk)) 16))
           in case compute_temp reg of
                None \<Rightarrow> (None, p1\<lparr>mro_answer := buf\<rparr>)
              | Some t \<Rightarrow>
                  (Some (t, bit (of_char (buf ! STATUS_CLOCK_LOCKED_INDEX) :: nat) STATUS_CLOCK_LOCKED_BIT),
                   p1\<lparr>mro_answer := buf_clear STATUS_ANSWER_SIZE buf\<rparr>))
        else (None, snd (mRo50_clean_serial p1)))"

definition mRO50_oscillator_parse_attributes ::
  "(int \<Rightarrow> int option) \<Rightarrow> string \<Rightarrow> mro_port \<Rightarrow> oscillator_attributes \<Rightarrow> int \<times> oscillator_attributes \<times> mro_port" where
  "mRO50_oscillator_parse_attributes compute_temp junk p a =
     (case mRo50_oscillatord_get_attributes compute_temp junk p of
        (None, p1) \<Rightarrow> (- 1, a, p1)
      | (Some (t, l), p1) \<Rightarrow> (0, a\<lparr>temperature := t, locked := l\<rparr>, p1))"

section \<open>Calibration\<close>

text \<open>What each measure of a calibration meets: the flag \<open>loop\<close>, the phasemeter, the quantisation
  error of the epoch when it can be read. A measure is the pair the code adds up in single
  precision. A point starts with its own look at \<open>loop\<close>; \<open>None\<close> is an abandoned calibration.\<close>

record measure_env =
  me_loop :: bool
  me_phase :: "pm_status \<times> int"
  me_qErr :: "int option"

fun measure_point :: "measure_env list \<Rightarrow> (int \<times> int) list option" where
  "measure_point [] = Some []"
| "measure_point (e # es) =
     (if \<not> me_loop e then None
      else if fst (me_phase e) \<noteq> PHASEMETER_BOTH_TIMESTAMPS then None
      else case me_qErr e of
             None \<Rightarrow> None
           | Some q \<Rightarrow> map_option (\<lambda>ms. (snd (me_phase e), q) # ms) (measure_point es))"

fun calibrate_points ::
  "(bool \<times> int \<times> measure_env list) list \<Rightarrow> mro_port \<Rightarrow> (int \<times> int) list option \<times> mro_port" where
  "calibrate_points [] p = (Some [], p)"
| "calibrate_points ((lp, ctrl_point, es) # points) p =
     (if \<not> lp then (None, p)
      else case mRo50_oscillator_apply_output p
             \<lparr>od_action = ADJUST_FINE, setpoint = to_u32 ctrl_point, value_phase_ctrl = 0\<rparr> of (ret, _, p1) \<Rightarrow>
             if ret < 0 then (None, p1)
             else case mRo50_oscillator_get_ctrl p1 \<lparr>dac = 0, fine_ctrl = 0, coarse_ctrl = 0\<rparr> of (_, _, p2) \<Rightarrow>
                    (case measure_point es of
                       None \<Rightarrow> (None, p2)
                     | Some ms \<Rightarrow>
                         (case calibrate_points points p2 of (r, p3) \<Rightarrow> (map_option (\<lambda>rs. ms @ rs) r, p3))))"

text \<open>\<open>mem1\<close> and \<open>mem2\<close>: whether the two allocations succeed. The environment has one entry per point.\<close>

definition mRo50_oscillator_calibrate ::
  "bool \<Rightarrow> bool \<Rightarrow> (bool \<times> int \<times> measure_env list) list \<Rightarrow> mro_port \<Rightarrow> (int \<times> int) list option \<times> mro_port" where
  "mRo50_oscillator_calibrate mem1 mem2 points p =
     (if \<not> mem1 \<or> \<not> mem2 then (None, p) else calibrate_points points p)"

definition mRo50_class :: "(int \<Rightarrow> int option) \<Rightarrow> string \<Rightarrow> mro_port osc_class" where
  "mRo50_class compute_temp junk =
     \<lparr>cls_name = ''mRO50'', cls_get_ctrl = Some mRo50_oscillator_get_ctrl, cls_save = None,
      cls_parse_attributes = Some (mRO50_oscillator_parse_attributes compute_temp junk),
      cls_apply_output = Some mRo50_oscillator_apply_output, cls_get_phase_error = None,
      cls_get_disciplining_status = None, cls_push_gnss_info = None, cls_dac_max = 1000000, cls_dac_min = 0\<rparr>"

section \<open>Hexadecimal\<close>

lemma hex_char_digit: "d < 16 \<Longrightarrow> digit_of (hex_char d) = d"
  by (simp add: digit_of_def hex_char_def)

lemma hex_digits_hex: "c \<in> set (hex_digits n) \<Longrightarrow> digit_of c < 16"
proof (induction n rule: hex_digits.induct)
  case (1 n)
  then show ?case
    by (subst (asm) (2) hex_digits.simps) (auto simp: hex_char_digit split: if_splits)
qed

lemma hex_digits_value: "fst (scan_digits 16 0 (hex_digits n)) = n"
proof (induction n rule: hex_digits.induct)
  case (1 n)
  show ?case
  proof (cases "n < 16")
    case True
    then show ?thesis by (simp add: hex_digits.simps hex_char_digit)
  next
    case False
    then have "hex_digits n = hex_digits (n div 16) @ [hex_char (n mod 16)]" by (simp add: hex_digits.simps)
    with 1 [OF False] show ?thesis
      by (simp add: scan_digits_append hex_digits_hex hex_char_digit)
  qed
qed

lemma hex_padded_hex: "c \<in> set (hex_padded w n) \<Longrightarrow> digit_of c < 16"
  by (auto simp: hex_padded_def hex_digits_hex) (simp add: digit_of_def)

lemma hex_padded_value: "fst (scan_digits 16 0 (hex_padded w n)) = n"
proof -
  have z: "fst (scan_digits 16 0 (replicate k (CHR ''0''))) = 0" for k
    by (induction k) (simp_all add: digit_of_def)
  show ?thesis
    unfolding hex_padded_def
    by (subst scan_digits_append) (simp_all add: z hex_digits_value, simp add: digit_of_def)
qed

lemma hex_padded_nonempty: "hex_padded w n \<noteq> []"
  by (simp add: hex_padded_def hex_digits.simps [of n])

text \<open>A digit is no space, no sign and no letter x.\<close>

lemma hex_digit_plain:
  "digit_of c < 16 \<Longrightarrow> \<not> c_isspace c \<and> c \<noteq> CHR ''-'' \<and> c \<noteq> CHR ''+'' \<and> c \<noteq> CHR ''x'' \<and> c \<noteq> CHR ''X'' \<and>
     c \<noteq> CHR ''?'' \<and> c \<noteq> CHR 0x00"
  by (auto simp: digit_of_def c_isspace_def Let_def split: if_splits)

lemma scan_hex_padded:
  assumes "\<not> digit_of r < 16" "r \<noteq> CHR ''x''" "r \<noteq> CHR ''X''"
  shows "scan_int 16 (hex_padded w n @ r # rs) = Some (int n, r # rs)"
proof -
  obtain c cs where h: "hex_padded w n = c # cs" using hex_padded_nonempty by (cases "hex_padded w n") auto
  have hex: "\<forall>d \<in> set (c # cs). digit_of d < 16" using hex_padded_hex h by metis
  then have c: "\<not> c_isspace c" "c \<noteq> CHR ''-''" "c \<noteq> CHR ''+''" "digit_of c < 16"
    using hex_digit_plain [of c] by auto
  have no_x: "(c # cs @ r # rs) ! 1 \<noteq> CHR ''x''" "(c # cs @ r # rs) ! 1 \<noteq> CHR ''X''"
    using hex assms(2,3) hex_digit_plain by (cases cs; auto)+
  have base: "scan_base 16 (c # cs @ r # rs) = (16, c # cs @ r # rs)"
    using no_x by (simp add: scan_base_def)
  have "scan_digits 16 0 ((c # cs) @ r # rs) = scan_digits 16 (fst (scan_digits 16 0 (c # cs))) (r # rs)"
    by (rule scan_digits_append [OF hex])
  then have "scan_digits 16 0 (c # cs @ r # rs) = (n, r # rs)"
    using hex_padded_value [of w n] h assms(1) by simp
  then show ?thesis using c base h by (simp add: scan_int_def scan_sign_def)
qed

lemma hex_length: "n < 16 ^ Suc k \<Longrightarrow> length (hex_digits n) \<le> Suc k"
proof (induction k arbitrary: n)
  case 0
  then show ?case by (simp add: hex_digits.simps)
next
  case (Suc k)
  show ?case
  proof (cases "n < 16")
    case False
    have "n div 16 < 16 ^ Suc k" using Suc.prems by (simp add: div_less_iff_less_mult mult.commute)
    from Suc.IH [OF this] False show ?thesis by (subst hex_digits.simps) simp
  qed (simp add: hex_digits.simps)
qed

section \<open>Commands and answers\<close>

text \<open>A port that is open and whose buffer has its size.\<close>

definition mro_ready :: "mro_port \<Rightarrow> bool" where
  "mro_ready p \<longleftrightarrow> mro_open p \<and> length (mro_answer p) = Suc mro_answer_len"

lemma cmd_answer:
  assumes "mro_ready p" "answers (mro_dev p (mro_sent p @ [cmd])) (a @ [LF, LF])"
    and "length a + 2 \<le> mro_answer_len" "take 1 a \<noteq> ''?''"
  shows "mRo50_oscillator_cmd cmd p =
    (int (length a + 2), p\<lparr>mro_sent := mro_sent p @ [cmd],
        mro_answer := a @ [LF, LF] @ drop (length a + 2) (mro_answer p)\<rparr>)"
proof -
  let ?t = "drop (length a + 2) (mro_answer p)"
  have loop: "poll_loop mro_answer_len (x_polls (mro_dev p (mro_sent p @ [cmd]))) (mro_answer p) 0 =
      (True, length a + 2, a @ LF # LF # ?t)"
    using answers_loop [OF assms(2), of mro_answer_len "mro_answer p"] assms(1,3) by (simp add: mro_ready_def)
  have "(a @ LF # LF # ?t) ! 0 \<noteq> CHR ''?''" using assms(4) by (cases a) auto
  moreover have "(a @ LF # LF # ?t) ! length a = LF" "(a @ LF # LF # ?t) ! Suc (length a) = LF"
    by (simp_all add: nth_append)
  ultimately show ?thesis
    using loop assms(1,2) by (simp add: mRo50_oscillator_cmd_def mro_ready_def answers_def Let_def)
qed

lemma query_hex_answer:
  assumes "mro_ready p" "answers (mro_dev p (mro_sent p @ [cmd])) (hex_padded w n @ [LF, LF])"
    and "w \<le> 8" "n < 2 ^ 32"
  obtains p' where "query_hex cmd p = (Some (int n), p')" "mro_ready p'"
    "mro_sent p' = mro_sent p @ [cmd]" "mro_dev p' = mro_dev p"
proof -
  let ?h = "hex_padded w n"
  let ?b = "?h @ LF # LF # drop (length ?h + 2) (mro_answer p)"
  let ?p = "p\<lparr>mro_sent := mro_sent p @ [cmd], mro_answer := ?b\<rparr>"
  have len: "length ?h + 2 \<le> mro_answer_len"
    using hex_length [of n 7] assms(3,4) by (simp add: hex_padded_def mro_answer_len_def)
  have "take 1 ?h \<noteq> ''?''"
  proof -
    obtain c cs where "?h = c # cs" using hex_padded_nonempty by (cases ?h) auto
    then show ?thesis using hex_padded_hex [of c w n] hex_digit_plain [of c] by auto
  qed
  with cmd_answer [OF assms(1,2)] len have cmd: "mRo50_oscillator_cmd cmd p = (int (length ?h + 2), ?p)"
    by simp
  have nul: "CHR 0x00 \<notin> set (?h @ [LF, LF])"
    using hex_padded_hex hex_digit_plain by fastforce
  have str: "c_string ?b = ?h @ LF # LF # c_string (drop (length ?h + 2) (mro_answer p))"
    using c_string_append [OF nul] by simp
  have scan: "scan_int 16 (c_string ?b) = Some (int n, LF # LF # c_string (drop (length ?h + 2) (mro_answer p)))"
    unfolding str by (rule scan_hex_padded) (simp_all add: digit_of_def)
  then have "fst (strtoul (c_string ?b) 16) = int n"
    using assms(4) by (simp add: strtoul_def)
  then have "query_hex cmd p = (Some (int n), ?p\<lparr>mro_answer := buf_clear (length ?h + 2) ?b\<rparr>)"
    using cmd scan assms(4) by (simp add: query_hex_def read_hex_def to_u32_id nat_add_distrib)
  moreover have "length ?b = Suc mro_answer_len" using assms(1) len by (simp add: mro_ready_def)
  then have "mro_ready (?p\<lparr>mro_answer := buf_clear (length ?h + 2) ?b\<rparr>)"
    using assms(1) len by (simp add: mro_ready_def buf_clear_length)
  ultimately show ?thesis using that by simp
qed


definition sample_device :: "string list \<Rightarrow> exchange_io" where
  "sample_device h =
     \<lparr>x_write = True, x_polls =
        (if last h = CMD_READ_COARSE then [PollRead ''003FDF'', PollRead (''10'' @ [LF, LF])]
         else if last h = CMD_READ_FINE then [PollRead (''0960'' @ [LF]), PollRead [LF]]
         else [PollRead [LF, LF]])\<rparr>"

definition sample_mro :: mro_port where
  "sample_mro = \<lparr>mro_sent = [], mro_answer = replicate 129 (CHR 0x00), mro_open = True,
     mro_dev = sample_device, mro_reopen = (\<lambda>_. 0)\<rparr>"


section \<open>Calibration results\<close>

lemma measure_point_Some:
  "measure_point es = Some ms \<Longrightarrow>
     list_all (\<lambda>e. me_loop e \<and> fst (me_phase e) = PHASEMETER_BOTH_TIMESTAMPS) es \<and>
     map Some ms = map (\<lambda>e. map_option (\<lambda>q. (snd (me_phase e), q)) (me_qErr e)) es"
  by (induction es arbitrary: ms) (auto split: if_splits option.splits)

text \<open>A calibration that is not abandoned has one measure for every entry, in the order of the
  control points and of the measures of each, all taken while the program was running with both
  timestamps and the quantisation error of the epoch at hand.\<close>

theorem mro50_calibration_complete:
  assumes "mRo50_oscillator_calibrate mem1 mem2 points p = (Some ms, p')"
  shows "map Some ms = concat (map (\<lambda>(_, _, es).
      map (\<lambda>e. map_option (\<lambda>q. (snd (me_phase e), q)) (me_qErr e)) es) points) \<and>
    list_all (\<lambda>(lp, _, es). lp \<and>
      list_all (\<lambda>e. me_loop e \<and> fst (me_phase e) = PHASEMETER_BOTH_TIMESTAMPS) es) points"
proof -
  have "calibrate_points points p = (Some ms, p')"
    using assms by (simp add: mRo50_oscillator_calibrate_def split: if_splits)
  then show ?thesis
  proof (induction points arbitrary: p ms)
    case Nil
    then show ?case by simp
  next
    case (Cons x points)
    obtain lp cp es where x: "x = (lp, cp, es)" by (cases x)
    obtain p2 rs r where "lp" and m: "measure_point es = Some rs"
      and rest: "calibrate_points points p2 = (Some r, p')" and ms: "ms = rs @ r"
      using Cons.prems unfolding x by (auto split: if_splits prod.splits option.splits)
    show ?case using Cons.IH [OF rest] measure_point_Some [OF m] ms \<open>lp\<close> x by simp
  qed
qed

definition sample_measure :: measure_env where
  "sample_measure = \<lparr>me_loop = True, me_phase = (PHASEMETER_BOTH_TIMESTAMPS, 12), me_qErr = Some 300\<rparr>"

lemma sample_adjust: "fst (mRo50_oscillator_apply_output sample_mro
    \<lparr>od_action = ADJUST_FINE, setpoint = to_u32 1000, value_phase_ctrl = 0\<rparr>) = 0"
proof -
  have r: "mro_ready sample_mro" by (simp add: mro_ready_def sample_mro_def mro_answer_len_def)
  have "answers (mro_dev sample_mro (mro_sent sample_mro @ [CMD_WRITE_FINE 1000])) ([] @ [LF, LF])"
    by (simp add: sample_mro_def sample_device_def answers_def is_read_def poll_data_def CMD_WRITE_FINE_def
        CMD_READ_COARSE_def CMD_READ_FINE_def)
  from cmd_answer [OF r this] show ?thesis
    by (simp add: mRo50_oscillator_apply_output_def mro_answer_len_def to_u32_id)
qed

theorem mro50_calibration_complete_witness:
  "\<exists>ms p'. mRo50_oscillator_calibrate True True [(True, 1000, [sample_measure, sample_measure])] sample_mro =
     (Some ms, p') \<and> map Some ms = [Some (12, 300), Some (12, 300)]"
proof -
  have "\<exists>ms p'. mRo50_oscillator_calibrate True True [(True, 1000, [sample_measure, sample_measure])] sample_mro =
      (Some ms, p')"
    using sample_adjust by (simp add: mRo50_oscillator_calibrate_def case_prod_beta sample_measure_def)
  then obtain ms p' where c: "mRo50_oscillator_calibrate True True
      [(True, 1000, [sample_measure, sample_measure])] sample_mro = (Some ms, p')" by blast
  from mro50_calibration_complete [OF this] have "map Some ms = [Some (12, 300), Some (12, 300)]"
    by (simp add: sample_measure_def)
  with c have "mRo50_oscillator_calibrate True True [(True, 1000, [sample_measure, sample_measure])] sample_mro =
      (Some ms, p') \<and> map Some ms = [Some (12, 300), Some (12, 300)]" by (rule conjI)
  then show ?thesis by (intro exI)
qed

end
