(* ===== verification/EepromConfig.thy ===== *)
theory EepromConfig
  imports Manufacturing
begin

text \<open>
  \<open>common/eeprom_config.c\<close> and \<open>utils/art_eeprom_files_updater.c\<close>: the two files in which a card keeps
  the disciplining configuration and the temperature table. The structures come from
  liboscillator-disciplining, so their layout (\<open>layout\<close>: sizes, magic number, the bytes of a structure
  and the structure of bytes) is a parameter, and so is the type \<open>'d\<close> of their floating-point
  entries, which are only copied here. The records hold the fields the sources use.
\<close>

section \<open>The structures\<close>

record 'd disciplining_config =
  dc_header :: byte
  dc_version :: byte
  ctrl_nodes_length :: nat
  ctrl_load_nodes :: "'d list"
  ctrl_drift_coeffs :: "'d list"
  coarse_equilibrium :: int
  ctrl_nodes_length_factory :: nat
  ctrl_load_nodes_factory :: "'d list"
  ctrl_drift_coeffs_factory :: "'d list"
  coarse_equilibrium_factory :: int
  calibration_valid :: bool
  calibration_date :: int
  estimated_equilibrium_ES :: int

record temperature_table =
  tt_header :: byte
  tt_version :: byte
  mean_fine_over_temperature :: "int list"

record 'd disciplining_parameters =
  dsc_config :: "'d disciplining_config"
  temp_table :: temperature_table

record 'd disciplining_parameters_V_0 =
  v0_nodes_length :: nat
  v0_load_nodes :: "'d list"
  v0_drift_coeffs :: "'d list"
  v0_coarse_equilibrium :: int
  v0_nodes_length_factory :: nat
  v0_load_nodes_factory :: "'d list"
  v0_drift_coeffs_factory :: "'d list"
  v0_coarse_equilibrium_factory :: int
  v0_calibration_valid :: bool
  v0_calibration_date :: int
  v0_estimated_equilibrium_ES :: int
  v0_mean_fine :: "int list"

record 'd layout =
  HEADER_MAGIC :: byte
  cfg_size :: nat
  tab_size :: nat
  v0_size :: nat
  temperatures_max :: nat
  cfg_bytes :: "'d disciplining_config \<Rightarrow> byte list"
  cfg_of :: "byte list \<Rightarrow> 'd disciplining_config"
  tab_bytes :: "temperature_table \<Rightarrow> byte list"
  tab_of :: "byte list \<Rightarrow> temperature_table"
  v0_of :: "byte list \<Rightarrow> 'd disciplining_parameters_V_0"

definition DISCIPLINING_CONFIG_FILE_SIZE :: nat where "DISCIPLINING_CONFIG_FILE_SIZE = 144"
definition TEMPERATURE_TABLE_FILE_SIZE :: nat where "TEMPERATURE_TABLE_FILE_SIZE = 368"

definition check_header_valid :: "'d layout \<Rightarrow> byte \<Rightarrow> bool" where
  "check_header_valid l header = (header = HEADER_MAGIC l)"

section \<open>Files\<close>

type_synonym files = "string \<Rightarrow> byte list option"

text \<open>\<open>fread\<close> of one item: a file that is too short leaves its bytes in the buffer and is an error.\<close>

definition eeprom_read_file :: "files \<Rightarrow> string \<Rightarrow> byte list \<Rightarrow> nat \<Rightarrow> int \<times> byte list" where
  "eeprom_read_file fs path data sz =
     (case fs path of
        None \<Rightarrow> (- 1, data)
      | Some bs \<Rightarrow> if length bs < sz then (- 1, put 0 bs data) else (0, put 0 (take sz bs) data))"

text \<open>\<open>wr\<close>: how many bytes the file of a path takes, \<open>None\<close> when it cannot be opened. Opening truncates.\<close>

definition eeprom_write_file :: "(string \<Rightarrow> nat option) \<Rightarrow> string \<Rightarrow> byte list \<Rightarrow> files \<Rightarrow> int \<times> files" where
  "eeprom_write_file wr path data fs =
     (case wr path of
        None \<Rightarrow> (- 1, fs)
      | Some n \<Rightarrow> (if n < length data then - 1 else 0, fs(path \<mapsto> take n data)))"

section \<open>One structure per file\<close>

definition write_disciplining_parameters_to_disciplining_config_file ::
  "'d layout \<Rightarrow> (string \<Rightarrow> nat option) \<Rightarrow> string \<Rightarrow> 'd disciplining_config option \<Rightarrow> files \<Rightarrow> int \<times> files" where
  "write_disciplining_parameters_to_disciplining_config_file l wr path config fs =
     (case config of
        None \<Rightarrow> (- EINVAL, fs)
      | Some c \<Rightarrow>
          (case eeprom_write_file wr path
                  (put 0 (cfg_bytes l c) (replicate DISCIPLINING_CONFIG_FILE_SIZE 0)) fs of
             (ret, fs') \<Rightarrow> (if ret \<noteq> 0 then - 1 else 0, fs')))"

text \<open>\<open>junk\<close> is what the buffer on the stack holds before.\<close>

definition read_disciplining_parameters_from_disciplining_config_file ::
  "'d layout \<Rightarrow> byte list \<Rightarrow> files \<Rightarrow> string \<Rightarrow> 'd disciplining_config \<Rightarrow> int \<times> 'd disciplining_config" where
  "read_disciplining_parameters_from_disciplining_config_file l junk fs path config =
     (case eeprom_read_file fs path junk DISCIPLINING_CONFIG_FILE_SIZE of (ret, buffer) \<Rightarrow>
        if ret \<noteq> 0 then (- 1, config)
        else if check_header_valid l (buffer ! 0) then
          (if buffer ! 1 = 1 then (0, cfg_of l (take (cfg_size l) buffer)) else (- 1, config))
        else (- 1, config))"

text \<open>The result of reading the file is only logged here.\<close>

definition read_temperature_table_from_temperature_table_file ::
  "'d layout \<Rightarrow> byte list \<Rightarrow> files \<Rightarrow> string \<Rightarrow> temperature_table option \<Rightarrow> int \<times> temperature_table option" where
  "read_temperature_table_from_temperature_table_file l junk fs path table =
     (case table of
        None \<Rightarrow> (- EINVAL, None)
      | Some t \<Rightarrow>
          (let buffer = snd (eeprom_read_file fs path junk TEMPERATURE_TABLE_FILE_SIZE)
           in if check_header_valid l (buffer ! 0) then
                (if buffer ! 1 = 1 then (0, Some (tab_of l (take (tab_size l) buffer))) else (- 1, Some t))
              else (- 1, Some t)))"

definition write_temperature_table_to_temperature_table_file ::
  "'d layout \<Rightarrow> (string \<Rightarrow> nat option) \<Rightarrow> string \<Rightarrow> temperature_table option \<Rightarrow> files \<Rightarrow> int \<times> files" where
  "write_temperature_table_to_temperature_table_file l wr path table fs =
     (case table of
        None \<Rightarrow> (- EINVAL, fs)
      | Some t \<Rightarrow>
          (0, snd (eeprom_write_file wr path (put 0 (tab_bytes l t) (replicate TEMPERATURE_TABLE_FILE_SIZE 0)) fs)))"

section \<open>Both files\<close>

text \<open>The loops copy the first \<open>n\<close> entries; \<open>None\<close> is a copy past the end of an array.\<close>

definition copy_nodes :: "nat \<Rightarrow> 'a list \<Rightarrow> 'a list \<Rightarrow> 'a list option" where
  "copy_nodes n src dst =
     (if n \<le> length src \<and> n \<le> length dst then Some (take n src @ drop n dst) else None)"

definition convert_disciplining_parameters_V0_to_V1 ::
  "'d layout \<Rightarrow> 'd disciplining_parameters_V_0 \<Rightarrow> 'd disciplining_parameters \<Rightarrow>
   'd disciplining_parameters option" where
  "convert_disciplining_parameters_V0_to_V1 l v p =
     (let c = dsc_config p; n = v0_nodes_length v; m = v0_nodes_length_factory v
      in case (copy_nodes n (v0_load_nodes v) (ctrl_load_nodes c), copy_nodes n (v0_drift_coeffs v) (ctrl_drift_coeffs c),
               copy_nodes m (v0_load_nodes_factory v) (ctrl_load_nodes_factory c),
               copy_nodes m (v0_drift_coeffs_factory v) (ctrl_drift_coeffs_factory c),
               copy_nodes (temperatures_max l) (v0_mean_fine v) (mean_fine_over_temperature (temp_table p))) of
           (Some a, Some b, Some a', Some b', Some t) \<Rightarrow>
             Some \<lparr>dsc_config = c\<lparr>dc_header := HEADER_MAGIC l, dc_version := 1,
                      ctrl_nodes_length := n, ctrl_nodes_length_factory := m,
                      coarse_equilibrium := v0_coarse_equilibrium v,
                      coarse_equilibrium_factory := v0_coarse_equilibrium_factory v,
                      calibration_date := v0_calibration_date v, calibration_valid := v0_calibration_valid v,
                      estimated_equilibrium_ES := v0_estimated_equilibrium_ES v,
                      ctrl_load_nodes := a, ctrl_drift_coeffs := b,
                      ctrl_load_nodes_factory := a', ctrl_drift_coeffs_factory := b'\<rparr>,
                   temp_table = \<lparr>tt_header = HEADER_MAGIC l, tt_version = 1, mean_fine_over_temperature = t\<rparr>\<rparr>
         | _ \<Rightarrow> None)"

definition read_disciplining_parameters_from_eeprom ::
  "'d layout \<Rightarrow> byte list \<Rightarrow> byte list \<Rightarrow> files \<Rightarrow> string \<Rightarrow> string \<Rightarrow> 'd disciplining_parameters \<Rightarrow>
   (int \<times> 'd disciplining_parameters) option" where
  "read_disciplining_parameters_from_eeprom l junk1 junk2 fs disciplining_config_path temperature_table_path p =
     (let dsc_config_data = snd (eeprom_read_file fs disciplining_config_path junk1 DISCIPLINING_CONFIG_FILE_SIZE);
          table = snd (eeprom_read_file fs temperature_table_path junk2 TEMPERATURE_TABLE_FILE_SIZE)
      in if check_header_valid l (dsc_config_data ! 0) \<and> check_header_valid l (table ! 0) then
           (if dsc_config_data ! 1 \<noteq> table ! 1 then Some (- 1, p)
            else if dsc_config_data ! 1 = 1 then
              Some (0, \<lparr>dsc_config = cfg_of l (take (cfg_size l) dsc_config_data),
                        temp_table = tab_of l (take (tab_size l) table)\<rparr>)
            else Some (- 1, p))
         else if \<not> check_header_valid l (dsc_config_data ! 0) \<and> \<not> check_header_valid l (table ! 0) then
           map_option (Pair 0) (convert_disciplining_parameters_V0_to_V1 l
             (v0_of l (dsc_config_data @ take (v0_size l - DISCIPLINING_CONFIG_FILE_SIZE) table)) p)
         else Some (- 1, p))"

definition write_disciplining_parameters_in_eeprom ::
  "'d layout \<Rightarrow> (string \<Rightarrow> nat option) \<Rightarrow> string \<Rightarrow> string \<Rightarrow> 'd disciplining_parameters option \<Rightarrow> files \<Rightarrow>
   int \<times> files" where
  "write_disciplining_parameters_in_eeprom l wr disciplining_config_path temperature_table_path params fs =
     (case params of
        None \<Rightarrow> (- EINVAL, fs)
      | Some p \<Rightarrow>
          (let data1 = put 0 (cfg_bytes l (dsc_config p)) (replicate DISCIPLINING_CONFIG_FILE_SIZE 0);
               data2 = put 0 (tab_bytes l (temp_table p)) (replicate TEMPERATURE_TABLE_FILE_SIZE 0);
               fs1 = snd (eeprom_write_file wr disciplining_config_path data1 fs)
           in (0, snd (eeprom_write_file wr temperature_table_path data2 fs1))))"

text \<open>The updater reads both files and writes them back; \<open>p0\<close> is its uninitialised structure.\<close>

definition art_eeprom_files_updater ::
  "'d layout \<Rightarrow> byte list \<Rightarrow> byte list \<Rightarrow> 'd disciplining_parameters \<Rightarrow> (string \<Rightarrow> nat option) \<Rightarrow>
   string \<Rightarrow> string \<Rightarrow> files \<Rightarrow> (int \<times> files) option" where
  "art_eeprom_files_updater l junk1 junk2 p0 wr path1 path2 fs =
     (case read_disciplining_parameters_from_eeprom l junk1 junk2 fs path1 path2 p0 of
        None \<Rightarrow> None
      | Some (ret, p) \<Rightarrow>
          if ret \<noteq> 0 then Some (- 1, fs)
          else (case write_disciplining_parameters_in_eeprom l wr path1 path2 (Some p) fs of
                  (ret2, fs') \<Rightarrow> Some (if ret2 \<noteq> 0 then - 1 else 0, fs')))"

section \<open>What was written is read\<close>

text \<open>Parameters that fit the layout: current version, bytes of the right number, and the structure comes
  back from its bytes.\<close>

definition params_ok :: "'d layout \<Rightarrow> 'd disciplining_parameters \<Rightarrow> bool" where
  "params_ok l p \<longleftrightarrow>
     (let c = dsc_config p; t = temp_table p
      in 2 \<le> cfg_size l \<and> cfg_size l \<le> DISCIPLINING_CONFIG_FILE_SIZE \<and>
         2 \<le> tab_size l \<and> tab_size l \<le> TEMPERATURE_TABLE_FILE_SIZE \<and>
         length (cfg_bytes l c) = cfg_size l \<and> length (tab_bytes l t) = tab_size l \<and>
         take 2 (cfg_bytes l c) = [HEADER_MAGIC l, 1] \<and> take 2 (tab_bytes l t) = [HEADER_MAGIC l, 1] \<and>
         cfg_of l (cfg_bytes l c) = c \<and> tab_of l (tab_bytes l t) = t)"

text \<open>A file that starts with a structure, and what a reader finds in its buffer.\<close>

definition holds_file :: "nat \<Rightarrow> nat \<Rightarrow> byte list \<Rightarrow> byte list \<Rightarrow> bool" where
  "holds_file sz n bs img \<longleftrightarrow> length img = sz \<and> take n img = bs \<and> n \<le> sz"

lemma written_holds:
  "length bs = n \<Longrightarrow> n \<le> sz \<Longrightarrow> holds_file sz n bs (put 0 bs (replicate sz 0))"
  by (simp add: holds_file_def put_def)

lemma read_holds:
  assumes "fs path = Some img" "holds_file sz n bs img"
  shows "fst (eeprom_read_file fs path junk sz) = 0"
    and "take n (snd (eeprom_read_file fs path junk sz)) = bs"
  using assms by (simp_all add: eeprom_read_file_def holds_file_def put_def)

lemma header_of_take: "2 \<le> n \<Longrightarrow> take n xs = bs \<Longrightarrow> take 2 bs = [a, b] \<Longrightarrow> xs ! 0 = a \<and> xs ! 1 = b"
proof -
  assume n: "2 \<le> n" and t: "take n xs = bs" "take 2 bs = [a, b]"
  have "take 2 xs = [a, b]" using t n by (auto simp: min_def)
  then show ?thesis by (cases xs; cases "tl xs") auto
qed

text \<open>Both files hold the parameters.\<close>

definition card_holds :: "'d layout \<Rightarrow> string \<Rightarrow> string \<Rightarrow> files \<Rightarrow> 'd disciplining_parameters \<Rightarrow> bool" where
  "card_holds l path1 path2 fs p \<longleftrightarrow>
     fs path1 = Some (put 0 (cfg_bytes l (dsc_config p)) (replicate DISCIPLINING_CONFIG_FILE_SIZE 0)) \<and>
     fs path2 = Some (put 0 (tab_bytes l (temp_table p)) (replicate TEMPERATURE_TABLE_FILE_SIZE 0))"

lemma card_buffers:
  assumes "params_ok l p" "card_holds l path1 path2 fs p"
    and b1_def: "b1 = eeprom_read_file fs path1 junk1 DISCIPLINING_CONFIG_FILE_SIZE"
    and b2_def: "b2 = eeprom_read_file fs path2 junk2 TEMPERATURE_TABLE_FILE_SIZE"
  shows "fst b1 = 0" "take (cfg_size l) (snd b1) = cfg_bytes l (dsc_config p)"
    "snd b1 ! 0 = HEADER_MAGIC l" "snd b1 ! 1 = 1" "take (tab_size l) (snd b2) = tab_bytes l (temp_table p)"
    "snd b2 ! 0 = HEADER_MAGIC l" "snd b2 ! 1 = 1"
proof -
  have h1: "holds_file DISCIPLINING_CONFIG_FILE_SIZE (cfg_size l) (cfg_bytes l (dsc_config p))
      (put 0 (cfg_bytes l (dsc_config p)) (replicate DISCIPLINING_CONFIG_FILE_SIZE 0))"
    and h2: "holds_file TEMPERATURE_TABLE_FILE_SIZE (tab_size l) (tab_bytes l (temp_table p))
      (put 0 (tab_bytes l (temp_table p)) (replicate TEMPERATURE_TABLE_FILE_SIZE 0))"
    using assms(1) by (auto simp: params_ok_def Let_def intro: written_holds)
  show "fst b1 = 0" and t1: "take (cfg_size l) (snd b1) = cfg_bytes l (dsc_config p)"
    and t2: "take (tab_size l) (snd b2) = tab_bytes l (temp_table p)"
    using read_holds [OF _ h1] read_holds [OF _ h2] assms(2) by (simp_all add: card_holds_def b1_def b2_def)
  show "snd b1 ! 0 = HEADER_MAGIC l" "snd b1 ! 1 = 1" "snd b2 ! 0 = HEADER_MAGIC l" "snd b2 ! 1 = 1"
    using assms(1) header_of_take [OF _ t1] header_of_take [OF _ t2] by (auto simp: params_ok_def Let_def)
qed

lemma card_read:
  assumes "params_ok l p" "card_holds l path1 path2 fs p"
  shows "read_disciplining_parameters_from_eeprom l junk1 junk2 fs path1 path2 q = Some (0, p)"
  using card_buffers [OF assms refl refl] assms(1)
  by (simp add: read_disciplining_parameters_from_eeprom_def check_header_valid_def params_ok_def Let_def)

lemma write_holds:
  assumes "path1 \<noteq> path2" "wr path1 = Some n1" "DISCIPLINING_CONFIG_FILE_SIZE \<le> n1"
    and "wr path2 = Some n2" "TEMPERATURE_TABLE_FILE_SIZE \<le> n2" "params_ok l p"
  shows "\<exists>fs'. write_disciplining_parameters_in_eeprom l wr path1 path2 (Some p) fs = (0, fs') \<and>
    card_holds l path1 path2 fs' p \<and> (card_holds l path1 path2 fs p \<longrightarrow> fs' = fs)"
proof -
  have "length (put 0 (cfg_bytes l (dsc_config p)) (replicate DISCIPLINING_CONFIG_FILE_SIZE 0)) =
      DISCIPLINING_CONFIG_FILE_SIZE"
    "length (put 0 (tab_bytes l (temp_table p)) (replicate TEMPERATURE_TABLE_FILE_SIZE 0)) =
      TEMPERATURE_TABLE_FILE_SIZE"
    using assms(6) by (simp_all add: params_ok_def Let_def put_length)
  then show ?thesis using assms(1-5)
    by (auto simp: write_disciplining_parameters_in_eeprom_def eeprom_write_file_def card_holds_def Let_def
        fun_upd_idem fun_upd_twist)
qed

text \<open>C27. What is written to a card is read back: both files take every byte, so whatever they held
  before, the parameters of the current version written to them are what reading both files gives,
  and what the readers of a single file give.\<close>

theorem eeprom_write_read:
  assumes "path1 \<noteq> path2" "wr path1 = Some n1" "DISCIPLINING_CONFIG_FILE_SIZE \<le> n1"
    and "wr path2 = Some n2" "TEMPERATURE_TABLE_FILE_SIZE \<le> n2" "params_ok l p"
  shows "case write_disciplining_parameters_in_eeprom l wr path1 path2 (Some p) fs of (ret, fs') \<Rightarrow>
    ret = 0 \<and>
    read_disciplining_parameters_from_eeprom l junk1 junk2 fs' path1 path2 q = Some (0, p) \<and>
    read_disciplining_parameters_from_disciplining_config_file l junk1 fs' path1 c = (0, dsc_config p) \<and>
    read_temperature_table_from_temperature_table_file l junk2 fs' path2 (Some t) = (0, Some (temp_table p))"
proof -
  obtain fs' where w: "write_disciplining_parameters_in_eeprom l wr path1 path2 (Some p) fs = (0, fs')"
      and h: "card_holds l path1 path2 fs' p"
    using write_holds [OF assms, of fs] by blast
  have "read_disciplining_parameters_from_disciplining_config_file l junk1 fs' path1 c = (0, dsc_config p)"
    using card_buffers [OF assms(6) h refl refl] assms(6)
    by (simp add: read_disciplining_parameters_from_disciplining_config_file_def check_header_valid_def
        params_ok_def case_prod_beta Let_def)
  moreover have "read_temperature_table_from_temperature_table_file l junk2 fs' path2 (Some t) =
      (0, Some (temp_table p))"
    using card_buffers [OF assms(6) h refl refl] assms(6)
    by (simp add: read_temperature_table_from_temperature_table_file_def check_header_valid_def
        params_ok_def Let_def)
  ultimately show ?thesis using w card_read [OF assms(6) h] by simp
qed

section \<open>Updating a card\<close>

lemma updater_fixpoint:
  assumes "path1 \<noteq> path2" "wr path1 = Some n1" "DISCIPLINING_CONFIG_FILE_SIZE \<le> n1"
    and "wr path2 = Some n2" "TEMPERATURE_TABLE_FILE_SIZE \<le> n2" "params_ok l p"
    and "card_holds l path1 path2 fs p"
  shows "art_eeprom_files_updater l junk1 junk2 p0 wr path1 path2 fs = Some (0, fs)"
  using write_holds [OF assms(1-6), of fs] card_read [OF assms(6,7)] assms(7)
  by (auto simp: art_eeprom_files_updater_def)

text \<open>The fields of the old format, in a structure of the new one.\<close>

definition migrated :: "'d layout \<Rightarrow> 'd disciplining_parameters_V_0 \<Rightarrow> 'd disciplining_parameters \<Rightarrow> bool" where
  "migrated l v p \<longleftrightarrow>
     (let c = dsc_config p; n = v0_nodes_length v; m = v0_nodes_length_factory v
      in ctrl_nodes_length c = n \<and> take n (ctrl_load_nodes c) = take n (v0_load_nodes v) \<and>
         take n (ctrl_drift_coeffs c) = take n (v0_drift_coeffs v) \<and>
         ctrl_nodes_length_factory c = m \<and>
         take m (ctrl_load_nodes_factory c) = take m (v0_load_nodes_factory v) \<and>
         take m (ctrl_drift_coeffs_factory c) = take m (v0_drift_coeffs_factory v) \<and>
         coarse_equilibrium c = v0_coarse_equilibrium v \<and>
         coarse_equilibrium_factory c = v0_coarse_equilibrium_factory v \<and>
         calibration_date c = v0_calibration_date v \<and> calibration_valid c = v0_calibration_valid v \<and>
         estimated_equilibrium_ES c = v0_estimated_equilibrium_ES v \<and>
         take (temperatures_max l) (mean_fine_over_temperature (temp_table p)) =
           take (temperatures_max l) (v0_mean_fine v))"

lemma copy_nodes_take: "copy_nodes n src dst = Some r \<Longrightarrow> take n r = take n src"
  by (auto simp: copy_nodes_def split: if_splits)

lemma convert_migrated:
  assumes "convert_disciplining_parameters_V0_to_V1 l v p0 = Some p"
  shows "migrated l v p"
  using assms unfolding convert_disciplining_parameters_V0_to_V1_def migrated_def Let_def
  by (auto split: option.splits dest!: copy_nodes_take)

text \<open>C15. A card in the old format, without a header in either file, is brought to the current format
  by the updater as long as the numbers of nodes in it fit the arrays: afterwards both files read as
  version 1, with every field the old bytes held, and running the updater again changes nothing.\<close>

theorem updater_migrates_V0:
  assumes "path1 \<noteq> path2" "wr path1 = Some n1" "DISCIPLINING_CONFIG_FILE_SIZE \<le> n1"
    and "wr path2 = Some n2" "TEMPERATURE_TABLE_FILE_SIZE \<le> n2"
    and "fs path1 = Some b1" "length b1 = DISCIPLINING_CONFIG_FILE_SIZE" "b1 ! 0 \<noteq> HEADER_MAGIC l"
    and "fs path2 = Some b2" "length b2 = TEMPERATURE_TABLE_FILE_SIZE" "b2 ! 0 \<noteq> HEADER_MAGIC l"
    and "length junk1 = DISCIPLINING_CONFIG_FILE_SIZE" "length junk2 = TEMPERATURE_TABLE_FILE_SIZE"
    and "v = v0_of l (b1 @ take (v0_size l - DISCIPLINING_CONFIG_FILE_SIZE) b2)"
    and "convert_disciplining_parameters_V0_to_V1 l v p0 = Some p" "params_ok l p"
  shows "\<exists>fs'. art_eeprom_files_updater l junk1 junk2 p0 wr path1 path2 fs = Some (0, fs') \<and>
    read_disciplining_parameters_from_eeprom l junk1' junk2' fs' path1 path2 q = Some (0, p) \<and>
    migrated l v p \<and>
    art_eeprom_files_updater l junk1' junk2' q wr path1 path2 fs' = Some (0, fs')"
proof -
  have b: "snd (eeprom_read_file fs path1 junk1 DISCIPLINING_CONFIG_FILE_SIZE) = b1"
    "snd (eeprom_read_file fs path2 junk2 TEMPERATURE_TABLE_FILE_SIZE) = b2"
    using assms(6,7,9,10,12,13) by (simp_all add: eeprom_read_file_def put_def)
  have r: "read_disciplining_parameters_from_eeprom l junk1 junk2 fs path1 path2 p0 = Some (0, p)"
    using assms(8,11,15) unfolding read_disciplining_parameters_from_eeprom_def b Let_def
    by (simp add: check_header_valid_def assms(14) [symmetric])
  obtain fs' where w: "write_disciplining_parameters_in_eeprom l wr path1 path2 (Some p) fs = (0, fs')"
      and h: "card_holds l path1 path2 fs' p"
    using write_holds [OF assms(1-5,16), of fs] by blast
  have "art_eeprom_files_updater l junk1 junk2 p0 wr path1 path2 fs = Some (0, fs')"
    using r w by (simp add: art_eeprom_files_updater_def)
  then show ?thesis
    using updater_fixpoint [OF assms(1-5,16) h] card_read [OF assms(16) h] convert_migrated [OF assms(15)]
    by blast
qed

text \<open>Writing both files never reports a failure: after a successful read the updater ends
  with success when both files take no byte, which leaves them empty, and when neither can be opened.\<close>

theorem updater_ignores_write_errors:
  assumes "read_disciplining_parameters_from_eeprom l junk1 junk2 fs path1 path2 p0 = Some (0, p)"
  shows "(\<exists>fs'. art_eeprom_files_updater l junk1 junk2 p0 (\<lambda>_. Some 0) path1 path2 fs = Some (0, fs') \<and>
      fs' path1 = Some [] \<and> fs' path2 = Some []) \<and>
    art_eeprom_files_updater l junk1 junk2 p0 (\<lambda>_. None) path1 path2 fs = Some (0, fs)"
  using assms by (simp_all add: art_eeprom_files_updater_def write_disciplining_parameters_in_eeprom_def
      eeprom_write_file_def)

section \<open>A concrete layout\<close>

definition sample_layout :: "byte layout" where
  "sample_layout = \<lparr>HEADER_MAGIC = 0x6E, cfg_size = 8, tab_size = 4, v0_size = 146, temperatures_max = 2,
     cfg_bytes = (\<lambda>c. [dc_header c, dc_version c, of_nat (ctrl_nodes_length c), of_int (coarse_equilibrium c)] @
       ctrl_load_nodes c @ ctrl_drift_coeffs c),
     cfg_of = (\<lambda>bs. \<lparr>dc_header = bs ! 0, dc_version = bs ! 1, ctrl_nodes_length = unat (bs ! 2),
       ctrl_load_nodes = [bs ! 4, bs ! 5], ctrl_drift_coeffs = [bs ! 6, bs ! 7],
       coarse_equilibrium = uint (bs ! 3), ctrl_nodes_length_factory = 0, ctrl_load_nodes_factory = [],
       ctrl_drift_coeffs_factory = [], coarse_equilibrium_factory = 0, calibration_valid = False,
       calibration_date = 0, estimated_equilibrium_ES = 0\<rparr>),
     tab_bytes = (\<lambda>t. [tt_header t, tt_version t] @ map of_int (mean_fine_over_temperature t)),
     tab_of = (\<lambda>bs. \<lparr>tt_header = bs ! 0, tt_version = bs ! 1,
       mean_fine_over_temperature = [uint (bs ! 2), uint (bs ! 3)]\<rparr>),
     v0_of = (\<lambda>bs. \<lparr>v0_nodes_length = unat (bs ! 0), v0_load_nodes = [bs ! 1, bs ! 2],
       v0_drift_coeffs = [bs ! 3, bs ! 4], v0_coarse_equilibrium = uint (bs ! 5),
       v0_nodes_length_factory = 0, v0_load_nodes_factory = [], v0_drift_coeffs_factory = [],
       v0_coarse_equilibrium_factory = 0, v0_calibration_valid = False, v0_calibration_date = 0,
       v0_estimated_equilibrium_ES = 0, v0_mean_fine = [uint (bs ! 144), uint (bs ! 145)]\<rparr>)\<rparr>"

definition sample_params :: "byte disciplining_parameters" where
  "sample_params = \<lparr>dsc_config = \<lparr>dc_header = 0x6E, dc_version = 1, ctrl_nodes_length = 2,
       ctrl_load_nodes = [3, 4], ctrl_drift_coeffs = [5, 6], coarse_equilibrium = 7,
       ctrl_nodes_length_factory = 0, ctrl_load_nodes_factory = [], ctrl_drift_coeffs_factory = [],
       coarse_equilibrium_factory = 0, calibration_valid = False, calibration_date = 0,
       estimated_equilibrium_ES = 0\<rparr>,
     temp_table = \<lparr>tt_header = 0x6E, tt_version = 1, mean_fine_over_temperature = [8, 9]\<rparr>\<rparr>"

lemma sample_params_ok: "params_ok sample_layout sample_params"
  by (simp add: params_ok_def sample_layout_def sample_params_def DISCIPLINING_CONFIG_FILE_SIZE_def
      TEMPERATURE_TABLE_FILE_SIZE_def)

theorem eeprom_write_read_witness:
  "read_disciplining_parameters_from_eeprom sample_layout [] []
     (snd (write_disciplining_parameters_in_eeprom sample_layout (\<lambda>_. Some 400) ''c'' ''t'' (Some sample_params)
        (\<lambda>_. None))) ''c'' ''t'' sample_params = Some (0, sample_params)"
proof -
  have "''c'' \<noteq> ''t''" "DISCIPLINING_CONFIG_FILE_SIZE \<le> 400" "TEMPERATURE_TABLE_FILE_SIZE \<le> 400"
    by (simp_all add: DISCIPLINING_CONFIG_FILE_SIZE_def TEMPERATURE_TABLE_FILE_SIZE_def)
  from eeprom_write_read [where wr = "\<lambda>_. Some 400" and fs = "\<lambda>_. None" and p = sample_params, OF this(1) refl
      this(2) refl this(3) sample_params_ok]
  show ?thesis by (simp add: case_prod_beta)
qed

theorem updater_ignores_write_errors_witness:
  "\<exists>fs'. art_eeprom_files_updater sample_layout [] [] sample_params (\<lambda>_. Some 0) ''c'' ''t''
       [''c'' \<mapsto> put 0 (cfg_bytes sample_layout (dsc_config sample_params)) (replicate DISCIPLINING_CONFIG_FILE_SIZE 0),
        ''t'' \<mapsto> put 0 (tab_bytes sample_layout (temp_table sample_params)) (replicate TEMPERATURE_TABLE_FILE_SIZE 0)] =
     Some (0, fs') \<and> fs' ''c'' = Some []"
proof -
  let ?fs = "[''c'' \<mapsto> put 0 (cfg_bytes sample_layout (dsc_config sample_params)) (replicate DISCIPLINING_CONFIG_FILE_SIZE 0),
        ''t'' \<mapsto> put 0 (tab_bytes sample_layout (temp_table sample_params)) (replicate TEMPERATURE_TABLE_FILE_SIZE 0)]"
  have "card_holds sample_layout ''c'' ''t'' ?fs sample_params" by (simp add: card_holds_def)
  from updater_ignores_write_errors [OF card_read [OF sample_params_ok this]] show ?thesis by blast
qed

definition old_config :: "byte list" where "old_config = [2, 3, 4, 5, 6, 7] @ replicate 138 0"
definition old_table :: "byte list" where "old_table = [8, 9] @ replicate 366 0"

theorem updater_migrates_V0_witness:
  "\<exists>fs'. art_eeprom_files_updater sample_layout (replicate 144 0) (replicate 368 0) sample_params
       (\<lambda>_. Some 400) ''c'' ''t'' [''c'' \<mapsto> old_config, ''t'' \<mapsto> old_table] = Some (0, fs') \<and>
     read_disciplining_parameters_from_eeprom sample_layout [] [] fs' ''c'' ''t'' sample_params =
       Some (0, sample_params)"
proof -
  let ?v = "v0_of sample_layout (old_config @ take (v0_size sample_layout - DISCIPLINING_CONFIG_FILE_SIZE) old_table)"
  have conv: "convert_disciplining_parameters_V0_to_V1 sample_layout ?v sample_params = Some sample_params"
    by (simp add: convert_disciplining_parameters_V0_to_V1_def sample_layout_def sample_params_def copy_nodes_def
        old_config_def old_table_def DISCIPLINING_CONFIG_FILE_SIZE_def nth_append Let_def)
  have sizes: "DISCIPLINING_CONFIG_FILE_SIZE \<le> 400" "TEMPERATURE_TABLE_FILE_SIZE \<le> 400"
    "length old_config = DISCIPLINING_CONFIG_FILE_SIZE" "length old_table = TEMPERATURE_TABLE_FILE_SIZE"
    "length (replicate 144 (0::byte)) = DISCIPLINING_CONFIG_FILE_SIZE"
    "length (replicate 368 (0::byte)) = TEMPERATURE_TABLE_FILE_SIZE"
    by (simp_all add: DISCIPLINING_CONFIG_FILE_SIZE_def TEMPERATURE_TABLE_FILE_SIZE_def old_config_def old_table_def)
  have heads: "old_config ! 0 \<noteq> HEADER_MAGIC sample_layout" "old_table ! 0 \<noteq> HEADER_MAGIC sample_layout"
    by (simp_all add: old_config_def old_table_def sample_layout_def)
  have paths: "''c'' \<noteq> ''t''" "[''c'' \<mapsto> old_config, ''t'' \<mapsto> old_table] ''c'' = Some old_config"
    "[''c'' \<mapsto> old_config, ''t'' \<mapsto> old_table] ''t'' = Some old_table" by simp_all
  show ?thesis
    using updater_migrates_V0 [where wr = "\<lambda>_. Some 400", OF paths(1) refl sizes(1) refl sizes(2) paths(2) sizes(3)
        heads(1) paths(3) sizes(4) heads(2) sizes(5,6) refl conv sample_params_ok] by blast
qed

end
