(* ===== verification/EepromTools.thy ===== *)
theory EepromTools
  imports EepromConfig Config
begin

text \<open>
  \<open>utils/art_disciplining_manager.c\<close>: the disciplining configuration as a text file with keys and
  values, and the tool that moves it between that file and the card. \<open>'d\<close> is \<open>double\<close>: the
  conversions of the C library (\<open>strtold\<close>, \<open>%f\<close>), the constants of the program and the sizes that
  liboscillator-disciplining fixes are the parameter \<open>doubles\<close>.
\<close>

section \<open>Arrays of numbers\<close>

record 'd doubles =
  strtold :: "string \<Rightarrow> 'd \<times> bool"
  is_huge :: "'d \<Rightarrow> bool"
  is_zero :: "'d \<Rightarrow> bool"
  print_f :: "'d \<Rightarrow> string"
  hundredths :: "int \<Rightarrow> 'd"
  CALIBRATION_POINTS_MAX :: nat
  as_length :: "int \<Rightarrow> nat"
  as_equilibrium :: "int \<Rightarrow> int"

text \<open>\<open>strtok\<close> with one delimiter skips empty pieces. \<open>strtold\<close> also says whether it sets \<open>errno\<close> to
  \<open>ERANGE\<close>; \<open>errno\<close> then stays as it is.\<close>

definition strtok_pieces :: "char \<Rightarrow> string \<Rightarrow> string list" where
  "strtok_pieces d s = filter (\<lambda>p. p \<noteq> []) (split_on d s)"

fun parse_pieces :: "'d doubles \<Rightarrow> nat \<Rightarrow> bool \<Rightarrow> string list \<Rightarrow> 'd list \<Rightarrow> int + 'd list" where
  "parse_pieces fl n errno [] buffer = Inr buffer"
| "parse_pieces fl n errno (p # ps) buffer =
     (if n \<le> length buffer then Inl (- ERANGE)
      else case strtold fl p of (v, e) \<Rightarrow>
             if is_huge fl v \<or> is_zero fl v \<and> (errno \<or> e) then Inl (- ERANGE)
             else parse_pieces fl n (errno \<or> e) ps (buffer @ [v]))"

definition double_array_parser :: "'d doubles \<Rightarrow> bool \<Rightarrow> string \<Rightarrow> int + 'd list" where
  "double_array_parser fl mem value =
     (case parse_pieces fl (CALIBRATION_POINTS_MAX fl) False (strtok_pieces (CHR '','') value) [] of
        Inl e \<Rightarrow> Inl e
      | Inr vs \<Rightarrow> if mem then Inr vs else Inl (- ENOMEM))"

definition get_double_array_from_config ::
  "'d doubles \<Rightarrow> bool \<Rightarrow> config \<Rightarrow> string \<Rightarrow> nat \<Rightarrow> 'd list option" where
  "get_double_array_from_config fl mem config key expected_length =
     (case config_get config key of
        None \<Rightarrow> None
      | Some value \<Rightarrow>
          (case double_array_parser fl mem value of
             Inl _ \<Rightarrow> None
           | Inr vs \<Rightarrow> if length vs = expected_length then Some vs else None))"

section \<open>From the text file\<close>

definition factory_config :: "'d layout \<Rightarrow> 'd doubles \<Rightarrow> 'd disciplining_config" where
  "factory_config l fl =
     (let fill = (\<lambda>xs. xs @ replicate (CALIBRATION_POINTS_MAX fl - length xs) (hundredths fl 0))
      in \<lparr>dc_header = HEADER_MAGIC l, dc_version = 1, ctrl_nodes_length = 3,
          ctrl_load_nodes = fill [hundredths fl 25, hundredths fl 50, hundredths fl 75],
          ctrl_drift_coeffs = fill [hundredths fl 0, hundredths fl 0, hundredths fl 0],
          coarse_equilibrium = - 1, ctrl_nodes_length_factory = 3,
          ctrl_load_nodes_factory = fill [hundredths fl 25, hundredths fl 50, hundredths fl 75],
          ctrl_drift_coeffs_factory = fill [hundredths fl 120, hundredths fl 0, hundredths fl (- 120)],
          coarse_equilibrium_factory = - 1, calibration_valid = False, calibration_date = 0,
          estimated_equilibrium_ES = 0\<rparr>)"

definition atoi :: "string \<Rightarrow> int" where
  "atoi s = to_i32 (fst (strtol s 10))"

text \<open>A key that is missing reports the current \<open>errno\<close>; \<open>now\<close> is the time of day, \<open>mem1\<close> and \<open>mem2\<close>
  whether the arrays can be allocated. A file that cannot be read ends the program (\<open>None\<close>).\<close>

definition read_disciplining_parameters_from_file ::
  "'d layout \<Rightarrow> 'd doubles \<Rightarrow> int \<Rightarrow> int \<Rightarrow> bool \<Rightarrow> bool \<Rightarrow> string \<Rightarrow> file_io \<Rightarrow>
   (int \<times> 'd disciplining_config) option" where
  "read_disciplining_parameters_from_file l fl errno now mem1 mem2 path io =
     (case config_init path io of (ret, config) \<Rightarrow>
        if ret \<noteq> 0 then None
        else Some
          (let num = config_get_unsigned_number errno config;
               factory_coarse = atoi (config_get_default config ''coarse_equilibrium_factory'' ''-1'');
               c0 = (factory_config l fl)\<lparr>
                      calibration_valid := config_get_bool_default config ''calibration_valid'' False,
                      coarse_equilibrium := atoi (config_get_default config ''coarse_equilibrium'' ''-1'')\<rparr>;
               c1 = (if factory_coarse > 0 then c0\<lparr>coarse_equilibrium_factory := factory_coarse\<rparr> else c0)
           in if \<not> num ''ctrl_nodes_length'' > 0 then (- 1, c1)
              else let n = as_length fl (num ''ctrl_nodes_length'');
                       c2 = c1\<lparr>ctrl_nodes_length := n,
                               calibration_date := (if num ''calibration_date'' > 0 then num ''calibration_date''
                                                    else now)\<rparr>
                   in case get_double_array_from_config fl mem1 config ''ctrl_load_nodes'' n of
                        None \<Rightarrow> (- 1, c2)
                      | Some nodes \<Rightarrow>
                          (case get_double_array_from_config fl mem2 config ''ctrl_drift_coeffs'' n of
                             None \<Rightarrow> (- 1, c2)
                           | Some coeffs \<Rightarrow>
                               (0, c2\<lparr>ctrl_load_nodes := nodes @ drop n (ctrl_load_nodes c2),
                                      ctrl_drift_coeffs := coeffs @ drop n (ctrl_drift_coeffs c2),
                                      estimated_equilibrium_ES :=
                                        (if num ''estimated_equilibrium_ES'' > 0
                                         then as_equilibrium fl (num ''estimated_equilibrium_ES'') else 0)\<rparr>))))"

section \<open>To the text file\<close>

definition print_d :: "int \<Rightarrow> string" where
  "print_d x = (if x < 0 then CHR ''-'' # dec (nat (- x)) else dec (nat x))"

definition print_array :: "'d doubles \<Rightarrow> 'd list \<Rightarrow> string" where
  "print_array fl ds = join_with (CHR '','') (map (print_f fl) ds)"

text \<open>The pairs in the order in which they are set.\<close>

definition text_pairs :: "'d doubles \<Rightarrow> 'd disciplining_config \<Rightarrow> (string \<times> string) list" where
  "text_pairs fl c =
     [(''coarse_equilibrium'', print_d (coarse_equilibrium c)),
      (''ctrl_nodes_length'', dec (ctrl_nodes_length c)),
      (''ctrl_load_nodes'', print_array fl (take (ctrl_nodes_length c) (ctrl_load_nodes c))),
      (''ctrl_drift_coeffs'', print_array fl (take (ctrl_nodes_length c) (ctrl_drift_coeffs c))),
      (''coarse_equilibrium_factory'', print_d (coarse_equilibrium_factory c)),
      (''calibration_valid'', if calibration_valid c then ''true'' else ''false''),
      (''calibration_date'', print_d (calibration_date c)),
      (''estimated_equilibrium_ES'', print_d (estimated_equilibrium_ES c) @ [NL])]"

text \<open>\<open>fputs_result\<close> is what \<open>fputs\<close> returns; the standard only promises that it is not negative.\<close>

definition write_disciplining_parameters_to_file ::
  "'d doubles \<Rightarrow> int \<Rightarrow> 'd disciplining_config \<Rightarrow> int \<times> string option" where
  "write_disciplining_parameters_to_file fl fputs_result c =
     (let config = fold (\<lambda>(k, v) cfg. config_set cfg k v) (text_pairs fl c) \<lparr>argz = [], config_path = []\<rparr>;
          buffer = config_dump config (replicate 2048 NUL)
      in (if fputs_result = 1 then 0 else - 1,
          if NUL \<in> set buffer then Some (takeWhile (\<lambda>ch. ch \<noteq> NUL) buffer) else None))"

section \<open>The tool\<close>

datatype Mode = ART_EEPROM_MANAGER_NONE | ART_EEPROM_MANAGER_READ | ART_EEPROM_MANAGER_WRITE | ART_EEPROM_MANAGER_INIT

record 'd manager_env =
  me_now :: int
  me_mem1 :: bool
  me_mem2 :: bool
  me_errno :: int
  me_fputs :: int
  me_junk :: "byte list"
  me_uninit :: "'d disciplining_config"
  me_input :: file_io

text \<open>The result, the text written to the output file if there is one, and the files of the card.\<close>

definition art_disciplining_manager ::
  "'d layout \<Rightarrow> 'd doubles \<Rightarrow> 'd manager_env \<Rightarrow> (string \<Rightarrow> nat option) \<Rightarrow> Mode \<Rightarrow> string option \<Rightarrow> string \<Rightarrow>
   bool \<Rightarrow> int \<Rightarrow> files \<Rightarrow> (int \<times> string option \<times> files) option" where
  "art_disciplining_manager l fl env wr mode path input_path output coarse_value fs =
     (case path of
        None \<Rightarrow> Some (- 1, None, fs)
      | Some p \<Rightarrow>
          (case mode of
             ART_EEPROM_MANAGER_READ \<Rightarrow>
               (case read_disciplining_parameters_from_disciplining_config_file l (me_junk env) fs p (me_uninit env) of
                  (ret, c) \<Rightarrow>
                    if ret \<noteq> 0 then Some (- 1, None, fs)
                    else if \<not> output then Some (0, None, fs)
                    else (case write_disciplining_parameters_to_file fl (me_fputs env) c of
                            (ret2, t) \<Rightarrow> Some (ret2, t, fs)))
           | ART_EEPROM_MANAGER_WRITE \<Rightarrow>
               (case read_disciplining_parameters_from_file l fl (me_errno env) (me_now env) (me_mem1 env) (me_mem2 env)
                       input_path (me_input env) of
                  None \<Rightarrow> None
                | Some (ret, c) \<Rightarrow>
                    if ret \<noteq> 0 then Some (- 1, None, fs)
                    else (case write_disciplining_parameters_to_disciplining_config_file l wr p (Some c) fs of
                            (ret2, fs') \<Rightarrow> Some (ret2, None, fs')))
           | ART_EEPROM_MANAGER_INIT \<Rightarrow>
               (let c = (if coarse_value \<noteq> 0
                         then (factory_config l fl)\<lparr>coarse_equilibrium_factory := to_i32 coarse_value\<rparr>
                         else factory_config l fl)
                in Some (0, None, snd (write_disciplining_parameters_to_disciplining_config_file l wr p (Some c) fs)))
           | ART_EEPROM_MANAGER_NONE \<Rightarrow> Some (- 1, None, fs)))"

section \<open>Text and values\<close>

lemma dec_chars: "c \<in> set (dec n) \<Longrightarrow> c \<noteq> NL \<and> c \<noteq> NUL"
  using dec_digits [of c n] by (auto simp: digit_of_def)

lemma print_d_chars: "c \<in> set (print_d x) \<Longrightarrow> c \<noteq> NL \<and> c \<noteq> NUL"
  using dec_chars by (auto simp: print_d_def split: if_splits)

lemma scan_minus_dec: "scan_int 10 (CHR ''-'' # dec n) = Some (- int n, [])"
  using scan_dec_rest [of "[]" n] dec_hd [of n]
  by (auto simp: scan_int_def scan_sign_def scan_base_def c_isspace_def digit_of_digit_char)

lemma atoi_print_d:
  assumes "fits_i32 x"
  shows "atoi (print_d x) = x"
proof -
  have "strtol (print_d x) 10 = (x, [], False)"
    using assms scan_minus_dec [of "nat (- x)"] scan_int_dec [of 10 "nat x"]
    by (auto simp: strtol_def print_d_def fits_i32_def)
  then show ?thesis using assms by (simp add: atoi_def to_i32_id)
qed

text \<open>A number that \<open>%f\<close> and \<open>strtold\<close> take back and forth.\<close>

definition prints :: "'d doubles \<Rightarrow> 'd \<Rightarrow> bool" where
  "prints fl d \<longleftrightarrow> print_f fl d \<noteq> [] \<and> CHR '','' \<notin> set (print_f fl d) \<and> NL \<notin> set (print_f fl d) \<and>
     NUL \<notin> set (print_f fl d) \<and> strtold fl (print_f fl d) = (d, False) \<and> \<not> is_huge fl d"

lemma parse_printed:
  "list_all (prints fl) ds \<Longrightarrow> length buffer + length ds \<le> n \<Longrightarrow>
     parse_pieces fl n False (map (print_f fl) ds) buffer = Inr (buffer @ ds)"
  by (induction ds arbitrary: buffer) (auto simp: prints_def)

lemma parse_print_array:
  assumes "list_all (prints fl) ds" "length ds \<le> CALIBRATION_POINTS_MAX fl" "ds \<noteq> []"
  shows "double_array_parser fl True (print_array fl ds) = Inr ds"
proof -
  have "split_on (CHR '','') (print_array fl ds) = map (print_f fl) ds"
    unfolding print_array_def by (rule split_join) (use assms in \<open>auto simp: prints_def list_all_iff\<close>)
  moreover have "filter (\<lambda>p. p \<noteq> []) (map (print_f fl) ds) = map (print_f fl) ds"
    using assms(1) by (auto simp: prints_def list_all_iff filter_id_conv)
  ultimately show ?thesis
    using parse_printed [OF assms(1), of "[]" "CALIBRATION_POINTS_MAX fl"] assms(2)
    by (simp add: double_array_parser_def strtok_pieces_def)
qed

lemma print_array_chars:
  "list_all (prints fl) ds \<Longrightarrow> NL \<notin> set (print_array fl ds) \<and> NUL \<notin> set (print_array fl ds)"
  using join_chars [of _ "CHR '',''" "map (print_f fl) ds"]
  by (fastforce simp: print_array_def prints_def list_all_iff)

section \<open>Export and import\<close>

lemma envz_get_pairs:
  "\<forall>(k, v) \<in> set kvs. key_plain k \<Longrightarrow> key_plain k \<Longrightarrow>
     envz_get (map (\<lambda>(k, v). k @ CHR ''='' # v) kvs @ r) k =
     (case map_of kvs k of Some v \<Rightarrow> Some v | None \<Rightarrow> envz_get r k)"
  by (induction kvs) (auto simp: envz_get_def envz_entry_def envz_name_pair envz_name_plain dropWhile_pair)

lemma envz_remove_fresh: "envz_name k \<notin> set (map envz_name es) \<Longrightarrow> envz_remove es k = es"
  by (induction es) auto

lemma fold_config_set:
  assumes "\<forall>(k, v) \<in> set kvs. key_plain k" "distinct (map fst kvs)"
    and "\<forall>(k, v) \<in> set kvs. k \<notin> set (map envz_name (argz cfg))"
  shows "argz (fold (\<lambda>(k, v) cfg. config_set cfg k v) kvs cfg) =
    argz cfg @ map (\<lambda>(k, v). k @ CHR ''='' # v) kvs"
  using assms
proof (induction kvs arbitrary: cfg)
  case (Cons x kvs)
  obtain k v where x: "x = (k, v)" by (cases x)
  have k: "key_plain k" "envz_name k = k" "k \<notin> set (map envz_name (argz cfg))"
    using Cons.prems x envz_name_plain by auto
  have "argz (config_set cfg k v) = argz cfg @ [k @ CHR ''='' # v]"
    using k envz_remove_fresh [of k "argz cfg"] by (simp add: config_set_def envz_add_def)
  moreover from this have "\<forall>(k', v') \<in> set kvs. k' \<notin> set (map envz_name (argz (config_set cfg k v)))"
    using Cons.prems x k envz_name_pair [OF k(1), of v] by (auto simp: image_iff)
  ultimately show ?case using Cons.IH [of "config_set cfg k v"] Cons.prems x by simp
qed simp

lemma join_trailing: "join_with d (es @ [e @ [d]]) = join_with d (es @ [e, []])"
proof (induction es)
  case (Cons a es)
  then show ?case by (cases es) simp_all
qed simp

text \<open>The same pairs without the newline at the end of the last value.\<close>

definition read_pairs :: "'d doubles \<Rightarrow> 'd disciplining_config \<Rightarrow> (string \<times> string) list" where
  "read_pairs fl c = butlast (text_pairs fl c) @
     [(''estimated_equilibrium_ES'', print_d (estimated_equilibrium_ES c))]"

definition text_config :: "'d doubles \<Rightarrow> 'd disciplining_config \<Rightarrow> config" where
  "text_config fl c =
     \<lparr>argz = map (\<lambda>(k, v). k @ CHR ''='' # v) (read_pairs fl c) @ [[]], config_path = []\<rparr>"

text \<open>A configuration that the text format can hold.\<close>

definition exportable :: "'d doubles \<Rightarrow> 'd disciplining_config \<Rightarrow> bool" where
  "exportable fl c \<longleftrightarrow>
     (let n = ctrl_nodes_length c
      in 0 < n \<and> n \<le> CALIBRATION_POINTS_MAX fl \<and> int n < 2 ^ 63 \<and> as_length fl (int n) = n \<and>
         n \<le> length (ctrl_load_nodes c) \<and> n \<le> length (ctrl_drift_coeffs c) \<and>
         list_all (prints fl) (take n (ctrl_load_nodes c)) \<and> list_all (prints fl) (take n (ctrl_drift_coeffs c)) \<and>
         fits_i32 (coarse_equilibrium c) \<and> fits_i32 (coarse_equilibrium_factory c) \<and>
         0 < coarse_equilibrium_factory c \<and> 0 < calibration_date c \<and> calibration_date c < 2 ^ 63 \<and>
         0 < estimated_equilibrium_ES c \<and> estimated_equilibrium_ES c < 2 ^ 63 \<and>
         as_equilibrium fl (estimated_equilibrium_ES c) = estimated_equilibrium_ES c)"

lemma keys_plain: "\<forall>(k, v) \<in> set (text_pairs fl c). key_plain k" "\<forall>(k, v) \<in> set (read_pairs fl c). key_plain k"
  by (simp_all add: text_pairs_def read_pairs_def key_plain_def)

lemma text_config_dump:
  "dump_text (fold (\<lambda>(k, v) cfg. config_set cfg k v) (text_pairs fl c) \<lparr>argz = [], config_path = []\<rparr>) =
   dump_text (text_config fl c)"
proof -
  have "distinct (map fst (text_pairs fl c))" by (simp add: text_pairs_def)
  from fold_config_set [OF keys_plain(1) this, of "\<lparr>argz = [], config_path = []\<rparr>"]
  have a: "argz (fold (\<lambda>(k, v) cfg. config_set cfg k v) (text_pairs fl c) \<lparr>argz = [], config_path = []\<rparr>) =
      map (\<lambda>(k, v). k @ CHR ''='' # v) (text_pairs fl c)" by simp
  define es where "es = map (\<lambda>(k, v). k @ CHR ''='' # v) (butlast (text_pairs fl c))"
  define e where "e = ''estimated_equilibrium_ES='' @ print_d (estimated_equilibrium_ES c)"
  have last: "map (\<lambda>(k, v). k @ CHR ''='' # v) (text_pairs fl c) = es @ [e @ [NL]]"
    by (simp add: es_def e_def text_pairs_def)
  have "argz (text_config fl c) = es @ [e, []]"
    by (simp add: es_def e_def text_config_def read_pairs_def)
  then show ?thesis
    unfolding dump_text_def argz_stringify_def a last by (simp only: join_trailing)
qed

lemma text_config_ok:
  assumes "exportable fl c"
  shows "entries_ok (text_config fl c)"
proof -
  have arrays: "NL \<notin> set (print_array fl ds) \<and> NUL \<notin> set (print_array fl ds)"
    if "ds = take (ctrl_nodes_length c) (ctrl_load_nodes c) \<or> ds = take (ctrl_nodes_length c) (ctrl_drift_coeffs c)"
    for ds using that assms print_array_chars [of fl ds] by (auto simp: exportable_def Let_def)
  have nums: "NL \<notin> set (print_d x)" "NUL \<notin> set (print_d x)" "NL \<notin> set (dec n)" "NUL \<notin> set (dec n)" for x n
    using print_d_chars dec_chars by blast+
  have vals: "\<forall>(k, v) \<in> set (read_pairs fl c). NL \<notin> set v \<and> NUL \<notin> set v"
    using arrays by (auto simp: nums read_pairs_def text_pairs_def)
  have "\<forall>(k, v) \<in> set (read_pairs fl c). NL \<notin> set k \<and> NUL \<notin> set k \<and> k \<noteq> [] \<and> hd k \<noteq> CHR ''#''"
    by (simp add: read_pairs_def text_pairs_def)
  with vals show ?thesis
    by (fastforce simp: entries_ok_def text_config_def is_comment_def)
qed

lemma text_config_get:
  "key_plain k \<Longrightarrow> config_get (text_config fl c) k = map_of (read_pairs fl c) k"
  using envz_get_pairs [OF keys_plain(2), of k fl c "[[]]"]
  by (simp add: config_get_def text_config_def key_plain_def split: option.splits)
    (simp add: envz_get_def envz_entry_def envz_name_plain key_plain_def envz_name_def)

lemma exported_text:
  assumes "exportable fl c" "length (dump_text (text_config fl c)) < 2048"
  shows "write_disciplining_parameters_to_file fl 1 c = (0, Some (dump_text (text_config fl c)))"
proof -
  let ?t = "dump_text (text_config fl c)"
  have "config_dump (fold (\<lambda>(k, v) cfg. config_set cfg k v) (text_pairs fl c) \<lparr>argz = [], config_path = []\<rparr>)
      (replicate 2048 NUL) = ?t @ NUL # replicate (2048 - Suc (length ?t)) NUL"
    using assms(2) text_config_dump [of fl c] by (simp add: config_dump_def dump_text_def Let_def)
  then show ?thesis
    using takeWhile_nul [OF dump_text_no_nul [OF text_config_ok [OF assms(1)]]]
    by (simp add: write_disciplining_parameters_to_file_def Let_def)
qed

lemma unsigned_number_of_text:
  "config_get cfg k = Some (dec n) \<Longrightarrow> int n < 2 ^ 63 \<Longrightarrow> config_get_unsigned_number errno cfg k = int n"
  using dec_hd [of n] strtoul_dec [of n] by (auto simp: config_get_unsigned_number_def)

lemma imported_values:
  assumes "\<forall>k. key_plain k \<longrightarrow> config_get cfg k = map_of (read_pairs fl c) k" "exportable fl c"
  shows "atoi (config_get_default cfg ''coarse_equilibrium'' ''-1'') = coarse_equilibrium c"
    "atoi (config_get_default cfg ''coarse_equilibrium_factory'' ''-1'') = coarse_equilibrium_factory c"
    "config_get_bool_default cfg ''calibration_valid'' False = calibration_valid c"
    "config_get_unsigned_number errno cfg ''ctrl_nodes_length'' = int (ctrl_nodes_length c)"
    "config_get_unsigned_number errno cfg ''calibration_date'' = calibration_date c"
    "config_get_unsigned_number errno cfg ''estimated_equilibrium_ES'' = estimated_equilibrium_ES c"
    "get_double_array_from_config fl True cfg ''ctrl_load_nodes'' (ctrl_nodes_length c) =
       Some (take (ctrl_nodes_length c) (ctrl_load_nodes c))"
    "get_double_array_from_config fl True cfg ''ctrl_drift_coeffs'' (ctrl_nodes_length c) =
       Some (take (ctrl_nodes_length c) (ctrl_drift_coeffs c))"
proof -
  note ex = assms(2) [unfolded exportable_def Let_def]
  have get: "config_get cfg k = map_of (read_pairs fl c) k" if "k \<noteq> []" "CHR ''='' \<notin> set k" for k
    using assms(1) that by (simp add: key_plain_def)
  note v = get [of "''coarse_equilibrium''"] get [of "''coarse_equilibrium_factory''"] get [of "''calibration_valid''"]
    get [of "''ctrl_nodes_length''"] get [of "''calibration_date''"] get [of "''estimated_equilibrium_ES''"]
    get [of "''ctrl_load_nodes''"] get [of "''ctrl_drift_coeffs''"]
  note vs = v [unfolded read_pairs_def text_pairs_def, simplified]
  show "atoi (config_get_default cfg ''coarse_equilibrium'' ''-1'') = coarse_equilibrium c"
    "atoi (config_get_default cfg ''coarse_equilibrium_factory'' ''-1'') = coarse_equilibrium_factory c"
    "config_get_bool_default cfg ''calibration_valid'' False = calibration_valid c"
    using ex vs(1-3) by (simp_all add: config_get_default_def config_get_bool_default_def atoi_print_d)
  show "config_get_unsigned_number errno cfg ''ctrl_nodes_length'' = int (ctrl_nodes_length c)"
    "config_get_unsigned_number errno cfg ''calibration_date'' = calibration_date c"
    "config_get_unsigned_number errno cfg ''estimated_equilibrium_ES'' = estimated_equilibrium_ES c"
    using ex vs(4-6) unsigned_number_of_text [of cfg "''ctrl_nodes_length''"]
      unsigned_number_of_text [of cfg "''calibration_date''" "nat (calibration_date c)"]
      unsigned_number_of_text [of cfg "''estimated_equilibrium_ES''" "nat (estimated_equilibrium_ES c)"]
    by (simp_all add: print_d_def)
  have "take (ctrl_nodes_length c) (ctrl_load_nodes c) \<noteq> []" "take (ctrl_nodes_length c) (ctrl_drift_coeffs c) \<noteq> []"
    using ex by auto
  then show "get_double_array_from_config fl True cfg ''ctrl_load_nodes'' (ctrl_nodes_length c) =
       Some (take (ctrl_nodes_length c) (ctrl_load_nodes c))"
    "get_double_array_from_config fl True cfg ''ctrl_drift_coeffs'' (ctrl_nodes_length c) =
       Some (take (ctrl_nodes_length c) (ctrl_drift_coeffs c))"
    using ex vs(7,8) by (simp_all add: get_double_array_from_config_def parse_print_array)
qed


definition sample_doubles :: "byte doubles" where
  "sample_doubles = \<lparr>strtold = (\<lambda>s. (of_int (fst (strtol s 10)), False)), is_huge = (\<lambda>_. False),
     is_zero = (\<lambda>d. d = 0), print_f = (\<lambda>d. dec (unat d)), hundredths = of_int, CALIBRATION_POINTS_MAX = 10,
     as_length = nat, as_equilibrium = (\<lambda>x. x)\<rparr>"

definition sample_disciplining :: "byte disciplining_config" where
  "sample_disciplining = \<lparr>dc_header = 0, dc_version = 1, ctrl_nodes_length = 2, ctrl_load_nodes = [25, 75],
     ctrl_drift_coeffs = [1, 2], coarse_equilibrium = - 5, ctrl_nodes_length_factory = 0,
     ctrl_load_nodes_factory = [], ctrl_drift_coeffs_factory = [], coarse_equilibrium_factory = 7,
     calibration_valid = True, calibration_date = 100, estimated_equilibrium_ES = 3\<rparr>"

lemma sample_prints: "prints sample_doubles d"
proof -
  have "uint d < 2 ^ 63" "\<not> uint d < - (2 ^ 63)" using uint_bounded [of d] by (simp_all add: not_less order_trans [OF _ uint_nonnegative])
  then show ?thesis
    using dec_hd [of "unat d"] dec_chars [of _ "unat d"] dec_digits [of "CHR '',''" "unat d"]
      scan_int_dec [of 10 "unat d"]
    by (auto simp: prints_def sample_doubles_def strtol_def digit_of_def)
qed

lemma sample_exportable: "exportable sample_doubles sample_disciplining"
  by (simp add: exportable_def sample_disciplining_def fits_i32_def sample_prints) (simp add: sample_doubles_def)


end
