(* ===== verification/TemperatureTool.thy ===== *)
theory TemperatureTool
  imports EepromTools
begin

text \<open>
  \<open>utils/art_temperature_table_manager.c\<close>: the temperature table of a card as a text file with one line
  \<open>temperature,value\<close> per index, and the tool that moves it between the two. Single-precision numbers
  and the constants of liboscillator-disciplining are the parameter \<open>floats\<close>, which extends the
  conversions of \<open>EepromTools\<close>.
\<close>

section \<open>From the text file\<close>

text \<open>The tests against \<open>MIN_TEMPERATURE\<close> and \<open>MAX_TEMPERATURE\<close>, the index of a temperature, the value in
  tenths as stored, and the two texts of a line (\<open>%.2f\<close>).\<close>

record 'f floats = "'f doubles" +
  below_min :: "'f \<Rightarrow> bool"
  not_below_max :: "'f \<Rightarrow> bool"
  temperature_index :: "'f \<Rightarrow> int"
  tenths :: "'f \<Rightarrow> int"
  print_temperature :: "nat \<Rightarrow> string"
  print_value :: "int \<Rightarrow> string"

definition LINE_SIZE :: nat where "LINE_SIZE = 256"

definition float_array_parser :: "'f floats \<Rightarrow> bool \<Rightarrow> string \<Rightarrow> int + 'f list" where
  "float_array_parser fl mem value =
     (case parse_pieces (doubles.truncate fl) 2 False (strtok_pieces (CHR '','') value) [] of
        Inl e \<Rightarrow> Inl e
      | Inr vs \<Rightarrow> if mem then Inr vs else Inl (- ENOMEM))"

text \<open>\<open>getline\<close>: the lines with their newlines; the last one may lack it.\<close>

definition text_lines :: "string \<Rightarrow> string list" where
  "text_lines s =
     map (\<lambda>p. p @ [NL]) (butlast (split_on NL s)) @
     (if last (split_on NL s) = [] then [] else [last (split_on NL s)])"

text \<open>\<open>k\<close> counts the lines for the result of \<open>malloc\<close>. A line that is no pair of numbers is skipped;
  \<open>None\<close> is a line that overflows its copy or an index outside the table.\<close>

fun table_lines ::
  "'f floats \<Rightarrow> (nat \<Rightarrow> bool) \<Rightarrow> nat \<Rightarrow> string list \<Rightarrow> temperature_table \<Rightarrow> (int \<times> temperature_table) option" where
  "table_lines fl mem k [] t = Some (0, t)"
| "table_lines fl mem k (l # ls) t =
     (if LINE_SIZE \<le> length (c_string l) then None
      else case float_array_parser fl (mem k) (c_string l) of
             Inr [a, b] \<Rightarrow>
               if below_min fl a \<or> not_below_max fl a then Some (- 1, t)
               else let i = temperature_index fl a
                    in if i < 0 \<or> int (length (mean_fine_over_temperature t)) \<le> i then None
                       else table_lines fl mem (Suc k) ls
                              (t\<lparr>mean_fine_over_temperature := (mean_fine_over_temperature t)[nat i := tenths fl b]\<rparr>)
           | _ \<Rightarrow> table_lines fl mem (Suc k) ls t)"

definition read_temperature_table_from_file ::
  "'f floats \<Rightarrow> (nat \<Rightarrow> bool) \<Rightarrow> string option \<Rightarrow> temperature_table \<Rightarrow> (int \<times> temperature_table) option" where
  "read_temperature_table_from_file fl mem contents t =
     (case contents of None \<Rightarrow> Some (- 1, t) | Some s \<Rightarrow> table_lines fl mem 0 (text_lines s) t)"

section \<open>To the text file\<close>

definition table_line :: "'f floats \<Rightarrow> nat \<times> int \<Rightarrow> string" where
  "table_line fl im = print_temperature fl (fst im) @ CHR '','' # print_value fl (snd im)"

text \<open>The results of writing the file are not looked at.\<close>

definition write_temperature_table_to_file ::
  "'d layout \<Rightarrow> 'f floats \<Rightarrow> bool \<Rightarrow> temperature_table \<Rightarrow> int \<times> string option" where
  "write_temperature_table_to_file l fl opened t =
     (if \<not> opened then (- 1, None)
      else (0, Some (concat (map (\<lambda>im. table_line fl im @ [NL])
                  (enumerate 0 (take (temperatures_max l) (mean_fine_over_temperature t)))))))"

section \<open>The tool\<close>

datatype table_mode = ART_TEMPERATURE_TABLE_NONE | ART_TEMPERATURE_TABLE_READ | ART_TEMPERATURE_TABLE_WRITE
  | ART_TEMPERATURE_TABLE_RESET

definition zero_table :: "'d layout \<Rightarrow> byte \<Rightarrow> byte \<Rightarrow> temperature_table" where
  "zero_table l header version =
     \<lparr>tt_header = header, tt_version = version, mean_fine_over_temperature = replicate (temperatures_max l) 0\<rparr>"

text \<open>\<open>input_file\<close>: the contents of the file to read; \<open>output\<close>: whether a file is given to write to, and
  whether it opens. The result, the text written, and the files of the card.\<close>

definition art_temperature_table_manager ::
  "'d layout \<Rightarrow> 'f floats \<Rightarrow> (nat \<Rightarrow> bool) \<Rightarrow> byte list \<Rightarrow> (string \<Rightarrow> nat option) \<Rightarrow> table_mode \<Rightarrow> string option \<Rightarrow>
   string option \<Rightarrow> bool option \<Rightarrow> files \<Rightarrow> (int \<times> string option \<times> files) option" where
  "art_temperature_table_manager l fl mem junk wr mode path input_file output fs =
     (case path of
        None \<Rightarrow> Some (- 1, None, fs)
      | Some p \<Rightarrow>
          (case mode of
             ART_TEMPERATURE_TABLE_READ \<Rightarrow>
               (case read_temperature_table_from_temperature_table_file l junk fs p (Some (zero_table l 0 0)) of
                  (ret, t) \<Rightarrow>
                    if ret \<noteq> 0 then Some (- 1, None, fs)
                    else (case (output, t) of
                            (Some opened, Some table) \<Rightarrow>
                              (case write_temperature_table_to_file l fl opened table of
                                 (ret2, s) \<Rightarrow> Some (if ret2 \<noteq> 0 then - 1 else 0, s, fs))
                          | _ \<Rightarrow> Some (0, None, fs)))
           | ART_TEMPERATURE_TABLE_WRITE \<Rightarrow>
               (case read_temperature_table_from_file fl mem input_file (zero_table l 0 0) of
                  None \<Rightarrow> None
                | Some (ret, t) \<Rightarrow>
                    if ret \<noteq> 0 then Some (- 1, None, fs)
                    else (case write_temperature_table_to_temperature_table_file l wr p
                            (Some (t\<lparr>tt_header := HEADER_MAGIC l, tt_version := 1\<rparr>)) fs of
                            (ret2, fs') \<Rightarrow> Some (if ret2 \<noteq> 0 then - 1 else 0, None, fs')))
           | ART_TEMPERATURE_TABLE_RESET \<Rightarrow>
               (case write_temperature_table_to_temperature_table_file l wr p
                       (Some (zero_table l (HEADER_MAGIC l) 1)) fs of
                  (ret2, fs') \<Rightarrow> Some (if ret2 \<noteq> 0 then - 1 else 0, None, fs'))
           | ART_TEMPERATURE_TABLE_NONE \<Rightarrow> Some (0, None, fs)))"

section \<open>Lines of a table\<close>

text \<open>A table that the text holds: each line can be read back and fits its buffer.\<close>

definition table_prints :: "'f floats \<Rightarrow> nat \<Rightarrow> int \<Rightarrow> bool" where
  "table_prints fl i m \<longleftrightarrow>
     (let a = strtold fl (print_temperature fl i); b = strtold fl (print_value fl m @ [NL])
      in print_temperature fl i \<noteq> [] \<and> \<not> snd a \<and> \<not> is_huge fl (fst a) \<and> \<not> snd b \<and> \<not> is_huge fl (fst b) \<and>
         \<not> below_min fl (fst a) \<and> \<not> not_below_max fl (fst a) \<and> temperature_index fl (fst a) = int i \<and>
         tenths fl (fst b) = m \<and>
         CHR '','' \<notin> set (print_temperature fl i @ print_value fl m) \<and>
         NL \<notin> set (print_temperature fl i @ print_value fl m) \<and>
         NUL \<notin> set (print_temperature fl i @ print_value fl m) \<and>
         length (print_temperature fl i) + length (print_value fl m) + 2 < LINE_SIZE)"

lemma split_lines:
  "(\<forall>s \<in> set ss. NL \<notin> set s) \<Longrightarrow> split_on NL (concat (map (\<lambda>s. s @ [NL]) ss)) = ss @ [[]]"
  by (induction ss) (auto simp: split_on_cons)

lemma text_lines_written:
  "(\<forall>s \<in> set ss. NL \<notin> set s) \<Longrightarrow> text_lines (concat (map (\<lambda>s. s @ [NL]) ss)) = map (\<lambda>s. s @ [NL]) ss"
  by (simp add: text_lines_def split_lines)

lemma parse_table_line:
  assumes "table_prints fl i m"
  shows "float_array_parser fl True (c_string (table_line fl (i, m) @ [NL])) =
    Inr [fst (strtold fl (print_temperature fl i)), fst (strtold fl (print_value fl m @ [NL]))]"
    and "length (c_string (table_line fl (i, m) @ [NL])) < LINE_SIZE"
proof -
  note p = assms [unfolded table_prints_def Let_def]
  have c: "c_string (table_line fl (i, m) @ [NL]) = table_line fl (i, m) @ [NL]"
    using p unfolding c_string_def by (subst takeWhile_eq_all_conv) (auto simp: table_line_def)
  have "split_on (CHR '','') (print_temperature fl i @ CHR '','' # (print_value fl m @ [NL])) =
      [print_temperature fl i, print_value fl m @ [NL]]"
    using p by (simp add: split_on_cons split_on_free)
  then have "strtok_pieces (CHR '','') (table_line fl (i, m) @ [NL]) =
      [print_temperature fl i, print_value fl m @ [NL]]"
    using p by (simp add: strtok_pieces_def table_line_def)
  then show "float_array_parser fl True (c_string (table_line fl (i, m) @ [NL])) =
      Inr [fst (strtold fl (print_temperature fl i)), fst (strtold fl (print_value fl m @ [NL]))]"
    using p by (simp add: float_array_parser_def c case_prod_beta doubles.truncate_def)
  show "length (c_string (table_line fl (i, m) @ [NL])) < LINE_SIZE"
    using p unfolding c by (simp add: table_line_def)
qed

lemma table_lines_read:
  assumes "\<forall>i < length ms. table_prints fl (k + i) (ms ! i)"
    and "k + length ms \<le> length (mean_fine_over_temperature t)"
  shows "table_lines fl (\<lambda>_. True) j (map (\<lambda>im. table_line fl im @ [NL]) (enumerate k ms)) t =
    Some (0, t\<lparr>mean_fine_over_temperature := take k (mean_fine_over_temperature t) @ ms @
      drop (k + length ms) (mean_fine_over_temperature t)\<rparr>)"
  using assms
proof (induction ms arbitrary: j k t)
  case Nil
  then show ?case by simp
next
  case (Cons m ms)
  let ?mean = "mean_fine_over_temperature t"
  have p: "table_prints fl k m" using Cons.prems(1) by (metis add_0_right length_Cons nth_Cons_0 zero_less_Suc)
  note q = p [unfolded table_prints_def Let_def]
  have k: "k < length ?mean" using Cons.prems(2) by simp
  have "table_lines fl (\<lambda>_. True) j (map (\<lambda>im. table_line fl im @ [NL]) (enumerate k (m # ms))) t =
      table_lines fl (\<lambda>_. True) (Suc j) (map (\<lambda>im. table_line fl im @ [NL]) (enumerate (Suc k) ms))
        (t\<lparr>mean_fine_over_temperature := ?mean[k := m]\<rparr>)"
    using parse_table_line [OF p] q k by (simp add: Let_def)
  also have "\<dots> = Some (0, t\<lparr>mean_fine_over_temperature := take (Suc k) (?mean[k := m]) @ ms @
      drop (Suc k + length ms) (?mean[k := m])\<rparr>)"
    by (subst Cons.IH) (use Cons.prems in fastforce)+
  also have "take (Suc k) (?mean[k := m]) = take k ?mean @ [m]"
    using k by (simp add: take_Suc_conv_app_nth)
  finally show ?case by simp
qed

lemma enumerate_lines: "im \<in> set (enumerate 0 ms) \<longleftrightarrow> fst im < length ms \<and> ms ! fst im = snd im"
  by (cases im) (auto simp: in_set_enumerate_eq)

text \<open>Writing a table to a text file and reading the file restores it.\<close>

lemma table_text:
  assumes "length (mean_fine_over_temperature t) = temperatures_max l"
    and "\<forall>i < temperatures_max l. table_prints fl i (mean_fine_over_temperature t ! i)"
    and "length (mean_fine_over_temperature t0) = temperatures_max l"
  shows "\<exists>s. write_temperature_table_to_file l fl True t = (0, Some s) \<and>
    read_temperature_table_from_file fl (\<lambda>_. True) (Some s) t0 =
      Some (0, t0\<lparr>mean_fine_over_temperature := mean_fine_over_temperature t\<rparr>)"
proof -
  let ?ms = "mean_fine_over_temperature t"
  let ?ls = "map (table_line fl) (enumerate 0 ?ms)"
  have "\<forall>s \<in> set ?ls. NL \<notin> set s"
    using assms(1,2) by (auto simp: enumerate_lines table_line_def table_prints_def Let_def)
  then have "text_lines (concat (map (\<lambda>s. s @ [NL]) ?ls)) = map (\<lambda>s. s @ [NL]) ?ls" by (rule text_lines_written)
  then show ?thesis
    using table_lines_read [of ?ms fl 0 t0 0] assms
    by (simp add: write_temperature_table_to_file_def read_temperature_table_from_file_def comp_def)
qed

section \<open>From card to card\<close>

definition table_ok :: "'d layout \<Rightarrow> temperature_table \<Rightarrow> bool" where
  "table_ok l t \<longleftrightarrow> 2 \<le> tab_size l \<and> tab_size l \<le> TEMPERATURE_TABLE_FILE_SIZE \<and>
     tt_header t = HEADER_MAGIC l \<and> tt_version t = 1 \<and> length (mean_fine_over_temperature t) = temperatures_max l \<and>
     length (tab_bytes l t) = tab_size l \<and> take 2 (tab_bytes l t) = [HEADER_MAGIC l, 1] \<and>
     tab_of l (tab_bytes l t) = t"

definition table_image :: "'d layout \<Rightarrow> temperature_table \<Rightarrow> byte list" where
  "table_image l t = put 0 (tab_bytes l t) (replicate TEMPERATURE_TABLE_FILE_SIZE 0)"

lemma table_image_read:
  assumes "table_ok l t" "fs p = Some (table_image l t)"
  shows "read_temperature_table_from_temperature_table_file l junk fs p (Some q) = (0, Some t)"
proof -
  let ?b = "eeprom_read_file fs p junk TEMPERATURE_TABLE_FILE_SIZE"
  have h: "holds_file TEMPERATURE_TABLE_FILE_SIZE (tab_size l) (tab_bytes l t) (table_image l t)"
    using assms(1) by (auto simp: table_ok_def table_image_def intro: written_holds)
  have b: "take (tab_size l) (snd ?b) = tab_bytes l t" by (rule read_holds(2) [where fs = fs and path = p, OF assms(2) h])
  then have "snd ?b ! 0 = HEADER_MAGIC l \<and> snd ?b ! 1 = 1"
    using assms(1) header_of_take [OF _ b] by (simp add: table_ok_def)
  then show ?thesis
    using b assms(1)
    by (simp add: read_temperature_table_from_temperature_table_file_def check_header_valid_def table_ok_def Let_def)
qed


section \<open>A concrete copy\<close>

definition sample_floats :: "int floats" where
  "sample_floats = \<lparr>strtold = (\<lambda>s. (fst (strtol s 10), False)), is_huge = (\<lambda>_. False), is_zero = (\<lambda>x. x = 0),
     print_f = print_d, hundredths = id, CALIBRATION_POINTS_MAX = 10, as_length = nat, as_equilibrium = id,
     below_min = (\<lambda>x. x < 0), not_below_max = (\<lambda>x. 2 \<le> x), temperature_index = id, tenths = id,
     print_temperature = dec, print_value = print_d\<rparr>"

lemma sample_table_ok: "table_ok sample_layout (temp_table sample_params)"
  by (simp add: table_ok_def sample_layout_def sample_params_def TEMPERATURE_TABLE_FILE_SIZE_def)


end
