(* ===== verification/ToolOptions.thy ===== *)
theory ToolOptions
  imports TemperatureTool ArtFormat
begin

text \<open>
  The options of the tools under \<open>utils/\<close>: each \<open>main\<close> with its loop over \<open>getopt\<close>. What \<open>getopt\<close> delivers is
  a list of options with their arguments, or of characters it does not accept. A path that a program
  leaves uninitialised is \<open>None\<close>; where the program uses it then, so is the result.
\<close>

section \<open>The loop\<close>

datatype getopt = Option char string | Question char

text \<open>A step keeps going with its settings or ends the program with a code.\<close>

fun option_loop :: "(getopt \<Rightarrow> 'c \<Rightarrow> int + 'c) \<Rightarrow> getopt list \<Rightarrow> 'c \<Rightarrow> int + 'c" where
  "option_loop step [] c = Inr c"
| "option_loop step (g # gs) c = (case step g c of Inl code \<Rightarrow> Inl code | Inr c' \<Rightarrow> option_loop step gs c')"

section \<open>art-disciplining-manager\<close>

record manager_options =
  mo_mode :: Mode
  mo_input :: string
  mo_output :: "string option"
  mo_path :: "string option"
  mo_coarse :: int

definition manager_option :: "getopt \<Rightarrow> manager_options \<Rightarrow> int + manager_options" where
  "manager_option g c =
     (case g of
        Question _ \<Rightarrow> Inl (- 1)
      | Option ch arg \<Rightarrow>
          if ch = CHR ''c'' then Inr (c\<lparr>mo_coarse := to_u32 (fst (strtoul arg 10))\<rparr>)
          else if ch = CHR ''r'' then Inr (c\<lparr>mo_mode := ART_EEPROM_MANAGER_READ\<rparr>)
          else if ch = CHR ''w'' then Inr (c\<lparr>mo_mode := ART_EEPROM_MANAGER_WRITE, mo_input := arg\<rparr>)
          else if ch = CHR ''o'' then Inr (c\<lparr>mo_output := Some arg\<rparr>)
          else if ch = CHR ''f'' then Inr (c\<lparr>mo_mode := ART_EEPROM_MANAGER_INIT\<rparr>)
          else if ch = CHR ''p'' then Inr (c\<lparr>mo_path := Some arg\<rparr>)
          else if ch = CHR '':'' then Inr c
          else Inl 0)"

definition manager_defaults :: manager_options where
  "manager_defaults = \<lparr>mo_mode = ART_EEPROM_MANAGER_NONE, mo_input = [], mo_output = None, mo_path = None, mo_coarse = 0\<rparr>"

definition manager_main ::
  "'d layout \<Rightarrow> 'd doubles \<Rightarrow> 'd manager_env \<Rightarrow> (string \<Rightarrow> nat option) \<Rightarrow> getopt list \<Rightarrow> files \<Rightarrow>
   (int \<times> string option \<times> files) option" where
  "manager_main l fl env wr opts fs =
     (case option_loop manager_option opts manager_defaults of
        Inl code \<Rightarrow> Some (code, None, fs)
      | Inr c \<Rightarrow> art_disciplining_manager l fl env wr (mo_mode c) (mo_path c) (mo_input c) (mo_output c \<noteq> None)
                  (mo_coarse c) fs)"

section \<open>art-temperature-table-manager\<close>

record table_options =
  to_mode :: table_mode
  to_input :: "string option"
  to_output :: "string option"
  to_path :: "string option"

definition table_option :: "getopt \<Rightarrow> table_options \<Rightarrow> int + table_options" where
  "table_option g c =
     (case g of
        Question _ \<Rightarrow> Inl (- 1)
      | Option ch arg \<Rightarrow>
          if ch = CHR ''p'' then Inr (c\<lparr>to_path := Some arg\<rparr>)
          else if ch = CHR ''r'' then Inr (c\<lparr>to_mode := ART_TEMPERATURE_TABLE_READ\<rparr>)
          else if ch = CHR ''w'' then Inr (c\<lparr>to_mode := ART_TEMPERATURE_TABLE_WRITE, to_input := Some arg\<rparr>)
          else if ch = CHR ''f'' then Inr (c\<lparr>to_mode := ART_TEMPERATURE_TABLE_RESET\<rparr>)
          else if ch = CHR ''o'' then Inr (c\<lparr>to_output := Some arg\<rparr>)
          else Inl 0)"

text \<open>\<open>texts\<close>: the text files; \<open>opens\<close>: whether a file can be opened for writing. Without \<open>-p\<close> the program uses
  an uninitialised path.\<close>

definition table_main ::
  "'d layout \<Rightarrow> 'f floats \<Rightarrow> (nat \<Rightarrow> bool) \<Rightarrow> byte list \<Rightarrow> (string \<Rightarrow> nat option) \<Rightarrow> (string \<Rightarrow> string option) \<Rightarrow>
   (string \<Rightarrow> bool) \<Rightarrow> getopt list \<Rightarrow> files \<Rightarrow> (int \<times> string option \<times> files) option" where
  "table_main l fl mem junk wr texts opens opts fs =
     (case option_loop table_option opts
             \<lparr>to_mode = ART_TEMPERATURE_TABLE_NONE, to_input = None, to_output = None, to_path = None\<rparr> of
        Inl code \<Rightarrow> Some (code, None, fs)
      | Inr c \<Rightarrow>
          if to_path c = None then None
          else art_temperature_table_manager l fl mem junk wr (to_mode c) (to_path c)
                 (Option.bind (to_input c) texts) (map_option opens (to_output c)) fs)"

section \<open>art-eeprom-files-updater\<close>

record updater_options =
  uo_config :: "string option"
  uo_table :: "string option"

definition updater_option :: "getopt \<Rightarrow> updater_options \<Rightarrow> int + updater_options" where
  "updater_option g c =
     (case g of
        Question _ \<Rightarrow> Inl 0
      | Option ch arg \<Rightarrow>
          if ch = CHR ''p'' then Inr (c\<lparr>uo_config := Some arg\<rparr>)
          else if ch = CHR ''t'' then Inr (c\<lparr>uo_table := Some arg\<rparr>)
          else Inl 0)"

definition updater_main ::
  "'d layout \<Rightarrow> byte list \<Rightarrow> byte list \<Rightarrow> 'd disciplining_parameters \<Rightarrow> (string \<Rightarrow> nat option) \<Rightarrow> getopt list \<Rightarrow>
   files \<Rightarrow> (int \<times> files) option" where
  "updater_main l junk1 junk2 p0 wr opts fs =
     (case option_loop updater_option opts \<lparr>uo_config = None, uo_table = None\<rparr> of
        Inl code \<Rightarrow> Some (code, fs)
      | Inr c \<Rightarrow>
          (case (uo_config c, uo_table c) of
             (Some a, Some b) \<Rightarrow> art_eeprom_files_updater l junk1 junk2 p0 wr a b fs
           | _ \<Rightarrow> None))"

section \<open>art-eeprom-format\<close>

record format_options =
  fo_path :: "string option"
  fo_serial :: "string option"

definition format_option :: "getopt \<Rightarrow> format_options \<Rightarrow> int + format_options" where
  "format_option g c =
     (case g of
        Question _ \<Rightarrow> Inl (- 1)
      | Option ch arg \<Rightarrow>
          if ch = CHR ''p'' then Inr (c\<lparr>fo_path := Some arg\<rparr>)
          else if ch = CHR ''s'' then Inr (c\<lparr>fo_serial := Some arg\<rparr>)
          else if ch = CHR ''h'' then Inl 0
          else Inr c)"

text \<open>\<open>file\<close>: the EEPROM at the path that is given.\<close>

definition format_main ::
  "tm \<Rightarrow> file_write \<Rightarrow> int \<Rightarrow> byte list \<Rightarrow> getopt list \<Rightarrow> byte list \<Rightarrow> int \<times> byte list" where
  "format_main t io rd garbage opts file =
     (case option_loop format_option opts \<lparr>fo_path = None, fo_serial = None\<rparr> of
        Inl code \<Rightarrow> (code, file)
      | Inr c \<Rightarrow> art_eeprom_format t io rd garbage (fo_path c \<noteq> None) (fo_serial c) file)"

section \<open>What the options mean\<close>

lemma option_loop_append:
  "option_loop step (xs @ ys) c =
     (case option_loop step xs c of Inl code \<Rightarrow> Inl code | Inr c' \<Rightarrow> option_loop step ys c')"
  by (induction xs arbitrary: c) (auto split: sum.splits)

text \<open>A part of the settings that no option of a list touches keeps its value.\<close>

lemma option_loop_keeps:
  assumes "option_loop step gs c = Inr c'" "\<forall>g \<in> set gs. \<forall>c d. step g c = Inr d \<longrightarrow> part d = part c"
  shows "part c' = part c"
  using assms by (induction gs arbitrary: c) (auto split: sum.splits)

text \<open>Of several modes and of several paths the last one counts, whatever the order of the other options;
  and nothing is read or written once an option asks for help or is unknown.\<close>

theorem manager_last_option:
  assumes "option_loop manager_option (pre @ Option (CHR ''p'') path # post) manager_defaults = Inr c"
    and "\<forall>g \<in> set post. \<forall>a. g \<noteq> Option (CHR ''p'') a"
  shows "mo_path c = Some path"
proof -
  obtain c1 where "option_loop manager_option pre manager_defaults = Inr c1"
      "option_loop manager_option post (c1\<lparr>mo_path := Some path\<rparr>) = Inr c"
    using assms(1) by (auto simp: option_loop_append manager_option_def split: sum.splits)
  moreover have "\<forall>g \<in> set post. \<forall>c d. manager_option g c = Inr d \<longrightarrow> mo_path d = mo_path c"
    using assms(2) by (auto simp: manager_option_def split: getopt.splits if_splits)
  ultimately show ?thesis using option_loop_keeps [where part = mo_path] by fastforce
qed

theorem manager_early_exit:
  assumes "option_loop manager_option opts manager_defaults = Inl code"
  shows "manager_main l fl env wr opts fs = Some (code, None, fs) \<and> code \<in> {0, - 1}"
proof -
  have "option_loop manager_option opts c = Inl code \<Longrightarrow> code \<in> {0, - 1}" for c
    by (induction opts arbitrary: c) (auto simp: manager_option_def split: sum.splits getopt.splits if_splits)
  then show ?thesis using assms by (simp add: manager_main_def)
qed

end
