(* ===== verification/GnssSetup.thy ===== *)
theory GnssSetup
  imports Gnss
begin

text \<open>
  The set-up half of \<open>src/gnss.c\<close>: connecting, configuring the receiver, setting the PTP clock
  from it, and the socket that serves RTCM frames. Results of the receiver library and of the
  clock calls are inputs, indexed by the attempt or the round they belong to. The key ids and
  enumeration values of the receiver's configuration come from its header and are fields of
  \<open>cfg_ids\<close>.
\<close>

section \<open>Connecting and configuring\<close>

definition GNSS_CONNECT_MAX_TRY :: nat where "GNSS_CONNECT_MAX_TRY = 5"
definition GNSS_RECONFIGURE_MAX_TRY :: nat where "GNSS_RECONFIGURE_MAX_TRY = 5"

function connect_loop :: "(nat \<Rightarrow> bool) \<Rightarrow> nat \<Rightarrow> bool" where
  "connect_loop rx_open tries =
     (if tries < GNSS_CONNECT_MAX_TRY
      then if rx_open tries then True else connect_loop rx_open (tries + 1)
      else False)"
  by pat_completeness auto

termination
  by (relation "measure (\<lambda>(_, t). GNSS_CONNECT_MAX_TRY - t)") auto

declare connect_loop.simps [simp del]

definition gnss_connect :: "(nat \<Rightarrow> bool) \<Rightarrow> bool" where
  "gnss_connect rx_open = connect_loop rx_open 0"

lemma connect_loop_iff:
  "connect_loop rx_open t \<longleftrightarrow> (\<exists>i. t \<le> i \<and> i < GNSS_CONNECT_MAX_TRY \<and> rx_open i)"
proof (induction rx_open t rule: connect_loop.induct)
  case (1 rx_open t)
  show ?case
    by (subst connect_loop.simps) (use 1 in \<open>auto simp: Suc_le_eq intro: less_imp_le dest: le_neq_implies_less\<close>)
qed

record keyval =
  kv_id :: int
  kv_val :: int

record cfg_ids =
  id_timegrid :: int
  id_cabledelay :: int
  e1_gps :: int
  e1_gal :: int
  e1_glo :: int
  e1_bds :: int
  e1_utc :: int

text \<open>\<open>while (pair --> keyValuePairs)\<close>: from the last pair to the first, stopping at the first
  that has the id.\<close>

fun set_from_end :: "int \<Rightarrow> int \<Rightarrow> keyval list \<Rightarrow> keyval list option" where
  "set_from_end i v [] = None"
| "set_from_end i v (p # ps) =
     (case set_from_end i v ps of
        Some ps' \<Rightarrow> Some (p # ps')
      | None \<Rightarrow> if kv_id p = i then Some (p\<lparr>kv_val := v\<rparr> # ps) else None)"

definition apply_pair :: "int \<Rightarrow> int \<Rightarrow> keyval list \<Rightarrow> bool \<times> keyval list" where
  "apply_pair i v kvs = (case set_from_end i v kvs of None \<Rightarrow> (False, kvs) | Some k \<Rightarrow> (True, k))"

definition time_scale_value :: "cfg_ids \<Rightarrow> string \<Rightarrow> int option" where
  "time_scale_value ids s =
     (if take 3 s = ''GPS'' then Some (e1_gps ids)
      else if take 3 s = ''GAL'' then Some (e1_gal ids)
      else if take 3 s = ''GLO'' then Some (e1_glo ids)
      else if take 3 s = ''BDS'' then Some (e1_bds ids)
      else if take 3 s = ''UTC'' then Some (e1_utc ids)
      else None)"

definition set_preferred_time_scale :: "cfg_ids \<Rightarrow> config \<Rightarrow> keyval list \<Rightarrow> bool \<times> keyval list" where
  "set_preferred_time_scale ids config kvs =
     (case config_get config ''gnss-preferred-time-scale'' of
        None \<Rightarrow> (False, kvs)
      | Some s \<Rightarrow>
          (case time_scale_value ids s of
             None \<Rightarrow> (False, kvs)
           | Some v \<Rightarrow> apply_pair (id_timegrid ids) v kvs))"

text \<open>The value of \<open>gnss-cable-delay\<close> when it is accepted; the rest of the string after the
  number is not looked at.\<close>

definition cable_delay_value :: "string \<Rightarrow> int option" where
  "cable_delay_value s =
     (case strtol s 0 of (value, end_ptr, erange) \<Rightarrow>
        if erange \<or> value \<le> 0 \<or> value > 32767 \<or> end_ptr = s then None else Some value)"

definition set_cable_delay :: "cfg_ids \<Rightarrow> config \<Rightarrow> keyval list \<Rightarrow> bool \<times> keyval list" where
  "set_cable_delay ids config kvs =
     (case config_get config ''gnss-cable-delay'' of
        None \<Rightarrow> (False, kvs)
      | Some s \<Rightarrow>
          (case cable_delay_value s of
             None \<Rightarrow> (False, kvs)
           | Some v \<Rightarrow> apply_pair (id_cabledelay ids) (to_i16 v) kvs))"

text \<open>\<open>rx_set i\<close> and \<open>rx_reset i\<close> are the results of the \<open>i\<close>-th \<open>rxSetConfig\<close> and \<open>rxReset\<close>.\<close>

function configure_loop :: "(nat \<Rightarrow> bool) \<Rightarrow> (nat \<Rightarrow> bool) \<Rightarrow> nat \<Rightarrow> bool" where
  "configure_loop rx_set rx_reset tries =
     (if rx_set tries then
        if \<not> rx_reset tries then False
        else if tries < GNSS_RECONFIGURE_MAX_TRY then True else False
      else if tries < GNSS_RECONFIGURE_MAX_TRY then configure_loop rx_set rx_reset (tries + 1)
      else False)"
  by pat_completeness auto

termination
  by (relation "measure (\<lambda>(_, _, t). GNSS_RECONFIGURE_MAX_TRY - t)") auto

declare configure_loop.simps [simp del]

definition receiver_pairs :: "cfg_ids \<Rightarrow> config \<Rightarrow> keyval list \<Rightarrow> keyval list" where
  "receiver_pairs ids config defaults =
     snd (set_cable_delay ids config (snd (set_preferred_time_scale ids config defaults)))"

definition gnss_set_configuration ::
  "(keyval list \<Rightarrow> bool) \<Rightarrow> (keyval list \<Rightarrow> nat \<Rightarrow> bool) \<Rightarrow> (nat \<Rightarrow> bool) \<Rightarrow>
   cfg_ids \<Rightarrow> config \<Rightarrow> keyval list \<Rightarrow> bool" where
  "gnss_set_configuration in_ram rx_set rx_reset ids config defaults =
     (let kvs = receiver_pairs ids config defaults
      in if in_ram kvs then True else configure_loop (rx_set kvs) rx_reset 0)"

lemma configure_loop_iff:
  "t \<le> GNSS_RECONFIGURE_MAX_TRY \<Longrightarrow>
   configure_loop rx_set rx_reset t \<longleftrightarrow>
     (\<exists>i. t \<le> i \<and> i < GNSS_RECONFIGURE_MAX_TRY \<and> rx_set i \<and> rx_reset i \<and> (\<forall>j. t \<le> j \<and> j < i \<longrightarrow> \<not> rx_set j))"
proof (induction rx_set rx_reset t rule: configure_loop.induct)
  case (1 rx_set rx_reset t)
  show ?case
  proof (cases "rx_set t")
    case True
    then show ?thesis
      by (subst configure_loop.simps) (auto dest: le_neq_implies_less)
  next
    case False
    show ?thesis
    proof (cases "t < GNSS_RECONFIGURE_MAX_TRY")
      case True
      have split: "(t \<le> k) = (k = t \<or> t + 1 \<le> k)" for k by auto
      have "configure_loop rx_set rx_reset t = configure_loop rx_set rx_reset (t + 1)"
        using False True by (subst configure_loop.simps) simp
      also have "\<dots> \<longleftrightarrow> (\<exists>i. t + 1 \<le> i \<and> i < GNSS_RECONFIGURE_MAX_TRY \<and> rx_set i \<and> rx_reset i \<and>
          (\<forall>j. t + 1 \<le> j \<and> j < i \<longrightarrow> \<not> rx_set j))"
        using 1 False True by simp
      also have "\<dots> \<longleftrightarrow> (\<exists>i. t \<le> i \<and> i < GNSS_RECONFIGURE_MAX_TRY \<and> rx_set i \<and> rx_reset i \<and>
          (\<forall>j. t \<le> j \<and> j < i \<longrightarrow> \<not> rx_set j))"
        using False by (metis (no_types, opaque_lifting) split)
      finally show ?thesis .
    next
      case nlt: False
      with False show ?thesis by (subst configure_loop.simps) auto
    qed
  qed
qed

lemma first_below_five:
  "(\<exists>i < 5. P i \<and> Q i \<and> (\<forall>j < i. \<not> P j)) = (case find P [0..<5] of None \<Rightarrow> False | Some i \<Rightarrow> Q (i::nat))"
proof (cases "find P [0..<5]")
  case None
  then have "\<not> (\<exists>x. x \<in> set [0..<5] \<and> P x)" by (simp only: find_None_iff not_False_eq_True)
  then have "\<not> P i" if "i < 5" for i using that by simp
  then show ?thesis unfolding None option.case by blast
next
  case (Some k)
  then obtain n where "k = [0..<5] ! n" "n < 5" "P k" "\<forall>j < n. \<not> P ([0..<5] ! j)"
    by (auto simp: find_Some_iff)
  then have k: "k < 5" "P k" "\<forall>j < k. \<not> P j" by auto
  then have "i = k" if "i < 5" "P i" "\<forall>j < i. \<not> P j" for i using that by (metis nat_neq_iff)
  then show ?thesis unfolding Some option.case using k by blast
qed

lemma configure_loop_first:
  "configure_loop rx_set rx_reset 0 =
     (case find rx_set [0..<5] of None \<Rightarrow> False | Some i \<Rightarrow> rx_reset i)"
  using first_below_five [of rx_set rx_reset]
  by (simp add: configure_loop_iff GNSS_RECONFIGURE_MAX_TRY_def)


section \<open>Key values\<close>

lemma set_from_end_Some:
  "set_from_end i v kvs = Some kvs' \<Longrightarrow>
     \<exists>xs p ys. kvs = xs @ p # ys \<and> kvs' = xs @ p\<lparr>kv_val := v\<rparr> # ys \<and> kv_id p = i \<and>
       (\<forall>q \<in> set ys. kv_id q \<noteq> i)"
proof (induction kvs arbitrary: kvs')
  case (Cons p ps)
  have none: "set_from_end i v qs = None \<Longrightarrow> \<forall>q \<in> set qs. kv_id q \<noteq> i" for qs
    by (induction qs) (auto split: option.splits if_splits)
  show ?case
  proof (cases "set_from_end i v ps")
    case None
    with Cons.prems none have "kv_id p = i" "kvs' = p\<lparr>kv_val := v\<rparr> # ps" "\<forall>q \<in> set ps. kv_id q \<noteq> i"
      by (auto split: if_splits)
    then show ?thesis by (intro exI [of _ "[]"] exI [of _ p] exI [of _ ps]) auto
  next
    case (Some ps')
    with Cons obtain xs r ys where "ps = xs @ r # ys" "ps' = xs @ r\<lparr>kv_val := v\<rparr> # ys" "kv_id r = i"
      "\<forall>q \<in> set ys. kv_id q \<noteq> i" by blast
    with Some Cons.prems show ?thesis by (intro exI [of _ "p # xs"] exI [of _ r] exI [of _ ys]) auto
  qed
qed simp

lemma set_from_end_None: "set_from_end i v kvs = None \<longleftrightarrow> (\<forall>q \<in> set kvs. kv_id q \<noteq> i)"
  by (induction kvs) (auto split: option.splits if_splits)

lemma cable_delay_range: "cable_delay_value s = Some v \<Longrightarrow> 1 \<le> v \<and> v \<le> 32767"
  by (auto simp: cable_delay_value_def split: prod.splits if_splits)

text \<open>The configured cable delay: when the key holds a number from 1 to 32767 (followed by
  anything), the last pair with the cable-delay id gets exactly that value and nothing else
  changes; otherwise the pairs stay as they are.\<close>

theorem set_cable_delay_correct:
  "case set_cable_delay ids config kvs of (done, kvs') \<Rightarrow>
     (if done
      then \<exists>s v xs p ys. config_get config ''gnss-cable-delay'' = Some s \<and> cable_delay_value s = Some v \<and>
        1 \<le> v \<and> v \<le> 32767 \<and> kvs = xs @ p # ys \<and> kvs' = xs @ p\<lparr>kv_val := v\<rparr> # ys \<and>
        kv_id p = id_cabledelay ids \<and> list_all (\<lambda>q. kv_id q \<noteq> id_cabledelay ids) ys
      else kvs' = kvs)"
proof (cases "config_get config ''gnss-cable-delay''")
  case (Some s)
  show ?thesis
  proof (cases "cable_delay_value s")
    case v: (Some v)
    then have v16: "to_i16 v = v" "1 \<le> v" "v \<le> 32767"
      using cable_delay_range [OF v] by (simp_all add: to_i16_id)
    show ?thesis
    proof (cases "set_from_end (id_cabledelay ids) v kvs")
      case None
      with Some v v16 show ?thesis by (simp add: set_cable_delay_def apply_pair_def)
    next
      case (Some kvs')
      from set_from_end_Some [OF this] Some \<open>config_get config _ = Some s\<close> v v16 show ?thesis
        by (fastforce simp: set_cable_delay_def apply_pair_def list_all_iff)
    qed
  qed (simp add: Some set_cable_delay_def)
qed (simp add: set_cable_delay_def)

section \<open>Setting the PTP clock\<close>

text \<open>What one round of \<open>gnss_set_ptp_clock_time\<close> meets: the flag \<open>loop\<close>, the validity of the
  epoch, the next TAI second of the receiver and of the check, the clock's second before and at
  the check (\<open>None\<close> when it cannot be read), whether it can be set, and the validity of the
  epoch \<open>gnss_check_ptp_clock_time\<close> waits for.\<close>

record ptp_round =
  r_loop :: bool
  r_valid :: bool
  r_tai :: int
  r_clock :: "int option"
  r_settime :: bool
  r_check_valid :: bool
  r_check_tai :: int
  r_check_clock :: "int option"

definition gnss_check_ptp_clock_time :: "ptp_round \<Rightarrow> bool" where
  "gnss_check_ptp_clock_time r \<longleftrightarrow>
     r_check_valid r \<and> (case r_check_clock r of None \<Rightarrow> False | Some sec \<Rightarrow> sec = r_check_tai r)"

text \<open>The loop over the rounds; \<open>None\<close> means that it is still running when they are used up.\<close>

fun ptp_rounds :: "ptp_round list \<Rightarrow> bool \<Rightarrow> int option" where
  "ptp_rounds [] clock_set = None"
| "ptp_rounds (r # rs) clock_set =
     (if \<not> r_loop r then Some 0
      else if \<not> r_valid r then ptp_rounds rs clock_set
      else if \<not> clock_set then
        (case r_clock r of
           None \<Rightarrow> Some (-1)
         | Some sec \<Rightarrow>
             if sec = r_tai r then ptp_rounds rs True
             else ptp_rounds rs (r_settime r))
      else if gnss_check_ptp_clock_time r then Some 0
      else ptp_rounds rs False)"

definition gnss_set_ptp_clock_time :: "int \<Rightarrow> ptp_round list \<Rightarrow> int option" where
  "gnss_set_ptp_clock_time fd_clock rounds =
     (if fd_clock < 0 then Some (-1) else ptp_rounds rounds False)"

lemma ptp_rounds_success:
  "ptp_rounds rs b = Some 0 \<Longrightarrow> \<forall>r \<in> set rs. r_loop r \<Longrightarrow>
     \<exists>r \<in> set rs. r_check_valid r \<and> r_check_clock r = Some (r_check_tai r)"
  by (induction rs arbitrary: b)
    (auto simp: gnss_check_ptp_clock_time_def split: if_splits option.splits)

definition good_round :: "ptp_round \<Rightarrow> bool" where
  "good_round r \<longleftrightarrow> r_loop r \<and> r_valid r \<and> r_clock r \<noteq> None \<and> r_settime r \<and>
     r_check_valid r \<and> r_check_clock r = Some (r_check_tai r)"

lemma ptp_rounds_two_good:
  "good_round r1 \<Longrightarrow> good_round r2 \<Longrightarrow> ptp_rounds (r1 # r2 # rs) b = Some 0"
  by (cases b; cases "r_clock r1") (simp_all add: good_round_def gnss_check_ptp_clock_time_def)

lemma ptp_rounds_delayed:
  "list_all (\<lambda>r. r_loop r \<and> r_clock r \<noteq> None) pre \<Longrightarrow> good_round r1 \<Longrightarrow> good_round r2 \<Longrightarrow>
     ptp_rounds (pre @ r1 # r2 # rs) b = Some 0"
proof (induction pre arbitrary: b)
  case Nil
  then show ?case by (simp add: ptp_rounds_two_good del: ptp_rounds.simps)
next
  case (Cons p pre)
  then show ?case by (auto split: option.splits)
qed

text \<open>C26. Setting the PTP clock: while the program keeps running, the function returns 0 only after
  a valid epoch at which the clock showed the receiver's TAI second, it returns -1 without an open
  clock, and two good rounds in a row end it with 0, whatever readable rounds came before.\<close>

theorem set_ptp_clock_time_correct:
  assumes "list_all r_loop rounds"
  shows "(gnss_set_ptp_clock_time fd rounds = Some 0 \<longrightarrow>
      (\<exists>r \<in> set rounds. r_check_valid r \<and> r_check_clock r = Some (r_check_tai r))) \<and>
    (fd < 0 \<longrightarrow> gnss_set_ptp_clock_time fd rounds = Some (-1)) \<and>
    (0 \<le> fd \<and> list_all (\<lambda>r. r_clock r \<noteq> None) rounds \<and> good_round r1 \<and> good_round r2 \<longrightarrow>
      gnss_set_ptp_clock_time fd (rounds @ r1 # r2 # later) = Some 0)"
  using assms ptp_rounds_success [of rounds False] ptp_rounds_delayed [of rounds r1 r2 later False]
  by (auto simp: gnss_set_ptp_clock_time_def list_all_iff)

definition sample_round :: ptp_round where
  "sample_round = \<lparr>r_loop = True, r_valid = True, r_tai = 1700000037, r_clock = Some 12,
     r_settime = True, r_check_valid = True, r_check_tai = 1700000038,
     r_check_clock = Some 1700000038\<rparr>"

theorem set_ptp_clock_time_correct_witness:
  "gnss_set_ptp_clock_time 4 [sample_round\<lparr>r_valid := False\<rparr>, sample_round, sample_round] = Some 0"
  using set_ptp_clock_time_correct [of "[sample_round\<lparr>r_valid := False\<rparr>]" 4 sample_round sample_round "[]"]
  by (simp add: sample_round_def good_round_def)

section \<open>The RTCM socket\<close>

text \<open>The descriptors of the RTCM server: the current client, the client whose frame is being sent
  (sampled under the mutex, used outside it), and the descriptors the process holds open.\<close>

record rtcm =
  rtcm_client_fd :: int
  rtcm_sending :: "int option"
  rtcm_open :: "int set"
  rtcm_accept_running :: bool

definition rtcm_init :: rtcm where
  "rtcm_init = \<lparr>rtcm_client_fd = -1, rtcm_sending = None, rtcm_open = {}, rtcm_accept_running = True\<rparr>"

definition rtcm_accept :: "int \<Rightarrow> rtcm \<Rightarrow> rtcm" where
  "rtcm_accept fd t =
     (let old_fd = rtcm_client_fd t;
          t1 = t\<lparr>rtcm_client_fd := fd, rtcm_open := insert fd (rtcm_open t)\<rparr>
      in if old_fd \<ge> 0 then t1\<lparr>rtcm_open := rtcm_open t1 - {old_fd}\<rparr> else t1)"

definition rtcm_send_failed :: "int \<Rightarrow> rtcm \<Rightarrow> rtcm" where
  "rtcm_send_failed cfd t =
     (if rtcm_client_fd t = cfd
      then t\<lparr>rtcm_client_fd := -1, rtcm_open := rtcm_open t - {cfd}, rtcm_sending := None\<rparr>
      else t\<lparr>rtcm_sending := None\<rparr>)"

definition rtcm_sock_cleanup :: "rtcm \<Rightarrow> rtcm" where
  "rtcm_sock_cleanup t =
     (let cfd = rtcm_client_fd t;
          t1 = t\<lparr>rtcm_accept_running := False, rtcm_client_fd := -1\<rparr>
      in if cfd \<ge> 0 then t1\<lparr>rtcm_open := rtcm_open t1 - {cfd}\<rparr> else t1)"

text \<open>The accepting thread and the receiver thread, interleaved; \<open>accept\<close> returns a descriptor
  that is not open. The clean-up runs after both threads were joined.\<close>

inductive rtcm_step :: "rtcm \<Rightarrow> rtcm \<Rightarrow> bool" where
  accept: "rtcm_accept_running t \<Longrightarrow> 0 \<le> fd \<Longrightarrow> fd \<notin> rtcm_open t \<Longrightarrow> rtcm_step t (rtcm_accept fd t)"
| sample: "rtcm_sending t = None \<Longrightarrow> rtcm_client_fd t \<ge> 0 \<Longrightarrow>
    rtcm_step t (t\<lparr>rtcm_sending := Some (rtcm_client_fd t)\<rparr>)"
| sent: "rtcm_sending t = Some cfd \<Longrightarrow> rtcm_step t (t\<lparr>rtcm_sending := None\<rparr>)"
| failed: "rtcm_sending t = Some cfd \<Longrightarrow> rtcm_step t (rtcm_send_failed cfd t)"
| cleanup: "rtcm_sending t = None \<Longrightarrow> rtcm_step t (rtcm_sock_cleanup t)"

inductive rtcm_reach :: "rtcm \<Rightarrow> bool" where
  start: "rtcm_reach rtcm_init"
| step: "rtcm_reach t \<Longrightarrow> rtcm_step t t' \<Longrightarrow> rtcm_reach t'"

inductive_cases rtcm_step_elim: "rtcm_step t t'"

definition one_client :: "rtcm \<Rightarrow> bool" where
  "one_client t \<longleftrightarrow> rtcm_open t = (if rtcm_client_fd t \<ge> 0 then {rtcm_client_fd t} else {}) \<and>
     (\<forall>cfd. rtcm_sending t = Some cfd \<longrightarrow> 0 \<le> cfd)"

lemma rtcm_step_one_client: "rtcm_step t t' \<Longrightarrow> one_client t \<Longrightarrow> one_client t'"
  by (erule rtcm_step_elim)
    (auto simp: one_client_def rtcm_accept_def rtcm_send_failed_def rtcm_sock_cleanup_def Let_def)


lemma rtcm_two_clients_reach: "rtcm_reach (rtcm_accept 8 (rtcm_accept 7 rtcm_init))"
proof -
  have "rtcm_reach (rtcm_accept 7 rtcm_init)"
    by (rule rtcm_reach.step [OF rtcm_reach.start], rule rtcm_step.accept) (simp_all add: rtcm_init_def)
  then show ?thesis
    by (rule rtcm_reach.step, intro rtcm_step.accept) (simp_all add: rtcm_init_def rtcm_accept_def)
qed


end
