(* ===== verification/GnssConfig.thy ===== *)
theory GnssConfig
  imports GnssSetup
begin

text \<open>
  \<open>common/gnss-config.c\<close>: the text of the receiver's default configuration becomes a list of pairs,
  and the check whether the receiver's memory holds them. The library ubloxcfg (its tables of
  items and messages, its parser of values, the numeric ids behind its macros) is the parameter
  \<open>ubloxcfg\<close>; the two tables of default lines (\<open>common/f9_defvalsets.c\<close>) are parameters as well.
\<close>

section \<open>The library\<close>

datatype UBLOXCFG_TYPE =
    TYPE_L | TYPE_U1 | TYPE_I1 | TYPE_U2 | TYPE_I2 | TYPE_U4 | TYPE_I4 | TYPE_R4 | TYPE_U8 | TYPE_I8 | TYPE_R8
  | TYPE_OTHER nat

datatype UBLOXCFG_SIZE = SIZE_BIT | SIZE_ONE | SIZE_TWO | SIZE_FOUR | SIZE_EIGHT | SIZE_BAD

record cfg_item =
  item_id :: int
  item_type :: UBLOXCFG_TYPE

text \<open>\<open>valueFromString\<close> yields the raw value; \<open>getMsgRateCfg\<close> the items for the five ports.\<close>

record ubloxcfg =
  getItemByName :: "string \<Rightarrow> cfg_item option"
  getMsgRateCfg :: "string \<Rightarrow> cfg_item option list option"
  valueFromString :: "string \<Rightarrow> UBLOXCFG_TYPE \<Rightarrow> cfg_item option \<Rightarrow> int option"
  ID2SIZE :: "int \<Rightarrow> UBLOXCFG_SIZE"
  macro_id :: "string \<Rightarrow> int"
  VALSET_V1_MAX_KV :: nat

definition CFG_SET_MAX_MSGS :: nat where "CFG_SET_MAX_MSGS = 20"

definition CFG_SET_MAX_KV :: "ubloxcfg \<Rightarrow> nat" where
  "CFG_SET_MAX_KV lib = VALSET_V1_MAX_KV lib * CFG_SET_MAX_MSGS"

section \<open>The memory of the receiver\<close>

text \<open>\<open>ram\<close> is what \<open>rxGetConfig\<close> delivers; \<open>None\<close> is a failed read, whose negative count makes the
  inner loop empty.\<close>

fun check_pair :: "keyval \<Rightarrow> keyval list \<Rightarrow> bool \<Rightarrow> bool" where
  "check_pair c [] ok = ok"
| "check_pair c (r # rs) ok = check_pair c rs (if kv_id r = kv_id c \<and> kv_val r \<noteq> kv_val c then False else ok)"

fun check_pairs :: "keyval list \<Rightarrow> keyval list \<Rightarrow> bool \<Rightarrow> bool" where
  "check_pairs [] ram ok = ok"
| "check_pairs (c # cs) ram ok = check_pairs cs ram (check_pair c ram ok)"

definition check_gnss_config_in_ram :: "keyval list option \<Rightarrow> keyval list \<Rightarrow> bool" where
  "check_gnss_config_in_ram ram allKvCfg =
     check_pairs allKvCfg (case ram of None \<Rightarrow> [] | Some r \<Rightarrow> r) True"

section \<open>The list of pairs\<close>

record cfg_db =
  db_kv :: "keyval list"
  maxKv :: nat

definition cfgDbAddKeyVal :: "cfg_db \<Rightarrow> int \<Rightarrow> int \<Rightarrow> bool \<times> cfg_db" where
  "cfgDbAddKeyVal db i v =
     (if length (db_kv db) \<ge> maxKv db then (False, db)
      else if list_ex (\<lambda>p. kv_id p = i) (db_kv db) then (False, db)
      else (True, db\<lparr>db_kv := db_kv db @ [\<lparr>kv_id = i, kv_val = v\<rparr>]\<rparr>))"

text \<open>All the pieces \<open>strtok\<close> returns for a set of separators.\<close>

fun strtok_all :: "string \<Rightarrow> string \<Rightarrow> string \<Rightarrow> string list" where
  "strtok_all seps [] cur = (if cur = [] then [] else [rev cur])"
| "strtok_all seps (c # cs) cur =
     (if List.member seps c then (if cur = [] then strtok_all seps cs [] else rev cur # strtok_all seps cs [])
      else strtok_all seps cs (c # cur))"

definition kCfgTokSep :: string where "kCfgTokSep = [CHR '' '', CHR 0x09]"
definition kCfgPartSep :: string where "kCfgPartSep = '',''"

text \<open>\<open>rate[0] == '-' && rate[1] == 0\<close>, and the test the port configuration makes on a field.\<close>

definition is_dash :: "string \<Rightarrow> bool" where "is_dash s \<longleftrightarrow> s = ''-''"

definition field_given :: "string \<Rightarrow> bool" where
  "field_given s \<longleftrightarrow> take 1 s \<noteq> ''-'' \<and> 2 \<le> length s"

fun cfgDbApplyProtfilt :: "cfg_db \<Rightarrow> string list \<Rightarrow> (string \<times> int) list \<Rightarrow> bool \<times> cfg_db" where
  "cfgDbApplyProtfilt db [] protfiltCfg = (True, db)"
| "cfgDbApplyProtfilt db (f # fs) protfiltCfg =
     (let ena = take 1 f \<noteq> ''!''; name = (if take 1 f = ''!'' then drop 1 f else f)
      in case map_of protfiltCfg name of
           None \<Rightarrow> (False, db)
         | Some i \<Rightarrow>
             (case cfgDbAddKeyVal db i (if ena then 1 else 0) of
                (ok, db') \<Rightarrow> if ok then cfgDbApplyProtfilt db' fs protfiltCfg else (False, db')))"

fun add_rates :: "ubloxcfg \<Rightarrow> cfg_db \<Rightarrow> (string \<times> cfg_item option) list \<Rightarrow> bool \<times> cfg_db" where
  "add_rates lib db [] = (True, db)"
| "add_rates lib db ((rate, item) # rs) =
     (if is_dash rate then add_rates lib db rs
      else case item of
             None \<Rightarrow> (False, db)
           | Some it \<Rightarrow>
               (case valueFromString lib rate (item_type it) (Some it) of
                  None \<Rightarrow> (False, db)
                | Some v \<Rightarrow>
                    (case cfgDbAddKeyVal db (item_id it) v of
                       (ok, db') \<Rightarrow> if ok then add_rates lib db' rs else (False, db'))))"

text \<open>The first type of an id's size that takes the value.\<close>

definition size_types :: "UBLOXCFG_SIZE \<Rightarrow> UBLOXCFG_TYPE list" where
  "size_types s =
     (case s of
        SIZE_BIT \<Rightarrow> [TYPE_L] | SIZE_ONE \<Rightarrow> [TYPE_U1, TYPE_I1] | SIZE_TWO \<Rightarrow> [TYPE_U2, TYPE_I2]
      | SIZE_FOUR \<Rightarrow> [TYPE_U4, TYPE_I4, TYPE_R4] | SIZE_EIGHT \<Rightarrow> [TYPE_U8, TYPE_I8, TYPE_R8] | SIZE_BAD \<Rightarrow> [])"

fun first_value :: "ubloxcfg \<Rightarrow> string \<Rightarrow> UBLOXCFG_TYPE list \<Rightarrow> int option" where
  "first_value lib s [] = None"
| "first_value lib s (t # ts) =
     (case valueFromString lib s t None of Some v \<Rightarrow> Some v | None \<Rightarrow> first_value lib s ts)"

text \<open>The name of a port, the id of its baud rate (\<open>None\<close> for 0), its input and output filters.\<close>

definition port_filters :: "ubloxcfg \<Rightarrow> string \<Rightarrow> (string \<times> int) list" where
  "port_filters lib p =
     [(''UBX'', macro_id lib (p @ ''_UBX'')), (''NMEA'', macro_id lib (p @ ''_NMEA'')),
      (''RTCM3'', macro_id lib (p @ ''_RTCM3X''))]"

definition portCfg :: "ubloxcfg \<Rightarrow> (string \<times> int option \<times> (string \<times> int) list \<times> (string \<times> int) list) list" where
  "portCfg lib =
     [(''UART1'', Some (macro_id lib ''UART1_BAUDRATE''), port_filters lib ''UART1INPROT'', port_filters lib ''UART1OUTPROT''),
      (''UART2'', Some (macro_id lib ''UART2_BAUDRATE''), port_filters lib ''UART2INPROT'', port_filters lib ''UART2OUTPROT''),
      (''SPI'', None, port_filters lib ''SPIINPROT'', port_filters lib ''SPIOUTPROT''),
      (''I2C'', None, port_filters lib ''I2CINPROT'', port_filters lib ''I2COUTPROT''),
      (''USB'', None, port_filters lib ''USBINPROT'', port_filters lib ''USBOUTPROT'')]"

definition baudCfg :: "(string \<times> int) list" where
  "baudCfg = [(''9600'', 9600), (''19200'', 19200), (''38400'', 38400), (''57600'', 57600), (''115200'', 115200),
     (''230400'', 230400), (''460800'', 460800), (''921600'', 921600)]"

definition add_baudrate :: "cfg_db \<Rightarrow> int option \<Rightarrow> string \<Rightarrow> bool \<times> cfg_db" where
  "add_baudrate db baudrateId baudrate =
     (if \<not> field_given baudrate then (True, db)
      else case baudrateId of
             None \<Rightarrow> (False, db)
           | Some i \<Rightarrow> (case map_of baudCfg baudrate of None \<Rightarrow> (False, db) | Some v \<Rightarrow> cfgDbAddKeyVal db i v))"

definition add_filters :: "cfg_db \<Rightarrow> string \<Rightarrow> (string \<times> int) list \<Rightarrow> bool \<times> cfg_db" where
  "add_filters db field cfg =
     (if field_given field then cfgDbApplyProtfilt db (strtok_all kCfgPartSep field []) cfg else (True, db))"

definition cfgDbAdd :: "ubloxcfg \<Rightarrow> cfg_db \<Rightarrow> string \<Rightarrow> bool \<times> cfg_db" where
  "cfgDbAdd lib db line =
     (let toks = strtok_all kCfgTokSep line []
      in if take 4 line = ''CFG-'' then
           (case toks of
              [keyStr, valStr] \<Rightarrow>
                (case getItemByName lib keyStr of
                   None \<Rightarrow> (False, db)
                 | Some it \<Rightarrow>
                     (case valueFromString lib valStr (item_type it) (Some it) of
                        None \<Rightarrow> (False, db)
                      | Some v \<Rightarrow> cfgDbAddKeyVal db (item_id it) v))
            | _ \<Rightarrow> (False, db))
         else if take 2 line = ''0x'' then
           (case toks of
              [keyStr, valStr] \<Rightarrow>
                (case scan_int 16 keyStr of
                   Some (_, []) \<Rightarrow>
                     (let i = to_u32 (fst (strtoul keyStr 16))
                      in case first_value lib valStr (size_types (ID2SIZE lib i)) of
                           None \<Rightarrow> (False, db) | Some v \<Rightarrow> cfgDbAddKeyVal db i v)
                 | _ \<Rightarrow> (False, db))
            | _ \<Rightarrow> (False, db))
         else if take 4 line = ''UBX-'' \<or> take 5 line = ''NMEA-'' \<or> take 5 line = ''RTCM-'' then
           (case toks of
              name # uart1 # uart2 # spi # i2c # usb # _ \<Rightarrow>
                (case getMsgRateCfg lib name of
                   None \<Rightarrow> (False, db)
                 | Some items \<Rightarrow> add_rates lib db (zip [uart1, uart2, spi, i2c, usb] items))
            | _ \<Rightarrow> (False, db))
         else if take 5 line = ''UART1'' \<or> take 5 line = ''UART2'' \<or> take 4 line = ''SPI '' \<or>
                 take 4 line = ''I2C '' \<or> take 4 line = ''USB '' then
           (case toks of
              port # baudrate # inprot # outprot # _ \<Rightarrow>
                (case map_of (portCfg lib) port of
                   None \<Rightarrow> (False, db)
                 | Some (baudrateId, inProt, outProt) \<Rightarrow>
                     (case add_baudrate db baudrateId baudrate of
                        (ok1, db1) \<Rightarrow>
                          if \<not> ok1 then (False, db1)
                          else case add_filters db1 inprot inProt of
                                 (ok2, db2) \<Rightarrow> if \<not> ok2 then (False, db2) else add_filters db2 outprot outProt))
            | _ \<Rightarrow> (False, db))
         else (False, db))"

fun add_lines :: "ubloxcfg \<Rightarrow> cfg_db \<Rightarrow> string list \<Rightarrow> bool \<times> cfg_db" where
  "add_lines lib db [] = (True, db)"
| "add_lines lib db (l # ls) =
     (case cfgDbAdd lib db (take 127 l) of (ok, db') \<Rightarrow> if ok then add_lines lib db' ls else (False, db'))"

text \<open>\<open>mem\<close>: whether the list can be allocated. The tables: the lines for versions before 2.20, and from
  then on.\<close>

definition is_v220 :: "int \<Rightarrow> int \<Rightarrow> bool" where
  "is_v220 major minor \<longleftrightarrow> (major = 2 \<and> minor \<ge> 20) \<or> major \<ge> 3"

definition get_default_value_from_config ::
  "ubloxcfg \<Rightarrow> bool \<Rightarrow> string list \<Rightarrow> string list \<Rightarrow> int \<Rightarrow> int \<Rightarrow> keyval list option" where
  "get_default_value_from_config lib mem default_configuration default_configuration_v220 major minor =
     (if \<not> mem then None
      else case add_lines lib \<lparr>db_kv = [], maxKv = CFG_SET_MAX_KV lib\<rparr>
                  (if is_v220 major minor then default_configuration_v220 else default_configuration) of
             (ok, db) \<Rightarrow> if ok then Some (db_kv db) else None)"

section \<open>The pairs of a line\<close>

text \<open>What a line says on its own, without the list: \<open>None\<close> for a line that is not accepted.\<close>

definition one_pair :: "int \<Rightarrow> int option \<Rightarrow> (int \<times> int) list option" where
  "one_pair i v = map_option (\<lambda>x. [(i, x)]) v"

definition both :: "'a list option \<Rightarrow> 'a list option \<Rightarrow> 'a list option" where
  "both a b = (case a of None \<Rightarrow> None | Some x \<Rightarrow> map_option (\<lambda>y. x @ y) b)"

fun filter_pairs :: "(string \<times> int) list \<Rightarrow> string list \<Rightarrow> (int \<times> int) list option" where
  "filter_pairs cfg [] = Some []"
| "filter_pairs cfg (f # fs) =
     both (case map_of cfg (if take 1 f = ''!'' then drop 1 f else f) of
             None \<Rightarrow> None | Some i \<Rightarrow> Some [(i, if take 1 f = ''!'' then 0 else 1)])
          (filter_pairs cfg fs)"

definition field_pairs :: "(string \<times> int) list \<Rightarrow> string \<Rightarrow> (int \<times> int) list option" where
  "field_pairs cfg field =
     (if field_given field then filter_pairs cfg (strtok_all kCfgPartSep field []) else Some [])"

definition baud_pairs :: "int option \<Rightarrow> string \<Rightarrow> (int \<times> int) list option" where
  "baud_pairs baudrateId baudrate =
     (if \<not> field_given baudrate then Some []
      else case baudrateId of None \<Rightarrow> None | Some i \<Rightarrow> one_pair i (map_of baudCfg baudrate))"

fun rate_pairs :: "ubloxcfg \<Rightarrow> (string \<times> cfg_item option) list \<Rightarrow> (int \<times> int) list option" where
  "rate_pairs lib [] = Some []"
| "rate_pairs lib ((rate, item) # rs) =
     both (if is_dash rate then Some []
           else case item of
                  None \<Rightarrow> None
                | Some it \<Rightarrow> one_pair (item_id it) (valueFromString lib rate (item_type it) (Some it)))
          (rate_pairs lib rs)"

definition line_pairs :: "ubloxcfg \<Rightarrow> string \<Rightarrow> (int \<times> int) list option" where
  "line_pairs lib line =
     (let toks = strtok_all kCfgTokSep line []
      in if take 4 line = ''CFG-'' then
           (case toks of
              [k, v] \<Rightarrow> (case getItemByName lib k of
                            None \<Rightarrow> None
                          | Some it \<Rightarrow> one_pair (item_id it) (valueFromString lib v (item_type it) (Some it)))
            | _ \<Rightarrow> None)
         else if take 2 line = ''0x'' then
           (case toks of
              [k, v] \<Rightarrow> (case scan_int 16 k of
                            Some (_, []) \<Rightarrow>
                              (let i = to_u32 (fst (strtoul k 16))
                               in one_pair i (first_value lib v (size_types (ID2SIZE lib i))))
                          | _ \<Rightarrow> None)
            | _ \<Rightarrow> None)
         else if take 4 line = ''UBX-'' \<or> take 5 line = ''NMEA-'' \<or> take 5 line = ''RTCM-'' then
           (case toks of
              name # a # b # c # d # e # _ \<Rightarrow>
                (case getMsgRateCfg lib name of
                   None \<Rightarrow> None | Some items \<Rightarrow> rate_pairs lib (zip [a, b, c, d, e] items))
            | _ \<Rightarrow> None)
         else if take 5 line = ''UART1'' \<or> take 5 line = ''UART2'' \<or> take 4 line = ''SPI '' \<or>
                 take 4 line = ''I2C '' \<or> take 4 line = ''USB '' then
           (case toks of
              port # b # i # out # _ \<Rightarrow>
                (case map_of (portCfg lib) port of
                   None \<Rightarrow> None
                 | Some (bid, inp, outp) \<Rightarrow> both (both (baud_pairs bid b) (field_pairs inp i)) (field_pairs outp out))
            | _ \<Rightarrow> None)
         else None)"

text \<open>Adding pairs to a list: all of them, when there is room and no id occurs twice.\<close>

definition as_keyval :: "int \<times> int \<Rightarrow> keyval" where
  "as_keyval p = \<lparr>kv_id = fst p, kv_val = snd p\<rparr>"

definition add_pairs :: "(int \<times> int) list \<Rightarrow> cfg_db \<Rightarrow> cfg_db option" where
  "add_pairs ps db =
     (if ps \<noteq> [] \<longrightarrow> length (db_kv db) + length ps \<le> maxKv db \<and> distinct (map fst ps) \<and>
            set (map fst ps) \<inter> set (map kv_id (db_kv db)) = {}
      then Some (db\<lparr>db_kv := db_kv db @ map as_keyval ps\<rparr>) else None)"

definition accepted :: "bool \<times> 'a \<Rightarrow> 'a option" where
  "accepted r = (if fst r then Some (snd r) else None)"

text \<open>An operation on the list that adds the given pairs, or fails.\<close>

definition yields :: "(cfg_db \<Rightarrow> bool \<times> cfg_db) \<Rightarrow> (int \<times> int) list option \<Rightarrow> bool" where
  "yields f ps \<longleftrightarrow> (\<forall>db. accepted (f db) = Option.bind ps (\<lambda>x. add_pairs x db))"

lemma add_pairs_append: "Option.bind (add_pairs xs db) (add_pairs ys) = add_pairs (xs @ ys) db"
  by (cases "xs = []"; cases "ys = []") (auto simp: add_pairs_def as_keyval_def)

lemma yields_fail: "(\<And>db. \<not> fst (f db)) \<Longrightarrow> yields f None"
  by (simp add: yields_def accepted_def)

lemma yields_skip: "(\<And>db. f db = (True, db)) \<Longrightarrow> yields f (Some [])"
  by (simp add: yields_def accepted_def add_pairs_def)

lemma yields_add: "yields (\<lambda>db. cfgDbAddKeyVal db i v) (Some [(i, v)])"
  by (auto simp: yields_def accepted_def cfgDbAddKeyVal_def add_pairs_def as_keyval_def list_ex_iff)

lemma yields_seq:
  assumes "yields f a" "yields g b"
    and "\<And>db. h db = (case f db of (ok, db') \<Rightarrow> if ok then g db' else (False, db'))"
  shows "yields h (both a b)"
proof -
  have "accepted (h db) = Option.bind (accepted (f db)) (\<lambda>db'. accepted (g db'))" for db
    by (simp add: assms(3) accepted_def case_prod_beta)
  moreover have "accepted (f db) = Option.bind a (\<lambda>x. add_pairs x db)"
    "accepted (g db) = Option.bind b (\<lambda>x. add_pairs x db)" for db
    using assms(1,2) by (simp_all add: yields_def)
  ultimately show ?thesis
    unfolding yields_def both_def
    by (cases a; cases b) (simp_all add: add_pairs_append [symmetric] bind_rzero)
qed

lemma yields_filters: "yields (\<lambda>db. cfgDbApplyProtfilt db fs cfg) (filter_pairs cfg fs)"
proof (induction fs)
  case (Cons f fs)
  let ?m = "map_of cfg (if take 1 f = ''!'' then drop 1 f else f)"
  show ?case
  proof (cases ?m)
    case None
    then show ?thesis by (auto simp: both_def Let_def intro!: yields_fail)
  next
    case (Some i)
    show ?thesis
      unfolding filter_pairs.simps Some option.case
      by (rule yields_seq [OF yields_add Cons]) (use Some in \<open>simp add: Let_def\<close>)
  qed
qed (simp add: yields_skip)

lemma yields_field: "yields (\<lambda>db. add_filters db field cfg) (field_pairs cfg field)"
  by (cases "field_given field") (simp_all add: add_filters_def field_pairs_def yields_filters yields_skip)

lemma yields_one: "(case v of None \<Rightarrow> yields f None | Some x \<Rightarrow> f = (\<lambda>db. cfgDbAddKeyVal db i x)) \<Longrightarrow> yields f (one_pair i v)"
  by (cases v) (simp_all add: one_pair_def yields_add)

lemma yields_baud: "yields (\<lambda>db. add_baudrate db bid b) (baud_pairs bid b)"
  by (cases "field_given b"; cases bid; cases "map_of baudCfg b")
    (auto simp: add_baudrate_def baud_pairs_def yields_skip intro!: yields_one yields_fail)

lemma yields_rates: "yields (\<lambda>db. add_rates lib db rs) (rate_pairs lib rs)"
proof (induction lib rs rule: rate_pairs.induct)
  case (1 lib)
  show ?case by (simp add: yields_skip)
next
  case (2 lib rate item rs)
  show ?case
  proof (cases "is_dash rate")
    case True
    then have "rate_pairs lib ((rate, item) # rs) = rate_pairs lib rs"
      by (cases "rate_pairs lib rs") (simp_all add: both_def)
    with 2 True show ?thesis by simp
  next
    case False
    show ?thesis
    proof (cases "item = None \<or> valueFromString lib rate (item_type (the item)) item = None")
      case True
      with False show ?thesis by (auto simp: both_def one_pair_def intro!: yields_fail split: option.split)
    next
      case nonempty: False
      then obtain it v where iv: "item = Some it" "valueFromString lib rate (item_type it) (Some it) = Some v" by auto
      show ?thesis
        unfolding rate_pairs.simps using False iv
        by (simp add: one_pair_def) (rule yields_seq [OF yields_add 2], simp)
    qed
  qed
qed

lemma yields_port:
  "yields (\<lambda>db. case add_baudrate db bid b of
       (ok1, db1) \<Rightarrow>
         if \<not> ok1 then (False, db1)
         else case add_filters db1 i inp of
                (ok2, db2) \<Rightarrow> if \<not> ok2 then (False, db2) else add_filters db2 out outp)
     (both (both (baud_pairs bid b) (field_pairs inp i)) (field_pairs outp out))"
proof -
  have "yields (\<lambda>db. case add_baudrate db bid b of (ok, db') \<Rightarrow> if ok then add_filters db' i inp else (False, db'))
      (both (baud_pairs bid b) (field_pairs inp i))"
    by (rule yields_seq [OF yields_baud yields_field]) simp
  then show ?thesis
    by (rule yields_seq [OF _ yields_field]) (simp add: case_prod_beta)
qed

lemma yields_line: "yields (\<lambda>db. cfgDbAdd lib db line) (line_pairs lib line)"
proof -
  let ?toks = "strtok_all kCfgTokSep line []"
  consider (cfg) "take 4 line = ''CFG-''" | (hex) "take 4 line \<noteq> ''CFG-''" "take 2 line = ''0x''"
    | (msg) "take 4 line \<noteq> ''CFG-''" "take 2 line \<noteq> ''0x''"
        "take 4 line = ''UBX-'' \<or> take 5 line = ''NMEA-'' \<or> take 5 line = ''RTCM-''"
    | (other) "take 4 line \<noteq> ''CFG-''" "take 2 line \<noteq> ''0x''"
        "\<not> (take 4 line = ''UBX-'' \<or> take 5 line = ''NMEA-'' \<or> take 5 line = ''RTCM-'')" by blast
  then show ?thesis
  proof cases
    case cfg
    then show ?thesis
      by (auto simp: cfgDbAdd_def line_pairs_def Let_def intro!: yields_fail yields_one
          split: list.split option.split)
  next
    case hex
    then show ?thesis
      by (auto simp: cfgDbAdd_def line_pairs_def Let_def intro!: yields_fail yields_one
          split: list.split option.split)
  next
    case msg
    then show ?thesis
      unfolding cfgDbAdd_def line_pairs_def Let_def
      by (simp only: if_False if_True simp_thms)
        (auto intro!: yields_fail yields_rates split: list.split option.split)
  next
    case other
    then show ?thesis
      unfolding cfgDbAdd_def line_pairs_def Let_def
      by (simp only: if_False if_True simp_thms)
        (auto intro!: yields_fail yields_port split: list.split option.split)
  qed
qed

lemma yields_lines:
  "yields (\<lambda>db. add_lines lib db ls) (map_option concat (those (map (\<lambda>l. line_pairs lib (take 127 l)) ls)))"
proof (induction ls)
  case (Cons l ls)
  have "map_option concat (those (map (\<lambda>l. line_pairs lib (take 127 l)) (l # ls))) =
      both (line_pairs lib (take 127 l)) (map_option concat (those (map (\<lambda>l. line_pairs lib (take 127 l)) ls)))"
    by (cases "line_pairs lib (take 127 l)"; cases "those (map (\<lambda>l. line_pairs lib (take 127 l)) ls)")
      (simp_all add: both_def)
  then show ?case
    by (simp only:) (rule yields_seq [OF yields_line Cons], simp)
qed (simp add: yields_skip)

lemma add_to_empty:
  "add_pairs ps \<lparr>db_kv = [], maxKv = n\<rparr> =
     (if distinct (map fst ps) \<and> length ps \<le> n then Some \<lparr>db_kv = map as_keyval ps, maxKv = n\<rparr> else None)"
  by (cases ps) (auto simp: add_pairs_def)

lemma accepted_lines:
  "accepted (add_lines lib \<lparr>db_kv = [], maxKv = n\<rparr> ls) =
     (case those (map (\<lambda>l. line_pairs lib (take 127 l)) ls) of
        None \<Rightarrow> None
      | Some pss \<Rightarrow>
          if distinct (map fst (concat pss)) \<and> length (concat pss) \<le> n
          then Some \<lparr>db_kv = map as_keyval (concat pss), maxKv = n\<rparr> else None)"
  using yields_lines [of lib ls]
  by (cases "those (map (\<lambda>l. line_pairs lib (take 127 l)) ls)") (simp_all add: yields_def add_to_empty)

lemma default_config_cases:
  "get_default_value_from_config lib True t t220 major minor =
     (case those (map (\<lambda>l. line_pairs lib (take 127 l)) (if is_v220 major minor then t220 else t)) of
        None \<Rightarrow> None
      | Some pss \<Rightarrow>
          if distinct (map fst (concat pss)) \<and> length (concat pss) \<le> CFG_SET_MAX_KV lib
          then Some (map as_keyval (concat pss)) else None)"
proof -
  have "get_default_value_from_config lib True t t220 major minor =
      map_option db_kv (accepted (add_lines lib \<lparr>db_kv = [], maxKv = CFG_SET_MAX_KV lib\<rparr>
        (if is_v220 major minor then t220 else t)))"
    by (simp add: get_default_value_from_config_def accepted_def case_prod_beta)
  then show ?thesis
    unfolding accepted_lines by (simp split: option.split)
qed

text \<open>C13. Loading the default configuration line by line, with early returns, is the same as reading
  each line on its own and looking at the result as a whole: it succeeds exactly when every line
  is accepted, no id occurs twice and all pairs fit the list, and then the pairs are those of the
  lines in their order.\<close>

theorem default_config_loaded:
  "get_default_value_from_config lib True t t220 major minor =
     (case those (map (\<lambda>l. line_pairs lib (take 127 l)) (if is_v220 major minor then t220 else t)) of
        None \<Rightarrow> None
      | Some pss \<Rightarrow>
          if distinct (map fst (concat pss)) \<and> length (concat pss) \<le> CFG_SET_MAX_KV lib
          then Some (map as_keyval (concat pss)) else None)"
  by (rule default_config_cases)

section \<open>The check of the memory\<close>

lemma check_pair_iff:
  "check_pair c ram ok \<longleftrightarrow> ok \<and> list_all (\<lambda>r. kv_id r = kv_id c \<longrightarrow> kv_val r = kv_val c) ram"
  by (induction c ram ok rule: check_pair.induct) auto

lemma check_pairs_iff:
  "check_pairs cs ram ok \<longleftrightarrow>
     ok \<and> list_all (\<lambda>c. list_all (\<lambda>r. kv_id r = kv_id c \<longrightarrow> kv_val r = kv_val c) ram) cs"
  by (induction cs ram ok rule: check_pairs.induct) (auto simp: check_pair_iff)

lemma loaded_distinct:
  assumes "get_default_value_from_config lib mem t t220 major minor = Some kvs"
  shows "distinct (map kv_id kvs)"
proof -
  let ?r = "accepted (add_lines lib \<lparr>db_kv = [], maxKv = CFG_SET_MAX_KV lib\<rparr> (if is_v220 major minor then t220 else t))"
  obtain db where "?r = Some db" "kvs = db_kv db"
    using assms by (simp add: get_default_value_from_config_def accepted_def case_prod_beta split: if_splits)
  then show ?thesis
    unfolding accepted_lines
    by (auto simp: as_keyval_def comp_def split: option.splits if_splits)
qed

lemma check_difference:
  "q \<in> set rs \<Longrightarrow> c \<in> set kvs \<Longrightarrow> kv_id q = kv_id c \<Longrightarrow> kv_val q \<noteq> kv_val c \<Longrightarrow>
     \<not> check_gnss_config_in_ram (Some (ram @ rs)) kvs"
  by (auto simp: check_gnss_config_in_ram_def check_pairs_iff list_all_iff)

lemma same_id_same_pair: "distinct (map kv_id kvs) \<Longrightarrow> c \<in> set kvs \<Longrightarrow> r \<in> set kvs \<Longrightarrow> kv_id r = kv_id c \<Longrightarrow> r = c"
  by (auto simp: distinct_map dest: inj_onD)

text \<open>The check of the memory against a loaded configuration passes once the configuration was
  stored: whatever the memory held, when the pairs replace those with their ids the check says
  the receiver is configured; a stored pair with another value is noticed. A memory that could
  not be read counts as configured, and so does one that lacks the ids.\<close>

theorem stored_config_recognised:
  assumes "get_default_value_from_config lib mem t t220 major minor = Some kvs"
    and "i < length kvs" "v \<noteq> kv_val (kvs ! i)"
  shows "check_gnss_config_in_ram (Some (filter (\<lambda>r. kv_id r \<notin> kv_id ` set kvs) ram @ kvs)) kvs \<and>
    \<not> check_gnss_config_in_ram (Some (ram @ kvs[i := (kvs ! i)\<lparr>kv_val := v\<rparr>])) kvs \<and>
    check_gnss_config_in_ram None kvs \<and>
    check_gnss_config_in_ram (Some (filter (\<lambda>r. kv_id r \<notin> kv_id ` set kvs) ram)) kvs"
proof -
  note same = same_id_same_pair [OF loaded_distinct [OF assms(1)]]
  have "check_gnss_config_in_ram (Some (filter (\<lambda>r. kv_id r \<notin> kv_id ` set kvs) ram @ kvs)) kvs"
    "check_gnss_config_in_ram (Some (filter (\<lambda>r. kv_id r \<notin> kv_id ` set kvs) ram)) kvs"
    "check_gnss_config_in_ram None kvs"
    by (auto simp: check_gnss_config_in_ram_def check_pairs_iff list_all_iff dest: same)
  moreover have "(kvs ! i)\<lparr>kv_val := v\<rparr> \<in> set (kvs[i := (kvs ! i)\<lparr>kv_val := v\<rparr>])" "kvs ! i \<in> set kvs"
    using assms(2) by (simp_all add: set_update_memI)
  then have "\<not> check_gnss_config_in_ram (Some (ram @ kvs[i := (kvs ! i)\<lparr>kv_val := v\<rparr>])) kvs"
    by (rule check_difference) (use assms(3) in simp_all)
  ultimately show ?thesis by blast
qed

text \<open>A library that knows two items and one message.\<close>

definition sample_lib :: ubloxcfg where
  "sample_lib = \<lparr>
     getItemByName = (\<lambda>n. if n = ''CFG-RATE-MEAS'' then Some \<lparr>item_id = 1, item_type = TYPE_U2\<rparr> else None),
     getMsgRateCfg = (\<lambda>n. if n = ''UBX-NAV-PVT''
        then Some [Some \<lparr>item_id = 2, item_type = TYPE_U1\<rparr>, Some \<lparr>item_id = 3, item_type = TYPE_U1\<rparr>,
                   None, None, None] else None),
     valueFromString = (\<lambda>s t i. case scan_int 0 s of Some (v, []) \<Rightarrow> Some v | _ \<Rightarrow> None),
     ID2SIZE = (\<lambda>i. SIZE_ONE), macro_id = (\<lambda>n. int (length n)), VALSET_V1_MAX_KV = 64\<rparr>"

lemma sample_loaded:
  "get_default_value_from_config sample_lib True [] [''CFG-RATE-MEAS 1000'', ''UBX-NAV-PVT 1 0 - - -''] 2 20 =
     Some [\<lparr>kv_id = 1, kv_val = 1000\<rparr>, \<lparr>kv_id = 2, kv_val = 1\<rparr>, \<lparr>kv_id = 3, kv_val = 0\<rparr>]"
  by code_simp

theorem stored_config_recognised_witness:
  "\<not> check_gnss_config_in_ram (Some [\<lparr>kv_id = 1, kv_val = 1000\<rparr>, \<lparr>kv_id = 2, kv_val = 5\<rparr>, \<lparr>kv_id = 3, kv_val = 0\<rparr>])
     [\<lparr>kv_id = 1, kv_val = 1000\<rparr>, \<lparr>kv_id = 2, kv_val = 1\<rparr>, \<lparr>kv_id = 3, kv_val = 0\<rparr>]"
  using stored_config_recognised [OF sample_loaded, of 1 5 "[]"] by simp

end
