(* ===== verification/GnssInit.thy ===== *)
theory GnssInit
  imports GnssConfig
begin

text \<open>
  \<open>gnss_init\<close> of \<open>src/gnss.c\<close>: from the serial port to the running receiver thread. It puts together
  the connection and configuration of \<open>GnssSetup\<close>, the default pairs of \<open>GnssConfig\<close>, the version of
  the receiver and the RTCM socket. Results of the receiver library are the record \<open>init_env\<close>.
\<close>

section \<open>RTCM messages\<close>

definition rtcm_messages :: "string list" where
  "rtcm_messages = [''RTCM-3X-TYPE1005'', ''RTCM-3X-TYPE1077'', ''RTCM-3X-TYPE1087'', ''RTCM-3X-TYPE1097'',
     ''RTCM-3X-TYPE1127'', ''RTCM-3X-TYPE1230'']"

text \<open>The pairs that switch RTCM on: messages the receiver does not know on its first port are skipped.\<close>

definition rtcm_pairs :: "ubloxcfg \<Rightarrow> keyval list" where
  "rtcm_pairs lib =
     \<lparr>kv_id = macro_id lib ''UART1OUTPROT_RTCM3X'', kv_val = 1\<rparr> #
     concat (map (\<lambda>msg. case getMsgRateCfg lib msg of
                          Some (Some it # _) \<Rightarrow> [\<lparr>kv_id = item_id it, kv_val = 1\<rparr>]
                        | _ \<Rightarrow> []) rtcm_messages)"

definition gnss_set_rtcm_config :: "ubloxcfg \<Rightarrow> (keyval list \<Rightarrow> bool) \<Rightarrow> bool" where
  "gnss_set_rtcm_config lib rx_set = rx_set (rtcm_pairs lib)"

text \<open>The listening socket: the results of \<open>socket\<close>, \<open>bind\<close> and \<open>listen\<close>; the descriptors left open.\<close>

definition rtcm_sock_create :: "int \<Rightarrow> bool \<Rightarrow> bool \<Rightarrow> int \<times> int set" where
  "rtcm_sock_create fd bound listening =
     (if fd < 0 then (- 1, {}) else if \<not> bound \<or> \<not> listening then (- 1, {}) else (fd, {fd}))"

section \<open>Initialisation\<close>

record init_env =
  ie_session :: "gps_session option"
  ie_mem :: bool
  ie_info :: "gnss_state option"
  ie_rx :: bool
  ie_connect :: "nat \<Rightarrow> bool"
  ie_version :: "string option"
  ie_ram :: "keyval list option"
  ie_set :: "keyval list \<Rightarrow> nat \<Rightarrow> bool"
  ie_reset :: "nat \<Rightarrow> bool"
  ie_rtcm_set :: "keyval list \<Rightarrow> bool"
  ie_socket :: "int \<times> bool \<times> bool"
  ie_accept_thread :: bool
  ie_start :: bool
  ie_thread :: bool

record gnss_started =
  gst_gnss :: gnss
  gst_version :: "int \<times> int"
  gst_pairs :: "keyval list"
  gst_rtcm_enabled :: bool
  gst_listen_fd :: int
  gst_listen_open :: "int set"
  gst_rtcm :: rtcm

text \<open>A null result, the end of the program (\<open>error\<close>), the use of a null pointer, or a receiver.\<close>

datatype init_result = InitNull | InitExit | InitNullPointer | InitDone gnss_started

text \<open>\<open>ie_info\<close>: what the pointer \<open>gnss_info\<close> in the allocated memory refers to, which is not initialised here.
  The values of the undefined antenna state come from the receiver's protocol. The survey's
  position error, set to -1, is a \<open>survey_mean_v\<close> without value.\<close>

definition fresh_session :: "int \<Rightarrow> int \<Rightarrow> bool \<Rightarrow> gps_session \<Rightarrow> gps_session" where
  "fresh_session status_undefined power_undefined bypass s =
     (gnss_reset_session_navigation_data s)\<lparr>antenna_status := status_undefined, antenna_power := power_undefined,
        survey_mean_v := None, survey_completed := False, bypass_survey := bypass\<rparr>"

definition receiver_version :: "string option \<Rightarrow> int \<times> int" where
  "receiver_version v =
     (case v of None \<Rightarrow> (- 1, - 1)
      | Some s \<Rightarrow> (case parse_receiver_version (Some s) of None \<Rightarrow> (- 1, - 1) | Some mm \<Rightarrow> mm))"

definition start_rtcm :: "ubloxcfg \<Rightarrow> config \<Rightarrow> init_env \<Rightarrow> bool \<times> int \<times> int set \<times> rtcm" where
  "start_rtcm lib config env =
     (let off = rtcm_init\<lparr>rtcm_accept_running := False\<rparr>
      in if \<not> config_get_bool_default config ''gnss-rtcm-enabled'' False then (False, - 1, {}, off)
         else if \<not> gnss_set_rtcm_config lib (ie_rtcm_set env) then (False, - 1, {}, off)
         else case ie_socket env of
                (fd, bound, listening) \<Rightarrow>
                  (case rtcm_sock_create fd bound listening of
                     (lfd, open_fds) \<Rightarrow>
                       if lfd < 0 then (True, lfd, open_fds, off)
                       else if ie_accept_thread env then (True, lfd, open_fds, rtcm_init)
                       else (True, - 1, open_fds - {lfd}, off)))"

definition gnss_init ::
  "ubloxcfg \<Rightarrow> string list \<Rightarrow> string list \<Rightarrow> cfg_ids \<Rightarrow> int \<Rightarrow> int \<Rightarrow> config \<Rightarrow> bool \<Rightarrow> init_env \<Rightarrow> init_result" where
  "gnss_init lib t t220 ids status_undefined power_undefined config mem env =
     (case ie_session env of
        None \<Rightarrow> InitNull
      | Some s0 \<Rightarrow>
          if \<not> ie_mem env then InitNull
          else if \<not> ie_rx env \<or> \<not> gnss_connect (ie_connect env) then InitExit
          else case receiver_version (ie_version env) of
                 (major, minor) \<Rightarrow>
                   (case get_default_value_from_config lib mem t t220 major minor of
                      None \<Rightarrow> InitNullPointer
                    | Some defaults \<Rightarrow>
                        if \<not> gnss_set_configuration (check_gnss_config_in_ram (ie_ram env)) (ie_set env) (ie_reset env)
                             ids config defaults then InitExit
                        else case start_rtcm lib config env of
                               (enabled, lfd, open_fds, r) \<Rightarrow>
                                 if \<not> ie_start env \<or> \<not> ie_thread env then InitExit
                                 else InitDone
                                   \<lparr>gst_gnss = \<lparr>session = fresh_session status_undefined power_undefined
                                        (config_get_bool_default config ''gnss-bypass-survey'' False) s0,
                                      action = GNSS_ACTION_NONE, gnss_stop_flag = False, gnss_running = True,
                                      gnss_info = ie_info env, data_signals = 0, time_signals = 0\<rparr>,
                                    gst_version = (major, minor), gst_pairs = receiver_pairs ids config defaults,
                                    gst_rtcm_enabled = enabled, gst_listen_fd = lfd, gst_listen_open = open_fds,
                                    gst_rtcm = r\<rparr>))"

section \<open>What an initialised receiver is\<close>

lemma start_rtcm_listen:
  "start_rtcm lib config env = (enabled, lfd, open_fds, r) \<Longrightarrow>
     open_fds = (if lfd \<ge> 0 then {lfd} else {}) \<and> rtcm_accept_running r = (lfd \<ge> 0) \<and>
     (0 \<le> lfd \<longrightarrow> enabled) \<and> (enabled \<longrightarrow> config_get_bool_default config ''gnss-rtcm-enabled'' False)"
  by (auto simp: start_rtcm_def rtcm_sock_create_def rtcm_init_def Let_def split: if_splits prod.splits)

text \<open>An initialisation that succeeds: the receiver is configured with the default pairs of its version,
  adjusted by the configuration, or already was; the session is not valid and its survey not
  completed; the only RTCM descriptor open is the listening one, and only when RTCM is wanted.\<close>

theorem gnss_init_done:
  assumes "gnss_init lib t t220 ids su pu config mem env = InitDone g"
  shows "(\<exists>defaults. get_default_value_from_config lib mem t t220 (fst (gst_version g)) (snd (gst_version g)) = Some defaults \<and>
      gst_pairs g = receiver_pairs ids config defaults) \<and>
    (check_gnss_config_in_ram (ie_ram env) (gst_pairs g) \<or>
     (case find (ie_set env (gst_pairs g)) [0..<5] of None \<Rightarrow> False | Some i \<Rightarrow> ie_reset env i)) \<and>
    \<not> gs_valid (session (gst_gnss g)) \<and> \<not> survey_completed (session (gst_gnss g)) \<and>
    action (gst_gnss g) = GNSS_ACTION_NONE \<and>
    gst_listen_open g = (if gst_listen_fd g \<ge> 0 then {gst_listen_fd g} else {}) \<and>
    (gst_listen_fd g \<ge> 0 \<longrightarrow> config_get_bool_default config ''gnss-rtcm-enabled'' False)"
proof -
  obtain s0 major minor defaults enabled lfd open_fds r where
    d: "receiver_version (ie_version env) = (major, minor)"
      "get_default_value_from_config lib mem t t220 major minor = Some defaults"
    and c: "gnss_set_configuration (check_gnss_config_in_ram (ie_ram env)) (ie_set env) (ie_reset env) ids config defaults"
    and r: "start_rtcm lib config env = (enabled, lfd, open_fds, r)"
    and g: "gst_version g = (major, minor)" "gst_pairs g = receiver_pairs ids config defaults"
      "gst_listen_fd g = lfd" "gst_listen_open g = open_fds" "action (gst_gnss g) = GNSS_ACTION_NONE"
      "session (gst_gnss g) = fresh_session su pu (config_get_bool_default config ''gnss-bypass-survey'' False) s0"
    using assms by (auto simp: gnss_init_def split: option.splits if_splits prod.splits)
  have "check_gnss_config_in_ram (ie_ram env) (gst_pairs g) \<or>
      (case find (ie_set env (gst_pairs g)) [0..<5] of None \<Rightarrow> False | Some i \<Rightarrow> ie_reset env i)"
    using c by (simp add: gnss_set_configuration_def Let_def configure_loop_first g(2) split: if_splits)
  then show ?thesis
    using d g start_rtcm_listen [OF r] by (auto simp: fresh_session_def gnss_reset_session_navigation_data_def)
qed

end
