(* ===== verification/MonitoringInit.thy ===== *)
theory MonitoringInit
  imports Monitoring
begin

text \<open>
  \<open>src/monitoring.c\<close>: how the server is created and stopped (\<open>create_socket\<close>, \<open>monitoring_init\<close>,
  \<open>monitoring_stop\<close>). The descriptors of the process that are open are a set, the structure that
  \<open>malloc\<close> returns has arbitrary contents, and results of system calls are arguments.
\<close>

section \<open>The listening socket\<close>

text \<open>What happens with one address of \<open>getaddrinfo\<close>: the descriptor (negative: none) and the results of
  \<open>setsockopt\<close>, \<open>bind\<close> and \<open>listen\<close>.\<close>

record listen_try =
  lt_socket :: int
  lt_reuse :: bool
  lt_bind :: bool
  lt_listen :: bool

fun first_listening :: "listen_try list \<Rightarrow> int set \<Rightarrow> int \<times> int set" where
  "first_listening [] fds = (- 1, fds)"
| "first_listening (t # ts) fds =
     (if lt_socket t < 0 then first_listening ts fds
      else let fds' = insert (lt_socket t) fds
           in if lt_reuse t \<and> lt_bind t \<and> lt_listen t then (lt_socket t, fds')
              else first_listening ts (fds' - {lt_socket t}))"

definition create_socket :: "listen_try list option \<Rightarrow> int set \<Rightarrow> int \<times> int set" where
  "create_socket addresses fds = (case addresses of None \<Rightarrow> (- 1, fds) | Some ts \<Rightarrow> first_listening ts fds)"

section \<open>Creating and stopping the server\<close>

text \<open>\<open>mi_memory\<close>: the structure as allocated (\<open>None\<close>: no memory), and the two external enumerators.\<close>

record mon_init_env =
  mi_memory :: "monitoring option"
  mi_addresses :: "listen_try list option"
  mi_thread :: bool
  CLOCK_CLASS_UNCALIBRATED :: int
  WARMUP :: int

record mon_handle =
  mh_monitoring :: monitoring
  mh_devices :: devices_path
  mh_sockfd :: int

text \<open>The structure on the heap, if any, is the second component; the third are the open descriptors.\<close>

definition init_monitoring :: "mon_init_env \<Rightarrow> config \<Rightarrow> string \<Rightarrow> monitoring \<Rightarrow> monitoring" where
  "init_monitoring env config model m =
     m\<lparr>oscillator_model := model, mon_stop := False,
       disciplining_mode := config_get_bool_default config ''disciplining'' False, phase_error_supported := False,
       disciplining := \<lparr>clock_class = CLOCK_CLASS_UNCALIBRATED env, od_status = WARMUP env,
         current_phase_convergence_count = - 1, valid_phase_convergence_threshold = - 1,
         convergence_progress = 0, ready_for_holdover = False\<rparr>,
       ctrl_values := (ctrl_values m)\<lparr>fine_ctrl := - 1, coarse_ctrl := - 1\<rparr>,
       osc_attributes := \<lparr>osc_phase_error = 0, temperature = - 400000, locked = False\<rparr>,
       mon_gnss_info := (mon_gnss_info m)\<lparr>gi_antenna_power := - 1, gi_antenna_status := - 1, gi_leap_seconds := - 1,
         gi_fix := - 1, gi_fixOk := False, gi_lsChange := - 10, gi_satellites_count := - 1,
         gi_survey_mean_v := None, gi_time_accuracy := - 1\<rparr>\<rparr>"

definition monitoring_init ::
  "mon_init_env \<Rightarrow> config \<Rightarrow> devices_path option \<Rightarrow> int set \<Rightarrow> mon_handle option \<times> bool \<times> int set" where
  "monitoring_init env config devices fds =
     (case devices of
        None \<Rightarrow> (None, False, fds)
      | Some dp \<Rightarrow>
          if config_get config ''socket-port'' = None then (None, False, fds)
          else case mi_memory env of
                 None \<Rightarrow> (None, False, fds)
               | Some m \<Rightarrow>
                   (case config_get config ''oscillator'' of
                      None \<Rightarrow> (None, True, fds)
                    | Some model \<Rightarrow>
                        (case create_socket (mi_addresses env) fds of (sockfd, fds') \<Rightarrow>
                           if sockfd = - 1 then (None, False, fds')
                           else if \<not> mi_thread env then (None, False, fds' - {sockfd})
                           else (Some \<lparr>mh_monitoring = init_monitoring env config model m, mh_devices = dp,
                                       mh_sockfd = sockfd\<rparr>, True, fds'))))"

text \<open>Stopping: the flag the thread looks at after its next wait, then the socket and the structure.\<close>

definition monitoring_stop :: "mon_handle option \<Rightarrow> bool \<times> int set \<Rightarrow> bool \<times> int set" where
  "monitoring_stop handle heap =
     (case handle of None \<Rightarrow> heap | Some h \<Rightarrow> (False, snd heap - {mh_sockfd h}))"

section \<open>What initialisation gives\<close>

lemma first_listening_result:
  assumes "first_listening ts fds = (fd, fds')" "\<forall>t. t \<in> set ts \<longrightarrow> lt_socket t \<notin> fds"
  shows "if fd = - 1 then fds' = fds else 0 \<le> fd \<and> fd \<notin> fds \<and> fds' = insert fd fds"
  using assms by (induction ts) (auto simp: Let_def split: if_splits)

lemma first_listening_finds:
  "fst (first_listening ts fds) =
     (case find (\<lambda>t. 0 \<le> lt_socket t \<and> lt_reuse t \<and> lt_bind t \<and> lt_listen t) ts of
        None \<Rightarrow> - 1 | Some t \<Rightarrow> lt_socket t)"
  by (induction ts arbitrary: fds) (auto simp: Let_def)

lemma create_socket_result:
  assumes "create_socket a fds = (fd, fds')" "\<forall>ts t. a = Some ts \<longrightarrow> t \<in> set ts \<longrightarrow> lt_socket t \<notin> fds"
  shows "if fd = - 1 then fds' = fds else 0 \<le> fd \<and> fd \<notin> fds \<and> fds' = insert fd fds"
  using assms first_listening_result by (fastforce simp: create_socket_def split: option.splits)

text \<open>Creating the server, on every branch. A failure leaves no descriptor open, and it leaks the
  structure exactly when the configuration has a port but names no oscillator. A success has one more
  descriptor, listening, and shows no state of the oscillator or the receiver yet; stopping gives back
  the descriptor and the memory. But the request is never initialised: without a client, the first
  request the main loop takes is whatever the memory held.\<close>

theorem monitoring_init_outcome:
  assumes "monitoring_init env config devices fds = (h, heap, fds')"
    and "\<forall>ts t. mi_addresses env = Some ts \<longrightarrow> t \<in> set ts \<longrightarrow> lt_socket t \<notin> fds"
  shows "case h of
      None \<Rightarrow> fds' = fds \<and>
        (heap \<longleftrightarrow> devices \<noteq> None \<and> config_get config ''socket-port'' \<noteq> None \<and> mi_memory env \<noteq> None \<and>
           config_get config ''oscillator'' = None)
    | Some mh \<Rightarrow> heap \<and> 0 \<le> mh_sockfd mh \<and> mh_sockfd mh \<notin> fds \<and> fds' = insert (mh_sockfd mh) fds \<and>
        devices = Some (mh_devices mh) \<and>
        config_get config ''oscillator'' = Some (oscillator_model (mh_monitoring mh)) \<and>
        locked (osc_attributes (mh_monitoring mh)) = False \<and> gi_fixOk (mon_gnss_info (mh_monitoring mh)) = False \<and>
        monitoring_stop h (heap, fds') = (False, fds) \<and>
        fst (take_request (mh_monitoring mh)) = request (the (mi_memory env))"
proof (cases h)
  case None
  with assms show ?thesis
    by (auto simp: monitoring_init_def split: option.splits prod.splits if_splits
        dest!: create_socket_result [OF _ assms(2)])
next
  case (Some mh)
  with assms(1) obtain model m where i: "mi_memory env = Some m" "config_get config ''oscillator'' = Some model"
      "create_socket (mi_addresses env) fds = (mh_sockfd mh, fds')" "mh_sockfd mh \<noteq> - 1" "heap"
      "mh_monitoring mh = init_monitoring env config model m" "devices = Some (mh_devices mh)"
    by (auto simp: monitoring_init_def split: option.splits prod.splits if_splits)
  then show ?thesis
    using Some create_socket_result [OF i(3) assms(2)]
    by (auto simp: init_monitoring_def take_request_def monitoring_stop_def)
qed

text \<open>A stale number in the memory makes the main loop act on a request nobody sent.\<close>

definition sample_mon_config :: config where
  "sample_mon_config = \<lparr>argz = [''socket-port=2958'', ''oscillator=mRO50''], config_path = ''''\<rparr>"

definition sample_init_env :: mon_init_env where
  "sample_init_env = \<lparr>mi_memory = Some (sample_monitoring\<lparr>request := REQUEST_GNSS_COLD\<rparr>),
     mi_addresses = Some [\<lparr>lt_socket = 7, lt_reuse = True, lt_bind = False, lt_listen = True\<rparr>,
                          \<lparr>lt_socket = 8, lt_reuse = True, lt_bind = True, lt_listen = True\<rparr>],
     mi_thread = True, CLOCK_CLASS_UNCALIBRATED = 0, WARMUP = 0\<rparr>"

definition sample_mon_devices :: devices_path where
  "sample_mon_devices = \<lparr>disciplining_config_path = [], gnss_path = [], mac_path = [], mro_path = [],
     pps_path = [], ptp_path = [], temperature_table_path = []\<rparr>"

theorem monitoring_init_outcome_witness:
  "\<exists>mh. monitoring_init sample_init_env sample_mon_config (Some sample_mon_devices) {3} = (Some mh, True, {8, 3}) \<and>
     fst (take_request (mh_monitoring mh)) = REQUEST_GNSS_COLD"
proof -
  have g: "config_get sample_mon_config ''socket-port'' = Some ''2958''"
      "config_get sample_mon_config ''oscillator'' = Some ''mRO50''"
    by (simp_all add: config_get_def envz_get_def envz_entry_def envz_name_def sample_mon_config_def)
  have s: "mi_memory sample_init_env = Some (sample_monitoring\<lparr>request := REQUEST_GNSS_COLD\<rparr>)"
      "mi_thread sample_init_env" "create_socket (mi_addresses sample_init_env) {3} = (8, {8, 3})"
    by (auto simp: sample_init_env_def create_socket_def)
  obtain mh where i: "monitoring_init sample_init_env sample_mon_config (Some sample_mon_devices) {3} =
      (Some mh, True, {8, 3})"
    using g s by (simp add: monitoring_init_def)
  have f: "\<forall>ts t. mi_addresses sample_init_env = Some ts \<longrightarrow> t \<in> set ts \<longrightarrow> lt_socket t \<notin> {3}"
    by (simp add: sample_init_env_def)
  have m: "request (the (mi_memory sample_init_env)) = REQUEST_GNSS_COLD" by (simp add: sample_init_env_def)
  show ?thesis using monitoring_init_outcome [OF i f] i m by auto
qed

end
