(* ===== verification/MonitoringClient.thy ===== *)
theory MonitoringClient
  imports MonitoringInit
begin

text \<open>
  \<open>utils/art_monitoring_client.c\<close>: the command-line client of the monitoring server. \<open>client_main\<close> is the
  whole program: its options, the connection, the request and the answer, and what it prints. json-c is
  the parameter \<open>json_lib\<close>; its getters are given the item found under a key, \<open>None\<close> for a missing one.
  A null pointer given to \<open>%s\<close> is printed by the C library as such (\<open>Shown_str None\<close>); one given to
  \<open>strcmp\<close> ends the program (\<open>Crash\<close>), as does a text without terminator that is read past its buffer.
\<close>

section \<open>The library and the output\<close>

record 'f json_lib =
  jl_to_string :: "json \<Rightarrow> string"
  jl_parse :: "string \<Rightarrow> json option"
  jl_get_string :: "json option \<Rightarrow> string option"
  jl_get_int :: "json option \<Rightarrow> int"
  jl_get_boolean :: "json option \<Rightarrow> bool"
  jl_get_double :: "json option \<Rightarrow> 'f"

text \<open>A value as printed: \<open>%s\<close>, \<open>%d\<close>, \<open>%u\<close>, a truth value, a number with decimals, and the progress line.\<close>

datatype 'f shown = Shown_str "string option" | Shown_int int | Shown_unsigned int | Shown_bool bool
  | Shown_real 'f | Shown_progress 'f int int

type_synonym 'f report = "((string \<times> string) \<times> 'f shown) list"

datatype 'f client_result = Exit int "'f report" | Crash

text \<open>\<open>json_object_object_get_ex\<close>: the item of a key, nothing for a missing one or without an object.\<close>

definition get_ex :: "json option \<Rightarrow> string \<Rightarrow> json option" where
  "get_ex obj key = (case obj of Some (JObj kvs) \<Rightarrow> map_of kvs key | _ \<Rightarrow> None)"

section \<open>Options and connection\<close>

datatype client_option = Opt_a string | Opt_p string | Opt_r string | Opt_h | Opt_unknown

record client_options =
  co_request :: monitoring_request
  co_port :: "string option"
  co_addr :: "string option"

text \<open>The options in order; the left result is an exit code.\<close>

fun parse_options :: "client_option list \<Rightarrow> client_options \<Rightarrow> int + client_options" where
  "parse_options [] c = Inr c"
| "parse_options (Opt_a a # os) c = parse_options os (c\<lparr>co_addr := Some a\<rparr>)"
| "parse_options (Opt_p p # os) c = parse_options os (c\<lparr>co_port := Some p\<rparr>)"
| "parse_options (Opt_r r # os) c =
     (case client_request r of
        None \<Rightarrow> Inl (- 1) | Some req \<Rightarrow> parse_options os (c\<lparr>co_request := req\<rparr>))"
| "parse_options (Opt_h # os) c = Inl 0"
| "parse_options (Opt_unknown # os) c = Inl 1"

text \<open>One address: the descriptor, and whether \<open>connect\<close> succeeds. The result is the connected one.\<close>

fun client_connect :: "(int \<times> bool) list \<Rightarrow> int option" where
  "client_connect [] = None"
| "client_connect ((fd, ok) # as) = (if fd < 0 \<or> \<not> ok then client_connect as else Some fd)"

text \<open>Sending a request and receiving the answer. \<open>net\<close>: what a single \<open>recv\<close> of 2048 bytes delivers for a
  text that was sent, \<open>None\<close> when sending or receiving fails; \<open>memory\<close>: the 2048 bytes of the buffer
  before. The result is \<open>None\<close> when the text in the buffer has no end.\<close>

definition json_send_and_receive ::
  "'f json_lib \<Rightarrow> (string \<Rightarrow> string option) \<Rightarrow> string \<Rightarrow> monitoring_request \<Rightarrow> json option option" where
  "json_send_and_receive lib net memory req =
     (case net (jl_to_string lib (JObj [(''request'', JInt (request_code req))])) of
        None \<Rightarrow> Some None
      | Some got \<Rightarrow>
          (let resp = got @ drop (length got) memory
           in if CHR 0x00 \<in> set resp then Some (jl_parse lib (c_string resp)) else None))"

section \<open>The report\<close>

definition line :: "string \<Rightarrow> string \<Rightarrow> 'f shown \<Rightarrow> (string \<times> string) \<times> 'f shown" where
  "line sec key v = ((sec, key), v)"

definition report_disciplining :: "'f json_lib \<Rightarrow> json option \<Rightarrow> 'f report option" where
  "report_disciplining lib obj =
     (case get_ex obj ''disciplining'' of
        None \<Rightarrow> Some []
      | Some l1 \<Rightarrow>
          (let item = get_ex (Some l1); status = jl_get_string lib (item ''status'');
               head = [line ''Disciplining'' ''Current status'' (Shown_str status),
                 line ''Disciplining'' ''tracking_only'' (Shown_str (jl_get_string lib (item ''tracking_only''))),
                 line ''Disciplining'' ''ready_for_holdover''
                   (Shown_str (jl_get_string lib (item ''ready_for_holdover'')))];
               progress = Shown_progress (jl_get_double lib (item ''convergence_progress''))
                 (jl_get_int lib (item ''current_phase_convergence_count''))
                 (jl_get_int lib (item ''valid_phase_convergence_threshold''))
           in case status of
                None \<Rightarrow> None
              | Some s \<Rightarrow>
                  Some (head @
                    (if s = ''TRACKING'' then [line ''Disciplining'' ''tracking convergence progress'' progress]
                     else if s = ''LOCK_LOW_RESOLUTION''
                     then [line ''Disciplining'' ''lock low resolution convergence progress'' progress]
                     else if s = ''LOCK_HIGH_RESOLUTION''
                     then [line ''Disciplining'' ''lock high resolution convergence progress'' progress]
                     else []))))"

definition report_oscillator :: "'f json_lib \<Rightarrow> json option \<Rightarrow> 'f report" where
  "report_oscillator lib obj =
     (case get_ex obj ''oscillator'' of
        None \<Rightarrow> []
      | Some l1 \<Rightarrow>
          (let item = get_ex (Some l1)
           in [line ''Oscillator'' ''model'' (Shown_str (jl_get_string lib (item ''model''))),
               line ''Oscillator'' ''fine_ctrl'' (Shown_unsigned (to_u32 (jl_get_int lib (item ''fine_ctrl'')))),
               line ''Oscillator'' ''coarse_ctrl'' (Shown_unsigned (to_u32 (jl_get_int lib (item ''coarse_ctrl'')))),
               line ''Oscillator'' ''lock'' (Shown_bool (jl_get_boolean lib (item ''lock''))),
               line ''Oscillator'' ''temperature'' (Shown_real (jl_get_double lib (item ''temperature'')))]))"

definition report_clock :: "'f json_lib \<Rightarrow> json option \<Rightarrow> 'f report" where
  "report_clock lib obj =
     (case get_ex obj ''clock'' of
        None \<Rightarrow> []
      | Some l1 \<Rightarrow>
          [line ''Clock'' ''class'' (Shown_str (jl_get_string lib (get_ex (Some l1) ''class''))),
           line ''Clock'' ''offset'' (Shown_int (jl_get_int lib (get_ex (Some l1) ''offset'')))])"

definition report_gnss :: "'f json_lib \<Rightarrow> json option \<Rightarrow> 'f report" where
  "report_gnss lib obj =
     (case get_ex obj ''gnss'' of
        None \<Rightarrow> []
      | Some l1 \<Rightarrow>
          (let item = get_ex (Some l1); unsigned = (\<lambda>k. Shown_unsigned (to_u32 (jl_get_int lib (item k))))
           in [line ''GNSS'' ''fix'' (unsigned ''fix''),
               line ''GNSS'' ''fixOk'' (Shown_bool (jl_get_boolean lib (item ''fixOk''))),
               line ''GNSS'' ''antenna_status'' (unsigned ''antenna_status''),
               line ''GNSS'' ''antenna_power'' (unsigned ''antenna_power''),
               line ''GNSS'' ''survey_in_position_error''
                 (Shown_real (jl_get_double lib (item ''survey_in_position_error''))),
               line ''GNSS'' ''lsChange'' (unsigned ''lsChange''),
               line ''GNSS'' ''leap_seconds'' (unsigned ''leap_seconds'')]))"

definition report_parameters :: "'f json_lib \<Rightarrow> json option \<Rightarrow> 'f report" where
  "report_parameters lib obj =
     (case get_ex obj ''disciplining_parameters'' of
        None \<Rightarrow> []
      | Some l1 \<Rightarrow>
          (case get_ex (Some l1) ''calibration_parameters'' of
             None \<Rightarrow> []
           | Some l2 \<Rightarrow>
               map (\<lambda>k. line ''Calibration parameters'' k
                      (if k \<in> {''ctrl_load_nodes'', ''ctrl_drift_coeffs'', ''calibration_valid'',
                               ''ctrl_load_nodes_factory'', ''ctrl_drift_coeffs_factory''}
                       then Shown_str (jl_get_string lib (get_ex (Some l2) k))
                       else Shown_int (jl_get_int lib (get_ex (Some l2) k))))
                 [''ctrl_nodes_length'', ''ctrl_load_nodes'', ''ctrl_drift_coeffs'', ''coarse_equilibrium'',
                  ''calibration_date'', ''calibration_valid'', ''ctrl_nodes_length_factory'',
                  ''ctrl_load_nodes_factory'', ''ctrl_drift_coeffs_factory'', ''coarse_equilibrium_factory'',
                  ''estimated_equilibrium_ES'']) @
          (case get_ex (Some l1) ''temperature_table'' of
             Some (JObj kvs) \<Rightarrow> map (\<lambda>(k, v). line ''Temperature table'' k (Shown_str (jl_get_string lib (Some v)))) kvs
           | _ \<Rightarrow> []))"

definition report_action :: "'f json_lib \<Rightarrow> json option \<Rightarrow> 'f report" where
  "report_action lib obj =
     (case get_ex obj ''Action requested'' of
        None \<Rightarrow> [] | Some l1 \<Rightarrow> [line ''Action'' ''Action requested'' (Shown_str (jl_get_string lib (Some l1)))])"

text \<open>The program ends with success whatever it received.\<close>

definition client_report :: "'f json_lib \<Rightarrow> json option \<Rightarrow> 'f client_result" where
  "client_report lib obj =
     (case report_disciplining lib obj of
        None \<Rightarrow> Crash
      | Some d \<Rightarrow> Exit 0 (d @ report_oscillator lib obj @ report_clock lib obj @ report_gnss lib obj @
                         report_parameters lib obj @ report_action lib obj))"

text \<open>\<open>addresses\<close>: what \<open>getaddrinfo\<close> finds, \<open>None\<close> for a failure.\<close>

definition client_main ::
  "'f json_lib \<Rightarrow> client_option list \<Rightarrow> (int \<times> bool) list option \<Rightarrow> (string \<Rightarrow> string option) \<Rightarrow> string \<Rightarrow>
   'f client_result" where
  "client_main lib opts addresses net memory =
     (case parse_options opts \<lparr>co_request = REQUEST_NONE, co_port = None, co_addr = None\<rparr> of
        Inl code \<Rightarrow> Exit code []
      | Inr c \<Rightarrow>
          if co_port c = None then Exit 1 []
          else (case addresses of
                  None \<Rightarrow> Exit 1 []
                | Some as \<Rightarrow>
                    if client_connect as = None then Exit 1 []
                    else (case json_send_and_receive lib net memory (co_request c) of
                            None \<Rightarrow> Crash
                          | Some obj \<Rightarrow> client_report lib obj)))"

section \<open>Client and server\<close>

text \<open>What the getters of the library are documented to return.\<close>

definition getters_ok :: "'f json_lib \<Rightarrow> bool" where
  "getters_ok lib \<longleftrightarrow> jl_get_string lib None = None \<and> (\<forall>s. jl_get_string lib (Some (JStr s)) = Some s) \<and>
     (\<forall>n. fits_i32 n \<longrightarrow> jl_get_int lib (Some (JInt n)) = n) \<and> (\<forall>b. jl_get_boolean lib (Some (JBool b)) = b)"

text \<open>The integers of the receiver's state as their C types hold them.\<close>

definition gnss_fits :: "gnss_state \<Rightarrow> bool" where
  "gnss_fits g \<longleftrightarrow> fits_i32 (gi_fix g) \<and> fits_i32 (gi_antenna_status g) \<and> fits_i32 (gi_antenna_power g) \<and>
     fits_i32 (gi_lsChange g) \<and> fits_i32 (gi_leap_seconds g)"

text \<open>The server at the other end of the connection: it accepts the peer, reads the text, answers, and a
  single \<open>recv\<close> of the client takes the first 2048 bytes.\<close>

definition RESP_SIZE :: nat where "RESP_SIZE = 2048"

definition serve :: "mon_env \<Rightarrow> nat \<Rightarrow> monitoring \<Rightarrow> string \<Rightarrow> mon_sys" where
  "serve env fd mo m = fold (mon_event env) [EvAccept fd, EvIn fd (RecvData m), EvOut fd True] (mon_start mo)"

definition server_net :: "'f json_lib \<Rightarrow> mon_env \<Rightarrow> nat \<Rightarrow> monitoring \<Rightarrow> string \<Rightarrow> string option" where
  "server_net lib env fd mo m =
     (case responses (serve env fd mo m) of
        [] \<Rightarrow> None | (_, resp) # _ \<Rightarrow> Some (take RESP_SIZE (jl_to_string lib (JObj resp))))"

lemma response_items:
  "map_of (fst (build_response env r m)) ''oscillator'' = Some (snd (json_add_oscillator_data m))"
  "map_of (fst (build_response env r m)) ''clock'' = Some (snd (json_add_clock_data (class_name env) m))"
  "map_of (fst (build_response env r m)) ''gnss'' = Some (snd (json_add_gnss_data (svin_error env) m))"
  "map_of (fst (build_response env r m)) ''disciplining'' =
     (if disciplining_mode m \<or> phase_error_supported m
      then Some (snd (json_add_disciplining_data (status_name env) m)) else None)"
  by (cases r; simp add: build_response_def json_handle_request_def Let_def json_add_oscillator_data_def
      json_add_clock_data_def json_add_gnss_data_def json_add_disciplining_data_def split: option.split)+

lemma to_u32_i32 [simp]: "to_u32 (to_i32 x) = to_u32 x"
  by (simp add: to_u32_def to_i32_def mod_diff_left_eq)

text \<open>The lines the client shows for a server.\<close>

definition shows_server :: "'f json_lib \<Rightarrow> mon_env \<Rightarrow> monitoring \<Rightarrow> 'f report \<Rightarrow> bool" where
  "shows_server lib env m rep \<longleftrightarrow>
     (let at = (\<lambda>sec key. map_of rep (sec, key)); g = mon_gnss_info m
      in at ''Oscillator'' ''model'' = Some (Shown_str (Some (oscillator_model m))) \<and>
         at ''Oscillator'' ''fine_ctrl'' = Some (Shown_unsigned (to_u32 (fine_ctrl (ctrl_values m)))) \<and>
         at ''Oscillator'' ''coarse_ctrl'' = Some (Shown_unsigned (to_u32 (coarse_ctrl (ctrl_values m)))) \<and>
         at ''Oscillator'' ''lock'' = Some (Shown_bool (locked (osc_attributes m))) \<and>
         at ''Clock'' ''class'' = Some (Shown_str (Some (class_name env (clock_class (disciplining m))))) \<and>
         at ''Clock'' ''offset'' = Some (Shown_int (to_i32 (osc_phase_error (osc_attributes m)))) \<and>
         at ''GNSS'' ''fix'' = Some (Shown_unsigned (to_u32 (gi_fix g))) \<and>
         at ''GNSS'' ''fixOk'' = Some (Shown_bool (gi_fixOk g)) \<and>
         at ''GNSS'' ''antenna_status'' = Some (Shown_unsigned (to_u32 (gi_antenna_status g))) \<and>
         at ''GNSS'' ''antenna_power'' = Some (Shown_unsigned (to_u32 (gi_antenna_power g))) \<and>
         at ''GNSS'' ''lsChange'' = Some (Shown_unsigned (to_u32 (gi_lsChange g))) \<and>
         at ''GNSS'' ''leap_seconds'' = Some (Shown_unsigned (to_u32 (gi_leap_seconds g))) \<and>
         at ''Disciplining'' ''Current status'' =
           (if disciplining_mode m \<or> phase_error_supported m
            then Some (Shown_str (Some (status_name env (od_status (disciplining m))))) else None) \<and>
         at ''Disciplining'' ''tracking_only'' =
           (if disciplining_mode m \<or> phase_error_supported m then Some (Shown_str None) else None))"

lemma other_sections:
  "sec \<noteq> ''Oscillator'' \<Longrightarrow> map_of (report_oscillator lib obj) (sec, k) = None"
  "sec \<noteq> ''Clock'' \<Longrightarrow> map_of (report_clock lib obj) (sec, k) = None"
  "sec \<noteq> ''GNSS'' \<Longrightarrow> map_of (report_gnss lib obj) (sec, k) = None"
  "sec \<noteq> ''Action'' \<Longrightarrow> map_of (report_action lib obj) (sec, k) = None"
  by (simp_all add: report_oscillator_def report_clock_def report_gnss_def report_action_def line_def Let_def
      split: option.split)

lemma get_ex_obj [simp]: "get_ex (Some (JObj kvs)) k = map_of kvs k" "get_ex None k = None"
  by (simp_all add: get_ex_def)

lemma reported_oscillator:
  assumes "getters_ok lib"
  shows "report_oscillator lib (Some (JObj (fst (build_response env r m)))) =
    [line ''Oscillator'' ''model'' (Shown_str (Some (oscillator_model m))),
     line ''Oscillator'' ''fine_ctrl'' (Shown_unsigned (to_u32 (fine_ctrl (ctrl_values m)))),
     line ''Oscillator'' ''coarse_ctrl'' (Shown_unsigned (to_u32 (coarse_ctrl (ctrl_values m)))),
     line ''Oscillator'' ''lock'' (Shown_bool (locked (osc_attributes m))),
     line ''Oscillator'' ''temperature'' (Shown_real (jl_get_double lib (Some (JFix (temperature (osc_attributes m))))))]"
  using assms by (simp add: report_oscillator_def response_items json_add_oscillator_data_def getters_ok_def Let_def)

lemma reported_clock:
  assumes "getters_ok lib"
  shows "report_clock lib (Some (JObj (fst (build_response env r m)))) =
    [line ''Clock'' ''class'' (Shown_str (Some (class_name env (clock_class (disciplining m))))),
     line ''Clock'' ''offset'' (Shown_int (to_i32 (osc_phase_error (osc_attributes m))))]"
  using assms by (simp add: report_clock_def response_items json_add_clock_data_def getters_ok_def)

lemma reported_gnss:
  assumes "getters_ok lib" "gnss_fits (mon_gnss_info m)"
  shows "report_gnss lib (Some (JObj (fst (build_response env r m)))) =
    (let g = mon_gnss_info m
     in [line ''GNSS'' ''fix'' (Shown_unsigned (to_u32 (gi_fix g))),
         line ''GNSS'' ''fixOk'' (Shown_bool (gi_fixOk g)),
         line ''GNSS'' ''antenna_status'' (Shown_unsigned (to_u32 (gi_antenna_status g))),
         line ''GNSS'' ''antenna_power'' (Shown_unsigned (to_u32 (gi_antenna_power g))),
         line ''GNSS'' ''survey_in_position_error''
           (Shown_real (jl_get_double lib (Some (JInt (svin_error env (gi_survey_mean_v g)))))),
         line ''GNSS'' ''lsChange'' (Shown_unsigned (to_u32 (gi_lsChange g))),
         line ''GNSS'' ''leap_seconds'' (Shown_unsigned (to_u32 (gi_leap_seconds g)))])"
  using assms by (simp add: report_gnss_def response_items json_add_gnss_data_def getters_ok_def gnss_fits_def Let_def)

lemma reported_disciplining:
  assumes "getters_ok lib"
  shows "\<exists>d. report_disciplining lib (Some (JObj (fst (build_response env r m)))) = Some d \<and>
    (\<forall>sec k. sec \<noteq> ''Disciplining'' \<longrightarrow> map_of d (sec, k) = None) \<and>
    map_of d (''Disciplining'', ''Current status'') =
      (if disciplining_mode m \<or> phase_error_supported m
       then Some (Shown_str (Some (status_name env (od_status (disciplining m))))) else None) \<and>
    map_of d (''Disciplining'', ''tracking_only'') =
      (if disciplining_mode m \<or> phase_error_supported m then Some (Shown_str None) else None)"
  using assms by (simp add: report_disciplining_def response_items json_add_disciplining_data_def getters_ok_def
      line_def Let_def)

lemma parameters_sections:
  "sec \<noteq> ''Calibration parameters'' \<Longrightarrow> sec \<noteq> ''Temperature table'' \<Longrightarrow>
     map_of (report_parameters lib obj) (sec, k) = None"
  by (auto simp: report_parameters_def line_def map_of_eq_None_iff split: option.split json.split)

lemma reported:
  assumes "getters_ok lib" "gnss_fits (mon_gnss_info m)"
  shows "\<exists>rep. client_report lib (Some (JObj (fst (build_response env r m)))) = Exit 0 rep \<and>
    shows_server lib env m rep"
proof -
  let ?j = "Some (JObj (fst (build_response env r m)))"
  obtain d where d: "report_disciplining lib ?j = Some d"
      "\<forall>sec k. sec \<noteq> ''Disciplining'' \<longrightarrow> map_of d (sec, k) = None"
      "map_of d (''Disciplining'', ''Current status'') =
        (if disciplining_mode m \<or> phase_error_supported m
         then Some (Shown_str (Some (status_name env (od_status (disciplining m))))) else None)"
      "map_of d (''Disciplining'', ''tracking_only'') =
        (if disciplining_mode m \<or> phase_error_supported m then Some (Shown_str None) else None)"
    using reported_disciplining [OF assms(1)] by blast
  define rest where "rest = report_parameters lib ?j @ report_action lib ?j"
  have rest: "map_of rest (''Disciplining'', k) = None" for k
    by (simp add: rest_def map_add_def parameters_sections other_sections)
  have "client_report lib ?j = Exit 0 (d @ report_oscillator lib ?j @ report_clock lib ?j @ report_gnss lib ?j @ rest)"
    by (simp add: client_report_def d(1) rest_def)
  then show ?thesis
    using d(2-4) rest
    by (simp add: shows_server_def Let_def reported_oscillator [OF assms(1)] reported_clock [OF assms(1)]
        reported_gnss [OF assms] line_def map_add_def)
qed

lemma received_text:
  assumes "length memory = RESP_SIZE" "length t < RESP_SIZE" "CHR 0x00 \<notin> set t" "memory ! length t = CHR 0x00"
  shows "CHR 0x00 \<in> set (take RESP_SIZE t @ drop (length (take RESP_SIZE t)) memory)"
    and "c_string (take RESP_SIZE t @ drop (length (take RESP_SIZE t)) memory) = t"
proof -
  have d: "drop (length t) memory = CHR 0x00 # drop (Suc (length t)) memory"
    using assms(1,2,4) by (metis Cons_nth_drop_Suc)
  show "CHR 0x00 \<in> set (take RESP_SIZE t @ drop (length (take RESP_SIZE t)) memory)"
    using assms(2) by (simp add: d)
  show "c_string (take RESP_SIZE t @ drop (length (take RESP_SIZE t)) memory) = t"
    using assms(2,3) by (subst c_string_def) (auto simp: d takeWhile_tail)
qed

text \<open>C4. The client from end to end. With a request it knows, a port and an address that accepts, it
  sends a message that the server answers and hands to the main loop; and when the answer fits the
  buffer, followed there by a NUL, the client ends with success and shows the state of the server: the
  control values and the lock of the oscillator, class and offset of the clock, the receiver's fix,
  antenna and leap seconds, and the state of the algorithm when there is one. Negative numbers of the
  receiver come out as unsigned ones, and \<open>tracking_only\<close>, which the server never sends, as a null
  pointer.\<close>

theorem client_shows_server:
  assumes "client_request name = Some r" "client_connect addresses = Some cfd" "fd < MAXFDS"
    and "msg = jl_to_string lib (JObj [(''request'', JInt (request_code r))])"
    and "whole_json (json_request env) msg" "json_request env msg = Some (request_code r)"
    and "answer = JObj (fst (build_response env r mo))" "jl_parse lib (jl_to_string lib answer) = Some answer"
    and "length (jl_to_string lib answer) < RESP_SIZE" "CHR 0x00 \<notin> set (jl_to_string lib answer)"
    and "length memory = RESP_SIZE" "memory ! length (jl_to_string lib answer) = CHR 0x00"
    and "getters_ok lib" "gnss_fits (mon_gnss_info mo)"
  shows "\<exists>rep. client_main lib [Opt_r name, Opt_p port] (Some addresses) (server_net lib env fd mo) memory = Exit 0 rep \<and>
    shows_server lib env mo rep \<and>
    fst (take_request (mon (serve env fd mo msg))) = (if r = REQUEST_READ_EEPROM then request mo else r)"
proof -
  have s: "responses (serve env fd mo msg) = [(fd, fst (build_response env r mo))]"
    "fst (take_request (mon (serve env fd mo msg))) = (if r = REQUEST_READ_EEPROM then request mo else r)"
    using client_request_served [OF assms(1,5,6,3), of mo] by (simp_all add: serve_def Let_def)
  have n: "server_net lib env fd mo msg = Some (take RESP_SIZE (jl_to_string lib answer))"
    using s(1) by (simp add: server_net_def assms(7))
  have "json_send_and_receive lib (server_net lib env fd mo) memory r = Some (Some answer)"
    using received_text [OF assms(11,9,10,12)] assms(8) n
    by (simp add: json_send_and_receive_def assms(4) [symmetric] Let_def)
  then have "client_main lib [Opt_r name, Opt_p port] (Some addresses) (server_net lib env fd mo) memory =
      client_report lib (Some answer)"
    using assms(1,2) by (simp add: client_main_def)
  then show ?thesis using reported [OF assms(13,14), of env r] s(2) by (simp add: assms(7))
qed

text \<open>A failure on the connection is a success of the program: without an answer it shows nothing and
  returns 0.\<close>

theorem client_failure_passes:
  assumes "client_request name = Some r" "client_connect addresses = Some cfd"
  shows "client_main lib [Opt_r name, Opt_p port] (Some addresses) (\<lambda>_. None) memory = Exit 0 []"
  using assms by (simp add: client_main_def json_send_and_receive_def client_report_def report_disciplining_def
      report_oscillator_def report_clock_def report_gnss_def report_parameters_def report_action_def)

section \<open>A concrete client\<close>

definition sample_answer :: json where
  "sample_answer = JObj (fst (build_response sample_env REQUEST_GNSS_STOP sample_monitoring))"

definition sample_lib :: "int json_lib" where
  "sample_lib = \<lparr>jl_to_string = (\<lambda>j. if j = JObj [(''request'', JInt 3)] then sample_text else ''{}''),
     jl_parse = (\<lambda>s. if s = ''{}'' then Some sample_answer else None),
     jl_get_string = (\<lambda>j. case j of Some (JStr s) \<Rightarrow> Some s | _ \<Rightarrow> None),
     jl_get_int = (\<lambda>j. case j of Some (JInt n) \<Rightarrow> n | _ \<Rightarrow> 0),
     jl_get_boolean = (\<lambda>j. case j of Some (JBool b) \<Rightarrow> b | _ \<Rightarrow> False),
     jl_get_double = (\<lambda>j. case j of Some (JFix n) \<Rightarrow> n | _ \<Rightarrow> 0)\<rparr>"

theorem client_shows_server_witness:
  "\<exists>rep. client_main sample_lib [Opt_r ''gnss_stop'', Opt_p ''2958''] (Some [(- 1, False), (4, True)])
       (server_net sample_lib sample_env 5 sample_monitoring) (replicate 2048 (CHR 0x00)) = Exit 0 rep \<and>
     map_of rep (''Oscillator'', ''model'') = Some (Shown_str (Some ''mRO50'')) \<and>
     map_of rep (''Disciplining'', ''tracking_only'') = Some (Shown_str None)"
proof -
  have c: "client_request ''gnss_stop'' = Some REQUEST_GNSS_STOP" by (simp add: client_request_def)
  have a: "client_connect [(- 1, False), (4, True)] = Some 4" by simp
  have code: "request_code REQUEST_GNSS_STOP = 3" by (simp add: request_code_def request_table_def)
  have m: "sample_text = jl_to_string sample_lib (JObj [(''request'', JInt (request_code REQUEST_GNSS_STOP))])"
    by (simp add: sample_lib_def code)
  have j: "json_request sample_env sample_text = Some (request_code REQUEST_GNSS_STOP)"
    by (simp add: sample_env_def code)
  have t: "jl_to_string sample_lib sample_answer = ''{}''"
    by (simp add: sample_lib_def sample_answer_def build_response_def json_handle_request_def)
  have p: "jl_parse sample_lib (jl_to_string sample_lib sample_answer) = Some sample_answer"
    unfolding t by (simp add: sample_lib_def)
  have f: "5 < MAXFDS" "length (jl_to_string sample_lib sample_answer) < RESP_SIZE"
      "CHR 0x00 \<notin> set (jl_to_string sample_lib sample_answer)"
      "length (replicate 2048 (CHR 0x00)) = RESP_SIZE"
      "replicate 2048 (CHR 0x00) ! length (jl_to_string sample_lib sample_answer) = CHR 0x00"
    by (simp_all add: MAXFDS_def RESP_SIZE_def t)
  have g: "getters_ok sample_lib" by (simp add: getters_ok_def sample_lib_def)
  have v: "gnss_fits (mon_gnss_info sample_monitoring)"
    by (simp add: gnss_fits_def sample_monitoring_def gnss_mirror_def sample_session_def fits_i32_def)
  obtain rep where r: "client_main sample_lib [Opt_r ''gnss_stop'', Opt_p ''2958''] (Some [(- 1, False), (4, True)])
       (server_net sample_lib sample_env 5 sample_monitoring) (replicate 2048 (CHR 0x00)) = Exit 0 rep"
    "shows_server sample_lib sample_env sample_monitoring rep"
    using client_shows_server [OF c a f(1) m sample_text_whole j sample_answer_def p f(2-5) g v] by blast
  then show ?thesis by (simp add: shows_server_def Let_def) (simp add: sample_monitoring_def)
qed

end
