(* ===== verification/GnssTypes.thy ===== *)
theory GnssTypes
  imports MonitoringClient
begin

text \<open>
  The ranges of the receiver's data: the fields of a message have the widths of the protocol, and the
  thread of \<open>src/gnss.c\<close> keeps what it derives from them in the types of \<open>src/gnss.h\<close>, up to what the
  monitoring server puts into 32-bit numbers.
\<close>

section \<open>Ranges\<close>

definition fits_u8 :: "int \<Rightarrow> bool" where "fits_u8 x \<longleftrightarrow> 0 \<le> x \<and> x < 256"
definition fits_i8 :: "int \<Rightarrow> bool" where "fits_i8 x \<longleftrightarrow> - 128 \<le> x \<and> x < 128"

lemma fits_wider: "fits_u8 x \<Longrightarrow> fits_i32 x" "fits_i8 x \<Longrightarrow> fits_i32 x"
  by (simp_all add: fits_u8_def fits_i8_def fits_i32_def)

text \<open>A quantisation error that was accepted: within the threshold, or the one number whose absolute value
  is not an \<open>int\<close>.\<close>

definition qerr_range :: "int \<Rightarrow> bool" where
  "qerr_range q \<longleftrightarrow> \<bar>q\<bar> \<le> QERR_ABS_THRESHOLD_PS \<or> q = - (2 ^ 31)"

definition leap_values :: "int set" where
  "leap_values = {LEAP_NOWARNING, LEAP_ADDSECOND, LEAP_DELSECOND}"

definition session_typed :: "gps_session \<Rightarrow> bool" where
  "session_typed s \<longleftrightarrow>
     (let c = gs_context s
      in fits_i8 (leap_seconds c) \<and> fits_i8 (lsChange c) \<and> gc_leap_notify c \<in> leap_values \<and>
         qerr_range (qErr c) \<and> qerr_range (qErr_last_epoch c) \<and> fits_u8 (gs_fix s) \<and>
         fits_u8 (satellites_count s) \<and> fits_i8 (antenna_status s) \<and> fits_i8 (antenna_power s) \<and>
         fits_i32 (tai_time s))"

definition state_typed :: "gnss_state \<Rightarrow> bool" where
  "state_typed i \<longleftrightarrow> gnss_fits i \<and> fits_i32 (gi_satellites_count i)"

definition msg_typed :: "ubx_msg \<Rightarrow> bool" where
  "msg_typed msg =
     (case msg of
        MonRf ok blocks \<Rightarrow> list_all (\<lambda>b. fits_u8 (fst b) \<and> fits_u8 (snd b)) blocks
      | NavTimels ok m \<Rightarrow> fits_i8 (tl_currLs m) \<and> fits_i8 (tl_lsChange m)
      | TimTp ok m \<Rightarrow> fits_i32 (tp_qErr m)
      | _ \<Rightarrow> True)"

definition input_typed :: "gnss_input \<Rightarrow> bool" where
  "input_typed inp =
     (case inp of
        RxTimeout \<Rightarrow> True
      | RxEpoch now e \<Rightarrow> fits_u8 (numSv e) \<and> fits_u8 (ep_fix e)
      | RxMsg msg \<Rightarrow> msg_typed msg)"

definition event_typed :: "gnss_event \<Rightarrow> bool" where
  "event_typed e = (case e of GnssIter inp \<Rightarrow> input_typed inp | _ \<Rightarrow> True)"

section \<open>Every handler keeps the ranges\<close>

lemma reset_typed: "session_typed s \<Longrightarrow> session_typed (gnss_reset_session_navigation_data s)"
  by (simp add: session_typed_def gnss_reset_session_navigation_data_def NO_FIX_def fits_u8_def Let_def)

lemma epoch_typed:
  assumes "session_typed s" "fits_u8 (numSv e)" "fits_u8 (ep_fix e)"
  shows "session_typed (collect_epoch now e s)"
  using assms
  by (simp add: session_typed_def collect_epoch_def gnss_get_satellites_def ntp_latch_def NO_FIX_def fits_u8_def Let_def)

lemma timels_typed:
  assumes "session_typed s" "fits_i8 (tl_currLs m)" "fits_i8 (tl_lsChange m)"
  shows "session_typed (s\<lparr>gs_context := gnss_parse_ubx_nav_timels ok m (gs_context s)\<rparr>)"
  using assms
  by (auto simp: session_typed_def gnss_parse_ubx_nav_timels_def leap_values_def fits_i8_def Let_def)

lemma qerr_accepted:
  assumes "fits_i32 q" "\<not> to_i32 \<bar>q\<bar> > QERR_ABS_THRESHOLD_PS"
  shows "qerr_range q"
proof (cases "q = - (2 ^ 31)")
  case False
  then have "fits_i32 \<bar>q\<bar>" using assms(1) by (auto simp: fits_i32_def)
  then show ?thesis using assms(2) by (simp add: to_i32_id qerr_range_def)
qed (simp add: qerr_range_def)

lemma tim_tp_typed:
  assumes "session_typed s" "fits_i32 (tp_qErr m)"
  shows "session_typed (gnss_parse_ubx_tim_tp ok m s)"
proof -
  have "qerr_range 0" by (simp add: qerr_range_def QERR_ABS_THRESHOLD_PS_def)
  then show ?thesis
    using assms qerr_accepted [OF assms(2)]
    by (auto simp: session_typed_def gnss_parse_ubx_tim_tp_def Let_def split: option.split)
qed

lemma fits_i8_to_i8 [simp]: "fits_i8 (to_i8 x)"
  by (simp add: fits_i8_def to_i8_def)

lemma antenna_typed:
  "session_typed s \<Longrightarrow> list_all (\<lambda>b. fits_u8 (fst b) \<and> fits_u8 (snd b)) blocks \<Longrightarrow>
     session_typed (fold antenna_block blocks s)"
  by (induction blocks arbitrary: s) (simp_all add: session_typed_def antenna_block_def worst_def Let_def)

lemma handle_ubx_typed:
  assumes "session_typed s" "msg_typed msg"
  shows "session_typed (snd (handle_ubx msg s))"
proof (cases msg)
  case (MonRf ok blocks)
  have "session_typed (s\<lparr>antenna_status := ANT_UNDEFINED, antenna_power := ANT_UNDEFINED\<rparr>)"
    using assms(1) by (simp add: session_typed_def ANT_UNDEFINED_def fits_i8_def Let_def)
  then have "session_typed (gnss_get_antenna_data ok blocks s)"
    using assms MonRf antenna_typed by (simp add: gnss_get_antenna_data_def msg_typed_def)
  then show ?thesis by (simp add: MonRf handle_ubx_def reset_typed Let_def)
next
  case (NavTimels ok m)
  then show ?thesis using assms timels_typed by (simp add: handle_ubx_def msg_typed_def)
next
  case (TimTp ok m)
  then show ?thesis using assms tim_tp_typed by (simp add: handle_ubx_def msg_typed_def)
next
  case (TimSvin ok m)
  then show ?thesis using assms(1)
    by (simp add: handle_ubx_def gnss_parse_ubx_tim_svin_def session_typed_def Let_def)
next
  case OtherMsg
  then show ?thesis using assms(1) by (simp add: handle_ubx_def)
qed

lemma receive_typed:
  assumes "session_typed (session g)" "input_typed inp"
  shows "session_typed (session (snd (gnss_receive inp g)))"
  using assms
  by (cases inp) (simp_all add: gnss_receive_def input_typed_def reset_typed epoch_typed handle_ubx_typed
      Let_def case_prod_beta)

lemma mirror_typed: "session_typed s \<Longrightarrow> state_typed (gnss_mirror s)"
  by (simp add: session_typed_def state_typed_def gnss_fits_def gnss_mirror_def fits_wider Let_def)

section \<open>The thread\<close>

definition gnss_typed :: "gnss \<Rightarrow> bool" where
  "gnss_typed g \<longleftrightarrow> session_typed (session g) \<and> pred_option state_typed (gnss_info g)"

lemma gnss_thread_typed:
  assumes "gnss_typed (snd st)" "event_typed e"
  shows "gnss_typed (snd (gnss_thread e st))"
proof (cases e)
  case (GnssIter inp)
  then have "session_typed (session (snd (gnss_receive inp (snd st))))"
    using assms receive_typed by (simp add: gnss_typed_def event_typed_def)
  then have "gnss_typed (snd (gnss_iter inp (snd st)))"
    by (simp add: gnss_typed_def gnss_iter_eq Let_def mirror_typed option.pred_map comp_def option.pred_True)
  then show ?thesis using assms(1) GnssIter by (simp add: gnss_thread_def case_prod_beta)
qed (use assms(1) in \<open>simp_all add: gnss_thread_def gnss_typed_def gnss_set_action_eq gnss_request_stop_def case_prod_beta\<close>)

text \<open>The server's own copy starts with numbers that fit as well.\<close>

lemma initial_state_typed: "state_typed (mon_gnss_info (init_monitoring env config model m))"
  by (simp add: state_typed_def gnss_fits_def init_monitoring_def fits_i32_def)


definition sample_receiver :: gnss where
  "sample_receiver = \<lparr>session = sample_session, action = GNSS_ACTION_NONE, gnss_stop_flag = False,
     gnss_running = True, gnss_info = Some (gnss_mirror sample_session), data_signals = 0, time_signals = 0\<rparr>"


end
