(* ===== verification/Sa3x.thy ===== *)
theory Sa3x
  imports Oscillator CStr
begin

text \<open>
  \<open>src/oscillators/sa3x_oscillator.c\<close>: the driver of the SA3x, which asks the device for one line of
  telemetry and keeps it for \<open>SETTLING_TIME\<close> seconds (a constant of liboscillator-disciplining, the
  parameter \<open>settling\<close>). Writing, polling and reading are one input, \<open>sa3x_io\<close>, together with the two
  times of the monotonic clock.
\<close>

section \<open>Telemetry\<close>

record sa3x_attributes =
  bite :: char
  version :: string
  serial :: string
  teccontrol :: int
  rfcontrol :: int
  ddscurrent :: int
  cellcurrent :: int
  dcsignal :: int
  sa3x_temperature :: int
  digitaltuning :: int
  analogtuningon :: char
  analogtuning :: int

text \<open>A conversion of the format gets the attributes and the rest of the line, and gives \<open>None\<close> where
  it does not match. A number is followed by a comma or ends the line; a name ends before a comma.\<close>

type_synonym conversion = "sa3x_attributes \<Rightarrow> string \<Rightarrow> (sa3x_attributes \<times> string) option"

definition conv_char :: "(char \<Rightarrow> sa3x_attributes \<Rightarrow> sa3x_attributes) \<Rightarrow> conversion" where
  "conv_char set_field a s = (case s of [] \<Rightarrow> None | c # cs \<Rightarrow> Some (set_field c a, cs))"

definition conv_name :: "(string \<Rightarrow> sa3x_attributes \<Rightarrow> sa3x_attributes) \<Rightarrow> conversion" where
  "conv_name set_field a s =
     (let n = takeWhile (\<lambda>c. c \<noteq> CHR '','') s
      in if n = [] then None else Some (set_field n a, drop (length n) s))"

definition conv_number :: "(int \<Rightarrow> sa3x_attributes \<Rightarrow> sa3x_attributes) \<Rightarrow> conversion" where
  "conv_number set_field a s =
     (case scan_int 10 s of None \<Rightarrow> None | Some (_, rest) \<Rightarrow> Some (set_field (to_i32 (fst (strtol s 10))) a, rest))"

definition telemetry :: "conversion list" where
  "telemetry =
     [conv_char (\<lambda>c a. a\<lparr>bite := c\<rparr>), conv_name (\<lambda>n a. a\<lparr>version := n\<rparr>), conv_name (\<lambda>n a. a\<lparr>serial := n\<rparr>),
      conv_number (\<lambda>v a. a\<lparr>teccontrol := v\<rparr>), conv_number (\<lambda>v a. a\<lparr>rfcontrol := v\<rparr>),
      conv_number (\<lambda>v a. a\<lparr>ddscurrent := v\<rparr>), conv_number (\<lambda>v a. a\<lparr>cellcurrent := v\<rparr>),
      conv_number (\<lambda>v a. a\<lparr>dcsignal := v\<rparr>), conv_number (\<lambda>v a. a\<lparr>sa3x_temperature := v\<rparr>),
      conv_number (\<lambda>v a. a\<lparr>digitaltuning := v\<rparr>), conv_char (\<lambda>c a. a\<lparr>analogtuningon := c\<rparr>),
      conv_number (\<lambda>v a. a\<lparr>analogtuning := v\<rparr>)]"

text \<open>The number of conversions done and the attributes, commas between the conversions; \<open>sscanf\<close> on an
  empty line is \<open>EOF\<close>.\<close>

fun scan_fields :: "conversion list \<Rightarrow> sa3x_attributes \<Rightarrow> string \<Rightarrow> nat \<Rightarrow> nat \<times> sa3x_attributes" where
  "scan_fields [] a s n = (n, a)"
| "scan_fields (f # fs) a s n =
     (case f a s of
        None \<Rightarrow> (n, a)
      | Some (a', rest) \<Rightarrow>
          (case rest of
             c # cs \<Rightarrow> if c = CHR '','' then scan_fields fs a' cs (Suc n) else (Suc n, a')
           | [] \<Rightarrow> (Suc n, a')))"

definition scan_telemetry :: "string \<Rightarrow> sa3x_attributes \<Rightarrow> int \<times> sa3x_attributes" where
  "scan_telemetry line a =
     (if line = [] then (- 1, a) else case scan_fields telemetry a line 0 of (n, a') \<Rightarrow> (int n, a'))"

section \<open>The driver\<close>

record sa3x_oscillator =
  sa3x_open :: bool
  sa3x_attr :: sa3x_attributes
  attr_time :: int

datatype sa3x_answer = CommandFailed | NoAnswer | PollFailed | ReadFailed | Telemetry string

record sa3x_io =
  time_before :: int
  sa3x_reply :: sa3x_answer
  time_after :: int

definition sa3x_timediff :: "int \<Rightarrow> int \<Rightarrow> int" where
  "sa3x_timediff ts0 ts1 = (if ts0 > ts1 then ts0 - ts1 else ts1 - ts0)"

text \<open>At most 128 bytes are read; the text ends at the first NUL. An empty read is a failure.\<close>

definition sa3x_oscillator_get_attributes ::
  "int \<Rightarrow> sa3x_io \<Rightarrow> sa3x_oscillator \<Rightarrow> sa3x_attributes option \<times> sa3x_oscillator" where
  "sa3x_oscillator_get_attributes settling io r =
     (if sa3x_timediff (time_before io) (attr_time r) < settling then (Some (sa3x_attr r), r)
      else case sa3x_reply io of
             Telemetry bytes \<Rightarrow>
               if bytes = [] then (None, r)
               else (case scan_telemetry (c_string (take 128 bytes)) (sa3x_attr r) of
                       (n, a) \<Rightarrow> if n < 9 then (None, r\<lparr>sa3x_attr := a\<rparr>)
                                else (Some a, r\<lparr>sa3x_attr := a, attr_time := time_after io\<rparr>))
           | _ \<Rightarrow> (None, r))"

definition sa3x_oscillator_get_ctrl ::
  "sa3x_oscillator \<Rightarrow> oscillator_ctrl \<Rightarrow> int \<times> oscillator_ctrl \<times> sa3x_oscillator" where
  "sa3x_oscillator_get_ctrl r ctrl = (0, ctrl\<lparr>fine_ctrl := 0, coarse_ctrl := 0\<rparr>, r)"

definition sa3x_oscillator_parse_attributes ::
  "int \<Rightarrow> sa3x_io \<Rightarrow> sa3x_oscillator \<Rightarrow> oscillator_attributes \<Rightarrow> int \<times> oscillator_attributes \<times> sa3x_oscillator" where
  "sa3x_oscillator_parse_attributes settling io r attributes =
     (case sa3x_oscillator_get_attributes settling io r of
        (Some a, r') \<Rightarrow> (0, attributes\<lparr>locked := (bite a = CHR 0x00), temperature := sa3x_temperature a\<rparr>, r')
      | (None, r') \<Rightarrow> (0, attributes\<lparr>temperature := - 400000, locked := False\<rparr>, r'))"

text \<open>The constructor: whether memory, the port and its attributes are available. All else is zero.\<close>

definition sa3x_oscillator_new :: "bool \<Rightarrow> bool \<Rightarrow> bool \<Rightarrow> sa3x_oscillator option" where
  "sa3x_oscillator_new mem opened attr =
     (if mem \<and> opened \<and> attr then
        Some \<lparr>sa3x_open = True,
              sa3x_attr = \<lparr>bite = CHR 0x00, version = [], serial = [], teccontrol = 0, rfcontrol = 0,
                ddscurrent = 0, cellcurrent = 0, dcsignal = 0, sa3x_temperature = 0, digitaltuning = 0,
                analogtuningon = CHR 0x00, analogtuning = 0\<rparr>,
              attr_time = 0\<rparr>
      else None)"

definition sa3x_class :: "int \<Rightarrow> sa3x_io \<Rightarrow> sa3x_oscillator osc_class" where
  "sa3x_class settling io =
     \<lparr>cls_name = ''sa3x'', cls_get_ctrl = Some sa3x_oscillator_get_ctrl, cls_save = None,
      cls_parse_attributes = Some (sa3x_oscillator_parse_attributes settling io), cls_apply_output = None,
      cls_get_phase_error = None, cls_get_disciplining_status = None, cls_push_gnss_info = None,
      cls_dac_max = 0, cls_dac_min = 0\<rparr>"

section \<open>What the driver reports\<close>

definition sa3x_rounds :: "int \<Rightarrow> sa3x_io list \<Rightarrow> sa3x_oscillator \<Rightarrow> sa3x_oscillator" where
  "sa3x_rounds settling ios r = fold (\<lambda>io r. snd (sa3x_oscillator_get_attributes settling io r)) ios r"

text \<open>The first conversion stores a character of the text, which is not NUL; the others leave it.\<close>

lemma scan_fields_bite:
  "\<forall>f \<in> set fs. \<forall>a s a' r. f a s = Some (a', r) \<longrightarrow> bite a' = bite a \<Longrightarrow> bite (snd (scan_fields fs a s n)) = bite a"
proof (induction fs a s n rule: scan_fields.induct)
  case (2 f fs a s n)
  show ?case
  proof (cases "f a s")
    case (Some p)
    obtain a' rest where p: "p = (a', rest)" by (cases p)
    with Some 2(2) have "bite a' = bite a" by simp blast
    then show ?thesis using 2 Some p by (cases rest) auto
  qed simp
qed simp

lemma tail_keeps_bite:
  "\<forall>f \<in> set (tl telemetry). \<forall>a s a' r. f a s = Some (a', r) \<longrightarrow> bite a' = bite a"
  by (auto simp: telemetry_def conv_name_def conv_number_def conv_char_def Let_def split: if_splits option.splits list.splits)

lemma telemetry_head: "telemetry = conv_char (\<lambda>c a. a\<lparr>bite := c\<rparr>) # tl telemetry"
  by (simp add: telemetry_def)

lemma scan_telemetry_bite:
  assumes "line \<noteq> []" "CHR 0x00 \<notin> set line"
  shows "bite (snd (scan_telemetry line a)) \<noteq> CHR 0x00"
proof -
  obtain c cs where l: "line = c # cs" "c \<noteq> CHR 0x00" using assms by (cases line) auto
  show ?thesis
    unfolding scan_telemetry_def
    by (subst telemetry_head)
      (use l scan_fields_bite [OF tail_keeps_bite] in \<open>auto simp: conv_char_def case_prod_beta split: list.split\<close>)
qed

definition sa3x_inv :: "sa3x_oscillator \<Rightarrow> bool" where
  "sa3x_inv r \<longleftrightarrow> (bite (sa3x_attr r) = CHR 0x00 \<longrightarrow> attr_time r = 0)"

lemma c_string_nul: "CHR 0x00 \<notin> set (c_string s)"
  by (auto simp: c_string_def dest: set_takeWhileD)

lemma get_attributes_inv:
  assumes "sa3x_inv r"
  shows "sa3x_inv (snd (sa3x_oscillator_get_attributes settling io r))"
proof (cases "sa3x_reply io")
  case (Telemetry bytes)
  let ?line = "c_string (take 128 bytes)"
  have "?line = [] \<or> bite (snd (scan_telemetry ?line (sa3x_attr r))) \<noteq> CHR 0x00"
    using scan_telemetry_bite c_string_nul by blast
  then show ?thesis
    using assms Telemetry
    by (auto simp: sa3x_oscillator_get_attributes_def sa3x_inv_def scan_telemetry_def [of "[]"] split: prod.split)
qed (use assms in \<open>simp_all add: sa3x_oscillator_get_attributes_def\<close>)

interpretation sa3x: machine "\<lambda>io r. snd (sa3x_oscillator_get_attributes settling io r)" sa3x_inv
  by unfold_locales (rule get_attributes_inv)

lemma scanned_bite:
  "\<not> fst (scan_telemetry (c_string bytes) a) < 9 \<Longrightarrow> bite (snd (scan_telemetry (c_string bytes) a)) \<noteq> CHR 0x00"
  using scan_telemetry_bite [of "c_string bytes" a] c_string_nul [of bytes]
  by (cases "c_string bytes = []") (auto simp: scan_telemetry_def)

lemma get_attributes_Some:
  assumes "sa3x_oscillator_get_attributes settling io r = (Some a, r')"
  shows "sa3x_attr r' = a \<and> (sa3x_timediff (time_before io) (attr_time r') < settling \<or>
      attr_time r' = time_after io \<and> bite a \<noteq> CHR 0x00)"
proof (cases "sa3x_timediff (time_before io) (attr_time r) < settling")
  case True
  then show ?thesis using assms by (auto simp: sa3x_oscillator_get_attributes_def)
next
  case False
  then obtain bytes where "sa3x_reply io = Telemetry bytes"
    using assms by (cases "sa3x_reply io") (simp_all add: sa3x_oscillator_get_attributes_def)
  then show ?thesis
    using assms False scanned_bite [of "take 128 bytes" "sa3x_attr r"]
    by (cases "scan_telemetry (c_string (take 128 bytes)) (sa3x_attr r)")
      (simp add: sa3x_oscillator_get_attributes_def split: if_splits, auto)
qed

text \<open>What the driver reports after any rounds: the call succeeds, with attributes that are younger
  than the settling time or just read, or with the substitute temperature and no lock. The
  oscillator is reported as locked only while the host has been up for less than the settling time
  and nothing was read: the flag is compared with NUL, and a character of the telemetry never is.\<close>

theorem sa3x_reports:
  assumes "sa3x_oscillator_new mem opened attr = Some r0" "r = sa3x_rounds settling ios r0"
    and "0 \<le> time_before io" "sa3x_oscillator_parse_attributes settling io r att = (ret, a, r')"
  shows "ret = 0 \<and> (locked a \<longrightarrow> time_before io < settling \<and> attr_time r' = 0) \<and>
    (temperature a = - 400000 \<and> \<not> locked a \<or>
     temperature a = sa3x_temperature (sa3x_attr r') \<and>
       (sa3x_timediff (time_before io) (attr_time r') < settling \<or> attr_time r' = time_after io))"
proof -
  have "sa3x_inv r0" using assms(1) by (auto simp: sa3x_oscillator_new_def sa3x_inv_def split: if_splits)
  then have inv: "sa3x_inv r" unfolding assms(2) sa3x_rounds_def by (rule sa3x.run_inv)
  show ?thesis
  proof (cases "fst (sa3x_oscillator_get_attributes settling io r)")
    case None
    then show ?thesis using assms(4) by (auto simp: sa3x_oscillator_parse_attributes_def case_prod_beta)
  next
    case (Some b)
    then have g: "sa3x_oscillator_get_attributes settling io r = (Some b, r')"
      using assms(4) by (auto simp: sa3x_oscillator_parse_attributes_def case_prod_beta prod_eq_iff split: option.splits)
    have "sa3x_inv r'" using get_attributes_inv [OF inv, of settling io] g by simp
    then show ?thesis
      using get_attributes_Some [OF g] assms(3,4) g
      by (auto simp: sa3x_oscillator_parse_attributes_def sa3x_inv_def sa3x_timediff_def split: if_splits)
  qed
qed

definition sample_telemetry :: sa3x_io where
  "sample_telemetry = \<lparr>time_before = 100, sa3x_reply = Telemetry ''0,1.1,S1,1,2,3,4,5,40000,7,1,9'', time_after = 101\<rparr>"

theorem sa3x_reports_witness:
  "case sa3x_oscillator_parse_attributes 5 sample_telemetry (the (sa3x_oscillator_new True True True))
      \<lparr>osc_phase_error = 0, temperature = 0, locked = True\<rparr> of (ret, a, r') \<Rightarrow> ret = 0 \<and> \<not> locked a"
proof -
  have n: "sa3x_oscillator_new True True True = Some (the (sa3x_oscillator_new True True True))"
    by (simp add: sa3x_oscillator_new_def)
  obtain ret a r' where p: "sa3x_oscillator_parse_attributes 5 sample_telemetry (the (sa3x_oscillator_new True True True))
      \<lparr>osc_phase_error = 0, temperature = 0, locked = True\<rparr> = (ret, a, r')" by (metis surj_pair)
  have r: "the (sa3x_oscillator_new True True True) = sa3x_rounds 5 [] (the (sa3x_oscillator_new True True True))"
    by (simp add: sa3x_rounds_def)
  have t: "0 \<le> time_before sample_telemetry" by (simp add: sample_telemetry_def)
  show ?thesis
    using sa3x_reports [OF n r t p] p by (simp add: sample_telemetry_def)
qed

end
