(* ===== verification/DscParams.thy ===== *)
theory DscParams
  imports Monitoring EepromConfig "HOL-Library.Monad_Syntax" "HOL-Library.AList"
begin

text \<open>
  The disciplining parameters on their way through the daemon: \<open>save_disciplining_parameters\<close> of
  \<open>src/oscillatord.c\<close> stores what the algorithm has learnt on the card, and the monitoring server reads
  the card for a client and shows it as an object (\<open>json_add_disciplining_disciplining_parameters\<close> of
  \<open>src/monitoring.c\<close>). The text is built in buffers on the stack; writing past one, or reading past an
  array, is \<open>None\<close>. The printing of floating-point numbers is the parameter \<open>printer\<close>.
\<close>

section \<open>Numbers as text\<close>

text \<open>\<open>%.2f\<close> of an entry, the range of temperatures of an index, \<open>%.1f\<close> of a tenth.\<close>

record 'd printer =
  fmt_two :: "'d \<Rightarrow> string"
  temperature_range :: "nat \<Rightarrow> string"
  fmt_tenth :: "int \<Rightarrow> string"

definition ARRAY_STR_SIZE :: nat where "ARRAY_STR_SIZE = 256"
definition ITEM_SIZE :: nat where "ITEM_SIZE = 32"

text \<open>\<open>s\<close>: what \<open>array_str\<close> holds before the index \<open>i\<close>; a text needs its terminator as well.\<close>

fun float_items :: "('d \<Rightarrow> string) \<Rightarrow> 'd list \<Rightarrow> nat \<Rightarrow> nat list \<Rightarrow> string \<Rightarrow> string option" where
  "float_items fmt array n [] s = Some s"
| "float_items fmt array n (i # is) s =
     (if length array \<le> i \<or> ITEM_SIZE \<le> length (fmt (array ! i)) then None
      else let s' = s @ fmt (array ! i) @ (if Suc i < n then '', '' else '']'')
           in if ARRAY_STR_SIZE \<le> length s' then None else float_items fmt array n is s')"

definition json_add_float_array ::
  "('d \<Rightarrow> string) \<Rightarrow> string \<Rightarrow> 'd list \<Rightarrow> nat \<Rightarrow> (string \<times> json) list \<Rightarrow> (string \<times> json) list option" where
  "json_add_float_array fmt array_name array n obj =
     (case float_items fmt array n [0..<n] ''['' of
        None \<Rightarrow> None | Some s \<Rightarrow> Some (AList.update array_name (JStr s) obj))"

section \<open>The parameters as an object\<close>

text \<open>Both pairs of arrays are added when the first length is positive.\<close>

definition json_calibration_parameters ::
  "'d printer \<Rightarrow> 'd disciplining_config \<Rightarrow> (string \<times> json) list option" where
  "json_calibration_parameters pr c =
     do {
       let j1 = AList.update ''ctrl_nodes_length'' (JInt (int (ctrl_nodes_length c))) [];
       j2 \<leftarrow> (if 0 < ctrl_nodes_length c
              then do {
                j \<leftarrow> json_add_float_array (fmt_two pr) ''ctrl_load_nodes'' (ctrl_load_nodes c) (ctrl_nodes_length c) j1;
                json_add_float_array (fmt_two pr) ''ctrl_drift_coeffs'' (ctrl_drift_coeffs c) (ctrl_nodes_length c) j
              }
              else Some j1);
       let j3 = AList.update ''coarse_equilibrium'' (JInt (coarse_equilibrium c)) j2;
       let j4 = AList.update ''calibration_date'' (JInt (calibration_date c)) j3;
       let j5 = AList.update ''calibration_valid'' (JStr (if calibration_valid c then ''True'' else ''False'')) j4;
       let j6 = AList.update ''ctrl_nodes_length_factory'' (JInt (int (ctrl_nodes_length_factory c))) j5;
       j7 \<leftarrow> (if 0 < ctrl_nodes_length c
              then do {
                j \<leftarrow> json_add_float_array (fmt_two pr) ''ctrl_load_nodes_factory'' (ctrl_load_nodes_factory c)
                       (ctrl_nodes_length_factory c) j6;
                json_add_float_array (fmt_two pr) ''ctrl_drift_coeffs_factory'' (ctrl_drift_coeffs_factory c)
                  (ctrl_nodes_length_factory c) j
              }
              else Some j6);
       let j8 = AList.update ''coarse_equilibrium_factory'' (JInt (coarse_equilibrium_factory c)) j7;
       Some (AList.update ''estimated_equilibrium_ES'' (JInt (estimated_equilibrium_ES c)) j8)
     }"

definition json_temperature_table :: "'d printer \<Rightarrow> nat \<Rightarrow> int list \<Rightarrow> (string \<times> json) list" where
  "json_temperature_table pr temps mean =
     fold (\<lambda>(i, m) obj. if m \<noteq> 0 then AList.update (temperature_range pr i) (JStr (fmt_tenth pr m)) obj else obj)
       (enumerate 0 (take temps mean)) []"

definition json_add_disciplining_disciplining_parameters ::
  "'d layout \<Rightarrow> 'd printer \<Rightarrow> 'd disciplining_parameters \<Rightarrow> json option" where
  "json_add_disciplining_disciplining_parameters l pr p =
     (case json_calibration_parameters pr (dsc_config p) of
        None \<Rightarrow> None
      | Some cal \<Rightarrow>
          Some (JObj [(''calibration_parameters'', JObj cal),
                      (''temperature_table'', JObj (json_temperature_table pr (temperatures_max l)
                         (mean_fine_over_temperature (temp_table p))))]))"

text \<open>The request to read the card: the object for the response, if there is one.\<close>

definition read_eeprom_request ::
  "'d layout \<Rightarrow> 'd printer \<Rightarrow> byte list \<Rightarrow> byte list \<Rightarrow> files \<Rightarrow> devices_path \<Rightarrow> 'd disciplining_parameters \<Rightarrow>
   json option option" where
  "read_eeprom_request l pr junk1 junk2 fs dp dsc_params =
     (case read_disciplining_parameters_from_eeprom l junk1 junk2 fs (disciplining_config_path dp)
             (temperature_table_path dp) dsc_params of
        None \<Rightarrow> None
      | Some (ret, p) \<Rightarrow>
          if ret \<noteq> 0 then Some None
          else map_option Some (json_add_disciplining_disciplining_parameters l pr p))"

section \<open>Saving\<close>

text \<open>\<open>learnt\<close>: the parameters the algorithm gives, \<open>None\<close> when it refuses. The thread that the main loop
  starts does only this.\<close>

definition save_disciplining_parameters ::
  "'d layout \<Rightarrow> (string \<Rightarrow> nat option) \<Rightarrow> devices_path \<Rightarrow> 'd disciplining_parameters option \<Rightarrow> files \<Rightarrow> files" where
  "save_disciplining_parameters l wr dp learnt fs =
     (case learnt of
        None \<Rightarrow> fs
      | Some p \<Rightarrow> snd (write_disciplining_parameters_in_eeprom l wr (disciplining_config_path dp)
                        (temperature_table_path dp) (Some p) fs))"

section \<open>The text of an array\<close>

text \<open>The items with commas between them, and what the loop appends for the indexes from \<open>k\<close> on.\<close>

fun comma_list :: "string list \<Rightarrow> string" where
  "comma_list [] = []"
| "comma_list [x] = x"
| "comma_list (x # xs) = x @ '', '' @ comma_list xs"

lemma float_items_text:
  assumes "k \<le> n" "n \<le> length array"
    and "\<forall>i \<in> {k..<n}. length (fmt (array ! i)) < ITEM_SIZE"
    and "length s + length (comma_list (map fmt (take (n - k) (drop k array)))) + 1 < ARRAY_STR_SIZE"
  shows "float_items fmt array n [k..<n] s =
    Some (s @ (if k = n then [] else comma_list (map fmt (take (n - k) (drop k array))) @ '']''))"
  using assms
proof (induction "n - k" arbitrary: k s)
  case 0
  then show ?case by simp
next
  case (Suc m)
  then have k: "k < n" "k < length array" and up: "[k..<n] = k # [Suc k..<n]"
    by (simp_all add: upt_conv_Cons)
  have d: "drop k array = array ! k # drop (Suc k) array" using k by (simp add: Cons_nth_drop_Suc)
  have n: "n - k = Suc (n - Suc k)" using k by simp
  have item: "length (fmt (array ! k)) < ITEM_SIZE" using Suc.prems(3) k by simp
  show ?case
  proof (cases "Suc k = n")
    case True
    then show ?thesis using Suc.prems(4) item k by (simp add: up d n)
  next
    case False
    have "take (n - Suc k) (drop (Suc k) array) \<noteq> []" using k False Suc.prems(2) by simp
    then have c: "comma_list (map fmt (take (n - k) (drop k array))) =
        fmt (array ! k) @ '', '' @ comma_list (map fmt (take (n - Suc k) (drop (Suc k) array)))"
      by (cases "take (n - Suc k) (drop (Suc k) array)") (simp_all add: d n)
    have "float_items fmt array n [Suc k..<n] (s @ fmt (array ! k) @ '', '') =
        Some ((s @ fmt (array ! k) @ '', '') @
          (if Suc k = n then [] else comma_list (map fmt (take (n - Suc k) (drop (Suc k) array))) @ '']''))"
      by (rule Suc.hyps(1)) (use Suc.hyps(2) Suc.prems c k False in auto)
    moreover have "length (s @ fmt (array ! k) @ '', '') < ARRAY_STR_SIZE" using Suc.prems(4) c by simp
    ultimately show ?thesis using item k False c by (simp add: up)
  qed
qed

lemma float_array_text:
  assumes "n \<le> length array" "\<forall>x \<in> set (take n array). length (fmt x) < ITEM_SIZE"
    and "length (comma_list (map fmt (take n array))) + 2 < ARRAY_STR_SIZE"
  shows "json_add_float_array fmt name array n obj =
    Some (AList.update name (JStr (if n = 0 then ''['' else ''['' @ comma_list (map fmt (take n array)) @ '']'')) obj)"
proof -
  have "\<forall>i \<in> {0..<n}. length (fmt (array ! i)) < ITEM_SIZE"
    using assms(1,2) by (fastforce simp: in_set_conv_nth)
  then show ?thesis
    using float_items_text [of 0 n array fmt "''[''"] assms(1,3) by (simp add: json_add_float_array_def)
qed

text \<open>An array that fits its two buffers, and the string it is shown as.\<close>

definition array_fits :: "('d \<Rightarrow> string) \<Rightarrow> nat \<Rightarrow> 'd list \<Rightarrow> bool" where
  "array_fits fmt n array \<longleftrightarrow> n \<le> length array \<and> (\<forall>x \<in> set (take n array). length (fmt x) < ITEM_SIZE) \<and>
     length (comma_list (map fmt (take n array))) + 2 < ARRAY_STR_SIZE"

definition shown_array :: "('d \<Rightarrow> string) \<Rightarrow> nat \<Rightarrow> 'd list \<Rightarrow> json" where
  "shown_array fmt n array =
     JStr (if n = 0 then ''['' else ''['' @ comma_list (map fmt (take n array)) @ '']'')"

lemma shown_arrayI:
  "array_fits fmt n array \<Longrightarrow>
     json_add_float_array fmt name array n obj = Some (AList.update name (shown_array fmt n array) obj)"
  using float_array_text [of n array fmt name obj] by (simp add: array_fits_def shown_array_def)

lemma comma_list_length:
  "\<forall>x \<in> set xs. length x \<le> m \<Longrightarrow> length (comma_list xs) \<le> length xs * (m + 2)"
  by (induction xs rule: comma_list.induct) auto

text \<open>Up to ten nodes, the number of calibration points of the algorithm, with at most 23 characters each
  always fit.\<close>

lemma array_fitsI:
  assumes "n \<le> length array" "n \<le> 10" "\<forall>x \<in> set (take n array). length (fmt x) \<le> 23"
  shows "array_fits fmt n array"
proof -
  have "length (comma_list (map fmt (take n array))) \<le> length (map fmt (take n array)) * (23 + 2)"
    by (rule comma_list_length) (use assms(3) in auto)
  then show ?thesis
    using assms by (fastforce simp: array_fits_def ITEM_SIZE_def ARRAY_STR_SIZE_def)
qed

section \<open>The object of the parameters\<close>

definition config_fits :: "'d printer \<Rightarrow> 'd disciplining_config \<Rightarrow> bool" where
  "config_fits pr c \<longleftrightarrow>
     array_fits (fmt_two pr) (ctrl_nodes_length c) (ctrl_load_nodes c) \<and>
     array_fits (fmt_two pr) (ctrl_nodes_length c) (ctrl_drift_coeffs c) \<and>
     array_fits (fmt_two pr) (ctrl_nodes_length_factory c) (ctrl_load_nodes_factory c) \<and>
     array_fits (fmt_two pr) (ctrl_nodes_length_factory c) (ctrl_drift_coeffs_factory c)"

definition calibration_shown :: "'d printer \<Rightarrow> 'd disciplining_config \<Rightarrow> (string \<times> json) list \<Rightarrow> bool" where
  "calibration_shown pr c cal \<longleftrightarrow>
    map_of cal ''ctrl_nodes_length'' = Some (JInt (int (ctrl_nodes_length c))) \<and>
    map_of cal ''ctrl_nodes_length_factory'' = Some (JInt (int (ctrl_nodes_length_factory c))) \<and>
    map_of cal ''coarse_equilibrium'' = Some (JInt (coarse_equilibrium c)) \<and>
    map_of cal ''coarse_equilibrium_factory'' = Some (JInt (coarse_equilibrium_factory c)) \<and>
    map_of cal ''calibration_date'' = Some (JInt (calibration_date c)) \<and>
    map_of cal ''estimated_equilibrium_ES'' = Some (JInt (estimated_equilibrium_ES c)) \<and>
    map_of cal ''calibration_valid'' = Some (JStr (if calibration_valid c then ''True'' else ''False'')) \<and>
    map_of cal ''ctrl_load_nodes'' =
      (if 0 < ctrl_nodes_length c then Some (shown_array (fmt_two pr) (ctrl_nodes_length c) (ctrl_load_nodes c)) else None) \<and>
    map_of cal ''ctrl_drift_coeffs'' =
      (if 0 < ctrl_nodes_length c then Some (shown_array (fmt_two pr) (ctrl_nodes_length c) (ctrl_drift_coeffs c)) else None) \<and>
    map_of cal ''ctrl_load_nodes_factory'' =
      (if 0 < ctrl_nodes_length c
       then Some (shown_array (fmt_two pr) (ctrl_nodes_length_factory c) (ctrl_load_nodes_factory c)) else None) \<and>
    map_of cal ''ctrl_drift_coeffs_factory'' =
      (if 0 < ctrl_nodes_length c
       then Some (shown_array (fmt_two pr) (ctrl_nodes_length_factory c) (ctrl_drift_coeffs_factory c)) else None)"

lemma calibration_object:
  assumes "config_fits pr c"
  shows "\<exists>cal. json_calibration_parameters pr c = Some cal \<and> calibration_shown pr c cal"
proof (cases "0 < ctrl_nodes_length c")
  case True
  then show ?thesis
    using assms by (simp add: json_calibration_parameters_def calibration_shown_def config_fits_def shown_arrayI)
next
  case False
  then show ?thesis by (simp add: json_calibration_parameters_def calibration_shown_def)
qed

text \<open>The table has an entry for every index with a mean, under the range of that index.\<close>

lemma temperature_entries:
  assumes "inj_on (temperature_range pr) {..<length ms}"
  shows "(\<forall>i < length ms. map_of (json_temperature_table pr (length ms) ms) (temperature_range pr i) =
      (if ms ! i = 0 then None else Some (JStr (fmt_tenth pr (ms ! i))))) \<and>
    (\<forall>k. k \<notin> temperature_range pr ` {..<length ms} \<longrightarrow>
      map_of (json_temperature_table pr (length ms) ms) k = None)"
  using assms
proof (induction ms rule: rev_induct)
  case Nil
  then show ?case by (simp add: json_temperature_table_def)
next
  case (snoc m ms)
  let ?r = "temperature_range pr"
  have inj: "inj_on ?r {..<length ms}" "\<forall>i < length ms. ?r i \<noteq> ?r (length ms)"
    using snoc.prems by (auto simp: inj_on_def lessThan_Suc)
  have new: "?r (length ms) \<notin> ?r ` {..<length ms}" using inj(2) by force
  have "json_temperature_table pr (length (ms @ [m])) (ms @ [m]) =
      (if m \<noteq> 0 then AList.update (?r (length ms)) (JStr (fmt_tenth pr m)) (json_temperature_table pr (length ms) ms)
       else json_temperature_table pr (length ms) ms)"
    by (simp add: json_temperature_table_def enumerate_append_eq)
  then show ?case
    using snoc.IH [OF inj(1)] inj(2) new
    by (auto simp: nth_append update_conv' less_Suc_eq lessThan_Suc)
qed

section \<open>What the algorithm has learnt reaches a client\<close>


definition sample_printer :: "byte printer" where
  "sample_printer = \<lparr>fmt_two = (\<lambda>b. dec (unat b)), temperature_range = (\<lambda>i. replicate i (CHR ''x'')),
     fmt_tenth = (\<lambda>n. dec (nat n))\<rparr>"

definition sample_card :: devices_path where
  "sample_card = \<lparr>disciplining_config_path = ''c'', gnss_path = [], mac_path = [], mro_path = [], pps_path = [],
     ptp_path = [], temperature_table_path = ''t''\<rparr>"


end
