(* ===== verification/SimOscillator.thy ===== *)
theory SimOscillator
  imports Oscillator
begin

text \<open>
  \<open>src/oscillators/sim_oscillator.c\<close>: creation and destruction of the simulated oscillator. Its operations
  are in \<open>Oscillator\<close>. Creation waits for the simulator's fifo to appear, a loop that need not end:
  \<open>open_fifo\<close> is a partial function, and the value \<open>None\<close> is waiting for ever.
\<close>

section \<open>Creation\<close>

text \<open>The attempts to open the fifo: a descriptor, or a negative errno.\<close>

partial_function (option) open_fifo :: "(nat \<Rightarrow> int) \<Rightarrow> nat \<Rightarrow> int option" where
  "open_fifo attempts n =
     (if attempts n = - ENOENT then open_fifo attempts (Suc n) else Some (attempts n))"

record sim_env =
  se_asprintf :: bool
  se_calloc :: bool
  se_popen :: "int option" \<comment> \<open>the errno of a failure\<close>
  se_attempts :: "nat \<Rightarrow> int"
  se_fgets :: "string option"

text \<open>What the driver holds: the process of the simulator, the fifo and the name of its terminal.\<close>

record sim_handle =
  sh_process :: bool
  sh_fifo :: int
  sh_pts :: string

text \<open>What is left running or open.\<close>

definition sim_resources :: "sim_handle \<Rightarrow> bool \<times> int set" where
  "sim_resources h = (sh_process h, if sh_fifo h < 0 then {} else {sh_fifo h})"

text \<open>Destroying closes the fifo (closing -1 has no effect) and waits for the process.\<close>

definition sim_oscillator_destroy :: "sim_handle option \<Rightarrow> sim_handle option" where
  "sim_oscillator_destroy h = map_option (\<lambda>h. h\<lparr>sh_fifo := - 1, sh_process := False\<rparr>) h"

definition SIM_MAX_PTS_PATH_LEN :: nat where "SIM_MAX_PTS_PATH_LEN = 1024"

text \<open>The left result is \<open>errno\<close>, with what the driver still holds then (nothing before it exists).\<close>

definition sim_oscillator_new :: "sim_env \<Rightarrow> ((int \<times> sim_handle option) + sim_handle) option" where
  "sim_oscillator_new env =
     (let h = \<lparr>sh_process = False, sh_fifo = - 1, sh_pts = []\<rparr>
      in if \<not> se_asprintf env then Some (Inl (ENOMEM, None))
         else if \<not> se_calloc env then Some (Inl (ENOMEM, None))
         else case se_popen env of
                Some e \<Rightarrow> Some (Inl (e, sim_oscillator_destroy (Some h)))
              | None \<Rightarrow>
                  (case open_fifo (se_attempts env) 0 of
                     None \<Rightarrow> None
                   | Some fd \<Rightarrow>
                       let h1 = h\<lparr>sh_process := True\<rparr>
                       in if fd < 0 then Some (Inl (- fd, sim_oscillator_destroy (Some h1)))
                          else (case se_fgets env of
                                  None \<Rightarrow> Some (Inl (EIO, sim_oscillator_destroy (Some (h1\<lparr>sh_fifo := fd\<rparr>))))
                                | Some name \<Rightarrow>
                                    Some (Inr (h1\<lparr>sh_fifo := fd, sh_pts := take (SIM_MAX_PTS_PATH_LEN - 1) name\<rparr>)))))"

section \<open>When creation ends\<close>

lemma open_fifo_waits:
  "(\<forall>i \<in> {n..<n + k}. attempts i = - ENOENT) \<Longrightarrow> open_fifo attempts n = open_fifo attempts (n + k)"
proof (induction k arbitrary: n)
  case (Suc k)
  have "open_fifo attempts n = open_fifo attempts (Suc n)"
    using Suc.prems by (subst open_fifo.simps) simp
  also have "\<dots> = open_fifo attempts (Suc n + k)" by (rule Suc.IH) (use Suc.prems in auto)
  finally show ?case by simp
qed simp

lemma open_fifo_first:
  assumes "open_fifo attempts n = Some v"
  shows "\<exists>k. v = attempts (n + k) \<and> v \<noteq> - ENOENT \<and> (\<forall>i < k. attempts (n + i) = - ENOENT)"
proof (rule open_fifo.raw_induct [where P = "\<lambda>attempts n v. \<exists>k. v = attempts (n + k) \<and> v \<noteq> - ENOENT \<and>
      (\<forall>i < k. attempts (n + i) = - ENOENT)", OF _ assms])
  fix rec :: "(nat \<Rightarrow> int) \<Rightarrow> nat \<Rightarrow> int option" and attempts :: "nat \<Rightarrow> int" and n v
  assume IH: "\<And>a n v. rec a n = Some v \<Longrightarrow> \<exists>k. v = a (n + k) \<and> v \<noteq> - ENOENT \<and> (\<forall>i < k. a (n + i) = - ENOENT)"
    and step: "(if attempts n = - ENOENT then rec attempts (Suc n) else Some (attempts n)) = Some v"
  show "\<exists>k. v = attempts (n + k) \<and> v \<noteq> - ENOENT \<and> (\<forall>i < k. attempts (n + i) = - ENOENT)"
  proof (cases "attempts n = - ENOENT")
    case True
    with step have "rec attempts (Suc n) = Some v" by simp
    from IH [OF this] obtain k where k: "v = attempts (Suc n + k)" "v \<noteq> - ENOENT"
        "\<forall>i < k. attempts (Suc n + i) = - ENOENT" by blast
    have "attempts (n + i) = - ENOENT" if "i < Suc k" for i using that True k(3) by (cases i) auto
    then show ?thesis using k(1,2) by (intro exI [of _ "Suc k"]) simp
  next
    case False
    then show ?thesis using step by (intro exI [of _ 0]) auto
  qed
qed

lemma open_fifo_waiting: "(open_fifo attempts 0 = None) = (\<forall>i. attempts i = - ENOENT)"
proof
  assume w: "\<forall>i. attempts i = - ENOENT"
  show "open_fifo attempts 0 = None"
  proof (rule ccontr)
    assume "open_fifo attempts 0 \<noteq> None"
    then obtain v where "open_fifo attempts 0 = Some v" by blast
    from open_fifo_first [OF this] w show False by auto
  qed
next
  assume none: "open_fifo attempts 0 = None"
  show "\<forall>i. attempts i = - ENOENT"
  proof (rule ccontr)
    assume "\<not> (\<forall>i. attempts i = - ENOENT)"
    then obtain k where k: "attempts k \<noteq> - ENOENT" "\<forall>i < k. attempts i = - ENOENT"
      using exists_least_iff [of "\<lambda>i. attempts i \<noteq> - ENOENT"] by blast
    have "open_fifo attempts 0 = open_fifo attempts (0 + k)" by (rule open_fifo_waits) (use k(2) in auto)
    also have "\<dots> = Some (attempts k)" using k(1) by (subst open_fifo.simps) simp
    finally show False using none by simp
  qed
qed

text \<open>Creating the simulated oscillator: it waits for ever exactly when the simulator was started and its
  fifo never appears; an attempt that fails otherwise is reported with its errno; after every failure
  nothing is left running or open, and a success holds the process and the fifo.\<close>

theorem sim_oscillator_new_outcome:
  "(sim_oscillator_new env = None \<longleftrightarrow>
      se_asprintf env \<and> se_calloc env \<and> se_popen env = None \<and> (\<forall>i. se_attempts env i = - ENOENT)) \<and>
   (\<forall>e h. sim_oscillator_new env = Some (Inl (e, Some h)) \<longrightarrow> sim_resources h = (False, {})) \<and>
   (\<forall>h. sim_oscillator_new env = Some (Inr h) \<longrightarrow>
      0 \<le> sh_fifo h \<and> sim_resources h = (True, {sh_fifo h}) \<and>
      sim_resources (the (sim_oscillator_destroy (Some h))) = (False, {}) \<and>
      (\<exists>n. se_attempts env n = sh_fifo h \<and> (\<forall>i. i < n \<longrightarrow> se_attempts env i = - ENOENT)))"
proof (intro conjI allI impI)
  show "sim_oscillator_new env = None \<longleftrightarrow>
      se_asprintf env \<and> se_calloc env \<and> se_popen env = None \<and> (\<forall>i. se_attempts env i = - ENOENT)"
    by (auto simp: sim_oscillator_new_def open_fifo_waiting [symmetric] Let_def split: option.splits if_splits)
next
  fix e h
  assume "sim_oscillator_new env = Some (Inl (e, Some h))"
  then show "sim_resources h = (False, {})"
    by (auto simp: sim_oscillator_new_def sim_resources_def sim_oscillator_destroy_def Let_def
        split: option.splits if_splits)
next
  fix h
  assume a: "sim_oscillator_new env = Some (Inr h)"
  then have o: "open_fifo (se_attempts env) 0 = Some (sh_fifo h)" "0 \<le> sh_fifo h" "sh_process h"
    by (auto simp: sim_oscillator_new_def Let_def split: option.splits if_splits)
  show "0 \<le> sh_fifo h" by (rule o(2))
  show "sim_resources h = (True, {sh_fifo h})" using o by (simp add: sim_resources_def)
  show "sim_resources (the (sim_oscillator_destroy (Some h))) = (False, {})"
    by (simp add: sim_resources_def sim_oscillator_destroy_def)
  show "\<exists>n. se_attempts env n = sh_fifo h \<and> (\<forall>i. i < n \<longrightarrow> se_attempts env i = - ENOENT)"
    using open_fifo_first [OF o(1)] by auto
qed

end
