(* ===== verification/Logging.thy ===== *)
theory Logging
  imports Timespec EepromConfig CStr
begin

text \<open>
  \<open>common/log.c\<close> and the printing functions of \<open>common/log.h\<close>: the state of the log, where a message
  goes, and the tables that are logged. A message is its level and its text; the formatting of the C
  library is left out, a callback is a name, and the lock brackets every call. \<open>timespec_str\<close>
  (\<open>src/ntpshm/timespec_str.c\<close>) is the text of a time in messages.
\<close>

section \<open>The log\<close>

definition MAX_CALLBACKS :: nat where "MAX_CALLBACKS = 32"

definition level_strings :: "string list" where
  "level_strings = [''TRACE'', ''DEBUG'', ''INFO'', ''WARN'', ''ERROR'', ''FATAL'']"

text \<open>A slot holds a function and its level, or nothing; \<open>log_lock\<close>: whether a lock function is set.\<close>

record 'f log_state =
  log_level :: int
  log_quiet :: bool
  log_lock :: bool
  log_callbacks :: "('f \<times> int) option list"

datatype 'f log_effect = Locked | Unlocked | To_stderr int string | To_callback 'f int string

definition log_initial :: "'f log_state" where
  "log_initial = \<lparr>log_level = 0, log_quiet = False, log_lock = False,
     log_callbacks = replicate MAX_CALLBACKS None\<rparr>"

definition log_set_lock :: "bool \<Rightarrow> 'f log_state \<Rightarrow> 'f log_state" where
  "log_set_lock given s = s\<lparr>log_lock := given\<rparr>"
definition log_set_level :: "int \<Rightarrow> 'f log_state \<Rightarrow> 'f log_state" where
  "log_set_level level s = s\<lparr>log_level := level\<rparr>"
definition log_set_quiet :: "bool \<Rightarrow> 'f log_state \<Rightarrow> 'f log_state" where
  "log_set_quiet enable s = s\<lparr>log_quiet := enable\<rparr>"

text \<open>The first free slot.\<close>

definition log_add_callback :: "'f \<Rightarrow> int \<Rightarrow> 'f log_state \<Rightarrow> int \<times> 'f log_state" where
  "log_add_callback fn level s =
     (case find (\<lambda>i. log_callbacks s ! i = None) [0..<MAX_CALLBACKS] of
        None \<Rightarrow> (- 1, s)
      | Some i \<Rightarrow> (0, s\<lparr>log_callbacks := (log_callbacks s)[i := Some (fn, level)]\<rparr>))"

text \<open>The loop over the callbacks stops at the first free slot.\<close>

definition log_log :: "int \<Rightarrow> string \<Rightarrow> 'f log_state \<Rightarrow> 'f log_effect list" where
  "log_log level msg s =
     (if log_lock s then [Locked] else []) @
     (if \<not> log_quiet s \<and> log_level s \<le> level then [To_stderr level msg] else []) @
     concat (map (\<lambda>c. case c of Some (f, l) \<Rightarrow> if l \<le> level then [To_callback f level msg] else [] | None \<Rightarrow> [])
       (takeWhile (\<lambda>c. c \<noteq> None) (log_callbacks s))) @
     (if log_lock s then [Unlocked] else [])"

section \<open>Where messages go\<close>

text \<open>The callbacks fill the slots from the front.\<close>

definition log_holds :: "'f log_state \<Rightarrow> ('f \<times> int) list \<Rightarrow> bool" where
  "log_holds s cbs \<longleftrightarrow> log_callbacks s = map Some cbs @ replicate (MAX_CALLBACKS - length cbs) None \<and>
     length cbs \<le> MAX_CALLBACKS"

lemma log_holds_initial: "log_holds log_initial []"
  by (simp add: log_holds_def log_initial_def)

lemma find_first_free:
  assumes "log_holds s cbs"
  shows "find (\<lambda>i. log_callbacks s ! i = None) [0..<MAX_CALLBACKS] =
    (if length cbs < MAX_CALLBACKS then Some (length cbs) else None)"
proof -
  have up: "[0..<MAX_CALLBACKS] = [0..<length cbs] @ [length cbs..<MAX_CALLBACKS]"
    using assms by (metis log_holds_def upt_add_eq_append le_add_diff_inverse zero_le)
  have used: "find (\<lambda>i. log_callbacks s ! i = None) [0..<length cbs] = None"
    using assms by (auto simp: log_holds_def find_None_iff nth_append)
  have free: "log_callbacks s ! length cbs = None" if "length cbs < MAX_CALLBACKS"
    using assms that by (simp add: log_holds_def nth_append)
  have split: "find P (xs @ ys) = (case find P xs of None \<Rightarrow> find P ys | r \<Rightarrow> r)" for P and xs ys :: "nat list"
    by (induction xs) auto
  show ?thesis
    using used free by (auto simp: up split upt_conv_Cons)
qed

lemma log_add_callback_holds:
  assumes "log_holds s cbs"
  shows "if length cbs < MAX_CALLBACKS
    then fst (log_add_callback f l s) = 0 \<and> log_holds (snd (log_add_callback f l s)) (cbs @ [(f, l)])
    else log_add_callback f l s = (- 1, s)"
proof (cases "length cbs < MAX_CALLBACKS")
  case True
  then obtain n where n: "MAX_CALLBACKS - length cbs = Suc n" by (metis Suc_diff_Suc)
  have "log_add_callback f l s = (0, s\<lparr>log_callbacks := (log_callbacks s)[length cbs := Some (f, l)]\<rparr>)"
    using True by (simp add: log_add_callback_def find_first_free [OF assms])
  moreover have "(log_callbacks s)[length cbs := Some (f, l)] =
      map Some (cbs @ [(f, l)]) @ replicate (MAX_CALLBACKS - length (cbs @ [(f, l)])) None"
    using assms n by (simp add: log_holds_def list_update_append)
  ultimately show ?thesis using True by (simp add: log_holds_def)
next
  case False
  then show ?thesis by (simp add: log_add_callback_def find_first_free [OF assms])
qed

text \<open>Every callback that was added, up to 32 of them, is given each message of its level or above once,
  in the order in which the callbacks were added; the setters change none of them; standard error is
  given it unless the log is quiet or its level is higher.\<close>

theorem log_reaches:
  assumes "log_holds s cbs"
  shows "log_log level msg s =
    (if log_lock s then [Locked] else []) @
    (if \<not> log_quiet s \<and> log_level s \<le> level then [To_stderr level msg] else []) @
    map (\<lambda>(f, l). To_callback f level msg) (filter (\<lambda>(f, l). l \<le> level) cbs) @
    (if log_lock s then [Unlocked] else []) \<and>
    log_holds (log_set_lock b s) cbs \<and> log_holds (log_set_level n s) cbs \<and> log_holds (log_set_quiet q s) cbs"
proof -
  have "takeWhile (\<lambda>c. c \<noteq> None) (map Some cbs @ replicate k None) = map Some cbs" for k
    by (induction cbs) (cases k, simp_all)
  then have t: "takeWhile (\<lambda>c. c \<noteq> None) (log_callbacks s) = map Some cbs"
    using assms by (simp add: log_holds_def)
  have m: "concat (map (\<lambda>c. case c of Some (f, l) \<Rightarrow> if l \<le> level then [To_callback f level msg] else [] | None \<Rightarrow> [])
      (map Some cbs)) = map (\<lambda>(f, l). To_callback f level msg) (filter (\<lambda>(f, l). l \<le> level) cbs)"
    by (induction cbs) auto
  show ?thesis
    using assms unfolding log_log_def t m
    by (simp add: log_holds_def log_set_lock_def log_set_level_def log_set_quiet_def)
qed

section \<open>Tables in the log\<close>

text \<open>The texts of a line: \<open>%.2f\<close> of a mean in tenths with its range of temperatures, \<open>%f\<close> of an entry, and
  the date.\<close>

record 'd log_printer =
  lp_mean :: "int \<Rightarrow> nat \<Rightarrow> string"
  lp_entry :: "'d \<Rightarrow> string"
  lp_date :: "int \<Rightarrow> string"
  lp_int :: "int \<Rightarrow> string"

definition print_temperature_table :: "'d log_printer \<Rightarrow> int list \<Rightarrow> string list" where
  "print_temperature_table lp mean =
     (let rows = filter (\<lambda>(i, m). 0 < m \<and> m \<le> 48000) (enumerate 0 mean)
      in [''Temperature compensation table:''] @ map (\<lambda>(i, m). lp_mean lp m i) rows @
         (if rows = [] then [''Temperature table is empty (filled with 0)''] else []))"

text \<open>The entries are printed when their number fits the arrays (\<open>points\<close>).\<close>

definition print_entries :: "'d log_printer \<Rightarrow> nat \<Rightarrow> nat \<Rightarrow> 'd list \<Rightarrow> string list" where
  "print_entries lp points n array =
     (if 0 < n \<and> n \<le> points then map (\<lambda>d. '' '' @ lp_entry lp d) (take n array) else [])"

definition print_disciplining_config :: "'d log_printer \<Rightarrow> nat \<Rightarrow> 'd disciplining_config \<Rightarrow> string list" where
  "print_disciplining_config lp points c =
     [''Disciplining config:'', ''ctrl_nodes_length = '' @ lp_int lp (int (ctrl_nodes_length c)), ''ctrl_load_nodes[] =''] @
     print_entries lp points (ctrl_nodes_length c) (ctrl_load_nodes c) @ [''ctrl_drift_coeffs[] =''] @
     print_entries lp points (ctrl_nodes_length c) (ctrl_drift_coeffs c) @
     [''Date of calibration: '' @ lp_date lp (calibration_date c),
      ''coarse_equilibrium = '' @ lp_int lp (coarse_equilibrium c),
      ''calibration_valid = '' @ lp_int lp (if calibration_valid c then 1 else 0),
      ''ctrl_nodes_length_factory = '' @ lp_int lp (int (ctrl_nodes_length_factory c)), ''ctrl_load_nodes_factory[] =''] @
     print_entries lp points (ctrl_nodes_length_factory c) (ctrl_load_nodes_factory c) @ [''ctrl_drift_coeffs_factory[] =''] @
     print_entries lp points (ctrl_nodes_length_factory c) (ctrl_drift_coeffs_factory c) @
     [''coarse_equilibrium_factory = '' @ lp_int lp (coarse_equilibrium_factory c),
      ''estimated_equilibrium_ES = '' @ lp_int lp (estimated_equilibrium_ES c)]"

definition print_disciplining_parameters :: "'d log_printer \<Rightarrow> nat \<Rightarrow> 'd disciplining_parameters \<Rightarrow> string list" where
  "print_disciplining_parameters lp points p =
     print_disciplining_config lp points (dsc_config p) @
     print_temperature_table lp (mean_fine_over_temperature (temp_table p))"

section \<open>The text of a time\<close>

text \<open>\<open>%09ld\<close> pads with zeros on the left; \<open>snprintf\<close> cuts at the size of the buffer.\<close>

definition pad_zeros :: "nat \<Rightarrow> string \<Rightarrow> string" where
  "pad_zeros w s = replicate (w - length s) (CHR ''0'') @ s"

definition timespec_str :: "timespec \<Rightarrow> nat \<Rightarrow> string" where
  "timespec_str ts buf_size =
     take (buf_size - 1)
       ((if TS_GEZ ts then CHR '' '' else CHR ''-'') #
        dec (nat \<bar>tv_sec ts\<bar>) @ CHR ''.'' # pad_zeros 9 (dec (nat \<bar>tv_nsec ts\<bar>)))"

lemma scan_zeros: "scan_digits 10 0 (replicate k (CHR ''0'') @ s) = scan_digits 10 0 s"
proof -
  have "digit_of (CHR ''0'') = 0" by code_simp
  then show ?thesis by (induction k) simp_all
qed

text \<open>A normalized time is read back from its text when the buffer holds it: the sign of the whole, the
  seconds before the point and the nanoseconds behind it.\<close>

theorem timespec_str_reads:
  assumes "normalized ts" "length (dec (nat \<bar>tv_sec ts\<bar>)) + length (pad_zeros 9 (dec (nat \<bar>tv_nsec ts\<bar>))) + 2 < buf_size"
  shows "\<exists>frac. timespec_str ts buf_size =
      (if 0 \<le> tv_sec ts * 1000000000 + tv_nsec ts then CHR '' '' else CHR ''-'') # tl (timespec_str ts buf_size) \<and>
    scan_digits 10 0 (tl (timespec_str ts buf_size)) = (nat \<bar>tv_sec ts\<bar>, CHR ''.'' # frac) \<and>
    fst (scan_digits 10 0 frac) = nat \<bar>tv_nsec ts\<bar>"
proof (intro exI conjI)
  let ?frac = "pad_zeros 9 (dec (nat \<bar>tv_nsec ts\<bar>))"
  have t: "timespec_str ts buf_size =
      (if TS_GEZ ts then CHR '' '' else CHR ''-'') # dec (nat \<bar>tv_sec ts\<bar>) @ CHR ''.'' # ?frac"
    using assms(2) by (simp add: timespec_str_def)
  have "TS_GEZ ts = (0 \<le> tv_sec ts * 1000000000 + tv_nsec ts)"
    using assms(1) by (auto simp: normalized_def TS_GEZ_def)
  then show "timespec_str ts buf_size =
      (if 0 \<le> tv_sec ts * 1000000000 + tv_nsec ts then CHR '' '' else CHR ''-'') # tl (timespec_str ts buf_size)"
    by (simp add: t)
  have "\<not> digit_of (CHR ''.'') < 10" by code_simp
  then show "scan_digits 10 0 (tl (timespec_str ts buf_size)) = (nat \<bar>tv_sec ts\<bar>, CHR ''.'' # ?frac)"
    using scan_dec_rest [of "CHR ''.'' # ?frac"] by (simp add: t)
  show "fst (scan_digits 10 0 ?frac) = nat \<bar>tv_nsec ts\<bar>"
    by (simp add: pad_zeros_def scan_zeros scan_dec)
qed

end
