(* ===== verification/ProdCard.thy ===== *)
theory ProdCard
  imports Utils
begin

text \<open>
  What the production tests (\<open>tests_production/\<close>) have in common: the directory of the card named
  on the command line, and the device found among its entries. The answers of the file system are
  inputs. The programs are called with the name of the card.
\<close>

record card_env =
  path_exists :: "string \<Rightarrow> bool"
  dir_of :: "string \<Rightarrow> (string \<times> sysfs_entry) list option"

text \<open>\<open>snprintf\<close> into a buffer of the given size.\<close>

definition ocp_dir :: "nat \<Rightarrow> string \<Rightarrow> string" where
  "ocp_dir len arg = take (len - 1) (''/sys/class/timecard/'' @ arg)"

text \<open>The loop over the entries: the last entry of that name decides. \<open>valid\<close> is what the flag held
  before, which some of the programs leave uninitialised.\<close>

fun scan_entries :: "string \<Rightarrow> (string \<times> sysfs_entry) list \<Rightarrow> bool \<times> string \<Rightarrow> bool \<times> string" where
  "scan_entries name [] r = r"
| "scan_entries name ((n, e) # es) r =
     scan_entries name es (if n = name then (True, find_dev_path e) else r)"

text \<open>Whether the card exists, whether the device counts as found, and its path. \<open>None\<close>: the directory
  cannot be opened and \<open>readdir\<close> is called with a null pointer.\<close>

definition find_card_device ::
  "card_env \<Rightarrow> nat \<Rightarrow> string \<Rightarrow> string \<Rightarrow> bool \<Rightarrow> (bool \<times> bool \<times> string) option" where
  "find_card_device env len arg name valid =
     (let ocp_path = ocp_dir len arg
      in if path_exists env ocp_path
         then map_option (\<lambda>es. (True, scan_entries name es (valid, []))) (dir_of env ocp_path)
         else Some (False, valid, []))"

text \<open>A card that can be scanned: the entries that are there.\<close>

lemma scan_entries_filter:
  "scan_entries name es r =
     (case filter (\<lambda>x. fst x = name) es of [] \<Rightarrow> r | fs \<Rightarrow> (True, find_dev_path (snd (last fs))))"
  by (induction name es r rule: scan_entries.induct) (auto split: list.split)

lemma scan_entries_found:
  "fst (scan_entries name es r) \<longleftrightarrow> fst r \<or> name \<in> fst ` set es"
  by (induction name es r rule: scan_entries.induct) auto

end
