(* ===== verification/ProdIo.thy ===== *)
theory ProdIo
  imports ProdCard
begin

text \<open>
  \<open>tests_production/io_test_prod.c\<close> with \<open>tests_production/utils/extts.c\<close>: the four connectors of the card
  are configured by writing their sysfs files, and the time stamps that pulses on the inputs cause
  are read from the PTP clock. What the system answers is an argument; it may depend on what was
  done before. The program's effects are a log. Paths are short enough for the buffer of
  \<open>configure_io\<close> (128 bytes), which is not checked.
\<close>

definition PHC_OUT :: string where "PHC_OUT = ''OUT: MAC''"
definition GNSS_OUT :: string where "GNSS_OUT = ''OUT: GNSS''"
definition PPS_IN :: string where "PPS_IN = ''IN: PPS1''"

definition EXTTS_INDEX_TS_GNSS :: nat where "EXTTS_INDEX_TS_GNSS = 0"
definition EXTTS_INDEX_TS_INTERNAL :: nat where "EXTTS_INDEX_TS_INTERNAL = 5"
definition NUM_EXTTS :: nat where "NUM_EXTTS = 6"

datatype io_cmd = OpenClock string | WriteSma string string | ExttsRequest nat bool | CloseClock

record io_env =
  opens :: "io_cmd list \<Rightarrow> string \<Rightarrow> bool"
  request_ok :: "io_cmd list \<Rightarrow> nat \<Rightarrow> bool \<Rightarrow> bool"

section \<open>The connectors\<close>

definition sma_path :: "string \<Rightarrow> nat \<Rightarrow> string" where
  "sma_path ocp_path io = ocp_path @ ''/sma'' @ dec io"

definition configure_io :: "io_env \<Rightarrow> string \<Rightarrow> nat \<Rightarrow> string \<Rightarrow> io_cmd list \<Rightarrow> int \<times> io_cmd list" where
  "configure_io env ocp_path io mode w =
     (if io < 1 \<or> io > 4 then (- 1, w)
      else if mode \<noteq> PHC_OUT \<and> mode \<noteq> GNSS_OUT \<and> mode \<noteq> PPS_IN then (- 1, w)
      else if \<not> opens env w (sma_path ocp_path io) then (- 1, w)
      else (0, w @ [WriteSma (sma_path ocp_path io) mode]))"

text \<open>The first connector that cannot be configured ends the sequence.\<close>

definition configure_ios ::
  "io_env \<Rightarrow> string \<Rightarrow> string \<Rightarrow> string \<Rightarrow> string \<Rightarrow> string \<Rightarrow> io_cmd list \<Rightarrow> int \<times> io_cmd list" where
  "configure_ios env ocp_path mode_1 mode_2 mode_3 mode_4 w =
     (case configure_io env ocp_path 1 mode_1 w of (ret, w1) \<Rightarrow>
        if ret \<noteq> 0 then (ret, w1)
        else case configure_io env ocp_path 2 mode_2 w1 of (ret, w2) \<Rightarrow>
          if ret \<noteq> 0 then (ret, w2)
          else case configure_io env ocp_path 3 mode_3 w2 of (ret, w3) \<Rightarrow>
            if ret \<noteq> 0 then (ret, w3)
            else configure_io env ocp_path 4 mode_4 w3)"

section \<open>External time stamps\<close>

definition enable_extts_prod :: "io_env \<Rightarrow> nat \<Rightarrow> io_cmd list \<Rightarrow> int \<times> io_cmd list" where
  "enable_extts_prod env i w = (if request_ok env w i True then 0 else - 1, w @ [ExttsRequest i True])"

definition disable_extts_prod :: "io_env \<Rightarrow> nat \<Rightarrow> io_cmd list \<Rightarrow> int \<times> io_cmd list" where
  "disable_extts_prod env i w = (if request_ok env w i False then 0 else 1, w @ [ExttsRequest i False])"

text \<open>The loops over the indices: the first stops at a failure, the second goes on; both return the
  result of the last request.\<close>

fun enable_loop :: "io_env \<Rightarrow> nat list \<Rightarrow> int \<Rightarrow> io_cmd list \<Rightarrow> int \<times> io_cmd list" where
  "enable_loop env [] ret w = (ret, w)"
| "enable_loop env (i # is) ret w =
     (case enable_extts_prod env i w of (ret', w') \<Rightarrow> if ret' \<noteq> 0 then (ret', w') else enable_loop env is ret' w')"

definition enable_all_extts :: "io_env \<Rightarrow> io_cmd list \<Rightarrow> int \<times> io_cmd list" where
  "enable_all_extts env w = enable_loop env [0..<NUM_EXTTS] 0 w"

fun disable_loop :: "io_env \<Rightarrow> nat list \<Rightarrow> int \<Rightarrow> io_cmd list \<Rightarrow> int \<times> io_cmd list" where
  "disable_loop env [] ret w = (ret, w)"
| "disable_loop env (i # is) ret w =
     (case disable_extts_prod env i w of (ret', w') \<Rightarrow> disable_loop env is ret' w')"

definition disable_all_extts :: "io_env \<Rightarrow> io_cmd list \<Rightarrow> int \<times> io_cmd list" where
  "disable_all_extts env w = disable_loop env [0..<NUM_EXTTS] 0 w"

record extts_event =
  ev_index :: nat
  ev_sec :: int

datatype extts_answer = ReadFailed | ReadEvent extts_event

text \<open>\<open>uint8_t\<close> as an 8-bit word. The loop over at most 100 events; \<open>None\<close>: the next read waits for
  ever. The result and the reads that are left.\<close>

fun extts_loop :: "nat \<Rightarrow> 8 word \<Rightarrow> 8 word \<Rightarrow> extts_answer list \<Rightarrow> (int \<times> extts_answer list) option" where
  "extts_loop 0 expected got rs = Some (if got = expected then 0 else - 1, rs)"
| "extts_loop (Suc n) expected got [] = None"
| "extts_loop (Suc n) expected got (ReadFailed # rs) = Some (- 1, rs)"
| "extts_loop (Suc n) expected got (ReadEvent e # rs) =
     (if ev_sec e < 0 then Some (- EINVAL, rs)
      else if 1 \<le> ev_index e \<and> ev_index e \<le> 4 then
        (if bit expected (ev_index e)
         then let got' = got + push_bit (ev_index e) 1
              in if got' = expected then Some (0, rs) else extts_loop n expected got' rs
         else Some (- 1, rs))
      else if got = expected then Some (0, rs)
      else extts_loop n expected got rs)"

definition test_extts :: "8 word \<Rightarrow> extts_answer list \<Rightarrow> (int \<times> extts_answer list) option" where
  "test_extts expected rs = extts_loop 100 expected 0 rs"

text \<open>\<open>read_extts\<close>: the time of one event in nanoseconds, as an unsigned sum stored in a signed
  variable.\<close>

definition read_extts_prod :: "(int \<times> int) option \<Rightarrow> int \<times> int option" where
  "read_extts_prod event =
     (case event of
        None \<Rightarrow> (- 1, None)
      | Some (s, ns) \<Rightarrow> if s < 0 then (- EINVAL, None) else (0, Some (to_i64 (s * 1000000000 + ns))))"

section \<open>The test\<close>

definition io_cleanup :: "io_env \<Rightarrow> string \<Rightarrow> io_cmd list \<Rightarrow> io_cmd list" where
  "io_cleanup env ocp_path w =
     snd (disable_all_extts env (snd (configure_ios env ocp_path PPS_IN PPS_IN PPS_IN PPS_IN w))) @ [CloseClock]"

definition expect :: "nat list \<Rightarrow> 8 word" where
  "expect is = fold (\<lambda>i w. or w (push_bit i 1)) is 0"

definition test_configurable_io ::
  "io_env \<Rightarrow> string \<Rightarrow> string \<Rightarrow> extts_answer list \<Rightarrow> (bool \<times> io_cmd list) option" where
  "test_configurable_io env ocp_path ptp_path rs =
     (case enable_all_extts env [OpenClock ptp_path] of (_, w0) \<Rightarrow>
      case configure_ios env ocp_path PPS_IN PHC_OUT PPS_IN PHC_OUT w0 of (ret, w1) \<Rightarrow>
        if ret \<noteq> 0 then Some (False, io_cleanup env ocp_path w1)
        else case test_extts (expect [1, 3]) rs of
          None \<Rightarrow> None
        | Some (r1, rs1) \<Rightarrow>
            if r1 \<noteq> 0 then Some (False, io_cleanup env ocp_path w1)
            else case configure_ios env ocp_path PHC_OUT PPS_IN PHC_OUT PPS_IN w1 of (ret, w2) \<Rightarrow>
              if ret \<noteq> 0 then Some (False, io_cleanup env ocp_path w2)
              else case test_extts (expect [2, 4]) rs1 of
                None \<Rightarrow> None
              | Some (r2, rs2) \<Rightarrow> Some (r2 = 0, io_cleanup env ocp_path w2))"

datatype verdict = TestPassed | TestFailed | TestAborted

text \<open>The outer \<open>None\<close>: undefined behaviour while scanning; the inner one: the test waits for ever.\<close>

definition io_test_main ::
  "card_env \<Rightarrow> io_env \<Rightarrow> string \<Rightarrow> extts_answer list \<Rightarrow> (verdict \<times> io_cmd list) option option" where
  "io_test_main cenv env arg rs =
     (case find_card_device cenv 255 arg ''ptp'' False of
        None \<Rightarrow> None
      | Some (ocp_valid, ptp_valid, ptp_path) \<Rightarrow>
          Some (if ocp_valid \<and> ptp_valid
                then map_option (\<lambda>(passed, w). (if passed then TestPassed else TestFailed, w))
                       (test_configurable_io env (ocp_dir 255 arg) ptp_path rs)
                else Some (TestAborted, [])))"

section \<open>What a phase counts\<close>

text \<open>The code adds the bits it has seen instead of joining them.\<close>

definition is_sma :: "extts_event \<Rightarrow> bool" where
  "is_sma e \<longleftrightarrow> 1 \<le> ev_index e \<and> ev_index e \<le> 4"

definition pulse_sum :: "extts_event list \<Rightarrow> 8 word" where
  "pulse_sum es = sum_list (map (\<lambda>e. push_bit (ev_index e) 1) (filter is_sma es))"

definition acceptable :: "8 word \<Rightarrow> extts_event \<Rightarrow> bool" where
  "acceptable expected e \<longleftrightarrow> 0 \<le> ev_sec e \<and> (is_sma e \<longrightarrow> bit expected (ev_index e))"

lemma pulse_sum_simps [simp]:
  "pulse_sum [] = 0"
  "pulse_sum (e # es) = (if is_sma e then push_bit (ev_index e) 1 else 0) + pulse_sum es"
  by (simp_all add: pulse_sum_def)

text \<open>A run of the loop that returns 0: events that are expected, and the sum meets the expected value
  behind the last of them for the first time.\<close>

lemma extts_loop_zero:
  "got \<noteq> expected \<Longrightarrow>
   extts_loop n expected got rs = Some (0, rest) \<longleftrightarrow>
     (\<exists>es. rs = map ReadEvent es @ rest \<and> length es \<le> n \<and> list_all (acceptable expected) es \<and>
        got + pulse_sum es = expected \<and> (\<forall>k < length es. got + pulse_sum (take k es) \<noteq> expected))"
proof (induction n expected got rs rule: extts_loop.induct)
  case (1 expected got rs)
  then show ?case by auto
next
  case (2 n expected got)
  then show ?case by auto
next
  case (3 n expected got rs)
  then show ?case by (auto simp: Cons_eq_append_conv Cons_eq_map_conv)
next
  case (4 n expected got e rs)
  let ?d = "if is_sma e then push_bit (ev_index e) 1 else (0::8 word)"
  have split: "(\<exists>es. ReadEvent e # rs = map ReadEvent es @ rest \<and> length es \<le> Suc n \<and> list_all (acceptable expected) es \<and>
        got + pulse_sum es = expected \<and> (\<forall>k < length es. got + pulse_sum (take k es) \<noteq> expected)) \<longleftrightarrow>
      acceptable expected e \<and>
      (\<exists>es. rs = map ReadEvent es @ rest \<and> length es \<le> n \<and> list_all (acceptable expected) es \<and>
        (got + ?d) + pulse_sum es = expected \<and> (\<forall>k < length es. (got + ?d) + pulse_sum (take k es) \<noteq> expected))"
    (is "?L \<longleftrightarrow> ?R")
  proof
    assume ?L
    then obtain es where es: "ReadEvent e # rs = map ReadEvent es @ rest" "length es \<le> Suc n"
        "list_all (acceptable expected) es" "got + pulse_sum es = expected"
        "\<forall>k < length es. got + pulse_sum (take k es) \<noteq> expected" by blast
    with 4(3) obtain es' where es': "es = e # es'" "rs = map ReadEvent es' @ rest"
      by (cases es) (auto simp: Cons_eq_append_conv)
    have "\<forall>k < length es'. (got + ?d) + pulse_sum (take k es') \<noteq> expected"
    proof (intro allI impI)
      fix k assume "k < length es'"
      then show "(got + ?d) + pulse_sum (take k es') \<noteq> expected"
        using es(5)[rule_format, of "Suc k"] by (simp add: es'(1) add.assoc)
    qed
    with es es' show ?R by (auto simp: add.assoc)
  next
    assume ?R
    then obtain es where es: "acceptable expected e" "rs = map ReadEvent es @ rest" "length es \<le> n"
        "list_all (acceptable expected) es" "(got + ?d) + pulse_sum es = expected"
        "\<forall>k < length es. (got + ?d) + pulse_sum (take k es) \<noteq> expected" by blast
    have "\<forall>k < length (e # es). got + pulse_sum (take k (e # es)) \<noteq> expected"
    proof (intro allI impI)
      fix k assume "k < length (e # es)"
      then show "got + pulse_sum (take k (e # es)) \<noteq> expected"
        using es(6) 4(3) by (cases k) (auto simp: add.assoc)
    qed
    with es show ?L by (intro exI [of _ "e # es"]) (auto simp: add.assoc)
  qed
  have done': "(\<exists>es. rs = map ReadEvent es @ rest \<and> length es \<le> n \<and> list_all (acceptable expected) es \<and>
        expected + pulse_sum es = expected \<and> (\<forall>k < length es. expected + pulse_sum (take k es) \<noteq> expected)) \<longleftrightarrow>
      rs = rest"
    by (auto intro: exI [of _ "[]"])
  consider (bad) "\<not> acceptable expected e"
    | (sma) "acceptable expected e" "is_sma e" | (other) "acceptable expected e" "\<not> is_sma e" by blast
  then show ?case
  proof cases
    case bad
    then show ?thesis unfolding split using 4(3) by (auto simp: acceptable_def is_sma_def)
  next
    case sma
    then have run: "extts_loop (Suc n) expected got (ReadEvent e # rs) =
        (if got + ?d = expected then Some (0, rs) else extts_loop n expected (got + ?d) rs)"
      by (simp add: acceptable_def is_sma_def Let_def)
    show ?thesis
    proof (cases "got + ?d = expected")
      case True
      show ?thesis unfolding split run True done' using sma by simp
    next
      case False
      have "extts_loop n expected (got + ?d) rs = Some (0, rest) \<longleftrightarrow>
          (\<exists>es. rs = map ReadEvent es @ rest \<and> length es \<le> n \<and> list_all (acceptable expected) es \<and>
            (got + ?d) + pulse_sum es = expected \<and> (\<forall>k < length es. (got + ?d) + pulse_sum (take k es) \<noteq> expected))"
        using sma False by (intro 4(1)) (simp_all add: acceptable_def is_sma_def)
      then show ?thesis unfolding split run using False sma by simp
    qed
  next
    case other
    then have run: "extts_loop (Suc n) expected got (ReadEvent e # rs) = extts_loop n expected got rs"
      using 4(3) by (auto simp: acceptable_def is_sma_def)
    have "extts_loop n expected got rs = Some (0, rest) \<longleftrightarrow>
        (\<exists>es. rs = map ReadEvent es @ rest \<and> length es \<le> n \<and> list_all (acceptable expected) es \<and>
          got + pulse_sum es = expected \<and> (\<forall>k < length es. got + pulse_sum (take k es) \<noteq> expected))"
      using other 4(3) by (intro 4(2)) (auto simp: acceptable_def is_sma_def)
    then show ?thesis unfolding split run using other by simp
  qed
qed

lemma test_extts_zero:
  assumes "expected \<noteq> 0"
  shows "test_extts expected rs = Some (0, rest) \<longleftrightarrow>
     (\<exists>es. rs = map ReadEvent es @ rest \<and> length es \<le> 100 \<and> list_all (acceptable expected) es \<and>
        pulse_sum es = expected \<and> (\<forall>k < length es. pulse_sum (take k es) \<noteq> expected))"
  using extts_loop_zero [of 0 expected 100 rs rest] assms by (simp add: test_extts_def)

text \<open>The connectors that pulsed among some events, one entry per pulse.\<close>

definition pulses :: "extts_event list \<Rightarrow> nat list" where
  "pulses es = map ev_index (filter is_sma es)"

lemma pulse_sum_pulses: "pulse_sum es = sum_list (map (\<lambda>i. push_bit i 1) (pulses es))"
  by (simp add: pulse_sum_def pulses_def comp_def)

lemma pulses_acceptable: "list_all (acceptable x) es \<Longrightarrow> i \<in> set (pulses es) \<Longrightarrow> 1 \<le> i \<and> i \<le> 4 \<and> bit x i"
  by (auto simp: pulses_def list_all_iff acceptable_def is_sma_def)

definition phase :: "nat \<Rightarrow> nat \<Rightarrow> bool" where
  "phase a b \<longleftrightarrow> (a, b) \<in> {(1, 3), (2, 4)}"

lemma phase_cases:
  assumes "phase a b"
  obtains "a = 1" "b = 3" | "a = 2" "b = 4"
  using assms by (auto simp: phase_def)

lemma expect_values: "expect [Suc 0, 3] = 10" "expect [2, 4] = 20"
  by (simp_all add: expect_def push_bit_eq_mult)

lemma bits_of_expected:
  "list_all (\<lambda>i. bit (10::8 word) i \<longleftrightarrow> i = 1 \<or> i = 3) [1, 2, 3, 4]"
  "list_all (\<lambda>i. bit (20::8 word) i \<longleftrightarrow> i = 2 \<or> i = 4) [1, 2, 3, 4]"
  by code_simp+

lemma expected_bits:
  assumes "phase a b" "1 \<le> i" "i \<le> 4"
  shows "bit (expect [a, b]) i \<longleftrightarrow> i = a \<or> i = b"
proof -
  have i: "i \<in> set [1, 2, 3, 4]" using assms(2,3) by auto
  from assms(1) show ?thesis
  proof (cases rule: phase_cases)
    case 1
    with i bits_of_expected(1) show ?thesis unfolding list_all_iff by (simp only: expect_values One_nat_def)
  next
    case 2
    with i bits_of_expected(2) show ?thesis unfolding list_all_iff by (simp only: expect_values)
  qed
qed

lemma distinct_pair:
  "distinct xs \<Longrightarrow> set xs \<subseteq> {a, b} \<Longrightarrow> a \<noteq> b \<Longrightarrow> xs \<in> {[], [a], [b], [a, b], [b, a]}"
  by (cases xs; cases "tl xs"; cases "tl (tl xs)") auto

lemma distinct_sum:
  assumes "phase a b" "distinct xs" "set xs \<subseteq> {a, b}"
    "sum_list (map (\<lambda>i. push_bit i 1) xs) = expect [a, b]"
  shows "set xs = {a, b}"
  using assms(1)
proof (cases rule: phase_cases)
  case 1
  with distinct_pair [OF assms(2,3)] assms(4) show ?thesis by (auto simp: expect_values push_bit_eq_mult)
next
  case 2
  with distinct_pair [OF assms(2,3)] assms(4) show ?thesis by (auto simp: expect_values push_bit_eq_mult)
qed

text \<open>C33. A phase of the test passes only on the events of its two inputs, at most a hundred of them,
  and when no input pulsed twice among the events it read, both inputs pulsed.\<close>

theorem io_phase_sound:
  assumes "phase a b" "test_extts (expect [a, b]) rs = Some (0, rest)"
  shows "\<exists>es. rs = map ReadEvent es @ rest \<and> length es \<le> 100 \<and> set (pulses es) \<subseteq> {a, b} \<and>
     (\<forall>e \<in> set es. 0 \<le> ev_sec e) \<and> (distinct (pulses es) \<longrightarrow> set (pulses es) = {a, b})"
proof -
  have "expect [a, b] \<noteq> 0"
    using assms(1) by (auto elim!: phase_cases simp: expect_values)
  then obtain es where es: "rs = map ReadEvent es @ rest" "length es \<le> 100"
      "list_all (acceptable (expect [a, b])) es" "pulse_sum es = expect [a, b]"
    using assms(2) by (auto simp: test_extts_zero)
  moreover have sub: "set (pulses es) \<subseteq> {a, b}"
    using pulses_acceptable [OF es(3)] expected_bits [OF assms(1)] by blast
  ultimately show ?thesis
    using distinct_sum [OF assms(1) _ sub] by (auto simp: pulse_sum_pulses list_all_iff acceptable_def)
qed

definition pulse :: "nat \<Rightarrow> extts_answer" where "pulse i = ReadEvent \<lparr>ev_index = i, ev_sec = 1700000000\<rparr>"

theorem io_phase_sound_witness:
  "\<exists>es. [pulse 3, pulse 0, pulse 1] = map ReadEvent es @ [] \<and> length es \<le> 100 \<and> set (pulses es) \<subseteq> {1, 3} \<and>
     (\<forall>e \<in> set es. 0 \<le> ev_sec e) \<and> (distinct (pulses es) \<longrightarrow> set (pulses es) = {1, 3})"
  by (rule io_phase_sound) (simp add: phase_def, code_simp)

text \<open>Pulses that keep the sum away from the expected value.\<close>

fun avoids :: "8 word \<Rightarrow> 8 word \<Rightarrow> nat list \<Rightarrow> bool" where
  "avoids expected got [] \<longleftrightarrow> got \<noteq> expected"
| "avoids expected got (i # is) \<longleftrightarrow> got \<noteq> expected \<and> 1 \<le> i \<and> i \<le> 4 \<and> bit expected i \<and>
     avoids expected (got + push_bit i 1) is"

lemma avoids_fails:
  "avoids expected got is \<Longrightarrow> extts_loop (length is) expected got (map pulse is @ rs) = Some (- 1, rs)"
  by (induction expected got "is" rule: avoids.induct) (auto simp: pulse_def Let_def elim: avoids.elims)

lemma avoids_hits:
  "avoids expected got is \<Longrightarrow> 1 \<le> i \<Longrightarrow> i \<le> 4 \<Longrightarrow> bit expected i \<Longrightarrow> length is < n \<Longrightarrow>
   got + sum_list (map (\<lambda>j. push_bit j 1) (is @ [i])) = expected \<Longrightarrow>
   extts_loop n expected got (map pulse (is @ [i]) @ rs) = Some (0, rs)"
proof (induction expected got "is" arbitrary: n rule: avoids.induct)
  case (1 expected got)
  then show ?case by (cases n) (simp_all add: pulse_def)
next
  case (2 expected got j js)
  from 2(2,6) obtain m where "n = Suc m" "length js < m" by (cases n) auto
  moreover from 2(2) have "got + push_bit j 1 \<noteq> expected" by (cases js) auto
  ultimately show ?case using 2 by (simp add: pulse_def Let_def add.assoc)
qed

lemma counted_pulses:
  "avoids 10 0 [1, 1, 1, 1]" "avoids 20 0 [2, 2, 2, 2]"
  "avoids 10 0 (1 # concat (replicate 49 [1, 3]) @ [1])"
  by code_simp+

text \<open>Pulses are added, not joined: five pulses on one input pass a phase whose other input is
  silent, and inputs 1 and 3 that pulse in turn fail theirs when the first pulsed once more before.\<close>

theorem io_pulses_added:
  "test_extts (expect [1, 3]) (replicate 5 (pulse 1) @ rs) = Some (0, rs) \<and>
   test_extts (expect [2, 4]) (replicate 5 (pulse 2) @ rs) = Some (0, rs) \<and>
   test_extts (expect [1, 3]) (pulse 1 # concat (replicate 49 [pulse 1, pulse 3]) @ pulse 1 # rs) = Some (- 1, rs)"
proof -
  have five: "replicate 5 (pulse i) = map pulse ([i, i, i, i] @ [i])" for i
    by (simp add: eval_nat_numeral)
  have bits: "bit (10::8 word) 1" "bit (20::8 word) 2" by simp_all
  have "test_extts (expect [1, 3]) (replicate 5 (pulse 1) @ rs) = Some (0, rs)"
    unfolding test_extts_def five
    by (rule avoids_hits) (use counted_pulses(1) bits in \<open>simp_all add: expect_values push_bit_eq_mult\<close>)
  moreover have "test_extts (expect [2, 4]) (replicate 5 (pulse 2) @ rs) = Some (0, rs)"
    unfolding test_extts_def five
    by (rule avoids_hits) (use counted_pulses(2) bits in \<open>simp_all add: expect_values push_bit_eq_mult\<close>)
  moreover have "test_extts (expect [1, 3]) (map pulse (1 # concat (replicate 49 [1, 3]) @ [1]) @ rs) = Some (- 1, rs)"
    using avoids_fails [OF counted_pulses(3), of rs] by (simp add: test_extts_def expect_values length_concat sum_list_replicate)
  ultimately show ?thesis by (simp add: map_concat)
qed

section \<open>What the test leaves behind\<close>

fun last_mode :: "string \<Rightarrow> io_cmd list \<Rightarrow> string option" where
  "last_mode p [] = None"
| "last_mode p (WriteSma q m # w) = (case last_mode p w of None \<Rightarrow> if q = p then Some m else None | Some m' \<Rightarrow> Some m')"
| "last_mode p (_ # w) = last_mode p w"

lemma last_mode_append:
  "last_mode p (u @ w) = (case last_mode p w of None \<Rightarrow> last_mode p u | Some m \<Rightarrow> Some m)"
  by (induction p u rule: last_mode.induct) (auto split: option.split)

lemma disable_loop_log: "snd (disable_loop env is ret w) = w @ map (\<lambda>i. ExttsRequest i False) is"
  by (induction env "is" ret w rule: disable_loop.induct) (simp_all add: disable_extts_prod_def)

lemma last_mode_requests: "last_mode p (map (\<lambda>i. ExttsRequest i on) is) = None"
  by (induction "is") simp_all

lemma all_inputs:
  assumes "\<And>w io. opens env w (sma_path ocp_path io)"
  shows "configure_ios env ocp_path PPS_IN PPS_IN PPS_IN PPS_IN w =
    (0, w @ map (\<lambda>io. WriteSma (sma_path ocp_path io) PPS_IN) [1, 2, 3, 4])"
  using assms by (simp add: configure_ios_def configure_io_def)

lemma cleanup_log:
  assumes "\<And>w io. opens env w (sma_path ocp_path io)"
  shows "io_cleanup env ocp_path w = w @ map (\<lambda>io. WriteSma (sma_path ocp_path io) PPS_IN) [1, 2, 3, 4] @
     map (\<lambda>i. ExttsRequest i False) [0..<NUM_EXTTS] @ [CloseClock]"
  unfolding io_cleanup_def disable_all_extts_def disable_loop_log all_inputs [OF assms] by simp

lemma sma_path_inj: "sma_path p i = sma_path p j \<longleftrightarrow> dec i = dec j"
  by (simp add: sma_path_def)

lemma test_ends_clean:
  "test_configurable_io env ocp_path ptp_path rs = Some (passed, w) \<Longrightarrow> \<exists>u. w = io_cleanup env ocp_path u"
  by (auto simp: test_configurable_io_def split: prod.splits if_splits option.splits)

text \<open>However the test ends, when the connectors' files can be opened it leaves all four connectors
  as inputs, with every kind of time stamp switched off again and the clock closed.\<close>

theorem io_test_leaves_inputs:
  assumes "\<And>w io. opens env w (sma_path ocp_path io)"
    and "test_configurable_io env ocp_path ptp_path rs = Some (passed, w)"
  shows "(\<forall>io \<in> {1, 2, 3, 4}. last_mode (sma_path ocp_path io) w = Some PPS_IN) \<and>
    (\<exists>u. w = u @ map (\<lambda>i. ExttsRequest i False) [0..<NUM_EXTTS] @ [CloseClock])"
proof -
  obtain u where w: "w = io_cleanup env ocp_path u" using test_ends_clean [OF assms(2)] by blast
  show ?thesis
    unfolding w cleanup_log [OF assms(1)]
    by (auto simp: last_mode_append last_mode_requests sma_path_inj)
qed

definition good_env :: io_env where "good_env = \<lparr>opens = \<lambda>w p. True, request_ok = \<lambda>w i on. True\<rparr>"

lemma sample_passes:
  "map_option fst (test_configurable_io good_env ''/c'' ''/dev/ptp0'' [pulse 1, pulse 3, pulse 2, pulse 0, pulse 4]) = Some True"
  by code_simp

theorem io_test_leaves_inputs_witness:
  "\<exists>w. test_configurable_io good_env ''/c'' ''/dev/ptp0'' [pulse 1, pulse 3, pulse 2, pulse 0, pulse 4] = Some (True, w) \<and>
     last_mode (sma_path ''/c'' 1) w = Some PPS_IN"
proof -
  obtain w where w: "test_configurable_io good_env ''/c'' ''/dev/ptp0'' [pulse 1, pulse 3, pulse 2, pulse 0, pulse 4] = Some (True, w)"
    using sample_passes by auto
  then show ?thesis using io_test_leaves_inputs [OF _ w] by (auto simp: good_env_def)
qed

end
