(* ===== verification/ProdPtp.thy ===== *)
theory ProdPtp
  imports ProdIo OdMain
begin

text \<open>
  \<open>tests_production/ptp_test_prod.c\<close>: the clock of the card is set to the time of the server and then
  moved by two offsets; each time the program measures how far it moved. What the clocks show is an
  argument; the clock behind an adjustment may depend on the offset it was handed.
\<close>

definition SET_TIME_PHASE_ERROR :: int where "SET_TIME_PHASE_ERROR = 200000"

section \<open>Differences\<close>

text \<open>Unsigned 64-bit differences, stored in a signed variable.\<close>

definition uint64_ns :: "timespec \<Rightarrow> int" where
  "uint64_ns ts = (tv_sec ts * NS_IN_SECOND + tv_nsec ts) mod 2 ^ 64"

definition timespec_diff :: "timespec \<Rightarrow> timespec \<Rightarrow> int" where
  "timespec_diff ts1 ts2 = to_i64 ((uint64_ns ts1 - uint64_ns ts2) mod 2 ^ 64)"

lemma timespec_diff_exact:
  assumes "- (2 ^ 63) \<le> ts_ns a - ts_ns b" "ts_ns a - ts_ns b < 2 ^ 63"
  shows "timespec_diff a b = ts_ns a - ts_ns b"
proof -
  have "timespec_diff a b = to_i64 (ts_ns a - ts_ns b)"
    by (simp add: timespec_diff_def uint64_ns_def ts_ns_def NS_IN_SECOND_def NS_IN_SEC_def to_i64_def mod_simps)
  then show ?thesis using assms by (simp add: to_i64_id)
qed

section \<open>One adjustment\<close>

text \<open>The answers of the calls in their order, each with its return value; the result of
  \<open>clock_adjtime\<close> is not looked at.\<close>

record adjtime_env =
  real_0 :: "int \<times> timespec"
  set_ret :: int
  real_1 :: "int \<times> timespec"
  ptp_1 :: "int \<times> timespec"
  real_2 :: "int \<times> timespec"
  ptp_2 :: "timespec \<Rightarrow> int \<times> timespec"

datatype ptp_cmd = SetTime timespec | SetOffset timespec

definition adjust_timex :: "int \<Rightarrow> timespec" where
  "adjust_timex adjust_ns =
     \<lparr>tv_sec = (if adjust_ns > 0 \<or> adjust_ns smod NS_IN_SECOND = 0 then adjust_ns sdiv NS_IN_SECOND
                else adjust_ns sdiv NS_IN_SECOND - 1),
      tv_nsec = (if adjust_ns > 0 \<or> adjust_ns smod NS_IN_SECOND = 0 then adjust_ns smod NS_IN_SECOND
                 else adjust_ns smod NS_IN_SECOND + NS_IN_SECOND)\<rparr>"

definition test_ptp_adjtime :: "adjtime_env \<Rightarrow> int \<Rightarrow> bool \<times> ptp_cmd list" where
  "test_ptp_adjtime env adjust_ns =
     (if fst (real_0 env) \<noteq> 0 then (False, [])
      else let w = [SetTime (snd (real_0 env))]
      in if set_ret env \<noteq> 0 then (False, w)
      else if fst (real_1 env) \<noteq> 0 then (False, w)
      else if fst (ptp_1 env) \<noteq> 0 then (False, w)
      else let diff_before = timespec_diff (snd (ptp_1 env)) (snd (real_1 env));
               timex = adjust_timex adjust_ns;
               w' = w @ [SetOffset timex];
               after = ptp_2 env timex
      in if fst (real_2 env) \<noteq> 0 then (False, w')
      else if fst after \<noteq> 0 then (False, w')
      else let diff = timespec_diff (snd after) (snd (real_2 env)) - diff_before
      in (\<not> (diff > adjust_ns + SET_TIME_PHASE_ERROR \<or> diff < adjust_ns - SET_TIME_PHASE_ERROR), w'))"

section \<open>The program\<close>

record ptp_env =
  open_clock_device :: "string \<Rightarrow> int"
  real_time :: "int \<times> timespec"
  settime_ret :: int
  ptp_time :: "int \<times> timespec"
  adjusts :: "adjtime_env \<times> adjtime_env"

definition adjust_tests :: "int list" where "adjust_tests = [- 1 * NS_IN_SECOND, - 500000000]"

text \<open>The first check: errors are noted, and the program goes on with whatever the variables hold.\<close>

definition set_time_check :: "ptp_env \<Rightarrow> bool" where
  "set_time_check env =
     (let passed = (fst (real_time env) = 0);
          passed = (if settime_ret env \<noteq> 0 then False else passed);
          passed = (if fst (ptp_time env) \<noteq> 0 then False else passed);
          diff_ns = timespec_diff (snd (real_time env)) (snd (ptp_time env))
      in if diff_ns > SET_TIME_PHASE_ERROR \<or> diff_ns < - SET_TIME_PHASE_ERROR then False else passed)"

fun adjust_loop :: "adjtime_env list \<Rightarrow> int list \<Rightarrow> bool \<Rightarrow> ptp_cmd list \<Rightarrow> bool \<times> ptp_cmd list" where
  "adjust_loop (e # es) (a # as) passed w =
     (case test_ptp_adjtime e a of (ok, w') \<Rightarrow> adjust_loop es as (if ok then passed else False) (w @ w'))"
| "adjust_loop _ _ passed w = (passed, w)"

text \<open>\<open>None\<close>: undefined behaviour while scanning. \<open>junk\<close> is what the uninitialised flag holds.\<close>

definition ptp_test_main :: "card_env \<Rightarrow> bool \<Rightarrow> ptp_env \<Rightarrow> string \<Rightarrow> (verdict \<times> ptp_cmd list) option" where
  "ptp_test_main cenv junk env arg =
     map_option (\<lambda>(ocp_valid, ptp_valid, ptp_path).
       if ptp_valid then
         (if open_clock_device env ptp_path > 0
          then case adjust_loop [fst (adjusts env), snd (adjusts env)] adjust_tests (set_time_check env)
                      [SetTime (snd (real_time env))] of
                 (passed, w) \<Rightarrow> (if passed then TestPassed else TestFailed, w)
          else (TestAborted, []))
       else (TestAborted, []))
     (find_card_device cenv 255 arg ''ptp'' junk)"

section \<open>What the test decides\<close>

lemma adjust_timex_offset: "adjust_timex a = apply_phase_offset a"
  by (simp add: adjust_timex_def apply_phase_offset_def)

text \<open>A server and a card whose clocks run alike. All times in nanoseconds: when the server's clock is
  read and the card's clock set, and when both are read before and after the adjustment. The card
  moves its clock by \<open>move\<close> of the offset it is handed.\<close>

record run_times =
  at_read :: int
  at_set :: int
  at_real_1 :: int
  at_ptp_1 :: int
  at_real_2 :: int
  at_ptp_2 :: int

definition ts_of :: "int \<Rightarrow> timespec" where "ts_of n = \<lparr>tv_sec = n div NS_IN_SECOND, tv_nsec = n mod NS_IN_SECOND\<rparr>"

lemma ts_ns_ts_of [simp]: "ts_ns (ts_of n) = n"
  by (simp add: ts_ns_def ts_of_def NS_IN_SECOND_def NS_IN_SEC_def)

definition clock_env :: "run_times \<Rightarrow> (timespec \<Rightarrow> int) \<Rightarrow> adjtime_env" where
  "clock_env t move =
     (let shift = at_read t - at_set t
      in \<lparr>real_0 = (0, ts_of (at_read t)), set_ret = 0,
          real_1 = (0, ts_of (at_real_1 t)), ptp_1 = (0, ts_of (at_ptp_1 t + shift)),
          real_2 = (0, ts_of (at_real_2 t)), ptp_2 = (\<lambda>o'. (0, ts_of (at_ptp_2 t + shift + move o')))\<rparr>)"

text \<open>The kernel moves the clock by an offset with nanoseconds in their range and refuses any other.\<close>

definition kernel_move :: "timespec \<Rightarrow> int" where
  "kernel_move o' = (if 0 \<le> tv_nsec o' \<and> tv_nsec o' < NS_IN_SECOND then ts_ns o' else 0)"

lemma kernel_moves: "kernel_move (adjust_timex a) = a"
  using phase_offset_split [of a]
  by (simp add: kernel_move_def adjust_timex_offset ts_ns_def NS_IN_SEC_def NS_IN_SECOND_def)

definition sane_times :: "run_times \<Rightarrow> bool" where
  "sane_times t \<longleftrightarrow>
     list_all (\<lambda>x. 0 \<le> x \<and> x < 2 ^ 61) [at_read t, at_set t, at_real_1 t, at_ptp_1 t, at_real_2 t, at_ptp_2 t]"

lemma adjtime_result:
  assumes "sane_times t" "\<bar>move (adjust_timex a)\<bar> < 2 ^ 61"
  shows "fst (test_ptp_adjtime (clock_env t move) a) \<longleftrightarrow>
     \<bar>(at_ptp_2 t - at_real_2 t) - (at_ptp_1 t - at_real_1 t) + move (adjust_timex a) - a\<bar> \<le> SET_TIME_PHASE_ERROR"
proof -
  have 1: "timespec_diff (ts_of (at_ptp_1 t + (at_read t - at_set t))) (ts_of (at_real_1 t)) =
      at_ptp_1 t + (at_read t - at_set t) - at_real_1 t"
    using assms by (subst timespec_diff_exact) (auto simp: sane_times_def)
  have 2: "timespec_diff (ts_of (at_ptp_2 t + (at_read t - at_set t) + move (adjust_timex a))) (ts_of (at_real_2 t)) =
      at_ptp_2 t + (at_read t - at_set t) + move (adjust_timex a) - at_real_2 t"
    using assms by (subst timespec_diff_exact) (auto simp: sane_times_def)
  show ?thesis
    by (simp add: test_ptp_adjtime_def clock_env_def Let_def 1 2) (simp add: SET_TIME_PHASE_ERROR_def, arith)
qed

text \<open>C34. The test of an adjustment by more than twice the tolerance tells a clock that takes the offset
  from one that ignores it, whatever the delay in setting the time: as long as the delays between
  reading the two clocks differ by no more than the tolerance before and after, the first passes
  and the second fails. The offset it hands over is one that the kernel accepts, for every sign.\<close>

theorem ptp_adjustment_decided:
  assumes "sane_times t" "\<bar>a\<bar> < 2 ^ 61" "2 * SET_TIME_PHASE_ERROR < \<bar>a\<bar>"
    and "\<bar>(at_ptp_2 t - at_real_2 t) - (at_ptp_1 t - at_real_1 t)\<bar> \<le> SET_TIME_PHASE_ERROR"
  shows "fst (test_ptp_adjtime (clock_env t kernel_move) a) \<and>
    \<not> fst (test_ptp_adjtime (clock_env t (\<lambda>o'. 0)) a)"
  using adjtime_result [of t kernel_move a] adjtime_result [of t "\<lambda>o'. 0" a] assms
  by (simp add: kernel_moves)

definition sample_times :: run_times where
  "sample_times = \<lparr>at_read = 1700000000000000000, at_set = 1700000000000050000, at_real_1 = 1700000000000060000,
     at_ptp_1 = 1700000000000060800, at_real_2 = 1700000003000070000, at_ptp_2 = 1700000003000070900\<rparr>"

theorem ptp_adjustment_decided_witness:
  "fst (test_ptp_adjtime (clock_env sample_times kernel_move) (- 500000000)) \<and>
   \<not> fst (test_ptp_adjtime (clock_env sample_times (\<lambda>o'. 0)) (- 500000000))"
  by (rule ptp_adjustment_decided) (simp_all add: sample_times_def sane_times_def SET_TIME_PHASE_ERROR_def)

text \<open>Without the device the program aborts whatever its uninitialised flag holds, because the empty
  path cannot be opened.\<close>

lemma ptp_missing_aborts:
  assumes "path_exists cenv (ocp_dir 255 arg) \<Longrightarrow> \<exists>es. dir_of cenv (ocp_dir 255 arg) = Some es \<and> ''ptp'' \<notin> fst ` set es"
    and "open_clock_device env [] = - 1"
  shows "ptp_test_main cenv junk env arg = Some (TestAborted, [])"
proof -
  have "scan_entries ''ptp'' es (junk, []) = (junk, [])" if "''ptp'' \<notin> fst ` set es" for es
    using that by (induction es) auto
  then have "\<exists>valid. find_card_device cenv 255 arg ''ptp'' junk = Some (valid, junk, [])"
    using assms(1) by (auto simp: find_card_device_def Let_def)
  then show ?thesis
    using assms(2) unfolding ptp_test_main_def by (elim exE) simp
qed

end
