(* ===== verification/DefaultTables.thy ===== *)
theory DefaultTables
  imports GnssConfig
begin

text \<open>
  \<open>common/f9_defvalsets.c\<close>: the two tables of default lines, character for character, and that they
  fit the functions that load them (\<open>GnssConfig\<close>): every line has a form that is accepted, no key is
  set twice and all pairs fit. What the names stand for is known to the library ubloxcfg only.
\<close>

section \<open>The tables\<close>

definition default_configuration_1 :: "string list" where
  "default_configuration_1 = [
     ''UART1     115200  UBX                  UBX'',
     ''UART2      38400  RTCM3                RTCM3'',
     ''SPI            -  UBX,NMEA,RTCM3       UBX,NMEA,RTCM3'',
     ''I2C            -  UBX,NMEA,RTCM3       UBX,NMEA,RTCM3'',
     ''USB            -  UBX,NMEA,RTCM3       UBX,NMEA,RTCM3'',
     ''NMEA-PUBX-SVSTATUS         0   0   0   0   0'',
     ''NMEA-PUBX-POSITION         0   0   0   0   0'',
     ''NMEA-PUBX-TIME             0   0   0   0   0'',
     ''NMEA-STANDARD-DTM          0   0   0   0   0'',
     ''NMEA-STANDARD-GBS          0   0   0   0   0'',
     ''NMEA-STANDARD-GGA          0   0   0   0   0'',
     ''NMEA-STANDARD-GLL          0   0   0   0   0'',
     ''NMEA-STANDARD-GNS          0   0   0   0   0'',
     ''NMEA-STANDARD-GRS          0   0   0   0   0'',
     ''NMEA-STANDARD-GSA          0   0   0   0   0'',
     ''NMEA-STANDARD-GST          0   0   0   0   0'',
     ''NMEA-STANDARD-GSV          0   0   0   0   0'',
     ''NMEA-STANDARD-RMC          0   0   0   0   0'',
     ''NMEA-STANDARD-VLW          0   0   0   0   0'',
     ''NMEA-STANDARD-VTG          0   0   0   0   0'',
     ''NMEA-STANDARD-ZDA          0   0   0   0   0'',
     ''RTCM-3X-TYPE1005           0   0   0   0   0'',
     ''RTCM-3X-TYPE1077           0   0   0   0   0'',
     ''RTCM-3X-TYPE1087           0   0   0   0   0'',
     ''RTCM-3X-TYPE1097           0   0   0   0   0'',
     ''RTCM-3X-TYPE1127           0   0   0   0   0'',
     ''RTCM-3X-TYPE1230           0   0   0   0   0'',
     ''RTCM-3X-TYPE4072_1         0   0   0   0   0'',
     ''UBX-LOG-INFO               0   0   0   0   0'',
     ''UBX-MON-COMMS              0   0   0   0   0'',
     ''UBX-MON-HW                 0   0   0   0   0'',
     ''UBX-MON-HW2                0   0   0   0   0'',
     ''UBX-MON-HW3                0   0   0   0   0'',
     ''UBX-MON-IO                 0   0   0   0   0'',
     ''UBX-MON-MSGPP              0   0   0   0   0'',
     ''UBX-MON-RF                 1   1   1   1   1'',
     ''UBX-MON-RXBUF              0   0   0   0   0'',
     ''UBX-MON-RXR                0   0   0   0   0'',
     ''UBX-MON-TEMP               0   0   0   0   0'',
     ''UBX-MON-TXBUF              0   0   0   0   0'',
     ''UBX-NAV-CLOCK              0   0   0   0   0'',
     ''UBX-NAV-COV                0   0   0   0   0'',
     ''UBX-NAV-DOP                0   0   0   0   0'',
     ''UBX-NAV-EOE                1   1   1   1   1'',
     ''UBX-NAV-GEOFENCE           0   0   0   0   0'',
     ''UBX-NAV-ODO                0   0   0   0   0'',
     ''UBX-NAV-ORB                0   0   0   0   0'',
     ''UBX-NAV-POSECEF            0   0   0   0   0'',
     ''UBX-NAV-POSLLH             0   0   0   0   0'',
     ''UBX-NAV-PVT                1   1   1   1   1'',
     ''UBX-NAV-SAT                0   0   0   0   0'',
     ''UBX-NAV-SBAS               0   0   0   0   0'',
     ''UBX-NAV-SIG                0   0   0   0   0'',
     ''UBX-NAV-STATUS             0   0   0   0   0'',
     ''UBX-NAV-SVIN               0   0   0   0   0'',
     ''UBX-NAV-TIMEBDS            0   0   0   0   0'',
     ''UBX-NAV-TIMEGAL            0   0   0   0   0'',
     ''UBX-NAV-TIMEGLO            0   0   0   0   0'',
     ''UBX-NAV-TIMEGPS            0   0   0   0   0'',
     ''UBX-NAV-TIMELS             1   1   1   1   1'',
     ''UBX-NAV-TIMEUTC            1   1   1   1   1'',
     ''UBX-NAV-VELECEF            0   0   0   0   0'',
     ''UBX-NAV-VELNED             0   0   0   0   0'',
     ''UBX-RXM-MEASX              0   0   0   0   0'',
     ''UBX-RXM-RAWX               0   0   0   0   0'',
     ''UBX-RXM-RLM                0   0   0   0   0'',
     ''UBX-RXM-RTCM               0   0   0   0   0'',
     ''UBX-RXM-SFRBX              0   0   0   0   0'',
     ''UBX-TIM-TM2                0   0   0   0   0'',
     ''UBX-TIM-TP                 1   1   1   1   1'',
     ''UBX-TIM-VRFY               0   0   0   0   0'',
     ''UBX-TIM-SVIN               1   1   1   1   1'',
     ''CFG-GEOFENCE-CONFLVL               L000'',
     ''CFG-GEOFENCE-USE_PIO               false'',
     ''CFG-GEOFENCE-PINPOL                LOW_IN'',
     ''CFG-GEOFENCE-PIN                   3'',
     ''CFG-GEOFENCE-USE_FENCE1            false'',
     ''CFG-GEOFENCE-FENCE1_LAT            0'',
     ''CFG-GEOFENCE-FENCE1_LON            0'',
     ''CFG-GEOFENCE-FENCE1_RAD            0'',
     ''CFG-GEOFENCE-USE_FENCE2            false'',
     ''CFG-GEOFENCE-FENCE2_LAT            0'',
     ''CFG-GEOFENCE-FENCE2_LON            0'',
     ''CFG-GEOFENCE-FENCE2_RAD            0'',
     ''CFG-GEOFENCE-USE_FENCE3            false'',
     ''CFG-GEOFENCE-FENCE3_LAT            0'',
     ''CFG-GEOFENCE-FENCE3_LON            0'',
     ''CFG-GEOFENCE-FENCE3_RAD            0'',
     ''CFG-GEOFENCE-USE_FENCE4            false'',
     ''CFG-GEOFENCE-FENCE4_LAT            0'',
     ''CFG-GEOFENCE-FENCE4_LON            0'',
     ''CFG-GEOFENCE-FENCE4_RAD            0'',
     ''CFG-HW-ANT_CFG_VOLTCTRL            true'',
     ''CFG-HW-ANT_CFG_SHORTDET            true'',
     ''CFG-HW-ANT_CFG_SHORTDET_POL        true'',
     ''CFG-HW-ANT_CFG_OPENDET             true'',
     ''CFG-HW-ANT_CFG_OPENDET_POL         true'',
     ''CFG-HW-ANT_CFG_PWRDOWN             true'',
     ''CFG-HW-ANT_CFG_PWRDOWN_POL         true'',
     ''CFG-HW-ANT_CFG_RECOVER             true'',
     ''CFG-HW-ANT_SUP_SWITCH_PIN          16'',
     ''CFG-HW-ANT_SUP_SHORT_PIN           15'',
     ''CFG-HW-ANT_SUP_OPEN_PIN            14'',
     ''CFG-I2C-ADDRESS                    132'',
     ''CFG-I2C-EXTENDEDTIMEOUT            false'',
     ''CFG-I2C-ENABLED                    true'',
     ''CFG-INFMSG-UBX_I2C                 0x00'',
     ''CFG-INFMSG-UBX_UART1               0x00'',
     ''CFG-INFMSG-UBX_UART2               0x00'',
     ''CFG-INFMSG-UBX_USB                 0x00'',
     ''CFG-INFMSG-UBX_SPI                 0x00'',
     ''CFG-INFMSG-NMEA_I2C                ERROR|WARNING|NOTICE'',
     ''CFG-INFMSG-NMEA_UART1              ERROR|WARNING|NOTICE'',
     ''CFG-INFMSG-NMEA_UART2              ERROR|WARNING|NOTICE'',
     ''CFG-INFMSG-NMEA_USB                ERROR|WARNING|NOTICE'',
     ''CFG-INFMSG-NMEA_SPI                ERROR|WARNING|NOTICE'',
     ''CFG-ITFM-BBTHRESHOLD               3'',
     ''CFG-ITFM-CWTHRESHOLD               15'',
     ''CFG-ITFM-ENABLE                    false'',
     ''CFG-ITFM-ANTSETTING                UNKNOWN'',
     ''CFG-ITFM-ENABLE_AUX                false'',
     ''CFG-LOGFILTER-RECORD_ENA           false'',
     ''CFG-LOGFILTER-ONCE_PER_WAKE_UP_ENA false'',
     ''CFG-LOGFILTER-APPLY_ALL_FILTERS    false'',
     ''CFG-LOGFILTER-MIN_INTERVAL         0'',
     ''CFG-LOGFILTER-TIME_THRS            0'',
     ''CFG-LOGFILTER-SPEED_THRS           0'',
     ''CFG-LOGFILTER-POSITION_THRS        0'',
     ''CFG-MOT-GNSSSPEED_THRS             0'',
     ''CFG-MOT-GNSSDIST_THRS              0'',
     ''CFG-NAVSPG-FIXMODE                 AUTO'',
     ''CFG-NAVSPG-INIFIX3D                false'',
     ''CFG-NAVSPG-WKNROLLOVER             2014'',
     ''CFG-NAVSPG-USE_PPP                 true'',
     ''CFG-NAVSPG-UTCSTANDARD             AUTO'',
     ''CFG-NAVSPG-DYNMODEL                STAT'',
     ''CFG-NAVSPG-ACKAIDING               false'',
     ''CFG-NAVSPG-USE_USRDAT              false'',
     ''CFG-NAVSPG-USRDAT_MAJA             6378137'',
     ''CFG-NAVSPG-USRDAT_FLAT             298.25722356300002502393908798694610595703125'',
     ''CFG-NAVSPG-USRDAT_DX               0'',
     ''CFG-NAVSPG-USRDAT_DY               0'']"

definition default_configuration_2 :: "string list" where
  "default_configuration_2 = [
     ''CFG-NAVSPG-USRDAT_DZ               0'',
     ''CFG-NAVSPG-USRDAT_ROTX             0'',
     ''CFG-NAVSPG-USRDAT_ROTY             0'',
     ''CFG-NAVSPG-USRDAT_ROTZ             0'',
     ''CFG-NAVSPG-USRDAT_SCALE            0'',
     ''CFG-NAVSPG-INFIL_MINSVS            1'',
     ''CFG-NAVSPG-INFIL_MAXSVS            32'',
     ''CFG-NAVSPG-INFIL_MINCNO            9'',
     ''CFG-NAVSPG-INFIL_MINELEV           5'',
     ''CFG-NAVSPG-INFIL_NCNOTHRS          0'',
     ''CFG-NAVSPG-INFIL_CNOTHRS           0'',
     ''CFG-NAVSPG-OUTFIL_PDOP             250'',
     ''CFG-NAVSPG-OUTFIL_TDOP             250'',
     ''CFG-NAVSPG-OUTFIL_PACC             100'',
     ''CFG-NAVSPG-OUTFIL_TACC             350'',
     ''CFG-NAVSPG-OUTFIL_FACC             150'',
     ''CFG-NAVSPG-CONSTR_ALT              0'',
     ''CFG-NAVSPG-CONSTR_ALTVAR           10000'',
     ''CFG-NAVSPG-CONSTR_DGNSSTO          60'',
     ''CFG-NMEA-PROTVER                   V41'',
     ''CFG-NMEA-MAXSVS                    UNLIM'',
     ''CFG-NMEA-COMPAT                    false'',
     ''CFG-NMEA-CONSIDER                  true'',
     ''CFG-NMEA-LIMIT82                   false'',
     ''CFG-NMEA-HIGHPREC                  false'',
     ''CFG-NMEA-SVNUMBERING               STRICT'',
     ''CFG-NMEA-FILT_GPS                  false'',
     ''CFG-NMEA-FILT_SBAS                 false'',
     ''CFG-NMEA-FILT_GAL                  false'',
     ''CFG-NMEA-FILT_QZSS                 false'',
     ''CFG-NMEA-FILT_GLO                  false'',
     ''CFG-NMEA-FILT_BDS                  false'',
     ''CFG-NMEA-OUT_INVFIX                false'',
     ''CFG-NMEA-OUT_MSKFIX                false'',
     ''CFG-NMEA-OUT_INVTIME               false'',
     ''CFG-NMEA-OUT_INVDATE               false'',
     ''CFG-NMEA-OUT_ONLYGPS               false'',
     ''CFG-NMEA-OUT_FROZENCOG             false'',
     ''CFG-NMEA-MAINTALKERID              AUTO'',
     ''CFG-NMEA-GSVTALKERID               GNSS'',
     ''CFG-NMEA-BDSTALKERID               0'',
     ''CFG-ODO-USE_ODO                    false'',
     ''CFG-ODO-USE_COG                    false'',
     ''CFG-ODO-OUTLPVEL                   false'',
     ''CFG-ODO-OUTLPCOG                   false'',
     ''CFG-ODO-PROFILE                    RUN'',
     ''CFG-ODO-COGMAXSPEED                10'',
     ''CFG-ODO-COGMAXPOSACC               50'',
     ''CFG-ODO-VELLPGAIN                  153'',
     ''CFG-ODO-COGLPGAIN                  76'',
     ''CFG-RATE-MEAS                      1000'',
     ''CFG-RATE-NAV                       1'',
     ''CFG-RATE-TIMEREF                   GPS'',
     ''CFG-RINV-DUMP                      false'',
     ''CFG-RINV-BINARY                    false'',
     ''CFG-RINV-DATA_SIZE                 22'',
     ''CFG-RINV-CHUNK0                    0x203a656369746f4e'',
     ''CFG-RINV-CHUNK1                    0x2061746164206f6e'',
     ''CFG-RINV-CHUNK2                    0x0000216465766173'',
     ''CFG-RINV-CHUNK3                    0x0000000000000000'',
     ''CFG-SBAS-USE_TESTMODE              false'',
     ''CFG-SBAS-USE_RANGING               true'',
     ''CFG-SBAS-USE_DIFFCORR              true'',
     ''CFG-SBAS-USE_INTEGRITY             false'',
     ''CFG-SBAS-PRNSCANMASK               PRN120|PRN123|PRN127|PRN128|PRN129|PRN133|PRN135|PRN136|PRN137|PRN138'',
     ''CFG-SIGNAL-GPS_ENA                 true'',
     ''CFG-SIGNAL-GPS_L1CA_ENA            true'',
     ''CFG-SIGNAL-GPS_L2C_ENA             true'',
     ''CFG-SIGNAL-SBAS_ENA                true'',
     ''CFG-SIGNAL-SBAS_L1CA_ENA           false'',
     ''CFG-SIGNAL-GAL_ENA                 true'',
     ''CFG-SIGNAL-GAL_E1_ENA              true'',
     ''CFG-SIGNAL-GAL_E5B_ENA             true'',
     ''CFG-SIGNAL-BDS_ENA                 true'',
     ''CFG-SIGNAL-BDS_B1_ENA              true'',
     ''CFG-SIGNAL-BDS_B2_ENA              true'',
     ''CFG-SIGNAL-QZSS_ENA                true'',
     ''CFG-SIGNAL-QZSS_L1CA_ENA           true'',
     ''CFG-SIGNAL-QZSS_L1S_ENA            false'',
     ''CFG-SIGNAL-QZSS_L2C_ENA            true'',
     ''CFG-SIGNAL-GLO_ENA                 true'',
     ''CFG-SIGNAL-GLO_L1_ENA              true'',
     ''CFG-SIGNAL-GLO_L2_ENA              true'',
     ''CFG-SPI-MAXFF                      50'',
     ''CFG-SPI-CPOLARITY                  false'',
     ''CFG-SPI-CPHASE                     false'',
     ''CFG-SPI-EXTENDEDTIMEOUT            false'',
     ''CFG-SPI-ENABLED                    false'',
     ''CFG-TMODE-MODE                     SURVEY_IN'',
     ''CFG-TMODE-POS_TYPE                 ECEF'',
     ''CFG-TMODE-ECEF_X                   0'',
     ''CFG-TMODE-ECEF_Y                   0'',
     ''CFG-TMODE-ECEF_Z                   0'',
     ''CFG-TMODE-ECEF_X_HP                0'',
     ''CFG-TMODE-ECEF_Y_HP                0'',
     ''CFG-TMODE-ECEF_Z_HP                0'',
     ''CFG-TMODE-LAT                      0'',
     ''CFG-TMODE-LON                      0'',
     ''CFG-TMODE-HEIGHT                   0'',
     ''CFG-TMODE-LAT_HP                   0'',
     ''CFG-TMODE-LON_HP                   0'',
     ''CFG-TMODE-HEIGHT_HP                0'',
     ''CFG-TMODE-FIXED_POS_ACC            0'',
     ''CFG-TMODE-SVIN_MIN_DUR             1200'',
     ''CFG-TMODE-SVIN_ACC_LIMIT           90000'',
     ''CFG-TP-PULSE_DEF                   PERIOD'',
     ''CFG-TP-PULSE_LENGTH_DEF            LENGTH'',
     ''CFG-TP-ANT_CABLEDELAY              50'',
     ''CFG-TP-PERIOD_TP1                  1'',
     ''CFG-TP-PERIOD_LOCK_TP1             1000000'',
     ''CFG-TP-FREQ_TP1                    1'',
     ''CFG-TP-FREQ_LOCK_TP1               1'',
     ''CFG-TP-LEN_TP1                     0'',
     ''CFG-TP-LEN_LOCK_TP1                100000'',
     ''CFG-TP-DUTY_TP1                    0'',
     ''CFG-TP-DUTY_LOCK_TP1               100000'',
     ''CFG-TP-USER_DELAY_TP1              0'',
     ''CFG-TP-TP1_ENA                     true'',
     ''CFG-TP-SYNC_GNSS_TP1               true'',
     ''CFG-TP-USE_LOCKED_TP1              true'',
     ''CFG-TP-ALIGN_TO_TOW_TP1            true'',
     ''CFG-TP-POL_TP1                     true'',
     ''CFG-TP-TIMEGRID_TP1                GPS'',
     ''CFG-TXREADY-ENABLED                false'',
     ''CFG-TXREADY-POLARITY               false'',
     ''CFG-TXREADY-PIN                    0'',
     ''CFG-TXREADY-THRESHOLD              0'',
     ''CFG-TXREADY-INTERFACE              I2C'',
     ''CFG-UART1-STOPBITS                 ONE'',
     ''CFG-UART1-DATABITS                 EIGHT'',
     ''CFG-UART1-PARITY                   NONE'',
     ''CFG-UART1-ENABLED                  true'',
     ''CFG-UART2-STOPBITS                 ONE'',
     ''CFG-UART2-DATABITS                 EIGHT'',
     ''CFG-UART2-PARITY                   NONE'',
     ''CFG-UART2-ENABLED                  true'',
     ''CFG-UART2-REMAP                    false'',
     ''CFG-USB-ENABLED                    true'',
     ''CFG-USB-SELFPOW                    true'',
     ''CFG-USB-VENDOR_ID                  5446'',
     ''CFG-USB-PRODUCT_ID                 425'',
     ''CFG-USB-POWER                      0'']"

definition default_configuration_v220_1 :: "string list" where
  "default_configuration_v220_1 = [
     ''UART1     115200  UBX                  UBX'',
     ''UART2      38400  RTCM3                RTCM3'',
     ''SPI            -  UBX,NMEA,RTCM3       UBX,NMEA,RTCM3'',
     ''I2C            -  UBX,NMEA,RTCM3       UBX,NMEA,RTCM3'',
     ''USB            -  UBX,NMEA,RTCM3       UBX,NMEA,RTCM3'',
     ''NMEA-PUBX-SVSTATUS         0   0   0   0   0'',
     ''NMEA-PUBX-POSITION         0   0   0   0   0'',
     ''NMEA-PUBX-TIME             0   0   0   0   0'',
     ''NMEA-STANDARD-DTM          0   0   0   0   0'',
     ''NMEA-STANDARD-GBS          0   0   0   0   0'',
     ''NMEA-STANDARD-GGA          0   0   0   0   0'',
     ''NMEA-STANDARD-GLL          0   0   0   0   0'',
     ''NMEA-STANDARD-GNS          0   0   0   0   0'',
     ''NMEA-STANDARD-GRS          0   0   0   0   0'',
     ''NMEA-STANDARD-GSA          0   0   0   0   0'',
     ''NMEA-STANDARD-GST          0   0   0   0   0'',
     ''NMEA-STANDARD-GSV          0   0   0   0   0'',
     ''NMEA-STANDARD-RLM          0   0   0   0   0'',
     ''NMEA-STANDARD-RMC          0   0   0   0   0'',
     ''NMEA-STANDARD-VLW          0   0   0   0   0'',
     ''NMEA-STANDARD-VTG          0   0   0   0   0'',
     ''NMEA-STANDARD-ZDA          0   0   0   0   0'',
     ''RTCM-3X-TYPE1005           0   0   0   0   0'',
     ''RTCM-3X-TYPE1074           0   0   0   0   0'',
     ''RTCM-3X-TYPE1077           0   0   0   0   0'',
     ''RTCM-3X-TYPE1084           0   0   0   0   0'',
     ''RTCM-3X-TYPE1087           0   0   0   0   0'',
     ''RTCM-3X-TYPE1094           0   0   0   0   0'',
     ''RTCM-3X-TYPE1097           0   0   0   0   0'',
     ''RTCM-3X-TYPE1124           0   0   0   0   0'',
     ''RTCM-3X-TYPE1127           0   0   0   0   0'',
     ''RTCM-3X-TYPE1230           0   0   0   0   0'',
     ''RTCM-3X-TYPE4072_0         0   0   0   0   0'',
     ''RTCM-3X-TYPE4072_1         0   0   0   0   0'',
     ''UBX-LOG-INFO               0   0   0   0   0'',
     ''UBX-MON-COMMS              0   0   0   0   0'',
     ''UBX-MON-HW                 0   0   0   0   0'',
     ''UBX-MON-HW2                0   0   0   0   0'',
     ''UBX-MON-HW3                0   0   0   0   0'',
     ''UBX-MON-IO                 0   0   0   0   0'',
     ''UBX-MON-MSGPP              0   0   0   0   0'',
     ''UBX-MON-RF                 1   1   1   1   1'',
     ''UBX-MON-RXBUF              0   0   0   0   0'',
     ''UBX-MON-RXR                0   0   0   0   0'',
     ''UBX-MON-SPAN                0   0   0   0   0'',
     ''UBX-MON-TXBUF              0   0   0   0   0'',
     ''UBX-NAV-CLOCK              0   0   0   0   0'',
     ''UBX-NAV-COV                0   0   0   0   0'',
     ''UBX-NAV-DOP                0   0   0   0   0'',
     ''UBX-NAV-EOE                1   1   1   1   1'',
     ''UBX-NAV-GEOFENCE           0   0   0   0   0'',
     ''UBX-NAV-ODO                0   0   0   0   0'',
     ''UBX-NAV-ORB                0   0   0   0   0'',
     ''UBX-NAV-POSECEF            0   0   0   0   0'',
     ''UBX-NAV-POSLLH             0   0   0   0   0'',
     ''UBX-NAV-PVT                1   1   1   1   1'',
     ''UBX-NAV-SAT                0   0   0   0   0'',
     ''UBX-NAV-SBAS               0   0   0   0   0'',
     ''UBX-NAV-SIG                0   0   0   0   0'',
     ''UBX-NAV-STATUS             0   0   0   0   0'',
     ''UBX-NAV-TIMEBDS            0   0   0   0   0'',
     ''UBX-NAV-TIMEGAL            0   0   0   0   0'',
     ''UBX-NAV-TIMEGLO            0   0   0   0   0'',
     ''UBX-NAV-TIMEGPS            0   0   0   0   0'',
     ''UBX-NAV-TIMELS             1   1   1   1   1'',
     ''UBX-NAV-TIMEUTC            1   1   1   1   1'',
     ''UBX-NAV-VELECEF            0   0   0   0   0'',
     ''UBX-NAV-VELNED             0   0   0   0   0'',
     ''UBX-RXM-MEASX              0   0   0   0   0'',
     ''UBX-RXM-RAWX               0   0   0   0   0'',
     ''UBX-RXM-RLM                0   0   0   0   0'',
     ''UBX-RXM-RTCM               0   0   0   0   0'',
     ''UBX-RXM-SFRBX              0   0   0   0   0'',
     ''UBX-TIM-TM2                0   0   0   0   0'',
     ''UBX-TIM-TP                 1   1   1   1   1'',
     ''UBX-TIM-VRFY               0   0   0   0   0'',
     ''UBX-TIM-SVIN               1   1   1   1   1'',
     ''CFG-GEOFENCE-CONFLVL               L000'',
     ''CFG-GEOFENCE-USE_PIO               false'',
     ''CFG-GEOFENCE-PINPOL                LOW_IN'',
     ''CFG-GEOFENCE-PIN                   3'',
     ''CFG-GEOFENCE-USE_FENCE1            false'',
     ''CFG-GEOFENCE-FENCE1_LAT            0'',
     ''CFG-GEOFENCE-FENCE1_LON            0'',
     ''CFG-GEOFENCE-FENCE1_RAD            0'',
     ''CFG-GEOFENCE-USE_FENCE2            false'',
     ''CFG-GEOFENCE-FENCE2_LAT            0'',
     ''CFG-GEOFENCE-FENCE2_LON            0'',
     ''CFG-GEOFENCE-FENCE2_RAD            0'',
     ''CFG-GEOFENCE-USE_FENCE3            false'',
     ''CFG-GEOFENCE-FENCE3_LAT            0'',
     ''CFG-GEOFENCE-FENCE3_LON            0'',
     ''CFG-GEOFENCE-FENCE3_RAD            0'',
     ''CFG-GEOFENCE-USE_FENCE4            false'',
     ''CFG-GEOFENCE-FENCE4_LAT            0'',
     ''CFG-GEOFENCE-FENCE4_LON            0'',
     ''CFG-GEOFENCE-FENCE4_RAD            0'',
     ''CFG-HW-ANT_CFG_VOLTCTRL            true'',
     ''CFG-HW-ANT_CFG_SHORTDET            true'',
     ''CFG-HW-ANT_CFG_SHORTDET_POL        true'',
     ''CFG-HW-ANT_CFG_OPENDET             true'',
     ''CFG-HW-ANT_CFG_OPENDET_POL         true'',
     ''CFG-HW-ANT_CFG_PWRDOWN             true'',
     ''CFG-HW-ANT_CFG_PWRDOWN_POL         true'',
     ''CFG-HW-ANT_CFG_RECOVER             true'',
     ''CFG-HW-ANT_SUP_SWITCH_PIN          16'',
     ''CFG-HW-ANT_SUP_SHORT_PIN           15'',
     ''CFG-HW-ANT_SUP_OPEN_PIN            14'',
     ''CFG-HW-ANT_SUP_ENGINE              EXT'',
     ''CFG-HW-ANT_SUP_SHORT_THR           0'',
     ''CFG-HW-ANT_SUP_OPEN_THR            0'',
     ''CFG-I2C-ADDRESS                    132'',
     ''CFG-I2C-EXTENDEDTIMEOUT            false'',
     ''CFG-I2C-ENABLED                    true'',
     ''CFG-INFMSG-UBX_I2C                 0x00'',
     ''CFG-INFMSG-UBX_UART1               0x00'',
     ''CFG-INFMSG-UBX_UART2               0x00'',
     ''CFG-INFMSG-UBX_USB                 0x00'',
     ''CFG-INFMSG-UBX_SPI                 0x00'',
     ''CFG-INFMSG-NMEA_I2C                ERROR|WARNING|NOTICE'',
     ''CFG-INFMSG-NMEA_UART1              ERROR|WARNING|NOTICE'',
     ''CFG-INFMSG-NMEA_UART2              ERROR|WARNING|NOTICE'',
     ''CFG-INFMSG-NMEA_USB                ERROR|WARNING|NOTICE'',
     ''CFG-INFMSG-NMEA_SPI                ERROR|WARNING|NOTICE'',
     ''CFG-ITFM-BBTHRESHOLD               3'',
     ''CFG-ITFM-CWTHRESHOLD               15'',
     ''CFG-ITFM-ENABLE                    false'',
     ''CFG-ITFM-ANTSETTING                UNKNOWN'',
     ''CFG-ITFM-ENABLE_AUX                false'',
     ''CFG-LOGFILTER-RECORD_ENA           false'',
     ''CFG-LOGFILTER-ONCE_PER_WAKE_UP_ENA false'',
     ''CFG-LOGFILTER-APPLY_ALL_FILTERS    false'',
     ''CFG-LOGFILTER-MIN_INTERVAL         0'',
     ''CFG-LOGFILTER-TIME_THRS            0'',
     ''CFG-LOGFILTER-SPEED_THRS           0'',
     ''CFG-LOGFILTER-POSITION_THRS        0'',
     ''CFG-MOT-GNSSSPEED_THRS             0'',
     ''CFG-MOT-GNSSDIST_THRS              0'',
     ''CFG-NAVSPG-FIXMODE                 AUTO'',
     ''CFG-NAVSPG-INIFIX3D                false'',
     ''CFG-NAVSPG-WKNROLLOVER             2185'',
     ''CFG-NAVSPG-USE_PPP                 true'',
     ''CFG-NAVSPG-UTCSTANDARD             AUTO'',
     ''CFG-NAVSPG-DYNMODEL                STAT'',
     ''CFG-NAVSPG-ACKAIDING               false'',
     ''CFG-NAVSPG-USE_USRDAT              false'',
     ''CFG-NAVSPG-USRDAT_MAJA             6378137'',
     ''CFG-NAVSPG-USRDAT_FLAT             298.25722356300002502393908798694610595703125'',
     ''CFG-NAVSPG-USRDAT_DX               0'']"

definition default_configuration_v220_2 :: "string list" where
  "default_configuration_v220_2 = [
     ''CFG-NAVSPG-USRDAT_DY               0'',
     ''CFG-NAVSPG-USRDAT_DZ               0'',
     ''CFG-NAVSPG-USRDAT_ROTX             0'',
     ''CFG-NAVSPG-USRDAT_ROTY             0'',
     ''CFG-NAVSPG-USRDAT_ROTZ             0'',
     ''CFG-NAVSPG-USRDAT_SCALE            0'',
     ''CFG-NAVSPG-INFIL_MINSVS            1'',
     ''CFG-NAVSPG-INFIL_MAXSVS            32'',
     ''CFG-NAVSPG-INFIL_MINCNO            9'',
     ''CFG-NAVSPG-INFIL_MINELEV           10'',
     ''CFG-NAVSPG-INFIL_NCNOTHRS          0'',
     ''CFG-NAVSPG-INFIL_CNOTHRS           0'',
     ''CFG-NAVSPG-OUTFIL_PDOP             250'',
     ''CFG-NAVSPG-OUTFIL_TDOP             250'',
     ''CFG-NAVSPG-OUTFIL_PACC             100'',
     ''CFG-NAVSPG-OUTFIL_TACC             350'',
     ''CFG-NAVSPG-OUTFIL_FACC             150'',
     ''CFG-NAVSPG-CONSTR_ALT              0'',
     ''CFG-NAVSPG-CONSTR_ALTVAR           10000'',
     ''CFG-NAVSPG-CONSTR_DGNSSTO          60'',
     ''CFG-NMEA-PROTVER                   V411'',
     ''CFG-NMEA-MAXSVS                    UNLIM'',
     ''CFG-NMEA-COMPAT                    false'',
     ''CFG-NMEA-CONSIDER                  true'',
     ''CFG-NMEA-LIMIT82                   false'',
     ''CFG-NMEA-HIGHPREC                  false'',
     ''CFG-NMEA-SVNUMBERING               STRICT'',
     ''CFG-NMEA-FILT_GPS                  false'',
     ''CFG-NMEA-FILT_SBAS                 false'',
     ''CFG-NMEA-FILT_GAL                  false'',
     ''CFG-NMEA-FILT_QZSS                 false'',
     ''CFG-NMEA-FILT_GLO                  false'',
     ''CFG-NMEA-FILT_BDS                  false'',
     ''CFG-NMEA-OUT_INVFIX                false'',
     ''CFG-NMEA-OUT_MSKFIX                false'',
     ''CFG-NMEA-OUT_INVTIME               false'',
     ''CFG-NMEA-OUT_INVDATE               false'',
     ''CFG-NMEA-OUT_ONLYGPS               false'',
     ''CFG-NMEA-OUT_FROZENCOG             false'',
     ''CFG-NMEA-MAINTALKERID              AUTO'',
     ''CFG-NMEA-GSVTALKERID               GNSS'',
     ''CFG-NMEA-BDSTALKERID               0'',
     ''CFG-ODO-USE_ODO                    false'',
     ''CFG-ODO-USE_COG                    false'',
     ''CFG-ODO-OUTLPVEL                   false'',
     ''CFG-ODO-OUTLPCOG                   false'',
     ''CFG-ODO-PROFILE                    RUN'',
     ''CFG-ODO-COGMAXSPEED                10'',
     ''CFG-ODO-COGMAXPOSACC               50'',
     ''CFG-ODO-VELLPGAIN                  153'',
     ''CFG-ODO-COGLPGAIN                  76'',
     ''CFG-RATE-MEAS                      1000'',
     ''CFG-RATE-NAV                       1'',
     ''CFG-RATE-TIMEREF                   GPS'',
     ''CFG-RINV-DUMP                      false'',
     ''CFG-RINV-BINARY                    false'',
     ''CFG-RINV-DATA_SIZE                 22'',
     ''CFG-RINV-CHUNK0                    0x203a656369746f4e'',
     ''CFG-RINV-CHUNK1                    0x2061746164206f6e'',
     ''CFG-RINV-CHUNK2                    0x0000216465766173'',
     ''CFG-RINV-CHUNK3                    0x0000000000000000'',
     ''CFG-RTCM-DF003_OUT                 0'',
     ''CFG-RTCM-DF003_IN                  0'',
     ''CFG-RTCM-DF003_IN_FILTER           DISABLED'',
     ''CFG-SBAS-USE_TESTMODE              false'',
     ''CFG-SBAS-USE_RANGING               true'',
     ''CFG-SBAS-USE_DIFFCORR              true'',
     ''CFG-SBAS-USE_INTEGRITY             false'',
     ''CFG-SBAS-PRNSCANMASK               PRN123|PRN127|PRN128|PRN129|PRN131|PRN133|PRN136|PRN137|PRN138'',
     ''CFG-SEC-CFG_LOCK                   false'',
     ''CFG-SEC-CFG_LOCK_UNLOCKGRP1        0'',
     ''CFG-SEC-CFG_LOCK_UNLOCKGRP2        0'',
     ''CFG-SIGNAL-GPS_ENA                 true'',
     ''CFG-SIGNAL-GPS_L1CA_ENA            true'',
     ''CFG-SIGNAL-GPS_L2C_ENA             true'',
     ''CFG-SIGNAL-SBAS_ENA                true'',
     ''CFG-SIGNAL-SBAS_L1CA_ENA           false'',
     ''CFG-SIGNAL-GAL_ENA                 true'',
     ''CFG-SIGNAL-GAL_E1_ENA              true'',
     ''CFG-SIGNAL-GAL_E5B_ENA             true'',
     ''CFG-SIGNAL-BDS_ENA                 true'',
     ''CFG-SIGNAL-BDS_B1_ENA              true'',
     ''CFG-SIGNAL-BDS_B2_ENA              true'',
     ''CFG-SIGNAL-QZSS_ENA                true'',
     ''CFG-SIGNAL-QZSS_L1CA_ENA           true'',
     ''CFG-SIGNAL-QZSS_L2C_ENA            true'',
     ''CFG-SIGNAL-GLO_ENA                 true'',
     ''CFG-SIGNAL-GLO_L1_ENA              true'',
     ''CFG-SIGNAL-GLO_L2_ENA              true'',
     ''CFG-SPI-MAXFF                      50'',
     ''CFG-SPI-CPOLARITY                  false'',
     ''CFG-SPI-CPHASE                     false'',
     ''CFG-SPI-EXTENDEDTIMEOUT            false'',
     ''CFG-SPI-ENABLED                    false'',
     ''CFG-TMODE-MODE                     SURVEY_IN'',
     ''CFG-TMODE-POS_TYPE                 ECEF'',
     ''CFG-TMODE-ECEF_X                   0'',
     ''CFG-TMODE-ECEF_Y                   0'',
     ''CFG-TMODE-ECEF_Z                   0'',
     ''CFG-TMODE-ECEF_X_HP                0'',
     ''CFG-TMODE-ECEF_Y_HP                0'',
     ''CFG-TMODE-ECEF_Z_HP                0'',
     ''CFG-TMODE-LAT                      0'',
     ''CFG-TMODE-LON                      0'',
     ''CFG-TMODE-HEIGHT                   0'',
     ''CFG-TMODE-LAT_HP                   0'',
     ''CFG-TMODE-LON_HP                   0'',
     ''CFG-TMODE-HEIGHT_HP                0'',
     ''CFG-TMODE-FIXED_POS_ACC            0'',
     ''CFG-TMODE-SVIN_MIN_DUR             1200'',
     ''CFG-TMODE-SVIN_ACC_LIMIT           90000'',
     ''CFG-TP-PULSE_DEF                   PERIOD'',
     ''CFG-TP-PULSE_LENGTH_DEF            LENGTH'',
     ''CFG-TP-ANT_CABLEDELAY              50'',
     ''CFG-TP-PERIOD_TP1                  1'',
     ''CFG-TP-PERIOD_LOCK_TP1             1000000'',
     ''CFG-TP-FREQ_TP1                    1'',
     ''CFG-TP-FREQ_LOCK_TP1               1'',
     ''CFG-TP-LEN_TP1                     0'',
     ''CFG-TP-LEN_LOCK_TP1                100000'',
     ''CFG-TP-DUTY_TP1                    0'',
     ''CFG-TP-DUTY_LOCK_TP1               10'',
     ''CFG-TP-USER_DELAY_TP1              0'',
     ''CFG-TP-TP1_ENA                     true'',
     ''CFG-TP-SYNC_GNSS_TP1               true'',
     ''CFG-TP-USE_LOCKED_TP1              true'',
     ''CFG-TP-ALIGN_TO_TOW_TP1            true'',
     ''CFG-TP-POL_TP1                     true'',
     ''CFG-TP-TIMEGRID_TP1                GPS'',
     ''CFG-TXREADY-ENABLED                false'',
     ''CFG-TXREADY-POLARITY               false'',
     ''CFG-TXREADY-PIN                    0'',
     ''CFG-TXREADY-THRESHOLD              0'',
     ''CFG-TXREADY-INTERFACE              I2C'',
     ''CFG-UART1-STOPBITS                 ONE'',
     ''CFG-UART1-DATABITS                 EIGHT'',
     ''CFG-UART1-PARITY                   NONE'',
     ''CFG-UART1-ENABLED                  true'',
     ''CFG-UART2-STOPBITS                 ONE'',
     ''CFG-UART2-DATABITS                 EIGHT'',
     ''CFG-UART2-PARITY                   NONE'',
     ''CFG-UART2-ENABLED                  true'',
     ''CFG-UART2-REMAP                    false'',
     ''CFG-USB-ENABLED                    true'',
     ''CFG-USB-SELFPOW                    true'',
     ''CFG-USB-VENDOR_ID                  5446'',
     ''CFG-USB-PRODUCT_ID                 425'',
     ''CFG-USB-POWER                      0'']"

definition default_configuration :: "string list" where
  "default_configuration = default_configuration_1 @ default_configuration_2"

definition default_configuration_v220 :: "string list" where
  "default_configuration_v220 = default_configuration_v220_1 @ default_configuration_v220_2"

lemmas tables = default_configuration_def default_configuration_v220_def default_configuration_1_def
  default_configuration_2_def default_configuration_v220_1_def default_configuration_v220_2_def

section \<open>A quick test for repetitions\<close>

text \<open>Strings are told apart by their first characters: those that share the head of the first one
  (without it), and the others.\<close>

fun same_char :: "char \<Rightarrow> char \<Rightarrow> bool" where
  "same_char (Char a0 a1 a2 a3 a4 a5 a6 a7) (Char b0 b1 b2 b3 b4 b5 b6 b7) =
     (if a0 = b0 then if a1 = b1 then if a2 = b2 then a3 = b3 \<and> a4 = b4 \<and> a5 = b5 \<and> a6 = b6 \<and> a7 = b7
      else False else False else False)"

lemma same_char_eq [simp]: "same_char c d \<longleftrightarrow> c = d"
  by (cases c; cases d) simp

fun trie_put :: "bool \<Rightarrow> char \<Rightarrow> string \<Rightarrow> string list \<times> string list \<Rightarrow> string list \<times> string list" where
  "trie_put True d w (a, b) = (w # a, b)"
| "trie_put False d w (a, b) = (a, (d # w) # b)"

fun trie_put_empty :: "string list \<times> string list \<Rightarrow> string list \<times> string list" where
  "trie_put_empty (a, b) = (a, [] # b)"

fun by_head :: "char \<Rightarrow> string list \<Rightarrow> string list \<times> string list" where
  "by_head c [] = ([], [])"
| "by_head c ([] # xs) = trie_put_empty (by_head c xs)"
| "by_head c ((d # w) # xs) = trie_put (same_char d c) d w (by_head c xs)"

definition headed :: "char \<Rightarrow> string \<Rightarrow> bool" where "headed c x \<longleftrightarrow> x \<noteq> [] \<and> hd x = c"

lemma by_head_eq: "by_head c xs = (map tl (filter (headed c) xs), filter (\<lambda>x. \<not> headed c x) xs)"
proof (induction c xs rule: by_head.induct)
  case (3 c d w xs)
  then show ?case by (cases "d = c") (simp_all add: headed_def)
qed (simp_all add: headed_def)

lemma heads_shrink:
  "(\<Sum>x\<leftarrow>filter P xs. Suc (length x - Suc 0)) \<le> (\<Sum>x\<leftarrow>xs. Suc (length x))"
  "(\<Sum>x\<leftarrow>filter P xs. Suc (length x)) \<le> (\<Sum>x\<leftarrow>xs. Suc (length x))"
  by (induction xs) auto

function uniq :: "string list \<Rightarrow> bool" where
  "uniq [] \<longleftrightarrow> True"
| "uniq [x] \<longleftrightarrow> True"
| "uniq ([] # y # xs) \<longleftrightarrow> [] \<notin> set (y # xs) \<and> uniq (y # xs)"
| "uniq ((c # w) # y # xs) \<longleftrightarrow>
     uniq (w # fst (by_head c (y # xs))) \<and> uniq (snd (by_head c (y # xs)))"
  by pat_completeness auto
termination
proof (relation "measure (\<lambda>xs. sum_list (map (\<lambda>x. Suc (length x)) xs))")
  fix c w and y :: string and xs
  show "(w # fst (by_head c (y # xs)), (c # w) # y # xs) \<in> measure (\<lambda>xs. sum_list (map (\<lambda>x. Suc (length x)) xs))"
    using heads_shrink(1) [of "headed c" "y # xs"] by (simp add: by_head_eq comp_def)
  show "(snd (by_head c (y # xs)), (c # w) # y # xs) \<in> measure (\<lambda>xs. sum_list (map (\<lambda>x. Suc (length x)) xs))"
    using heads_shrink(2) [of "\<lambda>x. \<not> headed c x" "y # xs"] by (simp add: by_head_eq comp_def)
qed auto

lemma distinct_split:
  "distinct (filter P xs) \<Longrightarrow> distinct (filter (\<lambda>x. \<not> P x) xs) \<Longrightarrow> distinct xs"
  by (induction xs) (auto split: if_splits)

lemma uniq_distinct: "uniq xs \<Longrightarrow> distinct xs"
proof (induction xs rule: uniq.induct)
  case (4 c w y xs)
  let ?xs = "y # xs"
  have same: "distinct (w # map tl (filter (headed c) ?xs))" using 4 by (simp only: uniq.simps by_head_eq fst_conv)
  then have "distinct (filter (headed c) ?xs)" by (simp only: distinct.simps distinct_map)
  moreover have "distinct (filter (\<lambda>x. \<not> headed c x) ?xs)" using 4 by (simp only: uniq.simps by_head_eq snd_conv)
  ultimately have "distinct ?xs" by (rule distinct_split)
  moreover have "c # w \<notin> set ?xs"
  proof
    assume "c # w \<in> set ?xs"
    then have "tl (c # w) \<in> set (map tl (filter (headed c) ?xs))"
      unfolding set_map set_filter by (intro imageI) (simp add: headed_def)
    with same show False by simp
  qed
  ultimately show ?case by simp
qed auto

section \<open>The forms of the lines\<close>

datatype parsed = ItemLine string string | RateLine string "string list" | OtherLine

definition parse_line :: "string \<Rightarrow> parsed" where
  "parse_line l =
     (let toks = strtok_all kCfgTokSep l []
      in if take 4 l = ''CFG-'' then (case toks of [k, v] \<Rightarrow> ItemLine k v | _ \<Rightarrow> OtherLine)
         else if take 2 l = ''0x'' then OtherLine
         else if take 4 l = ''UBX-'' \<or> take 5 l = ''NMEA-'' \<or> take 5 l = ''RTCM-''
         then (case toks of n # a # b # c # d # e # _ \<Rightarrow> RateLine n [a, b, c, d, e] | _ \<Rightarrow> OtherLine)
         else OtherLine)"

text \<open>The keys a line sets. The first five lines of both tables are about the ports.\<close>

datatype cfg_key = ItemKey string | RateKey string nat | MacroKey string

fun parsed_keys :: "parsed \<Rightarrow> cfg_key list" where
  "parsed_keys (ItemLine k v) = [ItemKey k]"
| "parsed_keys (RateLine n rs) = map (RateKey n) [0..<5]"
| "parsed_keys OtherLine = []"

definition line_keys :: "string \<Rightarrow> cfg_key list" where "line_keys l = parsed_keys (parse_line l)"

definition port_lines :: "string list" where
  "port_lines = [
     ''UART1     115200  UBX                  UBX'',
     ''UART2      38400  RTCM3                RTCM3'',
     ''SPI            -  UBX,NMEA,RTCM3       UBX,NMEA,RTCM3'',
     ''I2C            -  UBX,NMEA,RTCM3       UBX,NMEA,RTCM3'',
     ''USB            -  UBX,NMEA,RTCM3       UBX,NMEA,RTCM3'']"

definition three :: "string \<Rightarrow> string list" where
  "three p = [p @ ''_UBX'', p @ ''_NMEA'', p @ ''_RTCM3X'']"

definition port_macros :: "string list list" where
  "port_macros = [
     [''UART1_BAUDRATE'', ''UART1INPROT_UBX'', ''UART1OUTPROT_UBX''],
     [''UART2_BAUDRATE'', ''UART2INPROT_RTCM3X'', ''UART2OUTPROT_RTCM3X''],
     three ''SPIINPROT'' @ three ''SPIOUTPROT'', three ''I2CINPROT'' @ three ''I2COUTPROT'',
     three ''USBINPROT'' @ three ''USBOUTPROT'']"

definition table_keys :: "string list \<Rightarrow> cfg_key list" where
  "table_keys t = map MacroKey (concat port_macros) @ concat (map line_keys (drop 5 t))"

definition plain_line :: "string \<Rightarrow> bool" where
  "plain_line l \<longleftrightarrow> length l < 128 \<and>
     (case parse_line l of ItemLine k v \<Rightarrow> True | RateLine n rs \<Rightarrow> list_all (\<lambda>r. \<not> is_dash r) rs | OtherLine \<Rightarrow> False)"

definition line_name :: "string \<Rightarrow> string" where
  "line_name l = (case parse_line l of ItemLine k v \<Rightarrow> k | RateLine n rs \<Rightarrow> n | OtherLine \<Rightarrow> [])"

lemma ports_first:
  "take 5 default_configuration = port_lines" "take 5 default_configuration_v220 = port_lines"
  by (simp_all add: tables port_lines_def)

text \<open>One pass over a table: the names its lines set, and how many keys.\<close>

definition line_info :: "string \<Rightarrow> (string \<times> int) option" where
  "line_info l =
     (if length l < 128
      then case parse_line l of
             ItemLine k v \<Rightarrow> Some (k, 1)
           | RateLine n rs \<Rightarrow> if list_all (\<lambda>r. \<not> is_dash r) rs then Some (n, 5) else None
           | OtherLine \<Rightarrow> None
      else None)"

fun one_more :: "(string \<times> int) option \<Rightarrow> (string list \<times> int) option \<Rightarrow> (string list \<times> int) option" where
  "one_more (Some (name, k)) (Some (names, n)) = Some (name # names, k + n)"
| "one_more _ _ = None"

fun summary :: "string list \<Rightarrow> (string list \<times> int) option" where
  "summary [] = Some ([], 0)"
| "summary (l # ls) = one_more (line_info l) (summary ls)"

fun summary_ok :: "(string list \<times> int) option \<Rightarrow> int \<Rightarrow> bool" where
  "summary_ok (Some (names, n)) k \<longleftrightarrow> uniq names \<and> n = k"
| "summary_ok None k \<longleftrightarrow> False"

lemma line_info_Some:
  "line_info l = Some (name, k) \<Longrightarrow>
     plain_line l \<and> line_name l = name \<and> int (length (line_keys l)) = k"
  by (auto simp: line_info_def plain_line_def line_name_def line_keys_def split: parsed.splits if_splits)

lemma one_more_Some:
  "one_more a s = Some (names, n) \<longleftrightarrow>
     (\<exists>name k names' n'. a = Some (name, k) \<and> s = Some (names', n') \<and> names = name # names' \<and> n = k + n')"
  by (cases "(a, s)" rule: one_more.cases) auto

lemma summary_Some:
  "summary t = Some (names, n) \<Longrightarrow>
     list_all plain_line t \<and> map line_name t = names \<and> int (length (concat (map line_keys t))) = n"
proof (induction t arbitrary: names n)
  case (Cons l t)
  then show ?case by (auto simp: one_more_Some dest!: line_info_Some )
qed simp

lemma summary_table: "summary_ok (summary (drop 5 default_configuration)) 547" by code_simp

lemma summary_table_v220: "summary_ok (summary (drop 5 default_configuration_v220)) 580" by code_simp

lemma summary_okD:
  assumes "summary_ok (summary t) k"
  shows "list_all plain_line t" "distinct (map line_name t)" "int (length (concat (map line_keys t))) = k"
  using assms summary_Some [of t] uniq_distinct by (cases "summary t"; auto)+

section \<open>The keys\<close>

lemma keys_of_name: "plain_line l \<Longrightarrow> k \<in> set (line_keys l) \<Longrightarrow> k = ItemKey (line_name l) \<or> (\<exists>i. k = RateKey (line_name l) i)"
  by (auto simp: plain_line_def line_keys_def line_name_def split: parsed.splits)

lemma line_keys_distinct: "distinct (line_keys l)"
  by (cases "parse_line l") (simp_all add: line_keys_def distinct_map inj_on_def)

lemma lines_keys_distinct:
  "list_all plain_line t \<Longrightarrow> distinct (map line_name t) \<Longrightarrow> distinct (concat (map line_keys t))"
proof (induction t)
  case (Cons l t)
  have "set (line_keys l) \<inter> (\<Union>m \<in> set t. set (line_keys m)) = {}"
    using Cons(2,3) keys_of_name [of l] keys_of_name by (fastforce simp: list_all_iff image_iff)
  with Cons show ?case by (simp add: line_keys_distinct)
qed simp

lemma port_keys_distinct: "distinct (concat port_macros)" by code_simp

lemma table_keys_distinct:
  assumes "list_all plain_line (drop 5 t)" "distinct (map line_name (drop 5 t))"
  shows "distinct (table_keys t)"
proof -
  have "MacroKey m \<notin> set (line_keys l)" if "l \<in> set (drop 5 t)" for l m
    using assms(1) that keys_of_name [of l] by (auto simp: list_all_iff)
  then show ?thesis
    using lines_keys_distinct [OF assms] port_keys_distinct
    by (auto simp: table_keys_def distinct_map inj_on_def simp del: distinct_concat_iff)
qed

section \<open>A library that knows the tables\<close>

definition key_id :: "ubloxcfg \<Rightarrow> cfg_key \<Rightarrow> int" where
  "key_id lib k =
     (case k of
        ItemKey n \<Rightarrow> item_id (the (getItemByName lib n))
      | RateKey n i \<Rightarrow> item_id (the (the (getMsgRateCfg lib n) ! i))
      | MacroKey m \<Rightarrow> macro_id lib m)"

text \<open>Every item exists and takes its value; every message exists, with an item for each port that takes
  the rates.\<close>

definition knows_line :: "ubloxcfg \<Rightarrow> string \<Rightarrow> bool" where
  "knows_line lib l =
     (case parse_line l of
        ItemLine k v \<Rightarrow>
          (case getItemByName lib k of
             None \<Rightarrow> False | Some it \<Rightarrow> valueFromString lib v (item_type it) (Some it) \<noteq> None)
      | RateLine n rs \<Rightarrow>
          (case getMsgRateCfg lib n of
             None \<Rightarrow> False
           | Some items \<Rightarrow>
               length items = 5 \<and> list_all (\<lambda>x. x \<noteq> None) items \<and>
               list_all (\<lambda>x. list_all (\<lambda>r. valueFromString lib r (item_type (the x)) x \<noteq> None) rs) items)
      | OtherLine \<Rightarrow> True)"

definition knows_table :: "ubloxcfg \<Rightarrow> string list \<Rightarrow> bool" where
  "knows_table lib t \<longleftrightarrow> list_all (knows_line lib) t \<and> inj_on (key_id lib) (set (table_keys t))"

lemma item_line_pairs:
  assumes "parse_line l = ItemLine k v" "knows_line lib l"
  shows "\<exists>ps. line_pairs lib l = Some ps \<and> map fst ps = map (key_id lib) (line_keys l)"
  using assms
  by (auto simp: knows_line_def parse_line_def line_pairs_def Let_def one_pair_def line_keys_def key_id_def
      split: if_splits list.splits option.splits)

lemma rate_pairs_known:
  "length rs = length items \<Longrightarrow> list_all (\<lambda>r. \<not> is_dash r) rs \<Longrightarrow> list_all (\<lambda>x. x \<noteq> None) items \<Longrightarrow>
   list_all (\<lambda>x. list_all (\<lambda>r. valueFromString lib r (item_type (the x)) x \<noteq> None) rs) items \<Longrightarrow>
   \<exists>ps. rate_pairs lib (zip rs items) = Some ps \<and> map fst ps = map (\<lambda>x. item_id (the x)) items"
proof (induction rs items rule: list_induct2)
  case (Cons r rs x items)
  then obtain ps where ps: "rate_pairs lib (zip rs items) = Some ps" "map fst ps = map (\<lambda>x. item_id (the x)) items"
    by (auto simp: list_all_iff)
  from Cons(4,5) obtain it v where it: "x = Some it" "valueFromString lib r (item_type it) (Some it) = Some v"
    by auto
  with ps Cons(3) show ?case by (simp add: both_def one_pair_def)
qed simp

lemma parse_rate:
  assumes "parse_line l = RateLine n rs"
  obtains a b c d e us where "rs = [a, b, c, d, e]" "strtok_all kCfgTokSep l [] = n # a # b # c # d # e # us"
    "take 4 l \<noteq> ''CFG-''" "take 2 l \<noteq> ''0x''" "take 4 l = ''UBX-'' \<or> take 5 l = ''NMEA-'' \<or> take 5 l = ''RTCM-''"
  using assms by (auto simp: parse_line_def Let_def split: if_splits list.splits)

lemma rate_line_pairs:
  assumes "parse_line l = RateLine n rs" "plain_line l" "knows_line lib l"
  shows "\<exists>ps. line_pairs lib l = Some ps \<and> map fst ps = map (key_id lib) (line_keys l)"
proof -
  from assms(1) obtain a b c d e us where l: "rs = [a, b, c, d, e]" "strtok_all kCfgTokSep l [] = n # a # b # c # d # e # us"
      "take 4 l \<noteq> ''CFG-''" "take 2 l \<noteq> ''0x''" "take 4 l = ''UBX-'' \<or> take 5 l = ''NMEA-'' \<or> take 5 l = ''RTCM-''"
    by (rule parse_rate)
  from assms(1,3) obtain items where items: "getMsgRateCfg lib n = Some items" "length items = 5"
      "list_all (\<lambda>x. x \<noteq> None) items"
      "list_all (\<lambda>x. list_all (\<lambda>r. valueFromString lib r (item_type (the x)) x \<noteq> None) rs) items"
    by (auto simp: knows_line_def split: option.splits)
  have "line_pairs lib l = rate_pairs lib (zip rs items)"
    unfolding line_pairs_def Let_def l(1,2) using l(3-5) items(1) by (simp only: if_False if_True list.case option.case)
  moreover obtain ps where "rate_pairs lib (zip rs items) = Some ps" "map fst ps = map (\<lambda>x. item_id (the x)) items"
    using rate_pairs_known [OF _ _ items(3,4)] items(2) l(1) assms(1,2) by (auto simp: plain_line_def)
  moreover have "map (\<lambda>x. item_id (the x)) items = map (key_id lib) (line_keys l)"
    using items(1,2) assms(1) by (simp add: line_keys_def key_id_def list_eq_iff_nth_eq nth_Cons')
  ultimately show ?thesis by simp
qed

lemma plain_line_pairs:
  assumes "plain_line l" "knows_line lib l"
  shows "\<exists>ps. line_pairs lib (take 127 l) = Some ps \<and> map fst ps = map (key_id lib) (line_keys l)"
proof -
  have "take 127 l = l" using assms(1) by (simp add: plain_line_def)
  then show ?thesis
    using item_line_pairs [OF _ assms(2)] rate_line_pairs [OF _ assms] assms(1)
    by (cases "parse_line l") (auto simp: plain_line_def)
qed

lemma port_line_pairs:
  "\<exists>pss. those (map (\<lambda>l. line_pairs lib (take 127 l)) port_lines) = Some pss \<and>
     map fst (concat pss) = map (\<lambda>m. key_id lib (MacroKey m)) (concat port_macros)"
  by (simp add: port_lines_def line_pairs_def kCfgTokSep_def kCfgPartSep_def portCfg_def port_filters_def
      baud_pairs_def baudCfg_def field_pairs_def field_given_def both_def one_pair_def port_macros_def three_def
      key_id_def)

lemma lines_pairs:
  "list_all plain_line t \<Longrightarrow> list_all (knows_line lib) t \<Longrightarrow>
   \<exists>pss. those (map (\<lambda>l. line_pairs lib (take 127 l)) t) = Some pss \<and>
     map fst (concat pss) = map (key_id lib) (concat (map line_keys t))"
proof (induction t)
  case (Cons l t)
  then obtain pss where "those (map (\<lambda>l. line_pairs lib (take 127 l)) t) = Some pss"
      "map fst (concat pss) = map (key_id lib) (concat (map line_keys t))" by auto
  moreover obtain ps where "line_pairs lib (take 127 l) = Some ps" "map fst ps = map (key_id lib) (line_keys l)"
    using plain_line_pairs [of l lib] Cons(2,3) by auto
  ultimately show ?case by auto
qed simp

lemma those_append: "those (xs @ ys) = Option.bind (those xs) (\<lambda>a. map_option (\<lambda>b. a @ b) (those ys))"
  by (cases "those ys"; induction xs) (auto split: option.split bind_split)

lemma table_pairs:
  assumes "take 5 t = port_lines" "list_all plain_line (drop 5 t)" "knows_table lib t"
  shows "\<exists>pss. those (map (\<lambda>l. line_pairs lib (take 127 l)) t) = Some pss \<and>
     map fst (concat pss) = map (key_id lib) (table_keys t)"
proof -
  have t: "t = port_lines @ drop 5 t" using assms(1) by (metis append_take_drop_id)
  obtain pss where "those (map (\<lambda>l. line_pairs lib (take 127 l)) port_lines) = Some pss"
      "map fst (concat pss) = map (\<lambda>m. key_id lib (MacroKey m)) (concat port_macros)"
    using port_line_pairs by blast
  moreover have "list_all (knows_line lib) (drop 5 t)"
    using assms(3) by (auto simp: knows_table_def list_all_iff dest: in_set_dropD)
  then obtain pss' where "those (map (\<lambda>l. line_pairs lib (take 127 l)) (drop 5 t)) = Some pss'"
      "map fst (concat pss') = map (key_id lib) (concat (map line_keys (drop 5 t)))"
    using lines_pairs [OF assms(2)] by blast
  ultimately show ?thesis
    by (subst t) (simp add: those_append table_keys_def comp_def)
qed

section \<open>Loading the shipped tables\<close>

lemma tables_load:
  assumes "knows_table lib (if is_v220 major minor then default_configuration_v220 else default_configuration)"
    and "31 \<le> VALSET_V1_MAX_KV lib"
  shows "\<exists>kvs. get_default_value_from_config lib True default_configuration default_configuration_v220 major minor = Some kvs \<and>
     map kv_id kvs = map (key_id lib) (table_keys (if is_v220 major minor then default_configuration_v220 else default_configuration)) \<and>
     length kvs = (if is_v220 major minor then 604 else 571)"
proof -
  define t where "t = (if is_v220 major minor then default_configuration_v220 else default_configuration)"
  have first: "take 5 t = port_lines" using ports_first by (simp add: t_def)
  have sum: "summary_ok (summary (drop 5 t)) (if is_v220 major minor then 580 else 547)"
    using summary_table summary_table_v220 by (simp add: t_def)
  note plain = summary_okD [OF sum]
  obtain pss where pss: "those (map (\<lambda>l. line_pairs lib (take 127 l)) t) = Some pss"
      "map fst (concat pss) = map (key_id lib) (table_keys t)"
    using table_pairs [OF first plain(1)] assms(1) by (auto simp: t_def)
  have keys: "length (table_keys t) = (if is_v220 major minor then 604 else 571)"
    using plain(3) by (simp add: table_keys_def port_macros_def three_def split: if_splits)
  have dist: "distinct (map fst (concat pss))"
    unfolding pss(2) using table_keys_distinct [OF plain(1,2)] assms(1)
    by (simp add: distinct_map knows_table_def t_def)
  have len: "length (concat pss) = length (table_keys t)"
    using arg_cong [OF pss(2), of length] by simp
  have "length (concat pss) \<le> CFG_SET_MAX_KV lib"
    using len keys assms(2) by (simp add: CFG_SET_MAX_KV_def CFG_SET_MAX_MSGS_def)
  then have load: "get_default_value_from_config lib True default_configuration default_configuration_v220 major minor =
      Some (map as_keyval (concat pss))"
    using dist unfolding default_config_cases t_def [symmetric] pss(1) option.case by (simp only: if_True simp_thms)
  have "map kv_id (map as_keyval (concat pss)) = map (key_id lib) (table_keys t)"
    using pss(2) by (simp add: as_keyval_def comp_def)
  then show ?thesis
    unfolding load t_def [symmetric] using len keys
    by (intro exI [of _ "map as_keyval (concat pss)"]) (simp only: length_map simp_thms)
qed

text \<open>C31. With a library that knows the names of a shipped table, takes its values and numbers its keys
  without repetition, loading the default configuration succeeds, for every version of the
  receiver: the pairs are those of the keys the table names, 571 of them before version 2.20 and
  604 from then on.\<close>

theorem shipped_tables_load:
  assumes "knows_table lib (if is_v220 major minor then default_configuration_v220 else default_configuration)"
    and "31 \<le> VALSET_V1_MAX_KV lib"
  shows "\<exists>kvs. get_default_value_from_config lib True default_configuration default_configuration_v220 major minor = Some kvs \<and>
     map kv_id kvs = map (key_id lib) (table_keys (if is_v220 major minor then default_configuration_v220 else default_configuration)) \<and>
     length kvs = (if is_v220 major minor then 604 else 571)"
  using tables_load [OF assms] .

text \<open>A library that knows every name, and numbers names by their text.\<close>

fun text_code :: "string \<Rightarrow> int" where
  "text_code [] = 0"
| "text_code (c # cs) = 257 * text_code cs + of_char c + 1"

lemma of_char_range: "0 \<le> (of_char c :: int)" "(of_char c :: int) < 256"
  using nat_of_char_less_256 [of c] by (simp_all flip: of_nat_of_char [where 'a = int])

lemma text_code_nonneg: "0 \<le> text_code s"
  by (induction s) (simp_all add: of_char_range)

lemma text_code_Cons: "text_code (c # cs) > 0"
  using text_code_nonneg [of cs] of_char_range [of c] by simp

lemma digits_eq:
  assumes "257 * (a::int) + x + 1 = 257 * b + y + 1" "0 \<le> x" "x < 256" "0 \<le> y" "y < 256"
  shows "a = b \<and> x = y"
proof -
  have "\<not> a < b" "\<not> b < a" using assms by linarith+
  with assms(1) show ?thesis by simp
qed

lemma text_code_inj: "text_code s = text_code u \<Longrightarrow> s = u"
proof (induction s arbitrary: u)
  case Nil
  then show ?case using text_code_Cons [of "hd u" "tl u"] by (cases u) simp_all
next
  case (Cons c s)
  obtain d v where u: "u = d # v"
    using Cons(2) text_code_Cons [of c s] by (cases u) simp_all
  have "text_code s = text_code v \<and> (of_char c :: int) = of_char d"
    using Cons(2) unfolding u text_code.simps by (rule digits_eq) (rule of_char_range)+
  with Cons(1) show ?case by (simp add: u)
qed

definition text_lib :: ubloxcfg where
  "text_lib = \<lparr>
     getItemByName = (\<lambda>n. Some \<lparr>item_id = text_code (CHR ''I'' # n), item_type = TYPE_U4\<rparr>),
     getMsgRateCfg = (\<lambda>n. Some (map (\<lambda>i. Some \<lparr>item_id = text_code (char_of i # n), item_type = TYPE_U1\<rparr>) [0..<5])),
     valueFromString = (\<lambda>s t i. Some 0), ID2SIZE = (\<lambda>i. SIZE_FOUR), macro_id = (\<lambda>n. text_code (CHR ''M'' # n)),
     VALSET_V1_MAX_KV = 64\<rparr>"

fun small_key :: "cfg_key \<Rightarrow> bool" where
  "small_key (RateKey n i) \<longleftrightarrow> i < 5"
| "small_key _ \<longleftrightarrow> True"

fun key_text :: "cfg_key \<Rightarrow> string" where
  "key_text (ItemKey n) = CHR ''I'' # n"
| "key_text (RateKey n i) = char_of i # n"
| "key_text (MacroKey n) = CHR ''M'' # n"

lemma text_lib_id: "small_key k \<Longrightarrow> key_id text_lib k = text_code (key_text k)"
  by (cases k) (simp_all add: key_id_def text_lib_def del: text_code.simps)

lemma small_char: "i < 5 \<Longrightarrow> of_char (char_of i) = (i::nat)"
  by (simp add: of_char_of)

lemma key_text_inj: "small_key k \<Longrightarrow> small_key j \<Longrightarrow> key_text k = key_text j \<Longrightarrow> k = j"
  using small_char by (cases k; cases j) (auto dest: arg_cong [of _ _ "of_char :: char \<Rightarrow> nat"])

lemma text_lib_inj: "inj_on (key_id text_lib) {k. small_key k}"
  by (rule inj_onI) (auto simp: text_lib_id simp del: text_code.simps dest!: text_code_inj intro: key_text_inj)

lemma small_keys: "k \<in> set (table_keys t) \<Longrightarrow> small_key k"
proof -
  have "k \<in> set (parsed_keys p) \<Longrightarrow> small_key k" for p by (cases p) auto
  then show "k \<in> set (table_keys t) \<Longrightarrow> small_key k" by (auto simp: table_keys_def line_keys_def)
qed

lemma text_lib_knows: "knows_table text_lib t"
proof -
  have "knows_line text_lib l" for l
    by (cases "parse_line l") (auto simp: knows_line_def text_lib_def list_all_iff)
  moreover have "inj_on (key_id text_lib) (set (table_keys t))"
    by (rule inj_on_subset [OF text_lib_inj]) (auto intro: small_keys)
  ultimately show ?thesis by (simp add: knows_table_def list_all_iff)
qed

lemma text_lib_loads:
  "get_default_value_from_config text_lib True default_configuration default_configuration_v220 major minor \<noteq> None"
  using tables_load [OF text_lib_knows, of major minor] by (auto simp: text_lib_def)

theorem shipped_tables_load_witness:
  "\<exists>kvs. get_default_value_from_config text_lib True default_configuration default_configuration_v220 2 20 = Some kvs \<and>
     length kvs = 604"
  using shipped_tables_load [of text_lib 2 20, OF text_lib_knows] by (auto simp: text_lib_def is_v220_def)

end
