(* ===== verification/ProdGnss.thy ===== *)
theory ProdGnss
  imports ProdIo DefaultTables
begin

text \<open>
  \<open>tests_production/gnss_test_prod.c\<close> waits until the receiver has sent a fix and three kinds of
  messages; \<open>tests_production/gnss_config_prod.c\<close> stores the shipped configuration in the receiver. The
  receiver library is an input: what each call returns, and which messages arrive when.
\<close>

section \<open>The test of the receiver\<close>

definition GNSS_TEST_TIMEOUT :: int where "GNSS_TEST_TIMEOUT = 120"

text \<open>A message that completes an epoch, or one of the library's classes.\<close>

datatype prod_msg = EpochMsg epoch | MonRfMsg | NavTimelsMsg | TimTpMsg | OtherMsg

record got_messages =
  got_gnss_fix :: bool
  got_mon_rf_message :: bool
  got_nav_timels_message :: bool
  got_tim_tp_message :: bool

definition nothing_got :: got_messages where
  "nothing_got = \<lparr>got_gnss_fix = False, got_mon_rf_message = False, got_nav_timels_message = False,
     got_tim_tp_message = False\<rparr>"

definition all_got :: "got_messages \<Rightarrow> bool" where
  "all_got g \<longleftrightarrow> got_gnss_fix g \<and> got_mon_rf_message g \<and> got_nav_timels_message g \<and> got_tim_tp_message g"

text \<open>\<open>EPOCH_FIX_S3D\<close> is the library's; \<open>EPOCH_FIX_TIME\<close> as in the receiver thread.\<close>

definition good_fix :: "int \<Rightarrow> epoch \<Rightarrow> bool" where
  "good_fix EPOCH_FIX_S3D e \<longleftrightarrow>
     haveFix e \<and> ep_fixOk e \<and> (ep_fix e \<ge> EPOCH_FIX_S3D \<or> ep_fix e = EPOCH_FIX_TIME)"

definition take_msg :: "int \<Rightarrow> prod_msg option \<Rightarrow> got_messages \<Rightarrow> got_messages" where
  "take_msg s3d msg g =
     (case msg of
        None \<Rightarrow> g
      | Some (EpochMsg e) \<Rightarrow> if good_fix s3d e \<and> \<not> got_gnss_fix g then g\<lparr>got_gnss_fix := True\<rparr> else g
      | Some MonRfMsg \<Rightarrow> if \<not> got_mon_rf_message g then g\<lparr>got_mon_rf_message := True\<rparr> else g
      | Some NavTimelsMsg \<Rightarrow> if \<not> got_nav_timels_message g then g\<lparr>got_nav_timels_message := True\<rparr> else g
      | Some TimTpMsg \<Rightarrow> if \<not> got_tim_tp_message g then g\<lparr>got_tim_tp_message := True\<rparr> else g
      | Some OtherMsg \<Rightarrow> g)"

text \<open>The loop over rounds, each with the time read before it and the message it got. \<open>None\<close>: the
  rounds given end before the loop does.\<close>

fun gnss_test_loop ::
  "int \<Rightarrow> int \<Rightarrow> (int \<times> prod_msg option) list \<Rightarrow> got_messages \<Rightarrow> got_messages option" where
  "gnss_test_loop s3d timeout [] g = (if all_got g then Some g else None)"
| "gnss_test_loop s3d timeout ((now, msg) # rs) g =
     (if \<not> all_got g \<and> now < timeout then gnss_test_loop s3d timeout rs (take_msg s3d msg g) else Some g)"

text \<open>The status \<open>main\<close> returns: \<open>true\<close> behind a passed test, \<open>false\<close> when the receiver cannot be
  opened, and the 0 of a \<open>main\<close> that ends otherwise. \<open>start\<close> is the time the timeout counts from;
  \<open>junk\<close> is what the uninitialised flag holds.\<close>

definition gnss_test_main ::
  "card_env \<Rightarrow> bool \<Rightarrow> (string \<Rightarrow> bool) \<Rightarrow> int \<Rightarrow> int \<Rightarrow> (int \<times> prod_msg option) list \<Rightarrow> string \<Rightarrow> (int \<times> verdict) option option" where
  "gnss_test_main cenv junk rxOpen s3d start rs arg =
     map_option (\<lambda>(ocp_valid, gnss_valid, dev_path).
       if \<not> gnss_valid then Some (0, TestAborted)
       else if \<not> rxOpen dev_path then Some (0, TestAborted)
       else map_option (\<lambda>g. if all_got g then (1, TestPassed) else (0, TestFailed))
              (gnss_test_loop s3d (start + GNSS_TEST_TIMEOUT) rs nothing_got))
     (find_card_device cenv 255 arg ''ttyGNSS'' junk)"

text \<open>The messages of the rounds that began in time.\<close>

definition in_time :: "int \<Rightarrow> (int \<times> prod_msg option) list \<Rightarrow> prod_msg set" where
  "in_time timeout rs = {m. Some m \<in> snd ` set (takeWhile (\<lambda>r. fst r < timeout) rs)}"

definition seen_all :: "int \<Rightarrow> prod_msg set \<Rightarrow> bool" where
  "seen_all s3d ms \<longleftrightarrow> (\<exists>e. EpochMsg e \<in> ms \<and> good_fix s3d e) \<and> MonRfMsg \<in> ms \<and> NavTimelsMsg \<in> ms \<and> TimTpMsg \<in> ms"

definition got_with :: "int \<Rightarrow> prod_msg set \<Rightarrow> got_messages \<Rightarrow> bool" where
  "got_with s3d ms g \<longleftrightarrow>
     (got_gnss_fix g \<or> (\<exists>e. EpochMsg e \<in> ms \<and> good_fix s3d e)) \<and> (got_mon_rf_message g \<or> MonRfMsg \<in> ms) \<and>
     (got_nav_timels_message g \<or> NavTimelsMsg \<in> ms) \<and> (got_tim_tp_message g \<or> TimTpMsg \<in> ms)"

lemma got_with_take: "got_with s3d ms (take_msg s3d msg g) \<longleftrightarrow> got_with s3d (ms \<union> set_option msg) g"
  by (auto simp: got_with_def take_msg_def split: option.split prod_msg.split)

lemma got_with_all: "all_got g \<Longrightarrow> got_with s3d ms g"
  by (simp add: all_got_def got_with_def)

lemma in_time_Cons:
  "in_time timeout ((now, msg) # rs) = (if now < timeout then in_time timeout rs \<union> set_option msg else {})"
  by (cases msg) (auto simp: in_time_def intro: rev_image_eqI)

lemma gnss_test_loop_got:
  "gnss_test_loop s3d timeout rs g = Some g' \<Longrightarrow> all_got g' \<longleftrightarrow> got_with s3d (in_time timeout rs) g"
proof (induction s3d timeout rs g rule: gnss_test_loop.induct)
  case (1 s3d timeout g)
  then show ?case by (simp add: got_with_all split: if_splits)
next
  case (2 s3d timeout now msg rs g)
  show ?case
  proof (cases "\<not> all_got g \<and> now < timeout")
    case True
    with 2 show ?thesis by (simp add: in_time_Cons got_with_take)
  next
    case False
    with 2(2) have g: "g' = g" by auto
    show ?thesis
    proof (cases "all_got g")
      case True
      then show ?thesis by (simp add: g got_with_all)
    next
      case not: False
      with False have "in_time timeout ((now, msg) # rs) = {}" by (simp add: in_time_Cons)
      with not show ?thesis by (simp add: g got_with_def all_got_def)
    qed
  qed
qed

lemma gnss_test_loop_ends:
  "r \<in> set rs \<Longrightarrow> fst r \<ge> timeout \<Longrightarrow> gnss_test_loop s3d timeout rs g \<noteq> None"
  by (induction s3d timeout rs g rule: gnss_test_loop.induct) auto

text \<open>The test of the receiver ends once the clock passes the timeout, and it passes exactly when a
  good fix and all three kinds of messages arrived in rounds that began in time. Then, and only
  then, its exit status is 1: the shell takes the test that passed for the one that failed.\<close>

theorem gnss_test_verdict:
  assumes "find_card_device cenv 255 arg ''ttyGNSS'' junk = Some (True, True, path)" "rxOpen path"
    and "r \<in> set rs" "start + GNSS_TEST_TIMEOUT \<le> fst r"
  shows "gnss_test_main cenv junk rxOpen s3d start rs arg =
    Some (Some (if seen_all s3d (in_time (start + GNSS_TEST_TIMEOUT) rs) then (1, TestPassed) else (0, TestFailed)))"
proof -
  obtain g where g: "gnss_test_loop s3d (start + GNSS_TEST_TIMEOUT) rs nothing_got = Some g"
    using gnss_test_loop_ends [OF assms(3,4)] by auto
  have "all_got g \<longleftrightarrow> seen_all s3d (in_time (start + GNSS_TEST_TIMEOUT) rs)"
    using gnss_test_loop_got [OF g] by (simp add: got_with_def seen_all_def nothing_got_def)
  then show ?thesis using assms(1,2) g by (simp add: gnss_test_main_def)
qed

definition sample_card :: card_env where
  "sample_card = \<lparr>path_exists = (\<lambda>p. True), dir_of = (\<lambda>p. Some [(''ttyGNSS'', SysFile ''ttyS5'')])\<rparr>"

theorem gnss_test_verdict_witness:
  "gnss_test_main sample_card False (\<lambda>p. p = ''/dev/ttyS5'') 5 1000 [(1001, Some MonRfMsg), (1002, None), (1121, None)] ''ocp0'' =
     Some (Some (0, TestFailed))"
  by (subst gnss_test_verdict [where path = "''/dev/ttyS5''" and r = "(1121, None)"])
    (simp_all add: find_card_device_def sample_card_def ocp_dir_def find_dev_path_def DEV_NAME_SIZE_def
      GNSS_TEST_TIMEOUT_def seen_all_def in_time_def)

section \<open>Configuring the receiver\<close>

datatype rx_call = RxInit string | RxOpen | RxVersion | DefaultConfig | RxSetConfig "keyval list" | RxReset |
  RxClose | RxFree | FreeConfig

record rx_env =
  rx_open_1 :: "string \<Rightarrow> bool"
  rx_version :: "string option"
  rx_set :: "keyval list \<Rightarrow> bool"
  rx_open_2 :: bool
  rx_reset :: bool

text \<open>\<open>junk\<close> is what the uninitialised numbers of the version hold; the configuration is the shipped one.
  \<open>None\<close>: the configuration could not be built, and the null pointer is used.\<close>

definition gnss_config_calls :: "ubloxcfg \<Rightarrow> bool \<Rightarrow> int \<times> int \<Rightarrow> rx_env \<Rightarrow> string \<Rightarrow> rx_call list option" where
  "gnss_config_calls lib mem junk env dev_path =
     (if \<not> rx_open_1 env dev_path then Some [RxInit dev_path, RxOpen, RxFree]
      else
        (let (major, minor) = (case parse_receiver_version (rx_version env) of Some v \<Rightarrow> v | None \<Rightarrow> junk)
         in case get_default_value_from_config lib mem default_configuration default_configuration_v220 major minor of
              None \<Rightarrow> None
            | Some allKvCfg \<Rightarrow>
                Some ([RxInit dev_path, RxOpen, RxVersion, DefaultConfig, RxSetConfig allKvCfg] @
                      (if rx_set env allKvCfg
                       then [RxClose, RxOpen] @ (if rx_open_2 env then [] else [RxFree]) @ [RxReset] @
                            (if rx_reset env then [] else [FreeConfig])
                       else []) @
                      [RxClose, RxFree, FreeConfig])))"

definition gnss_config_main ::
  "card_env \<Rightarrow> bool \<Rightarrow> ubloxcfg \<Rightarrow> bool \<Rightarrow> int \<times> int \<Rightarrow> rx_env \<Rightarrow> string \<Rightarrow> rx_call list option" where
  "gnss_config_main cenv junk_flag lib mem junk env arg =
     (case find_card_device cenv 255 arg ''ttyGNSS'' junk_flag of
        None \<Rightarrow> None
      | Some (ocp_valid, gnss_valid, dev_path) \<Rightarrow>
          if gnss_valid then gnss_config_calls lib mem junk env dev_path else Some [])"

text \<open>Which of the receiver handle and the configuration is allocated; \<open>None\<close> once a call used or freed
  memory that was not.\<close>

fun heap_use :: "bool \<times> bool \<Rightarrow> rx_call \<Rightarrow> (bool \<times> bool) option" where
  "heap_use (rx, cfg) (RxInit p) = Some (True, cfg)"
| "heap_use (rx, cfg) RxFree = (if rx then Some (False, cfg) else None)"
| "heap_use (rx, cfg) DefaultConfig = Some (rx, True)"
| "heap_use (rx, cfg) FreeConfig = (if cfg then Some (rx, False) else None)"
| "heap_use (rx, cfg) (RxSetConfig kv) = (if rx \<and> cfg then Some (rx, cfg) else None)"
| "heap_use (rx, cfg) _ = (if rx then Some (rx, cfg) else None)"

text \<open>C35. The memory of the configuration program: everything is freed and nothing is used after it was
  freed, unless the receiver took the configuration and then could not be opened again or reset;
  in both cases freed memory is used or freed a second time.\<close>

theorem gnss_config_memory:
  assumes "gnss_config_calls lib mem junk env path = Some calls"
  shows "traces heap_use (False, False) calls =
    (if rx_open_1 env path \<and> (\<exists>kv. RxSetConfig kv \<in> set calls \<and> rx_set env kv) \<and> \<not> (rx_open_2 env \<and> rx_reset env)
     then None else Some (False, False))"
  using assms
  by (auto simp: gnss_config_calls_def split: if_splits option.splits prod.splits)

definition sample_rx :: rx_env where
  "sample_rx = \<lparr>rx_open_1 = (\<lambda>p. True), rx_version = Some ''EXT TIM 2.20'', rx_set = (\<lambda>kv. True), rx_open_2 = True,
     rx_reset = False\<rparr>"

theorem gnss_config_memory_witness:
  "\<exists>calls. gnss_config_calls text_lib True (0, 0) sample_rx ''/dev/ttyS5'' = Some calls \<and>
     traces heap_use (False, False) calls = None"
proof -
  obtain major minor where v: "(case parse_receiver_version (rx_version sample_rx) of Some v \<Rightarrow> v | None \<Rightarrow> (0, 0)) = (major, minor)"
    by (meson surj_pair)
  obtain kv where kv: "get_default_value_from_config text_lib True default_configuration default_configuration_v220 major minor = Some kv"
    using text_lib_loads [of major minor] by blast
  obtain calls where c: "gnss_config_calls text_lib True (0, 0) sample_rx ''/dev/ttyS5'' = Some calls"
      "RxSetConfig kv \<in> set calls"
    unfolding gnss_config_calls_def v prod.case Let_def kv option.case by (simp add: sample_rx_def)
  then show ?thesis using gnss_config_memory [OF c(1)] by (auto simp: sample_rx_def)
qed

end
