(* ===== verification/ProdEeprom.thy ===== *)
theory ProdEeprom
  imports Config ArtFormat EepromTools
begin

text \<open>
  \<open>tests_production/write_eeprom_prod.c\<close>, which runs the three tools that fill a card's memory, and
  \<open>tests_production/ocpdir_test_prod.c\<close>, which lists what is found in a card's directory. The file
  system and the results of \<open>system\<close> are inputs. Names fit the buffers.
\<close>

record card_files =
  cf_exists :: bool
  cf_entries :: "dirent list option"
  cf_i2c :: "string \<Rightarrow> string \<times> dirent list option"

fun ent_d_name :: "dirent \<Rightarrow> string" where
  "ent_d_name (RegFile n) = n"
| "ent_d_name (SubDir n es) = n"

text \<open>\<open>find_file\<close> below the real path of an entry; \<open>cf_i2c\<close> gives that path and what is there.\<close>

definition find_eeprom :: "card_files \<Rightarrow> string \<Rightarrow> string \<Rightarrow> string option" where
  "find_eeprom cf ocp_path name =
     (case cf_i2c cf (ocp_path @ ''/'' @ name) of (real, es) \<Rightarrow> find_file real es ''eeprom'')"

section \<open>Writing the memory of a card\<close>

record scan_state =
  found_eeprom :: bool
  eeprom_path :: string
  disciplining_config_found :: bool
  sc_config_path :: string
  temperature_table_found :: bool
  sc_table_path :: string

definition scan_start :: scan_state where
  "scan_start = \<lparr>found_eeprom = False, eeprom_path = [], disciplining_config_found = False, sc_config_path = [],
     temperature_table_found = False, sc_table_path = []\<rparr>"

text \<open>\<open>strncmp(d_name, "i2c", 4)\<close> compares the terminator as well. A search that fails leaves the path as
  it was; only the one for the memory keeps its result.\<close>

definition scan_entry :: "card_files \<Rightarrow> string \<Rightarrow> string \<Rightarrow> scan_state \<Rightarrow> scan_state" where
  "scan_entry cf ocp_path name s =
     (if name = ''i2c'' then
        (case find_eeprom cf ocp_path name of
           None \<Rightarrow> s\<lparr>found_eeprom := False\<rparr>
         | Some p \<Rightarrow> s\<lparr>found_eeprom := True, eeprom_path := p\<rparr>)
      else if name = ''disciplining_config'' then
        s\<lparr>disciplining_config_found := True,
          sc_config_path := (case find_file ocp_path (cf_entries cf) ''disciplining_config'' of
                               None \<Rightarrow> sc_config_path s | Some p \<Rightarrow> p)\<rparr>
      else if name = ''temperature_table'' then
        s\<lparr>temperature_table_found := True,
          sc_table_path := (case find_file ocp_path (cf_entries cf) ''temperature_table'' of
                              None \<Rightarrow> sc_table_path s | Some p \<Rightarrow> p)\<rparr>
      else s)"

definition scan_card :: "card_files \<Rightarrow> string \<Rightarrow> scan_state option" where
  "scan_card cf ocp_path =
     (if cf_exists cf
      then map_option (\<lambda>es. fold (scan_entry cf ocp_path) (map ent_d_name es) scan_start) (cf_entries cf)
      else Some scan_start)"

definition format_command :: "string \<Rightarrow> string \<Rightarrow> string" where
  "format_command path serial = ''art_eeprom_format -p '' @ path @ '' -s '' @ serial"

text \<open>\<open>%u\<close> of a signed value.\<close>

definition manager_command :: "string \<Rightarrow> int \<Rightarrow> string" where
  "manager_command path coarse =
     ''art_disciplining_manager -p '' @ path @ '' -f -c '' @ dec (nat (to_u32 coarse))"

definition table_command :: "string \<Rightarrow> string" where
  "table_command path = ''art_temperature_table_manager -p '' @ path @ '' -f''"

text \<open>The three commands; \<open>sys\<close> is the result of \<open>system\<close> on a command behind those already run.\<close>

definition run_commands ::
  "(string list \<Rightarrow> string \<Rightarrow> int) \<Rightarrow> scan_state \<Rightarrow> int \<Rightarrow> string \<Rightarrow> bool \<times> string list" where
  "run_commands sys s coarse serial =
     (if \<not> found_eeprom s then (True, [])
      else let c1 = format_command (eeprom_path s) serial
      in if sys [] c1 \<noteq> 0 then (False, [c1])
      else let c2 = manager_command (sc_config_path s) coarse;
               w2 = (if disciplining_config_found s then [c1, c2] else [c1]);
               p2 = (if disciplining_config_found s then sys [c1] c2 = 0 else False);
               c3 = table_command (sc_table_path s)
      in if temperature_table_found s then (if sys w2 c3 \<noteq> 0 then False else p2, w2 @ [c3])
      else (False, w2))"

definition serial_shape :: "string \<Rightarrow> bool" where
  "serial_shape s \<longleftrightarrow> length s = 9 \<and> hd s = CHR ''F''"

text \<open>The arguments behind the name of the card. \<open>None\<close>: the directory cannot be opened.\<close>

definition write_eeprom_main ::
  "card_files \<Rightarrow> (string list \<Rightarrow> string \<Rightarrow> int) \<Rightarrow> string \<Rightarrow> string list \<Rightarrow> (bool \<times> string list) option" where
  "write_eeprom_main cf sys arg args =
     map_option (\<lambda>s.
       case args of
         v # serial # _ \<Rightarrow>
           if cf_exists cf \<and> serial_shape serial then run_commands sys s (atoi v) serial else (False, [])
       | _ \<Rightarrow> (False, []))
     (scan_card cf (take 255 (''/sys/class/timecard/'' @ arg)))"

text \<open>When the program reports that the memory was written, either all three tools ran, in their
  order and without an error, or no memory was found and nothing was run at all.\<close>

theorem write_eeprom_success:
  assumes "write_eeprom_main cf sys arg args = Some (True, w)"
  shows "\<exists>s v serial rest. args = v # serial # rest \<and> serial_shape serial \<and>
     scan_card cf (take 255 (''/sys/class/timecard/'' @ arg)) = Some s \<and>
     (\<not> found_eeprom s \<and> w = [] \<or>
      found_eeprom s \<and> disciplining_config_found s \<and> temperature_table_found s \<and>
      w = [format_command (eeprom_path s) serial, manager_command (sc_config_path s) (atoi v),
           table_command (sc_table_path s)] \<and>
      sys [] (w ! 0) = 0 \<and> sys [w ! 0] (w ! 1) = 0 \<and> sys [w ! 0, w ! 1] (w ! 2) = 0)"
proof -
  obtain s where s: "scan_card cf (take 255 (''/sys/class/timecard/'' @ arg)) = Some s"
    using assms by (auto simp: write_eeprom_main_def)
  obtain v serial rest where args: "args = v # serial # rest" "serial_shape serial"
      "run_commands sys s (atoi v) serial = (True, w)"
    using assms s by (cases args; cases "tl args") (auto simp: write_eeprom_main_def split: if_splits)
  show ?thesis
    unfolding s args(1) using args(2,3) by (auto simp: run_commands_def Let_def split: if_splits)
qed

definition sample_files :: card_files where
  "sample_files = \<lparr>cf_exists = True,
     cf_entries = Some [RegFile ''i2c'', RegFile ''disciplining_config'', RegFile ''temperature_table''],
     cf_i2c = (\<lambda>p. (''/d'', Some [SubDir ''1-0050'' (Some [RegFile ''eeprom''])]))\<rparr>"

lemma sample_scan:
  "scan_card sample_files ''/sys/class/timecard/ocp0'' =
     Some \<lparr>found_eeprom = True, eeprom_path = ''/d/1-0050/eeprom'', disciplining_config_found = True,
       sc_config_path = ''/sys/class/timecard/ocp0/disciplining_config'', temperature_table_found = True,
       sc_table_path = ''/sys/class/timecard/ocp0/temperature_table''\<rparr>"
  by (simp add: scan_card_def sample_files_def scan_entry_def find_eeprom_def scan_start_def)

lemma sample_writes:
  "write_eeprom_main sample_files (\<lambda>w c. 0) ''ocp0'' [''7'', ''F12345678''] =
     Some (True, [''art_eeprom_format -p /d/1-0050/eeprom -s F12345678'',
       manager_command ''/sys/class/timecard/ocp0/disciplining_config'' (atoi ''7''),
       ''art_temperature_table_manager -p /sys/class/timecard/ocp0/temperature_table -f''])"
  using sample_scan
  by (simp add: write_eeprom_main_def run_commands_def serial_shape_def format_command_def table_command_def Let_def
      sample_files_def)

theorem write_eeprom_success_witness:
  "\<exists>s. scan_card sample_files ''/sys/class/timecard/ocp0'' = Some s \<and> serial_shape ''F12345678''"
  using write_eeprom_success [OF sample_writes] by auto

text \<open>A bus without a memory: nothing is written, and that is reported as a success.\<close>

lemma nothing_written:
  "write_eeprom_main
     \<lparr>cf_exists = True, cf_entries = Some [RegFile ''i2c'', RegFile ''disciplining_config''], cf_i2c = (\<lambda>p. ([], None))\<rparr>
     sys ''ocp0'' [''4186000'', ''F12345678''] = Some (True, [])"
  by (simp add: write_eeprom_main_def scan_card_def scan_entry_def find_eeprom_def scan_start_def run_commands_def
      serial_shape_def)

text \<open>A serial number that this program passes on and \<open>art_eeprom_format\<close> accepts is an F and eight digits.\<close>

lemma serial_accepted_by_both:
  "serial_shape s \<and> fst (validate_serial (Some s)) \<longleftrightarrow>
     (\<exists>ds. s = CHR ''F'' # ds \<and> length ds = 8 \<and> list_all c_isdigit ds)"
proof
  assume s: "serial_shape s \<and> fst (validate_serial (Some s))"
  let ?f = "filter (\<lambda>x. x \<noteq> CHR ''-'') s"
  have "length ?f = 9" "list_all (\<lambda>i. c_isdigit (?f ! i)) [1..<9]"
    using s by (auto simp: validate_serial_def Let_def removeChar_filter split: if_splits)
  moreover have f: "?f = s"
    using \<open>length ?f = 9\<close> s by (metis filter_id_conv length_filter_less nat_neq_iff serial_shape_def)
  ultimately have len: "length s = 9" and dig: "list_all (\<lambda>i. c_isdigit (s ! i)) [1..<9]" by simp_all
  then obtain ds where ds: "s = CHR ''F'' # ds" "length ds = 8"
    using s by (cases s) (auto simp: serial_shape_def)
  have "list_all c_isdigit ds"
    unfolding list_all_length
  proof (intro allI impI)
    fix n assume "n < length ds"
    then have "Suc n \<in> set [1..<9]" using ds(2) by simp
    with dig show "c_isdigit (ds ! n)" unfolding list_all_iff ds(1) by (metis nth_Cons_Suc)
  qed
  with ds show "\<exists>ds. s = CHR ''F'' # ds \<and> length ds = 8 \<and> list_all c_isdigit ds" by blast
next
  assume "\<exists>ds. s = CHR ''F'' # ds \<and> length ds = 8 \<and> list_all c_isdigit ds"
  then obtain ds where ds: "s = CHR ''F'' # ds" "length ds = 8" "list_all c_isdigit ds" by blast
  then have "filter (\<lambda>x. x \<noteq> CHR ''-'') s = s"
    by (auto simp: filter_id_conv list_all_iff c_isdigit_def)
  with ds show "serial_shape s \<and> fst (validate_serial (Some s))"
    by (auto simp: serial_shape_def validate_serial_def Let_def removeChar_filter list_all_length nth_Cons' list_all_iff)
qed

section \<open>Listing a card\<close>

datatype ocp_report = DeviceReport string string | EepromReport "string option"

definition no_devices :: devices_path where
  "no_devices = \<lparr>disciplining_config_path = [], gnss_path = [], mac_path = [], mro_path = [], pps_path = [],
     ptp_path = [], temperature_table_path = []\<rparr>"

definition device_reports :: "devices_path \<Rightarrow> ocp_report list" where
  "device_reports dp =
     map (\<lambda>(n, p). DeviceReport n p) (filter (\<lambda>(n, p). length p > 0)
       [(''mro50'', mro_path dp), (''ptp'', ptp_path dp), (''pps'', pps_path dp), (''ttyGPS'', gnss_path dp),
        (''ttyMAC'', mac_path dp), (''disciplining_config'', disciplining_config_path dp),
        (''temperature_table'', temperature_table_path dp)])"

definition eeprom_reports :: "card_files \<Rightarrow> string \<Rightarrow> ocp_report list" where
  "eeprom_reports cf ocp_path =
     (case cf_entries cf of
        None \<Rightarrow> []
      | Some es \<Rightarrow>
          map (\<lambda>n. EepromReport (find_eeprom cf ocp_path n)) (filter (\<lambda>n. n = ''i2c'') (map ent_d_name es)))"

definition ocpdir_main ::
  "card_files \<Rightarrow> (string \<Rightarrow> int + sys_ent list) \<Rightarrow> (string \<Rightarrow> string \<Rightarrow> string option) \<Rightarrow> string \<Rightarrow> int \<times> ocp_report list" where
  "ocpdir_main cf opened search arg =
     (let ocp_path = take 254 arg
      in if \<not> cf_exists cf then (- 1, [])
         else let config = config_set \<lparr>argz = [], config_path = []\<rparr> ''sys_path'' ocp_path
              in case config_discover_devices config opened search no_devices of
                   (_, dp) \<Rightarrow> (0, device_reports dp @ eeprom_reports cf ocp_path))"

text \<open>The program stores the card's directory under a key that the search for devices does not look
  up, so it never reports a device, whatever the directory holds; only memories are listed.\<close>

theorem ocpdir_reports_no_device:
  "ocpdir_main cf opened search arg =
     (if cf_exists cf then (0, eeprom_reports cf (take 254 arg)) else (- 1, []))"
proof -
  have "config_get (config_set \<lparr>argz = [], config_path = []\<rparr> ''sys_path'' p) ''sysfs-path'' =
      config_get \<lparr>argz = [], config_path = []\<rparr> ''sysfs-path''" for p
    by (rule config_get_other) (simp_all add: key_plain_def)
  then have "config_discover_devices (config_set \<lparr>argz = [], config_path = []\<rparr> ''sys_path'' p) opened search no_devices =
      (- EINVAL, no_devices)" for p
    by (simp add: config_discover_devices_def config_get_def envz_get_def envz_entry_def)
  then show ?thesis
    by (simp add: ocpdir_main_def Let_def device_reports_def no_devices_def)
qed

end
