(* ===== verification/ProdPhase.thy ===== *)
theory ProdPhase
  imports ProdIo MonitoringClient EepromTools
begin

text \<open>
  \<open>tests_production/phase_error_tracking_test_prod.c\<close>: the daemon is started as a service, and its
  monitoring server is asked every five seconds whether it tracks and how large the phase error is.
  The answers, the times read and the result of the service manager are inputs. The functions that
  send a request are those of the command-line client, with the request 0.
\<close>

definition PHASE_ERROR_ABS_MAX :: int where "PHASE_ERROR_ABS_MAX = 100"
definition PHASE_ERROR_TRACKING_TIME_MIN :: int where "PHASE_ERROR_TRACKING_TIME_MIN = 1"

section \<open>Asking the server\<close>

text \<open>Without a socket or a connection there is no answer; the outer \<open>None\<close> is a text that is read past
  its buffer.\<close>

definition send_monitoring_request ::
  "'f json_lib \<Rightarrow> int \<Rightarrow> bool \<Rightarrow> (string \<Rightarrow> string option) \<Rightarrow> string \<Rightarrow> json option option" where
  "send_monitoring_request lib sockfd connected net memory =
     (if sockfd = - 1 then Some None
      else if \<not> connected then Some None
      else json_send_and_receive lib net memory REQUEST_NONE)"

section \<open>Tracking the phase error\<close>

datatype track_state = WAITING_DISCIPLINING | TRACKING_PHASE_ERROR | PASSED | FAILED

text \<open>What a round sees: the daemon's status and its phase error, nothing, or a null status, which
  \<open>strncmp\<close> does not survive.\<close>

datatype track_answer = NoData | Data string int | NullStatus

definition read_answer_of :: "'f json_lib \<Rightarrow> json option \<Rightarrow> track_answer" where
  "read_answer_of lib obj =
     (case (get_ex obj ''disciplining'', get_ex obj ''clock'') of
        (Some layer_1, Some layer_3) \<Rightarrow>
          (case jl_get_string lib (get_ex (Some layer_1) ''status'') of
             None \<Rightarrow> NullStatus
           | Some status \<Rightarrow> Data status (jl_get_int lib (get_ex (Some layer_3) ''offset'')))
      | _ \<Rightarrow> NoData)"

text \<open>\<open>abs\<close> of an int; that of the smallest one is itself on the usual machines.\<close>

definition c_abs :: "int \<Rightarrow> int" where "c_abs x = to_i32 \<bar>x\<bar>"

text \<open>One round in state \<open>WAITING_DISCIPLINING\<close> or \<open>TRACKING_PHASE_ERROR\<close>; \<open>now\<close> is the time, read when it is
  needed; \<open>start\<close> is the start of the tracking.\<close>

definition track_step :: "int \<Rightarrow> int \<Rightarrow> string \<Rightarrow> int \<Rightarrow> int \<Rightarrow> track_state \<times> int \<Rightarrow> track_state \<times> int" where
  "track_step limit minutes status phase_error now s =
     (case fst s of
        WAITING_DISCIPLINING \<Rightarrow>
          if status = ''TRACKING'' \<and> c_abs phase_error \<le> limit then (TRACKING_PHASE_ERROR, now) else s
      | TRACKING_PHASE_ERROR \<Rightarrow>
          if status = ''TRACKING'' then
            (if c_abs phase_error \<le> limit
             then (if to_i32 (now - snd s) \<ge> minutes * 60 then (PASSED, snd s) else s)
             else (FAILED, snd s))
          else (FAILED, snd s)
      | _ \<Rightarrow> s)"

datatype track_result = Returned bool | Died | StillRunning

fun track_loop ::
  "int \<Rightarrow> int \<Rightarrow> (track_answer \<times> int) list \<Rightarrow> track_state \<times> int \<Rightarrow> track_result" where
  "track_loop limit minutes rs (PASSED, t) = Returned True"
| "track_loop limit minutes rs (FAILED, t) = Returned False"
| "track_loop limit minutes [] s = StillRunning"
| "track_loop limit minutes ((NoData, now) # rs) s = Returned False"
| "track_loop limit minutes ((NullStatus, now) # rs) s = Died"
| "track_loop limit minutes ((Data status phase_error, now) # rs) s =
     track_loop limit minutes rs (track_step limit minutes status phase_error now s)"

definition oscillatord_track_phase_error_under_limit ::
  "int \<Rightarrow> int \<Rightarrow> (track_answer \<times> int) list \<Rightarrow> track_result" where
  "oscillatord_track_phase_error_under_limit limit minutes rs =
     track_loop limit minutes rs (WAITING_DISCIPLINING, 0)"

section \<open>The program\<close>

datatype service_call = StartUnit string | StopUnit string

text \<open>Errors of the service manager are only logged.\<close>

definition oscillatord_activate_service :: "string \<Rightarrow> bool \<Rightarrow> service_call" where
  "oscillatord_activate_service template_name on =
     (let service_name = ''oscillatord@'' @ template_name @ ''.service''
      in if on then StartUnit service_name else StopUnit service_name)"

definition oscillatord_start_service :: "string \<Rightarrow> service_call" where
  "oscillatord_start_service template_name = oscillatord_activate_service template_name True"

definition oscillatord_stop_service :: "string \<Rightarrow> service_call" where
  "oscillatord_stop_service template_name = oscillatord_activate_service template_name False"

text \<open>The arguments behind the name of the card; both path tests look at the configuration file.
  \<open>rounds\<close>: what is seen on a port. \<open>None\<close>: the program died or is still running.\<close>

definition phase_test_main ::
  "(string \<Rightarrow> bool) \<Rightarrow> (int \<Rightarrow> (track_answer \<times> int) list) \<Rightarrow> string \<Rightarrow> string list \<Rightarrow>
   (verdict \<times> service_call list) option" where
  "phase_test_main there rounds arg args =
     (let config_file_path = take 255 (''/etc/oscillatord_'' @ arg @ ''.conf'');
          config_path_valid = there config_file_path;
          ocp_path_valid = there config_file_path
      in case args of
           [port] \<Rightarrow>
             if config_path_valid \<and> ocp_path_valid \<and> length port = 4 then
               (case oscillatord_track_phase_error_under_limit PHASE_ERROR_ABS_MAX PHASE_ERROR_TRACKING_TIME_MIN
                       (rounds (atoi port)) of
                  Returned passed \<Rightarrow>
                    Some (if passed then TestPassed else TestFailed,
                          [oscillatord_start_service arg, oscillatord_stop_service arg])
                | _ \<Rightarrow> None)
             else Some (TestAborted, [])
         | _ \<Rightarrow> Some (TestAborted, []))"

section \<open>What a passed test has seen\<close>

definition good_answer :: "int \<Rightarrow> track_answer \<Rightarrow> bool" where
  "good_answer limit a \<longleftrightarrow> (\<exists>p. a = Data ''TRACKING'' p \<and> c_abs p \<le> limit)"

definition has_data :: "track_answer \<Rightarrow> bool" where
  "has_data a \<longleftrightarrow> (\<exists>st p. a = Data st p)"

definition long_enough :: "int \<Rightarrow> int \<Rightarrow> int \<Rightarrow> bool" where
  "long_enough minutes start now \<longleftrightarrow> to_i32 (now - start) \<ge> minutes * 60"

lemma good_has_data: "good_answer limit a \<Longrightarrow> has_data a"
  by (auto simp: good_answer_def has_data_def)

text \<open>Elements that satisfy \<open>P\<close> up to one that satisfies \<open>Q\<close>.\<close>

definition until :: "('a \<Rightarrow> bool) \<Rightarrow> ('a \<Rightarrow> bool) \<Rightarrow> 'a list \<Rightarrow> bool" where
  "until P Q xs \<longleftrightarrow> (\<exists>ys x zs. xs = ys @ x # zs \<and> list_all P ys \<and> Q x)"

lemma until_Nil [simp]: "\<not> until P Q []"
  by (simp add: until_def)

lemma until_Cons: "until P Q (x # xs) \<longleftrightarrow> Q x \<or> P x \<and> until P Q xs"
proof
  assume "until P Q (x # xs)"
  then obtain ys y zs where "x # xs = ys @ y # zs" "list_all P ys" "Q y" by (auto simp: until_def)
  then show "Q x \<or> P x \<and> until P Q xs" by (cases ys) (auto simp: until_def)
next
  assume a: "Q x \<or> P x \<and> until P Q xs"
  show "until P Q (x # xs)"
  proof (cases "Q x")
    case True
    then show ?thesis unfolding until_def by (intro exI [of _ "[]"]) auto
  next
    case False
    with a obtain ys y zs where "xs = ys @ y # zs" "list_all P ys" "Q y" "P x" by (auto simp: until_def)
    then show ?thesis unfolding until_def by (intro exI [of _ "x # ys"]) auto
  qed
qed

lemma tracking_round:
  "track_loop limit minutes ((a, now) # rs) (TRACKING_PHASE_ERROR, start) = Returned True \<longleftrightarrow>
     good_answer limit a \<and>
     (long_enough minutes start now \<or> track_loop limit minutes rs (TRACKING_PHASE_ERROR, start) = Returned True)"
  by (cases a) (auto simp: track_step_def good_answer_def long_enough_def)

text \<open>A good answer, and one that comes late enough.\<close>

definition keeps :: "int \<Rightarrow> track_answer \<times> int \<Rightarrow> bool" where "keeps limit r \<longleftrightarrow> good_answer limit (fst r)"

definition completes :: "int \<Rightarrow> int \<Rightarrow> int \<Rightarrow> track_answer \<times> int \<Rightarrow> bool" where
  "completes limit minutes start r \<longleftrightarrow> good_answer limit (fst r) \<and> long_enough minutes start (snd r)"

definition starts :: "int \<Rightarrow> track_answer \<times> int \<Rightarrow> bool" where
  "starts limit r \<longleftrightarrow> has_data (fst r) \<and> \<not> good_answer limit (fst r)"

lemma track_loop_tracking:
  "track_loop limit minutes rs (TRACKING_PHASE_ERROR, start) = Returned True \<longleftrightarrow>
     until (keeps limit) (completes limit minutes start) rs"
proof (induction rs)
  case (Cons r rs)
  then show ?case
    using tracking_round [of limit minutes "fst r" "snd r" rs start]
    by (auto simp: until_Cons keeps_def completes_def)
qed simp

lemma waiting_round:
  "track_loop limit minutes ((a, now) # rs) (WAITING_DISCIPLINING, t) = Returned True \<longleftrightarrow>
     good_answer limit a \<and> track_loop limit minutes rs (TRACKING_PHASE_ERROR, now) = Returned True \<or>
     has_data a \<and> \<not> good_answer limit a \<and> track_loop limit minutes rs (WAITING_DISCIPLINING, t) = Returned True"
  by (cases a) (auto simp: track_step_def good_answer_def has_data_def)

lemma track_loop_waiting:
  "track_loop limit minutes rs (WAITING_DISCIPLINING, t) = Returned True \<longleftrightarrow>
     (\<exists>ws g start rest. rs = ws @ (g, start) # rest \<and> list_all (starts limit) ws \<and> good_answer limit g \<and>
        until (keeps limit) (completes limit minutes start) rest)"
proof (induction rs)
  case (Cons r rs)
  obtain a now where r: "r = (a, now)" by (cases r)
  have main: "(\<exists>ws g start rest. r # rs = ws @ (g, start) # rest \<and> list_all (starts limit) ws \<and> good_answer limit g \<and>
        until (keeps limit) (completes limit minutes start) rest) \<longleftrightarrow>
      good_answer limit a \<and> until (keeps limit) (completes limit minutes now) rs \<or>
      starts limit r \<and> (\<exists>ws g start rest. rs = ws @ (g, start) # rest \<and> list_all (starts limit) ws \<and>
        good_answer limit g \<and> until (keeps limit) (completes limit minutes start) rest)"
    (is "?L \<longleftrightarrow> ?R")
  proof
    assume ?L
    then obtain ws g start rest where "r # rs = ws @ (g, start) # rest" "list_all (starts limit) ws"
        "good_answer limit g" "until (keeps limit) (completes limit minutes start) rest" by blast
    then show ?R by (cases ws) (auto simp: r)
  next
    assume ?R
    then show ?L
    proof
      assume "good_answer limit a \<and> until (keeps limit) (completes limit minutes now) rs"
      then show ?L unfolding r by (intro exI [of _ "[]"]) auto
    next
      assume "starts limit r \<and> (\<exists>ws g start rest. rs = ws @ (g, start) # rest \<and> list_all (starts limit) ws \<and>
        good_answer limit g \<and> until (keeps limit) (completes limit minutes start) rest)"
      then obtain ws g start rest where w: "starts limit r" "rs = ws @ (g, start) # rest" "list_all (starts limit) ws"
          "good_answer limit g" "until (keeps limit) (completes limit minutes start) rest" by blast
      then show ?L by (intro exI [of _ "r # ws"] exI [of _ g] exI [of _ start] exI [of _ rest]) simp
    qed
  qed
  show ?case
    unfolding r waiting_round track_loop_tracking Cons main [unfolded r] by (simp add: starts_def)
qed simp

text \<open>C32. The test of the phase error passes exactly when a first answer shows the daemon tracking within
  the limit, every answer from then on does so as well, and one of them comes when the time of the
  test has passed since the first; before the first one every round had data.\<close>

theorem phase_test_passes_iff:
  "oscillatord_track_phase_error_under_limit limit minutes rs = Returned True \<longleftrightarrow>
     (\<exists>ws g start rest. rs = ws @ (g, start) # rest \<and>
        (\<forall>r \<in> set ws. has_data (fst r) \<and> \<not> good_answer limit (fst r)) \<and> good_answer limit g \<and>
        (\<exists>ts a now zs. rest = ts @ (a, now) # zs \<and> (\<forall>r \<in> set ts. good_answer limit (fst r)) \<and>
           good_answer limit a \<and> long_enough minutes start now))"
  unfolding oscillatord_track_phase_error_under_limit_def track_loop_waiting until_def list_all_iff
  by (simp add: starts_def keeps_def completes_def)

text \<open>One round of waiting, then a minute and five seconds within the limit.\<close>

definition sample_rounds :: "(track_answer \<times> int) list" where
  "sample_rounds = [(Data ''INIT'' 5, 0), (Data ''TRACKING'' 3, 10), (Data ''TRACKING'' (- 7), 40),
     (Data ''TRACKING'' 5, 75)]"

theorem phase_test_passes_iff_witness:
  "\<exists>ws g start rest. sample_rounds = ws @ (g, start) # rest \<and>
        (\<forall>r \<in> set ws. has_data (fst r) \<and> \<not> good_answer 100 (fst r)) \<and> good_answer 100 g \<and>
        (\<exists>ts a now zs. rest = ts @ (a, now) # zs \<and> (\<forall>r \<in> set ts. good_answer 100 (fst r)) \<and>
           good_answer 100 a \<and> long_enough 1 start now)"
proof -
  have "oscillatord_track_phase_error_under_limit 100 1 sample_rounds = Returned True" by code_simp
  then show ?thesis unfolding phase_test_passes_iff .
qed

section \<open>Against the server\<close>

text \<open>What a round sees of a daemon in a state of its monitoring data.\<close>

lemma answer_of_server:
  assumes "getters_ok lib"
  shows "read_answer_of lib (Some (JObj (fst (build_response env REQUEST_NONE m)))) =
    (if disciplining_mode m \<or> phase_error_supported m
     then Data (status_name env (od_status (disciplining m))) (to_i32 (osc_phase_error (osc_attributes m))) else NoData)"
  using assms by (simp add: read_answer_of_def response_items json_add_disciplining_data_def json_add_clock_data_def
      getters_ok_def Let_def)

end
