(* ===== verification/ProdMro.thy ===== *)
theory ProdMro
  imports ProdIo Mro50
begin

text \<open>
  \<open>tests_production/mro_test_prod.c\<close>: the fine control of the oscillator is moved by one and back, through
  the oscillator layer. The test is proved against any oscillator that keeps a fine value (locale
  \<open>fine_device\<close>), and the driver of the mRO50 on a device that follows the protocol is one.
\<close>

section \<open>The test\<close>

definition adjust_to :: "int \<Rightarrow> od_output" where
  "adjust_to v = \<lparr>od_action = ADJUST_FINE, setpoint = to_u32 v, value_phase_ctrl = 500\<rparr>"

definition no_attributes :: oscillator_attributes where
  "no_attributes = \<lparr>osc_phase_error = 0, temperature = 0, locked = False\<rparr>"

text \<open>Results of the calls are only logged. \<open>junk\<close> is what the uninitialised control values hold.\<close>

definition mro_test_run ::
  "oscillator_ctrl \<Rightarrow> 's oscillator option \<Rightarrow> bool \<times> oscillator_ctrl option \<times> 's oscillator option" where
  "mro_test_run junk osc0 =
     (case oscillator_parse_attributes osc0 (Some no_attributes) of (_, _, osc1) \<Rightarrow>
      case oscillator_get_ctrl osc1 (Some junk) of (_, ctrl1, osc2) \<Rightarrow>
      let default_fine_ctrl = to_i32 (fine_ctrl (the ctrl1)) in
      case oscillator_apply_output osc2 (Some (adjust_to (default_fine_ctrl + 1))) of (_, _, osc3) \<Rightarrow>
      case oscillator_get_ctrl osc3 ctrl1 of (_, ctrl2, osc4) \<Rightarrow>
      if fine_ctrl (the ctrl2) = to_u32 (default_fine_ctrl + 1) then
        case oscillator_apply_output osc4 (Some (adjust_to default_fine_ctrl)) of (_, _, osc5) \<Rightarrow>
        case oscillator_get_ctrl osc5 ctrl2 of (_, ctrl3, osc6) \<Rightarrow>
          (fine_ctrl (the ctrl3) = to_u32 default_fine_ctrl, ctrl3, osc6)
      else (False, ctrl2, osc4))"

text \<open>The program: \<open>there\<close> is \<open>access\<close>, which is asked twice for the configuration file, \<open>cfg\<close> the result of
  \<open>config_init\<close>, \<open>new\<close> the oscillator. The exit status, the verdict and the oscillator before it is
  destroyed.\<close>

definition mro_test_main ::
  "(string \<Rightarrow> bool) \<Rightarrow> int \<Rightarrow> 's oscillator option \<Rightarrow> oscillator_ctrl \<Rightarrow> string \<Rightarrow>
   int \<times> verdict \<times> 's oscillator option" where
  "mro_test_main there cfg new junk arg =
     (let file_path = take 255 (''/etc/oscillatord_'' @ arg @ ''.conf'');
          config_path_valid = there file_path;
          ocp_path_valid = there file_path
      in if config_path_valid \<and> ocp_path_valid then
           (if cfg \<noteq> 0 then (- EINVAL, TestAborted, None)
            else if new = None then (- EINVAL, TestAborted, None)
            else case mro_test_run junk new of
                   (adjust_fine_valid, _, osc) \<Rightarrow> (0, if adjust_fine_valid then TestPassed else TestFailed, osc))
         else (0, TestAborted, None))"

section \<open>An oscillator that keeps a fine value\<close>

locale fine_device =
  fixes get :: "'s \<Rightarrow> oscillator_ctrl \<Rightarrow> int \<times> oscillator_ctrl \<times> 's"
    and apply_out :: "'s \<Rightarrow> od_output \<Rightarrow> int \<times> od_output \<times> 's"
    and attrs :: "'s \<Rightarrow> oscillator_attributes \<Rightarrow> int \<times> oscillator_attributes \<times> 's"
    and holds :: "'s \<Rightarrow> int \<Rightarrow> bool"
  assumes get_holds: "holds s v \<Longrightarrow>
      fine_ctrl (fst (snd (get s c))) = v \<and> holds (snd (snd (get s c))) v"
    and apply_holds: "holds s v \<Longrightarrow> 0 \<le> w \<Longrightarrow> w < 2 ^ 32 \<Longrightarrow>
      holds (snd (snd (apply_out s (adjust_to w)))) w"
    and attrs_holds: "holds s v \<Longrightarrow> holds (snd (snd (attrs s a))) v"
begin

definition driver :: "'s oscillator \<Rightarrow> bool" where
  "driver osc \<longleftrightarrow> cls_get_ctrl (osc_class osc) = Some get \<and> cls_apply_output (osc_class osc) = Some apply_out \<and>
     cls_parse_attributes (osc_class osc) = Some attrs"

definition at :: "'s oscillator option \<Rightarrow> int \<Rightarrow> bool" where
  "at osc v \<longleftrightarrow> (\<exists>o'. osc = Some o' \<and> driver o' \<and> holds (osc_state o') v)"

lemma get_at:
  assumes "at osc v"
  obtains ret x osc' where "oscillator_get_ctrl osc (Some c) = (ret, Some x, osc')" "fine_ctrl x = v" "at osc' v"
proof -
  from assms(1) obtain o' where o: "osc = Some o'" "driver o'" "holds (osc_state o') v" by (auto simp: at_def)
  obtain ret x s' where r: "get (osc_state o') c = (ret, x, s')" by (cases "get (osc_state o') c")
  show ?thesis
    by (rule that [of ret x "Some (o'\<lparr>osc_state := s'\<rparr>)"])
      (use o r get_holds [OF o(3), of c] assms in \<open>simp_all add: at_def driver_def oscillator_get_ctrl_def dispatch_def\<close>)
qed

lemma apply_at:
  assumes "at osc v" "0 \<le> w" "w < 2 ^ 32"
  obtains ret x osc' where "oscillator_apply_output osc (Some (adjust_to w)) = (ret, Some x, osc')" "at osc' w"
proof -
  from assms(1) obtain o' where o: "osc = Some o'" "driver o'" "holds (osc_state o') v" by (auto simp: at_def)
  obtain ret x s' where r: "apply_out (osc_state o') (adjust_to w) = (ret, x, s')" by (cases "apply_out (osc_state o') (adjust_to w)")
  show ?thesis
    by (rule that [of ret x "Some (o'\<lparr>osc_state := s'\<rparr>)"])
      (use o r apply_holds [OF o(3), of w] assms in \<open>simp_all add: at_def driver_def oscillator_apply_output_def dispatch_def\<close>)
qed

lemma attrs_at:
  assumes "at osc v"
  obtains ret x osc' where "oscillator_parse_attributes osc (Some a) = (ret, Some x, osc')" "at osc' v"
proof -
  from assms(1) obtain o' where o: "osc = Some o'" "driver o'" "holds (osc_state o') v" by (auto simp: at_def)
  obtain ret x s' where r: "attrs (osc_state o') a = (ret, x, s')" by (cases "attrs (osc_state o') a")
  show ?thesis
    by (rule that [of ret x "Some (o'\<lparr>osc_state := s'\<rparr>)"])
      (use o r attrs_holds [OF o(3), of a] assms in \<open>simp_all add: at_def driver_def oscillator_parse_attributes_def dispatch_def\<close>)
qed

lemma run_passes:
  assumes "at osc v" "0 \<le> v" "v < 2 ^ 31 - 1"
  shows "\<exists>c osc'. mro_test_run junk osc = (True, Some c, osc') \<and> fine_ctrl c = v \<and> at osc' v"
proof -
  obtain r1 a osc1 where 1: "oscillator_parse_attributes osc (Some no_attributes) = (r1, Some a, osc1)" "at osc1 v"
    by (rule attrs_at [OF assms(1)])
  obtain r2 c2 osc2 where 2: "oscillator_get_ctrl osc1 (Some junk) = (r2, Some c2, osc2)" "fine_ctrl c2 = v" "at osc2 v"
    by (rule get_at [OF 1(2)])
  obtain r3 o3 osc3 where 3: "oscillator_apply_output osc2 (Some (adjust_to (v + 1))) = (r3, Some o3, osc3)" "at osc3 (v + 1)"
    by (rule apply_at [OF 2(3), of "v + 1"]) (use assms in auto)
  obtain r4 c4 osc4 where 4: "oscillator_get_ctrl osc3 (Some c2) = (r4, Some c4, osc4)" "fine_ctrl c4 = v + 1" "at osc4 (v + 1)"
    by (rule get_at [OF 3(2)])
  obtain r5 o5 osc5 where 5: "oscillator_apply_output osc4 (Some (adjust_to v)) = (r5, Some o5, osc5)" "at osc5 v"
    by (rule apply_at [OF 4(3), of v]) (use assms in auto)
  obtain r6 c6 osc6 where 6: "oscillator_get_ctrl osc5 (Some c4) = (r6, Some c6, osc6)" "fine_ctrl c6 = v" "at osc6 v"
    by (rule get_at [OF 5(2)])
  have v: "to_i32 v = v" "to_u32 v = v" "to_u32 (v + 1) = v + 1"
    using assms by (simp_all add: to_i32_id fits_i32_def to_u32_id)
  show ?thesis by (simp add: mro_test_run_def 1 2 3 4 5 6 v)
qed

end

section \<open>The mRO50\<close>

text \<open>A device that follows the protocol: it acknowledges a fine adjustment, answers the question for the
  fine value with the last one it was given (\<open>fine\<close> before the first), and the others as well.\<close>

definition CMD_QUESTIONS :: "string set" where
  "CMD_QUESTIONS = {CMD_READ_COARSE, CMD_READ_FINE, CMD_READ_STATUS}"

definition fine_after :: "nat \<Rightarrow> string list \<Rightarrow> nat \<Rightarrow> bool" where
  "fine_after fine h v \<longleftrightarrow>
     v < 2 ^ 32 \<and> ((\<exists>a b. h = a @ [CMD_WRITE_FINE v] @ b \<and> set b \<subseteq> CMD_QUESTIONS) \<or> v = fine \<and> set h \<subseteq> CMD_QUESTIONS)"

definition follows_protocol :: "nat \<Rightarrow> (string list \<Rightarrow> exchange_io) \<Rightarrow> bool" where
  "follows_protocol fine dev \<longleftrightarrow>
     (\<forall>h v. answers (dev (h @ [CMD_WRITE_FINE v])) [LF, LF]) \<and>
     (\<forall>h v. fine_after fine h v \<longrightarrow> answers (dev (h @ [CMD_READ_FINE])) (hex_padded 4 v @ [LF, LF])) \<and>
     (\<forall>h. \<exists>n < 2 ^ 32. answers (dev (h @ [CMD_READ_COARSE])) (hex_padded 8 n @ [LF, LF])) \<and>
     (\<forall>h. \<exists>s. length s = 60 \<and> take 1 s \<noteq> ''?'' \<and> answers (dev (h @ [CMD_READ_STATUS])) (s @ [LF, LF]))"

definition mro_holds :: "nat \<Rightarrow> mro_port \<Rightarrow> int \<Rightarrow> bool" where
  "mro_holds fine p v \<longleftrightarrow>
     mro_ready p \<and> follows_protocol fine (mro_dev p) \<and> 0 \<le> v \<and> fine_after fine (mro_sent p) (nat v)"

lemma fine_after_question: "fine_after fine h v \<Longrightarrow> cmd \<in> CMD_QUESTIONS \<Longrightarrow> fine_after fine (h @ [cmd]) v"
  by (auto simp: fine_after_def) (metis Un_insert_right append.assoc append_Cons insert_subset list.set(2)
      set_append sup_bot.right_neutral list.set(1) append_Nil)+

lemma fine_after_write: "v < 2 ^ 32 \<Longrightarrow> fine_after fine (h @ [CMD_WRITE_FINE v]) v"
  unfolding fine_after_def by (intro conjI disjI1 exI [of _ h] exI [of _ "[]"]) simp_all

lemma mro_get_holds:
  assumes "mro_holds fine p v"
  shows "fine_ctrl (fst (snd (mRo50_oscillator_get_ctrl p c))) = v \<and>
    mro_holds fine (snd (snd (mRo50_oscillator_get_ctrl p c))) v"
proof -
  have p: "mro_ready p" "follows_protocol fine (mro_dev p)" "0 \<le> v" "fine_after fine (mro_sent p) (nat v)"
    using assms by (simp_all add: mro_holds_def)
  from p(2) obtain n where n: "n < 2 ^ 32" "answers (mro_dev p (mro_sent p @ [CMD_READ_COARSE])) (hex_padded 8 n @ [LF, LF])"
    unfolding follows_protocol_def by blast
  obtain p1 where q1: "query_hex CMD_READ_COARSE p = (Some (int n), p1)" "mro_ready p1"
      "mro_sent p1 = mro_sent p @ [CMD_READ_COARSE]" "mro_dev p1 = mro_dev p"
    by (rule query_hex_answer [OF p(1) n(2)]) (use n in auto)
  have f1: "fine_after fine (mro_sent p1) (nat v)"
    unfolding q1(3) by (rule fine_after_question [OF p(4)]) (simp add: CMD_QUESTIONS_def)
  then have a: "answers (mro_dev p1 (mro_sent p1 @ [CMD_READ_FINE])) (hex_padded 4 (nat v) @ [LF, LF])"
    using p(2) q1(4) by (simp add: follows_protocol_def)
  obtain p2 where q2: "query_hex CMD_READ_FINE p1 = (Some (int (nat v)), p2)" "mro_ready p2"
      "mro_sent p2 = mro_sent p1 @ [CMD_READ_FINE]" "mro_dev p2 = mro_dev p1"
    by (rule query_hex_answer [OF q1(2) a]) (use p(4) in \<open>auto simp: fine_after_def\<close>)
  have "fine_after fine (mro_sent p2) (nat v)"
    unfolding q2(3) by (rule fine_after_question [OF f1]) (simp add: CMD_QUESTIONS_def)
  then show ?thesis
    using q1 q2 p by (simp add: mRo50_oscillator_get_ctrl_def mro_holds_def)
qed

lemma mro_apply_holds:
  assumes "mro_holds fine p v" "0 \<le> w" "w < 2 ^ 32"
  shows "mro_holds fine (snd (snd (mRo50_oscillator_apply_output p (adjust_to w)))) w"
proof -
  let ?cmd = "CMD_WRITE_FINE (nat w)"
  have p: "mro_ready p" "follows_protocol fine (mro_dev p)"
    using assms(1) by (simp_all add: mro_holds_def)
  then have "answers (mro_dev p (mro_sent p @ [?cmd])) ([] @ [LF, LF])"
    by (simp add: follows_protocol_def)
  from cmd_answer [OF p(1) this] p show ?thesis
    using assms(2,3) fine_after_write [of "nat w" fine "mro_sent p"]
    by (simp add: mRo50_oscillator_apply_output_def adjust_to_def to_u32_id mro_holds_def mro_ready_def
        buf_clear_length mro_answer_len_def)
qed

lemma mro_attrs_holds:
  assumes "mro_holds fine p v"
  shows "mro_holds fine (snd (snd (mRO50_oscillator_parse_attributes compute_temp junk p a))) v"
proof -
  have p: "mro_ready p" "follows_protocol fine (mro_dev p)" "0 \<le> v" "fine_after fine (mro_sent p) (nat v)"
    using assms by (simp_all add: mro_holds_def)
  from p(2) obtain s where s: "length s = 60" "take 1 s \<noteq> ''?''"
      "answers (mro_dev p (mro_sent p @ [CMD_READ_STATUS])) (s @ [LF, LF])"
    unfolding follows_protocol_def by blast
  have "fine_after fine (mro_sent p @ [CMD_READ_STATUS]) (nat v)"
    by (rule fine_after_question [OF p(4)]) (simp add: CMD_QUESTIONS_def)
  then show ?thesis
    using cmd_answer [OF p(1) s(3) _ s(2)] s(1) p
    by (simp add: mRO50_oscillator_parse_attributes_def mRo50_oscillatord_get_attributes_def mro_holds_def
        mro_ready_def STATUS_ANSWER_SIZE_def mro_answer_len_def buf_put_length buf_clear_length Let_def
        split: option.split prod.split)
qed

interpretation mro: fine_device mRo50_oscillator_get_ctrl mRo50_oscillator_apply_output
  "mRO50_oscillator_parse_attributes compute_temp junk" "mro_holds fine" for compute_temp junk fine
  by unfold_locales (use mro_get_holds mro_apply_holds mro_attrs_holds in blast)+

text \<open>C30. The test passes on an mRO50 that follows its protocol, whatever its fine value was and however
  its answers are cut into reads, and it leaves that value as it found it.\<close>

theorem mro_test_passes:
  assumes "there (take 255 (''/etc/oscillatord_'' @ arg @ ''.conf''))"
    and "osc_class osc = mRo50_class compute_temp junk" "mro_holds fine (osc_state osc) v" "v < 2 ^ 31 - 1"
  shows "\<exists>osc'. mro_test_main there 0 (Some osc) ctrl arg = (0, TestPassed, Some osc') \<and>
    mro_holds fine (osc_state osc') v"
proof -
  have "mro.at compute_temp junk fine (Some osc) v"
    using assms(2,3) by (simp add: mro.at_def mro.driver_def mRo50_class_def)
  moreover have "0 \<le> v" using assms(3) by (simp add: mro_holds_def)
  ultimately obtain c osc' where "mro_test_run ctrl (Some osc) = (True, Some c, osc')" "mro.at compute_temp junk fine osc' v"
    using mro.run_passes [OF _ _ assms(4)] by blast
  then show ?thesis using assms(1) by (auto simp: mro_test_main_def Let_def mro.at_def)
qed

text \<open>A device that repeats the digits it was last given.\<close>

definition FINE_PREFIX :: string where "FINE_PREFIX = ''MON_tpcb PIL_cfield C ''"

definition last_digits :: "string list \<Rightarrow> string" where
  "last_digits h =
     (case find (\<lambda>c. take 22 c = FINE_PREFIX) (rev h) of None \<Rightarrow> hex_padded 4 2400 | Some c \<Rightarrow> butlast (drop 22 c))"

definition echo_device :: "string list \<Rightarrow> exchange_io" where
  "echo_device h =
     \<lparr>x_write = True, x_polls =
        [PollRead (if last h = CMD_READ_COARSE then hex_padded 8 4185872
                   else if last h = CMD_READ_FINE then last_digits h
                   else if last h = CMD_READ_STATUS then replicate 60 (CHR ''0'')
                   else []), PollRead [LF, LF]]\<rparr>"

lemma echo_answers:
  "answers (echo_device h) a \<longleftrightarrow>
     (if last h = CMD_READ_COARSE then hex_padded 8 4185872
      else if last h = CMD_READ_FINE then last_digits h
      else if last h = CMD_READ_STATUS then replicate 60 (CHR ''0'') else []) @ [LF, LF] = a"
  by (simp add: answers_def echo_device_def is_read_def poll_data_def)

lemma commands_differ:
  "CMD_READ_FINE \<noteq> CMD_READ_COARSE" "CMD_READ_STATUS \<noteq> CMD_READ_COARSE" "CMD_READ_STATUS \<noteq> CMD_READ_FINE"
  "CMD_WRITE_FINE v \<noteq> CMD_READ_COARSE" "CMD_WRITE_FINE v \<noteq> CMD_READ_FINE" "CMD_WRITE_FINE v \<noteq> CMD_READ_STATUS"
  by (simp_all add: CMD_READ_FINE_def CMD_READ_COARSE_def CMD_READ_STATUS_def CMD_WRITE_FINE_def)

lemma written_digits: "take 22 (CMD_WRITE_FINE v) = FINE_PREFIX" "butlast (drop 22 (CMD_WRITE_FINE v)) = hex_padded 4 v"
  by (simp_all add: CMD_WRITE_FINE_def FINE_PREFIX_def butlast_append)

lemma question_prefix: "c \<in> CMD_QUESTIONS \<Longrightarrow> take 22 c \<noteq> FINE_PREFIX"
  by (auto simp: CMD_QUESTIONS_def CMD_READ_FINE_def CMD_READ_COARSE_def CMD_READ_STATUS_def FINE_PREFIX_def)

lemma no_write: "set b \<subseteq> CMD_QUESTIONS \<Longrightarrow> find (\<lambda>c. take 22 c = FINE_PREFIX) (rev b) = None"
  using question_prefix by (auto simp: find_None_iff)

lemma find_append_None: "find P xs = None \<Longrightarrow> find P (xs @ ys) = find P ys"
  by (induction xs) (auto split: if_splits)

lemma last_digits_fine:
  assumes "fine_after 2400 h v"
  shows "last_digits (h @ [CMD_READ_FINE]) = hex_padded 4 v"
proof -
  have q: "CMD_READ_FINE \<in> CMD_QUESTIONS" by (simp add: CMD_QUESTIONS_def)
  from assms consider (written) a b where "h = a @ [CMD_WRITE_FINE v] @ b" "set b \<subseteq> CMD_QUESTIONS"
    | (fresh) "v = 2400" "set h \<subseteq> CMD_QUESTIONS" by (auto simp: fine_after_def)
  then show ?thesis
  proof cases
    case written
    have "find (\<lambda>c. take 22 c = FINE_PREFIX) (rev (b @ [CMD_READ_FINE]) @ CMD_WRITE_FINE v # rev a) = Some (CMD_WRITE_FINE v)"
      by (subst find_append_None [OF no_write]) (use written q written_digits in auto)
    then show ?thesis by (simp add: last_digits_def written(1) written_digits)
  next
    case fresh
    then have "find (\<lambda>c. take 22 c = FINE_PREFIX) (rev (h @ [CMD_READ_FINE])) = None"
      by (intro no_write) (use q in auto)
    then show ?thesis by (simp add: last_digits_def fresh(1))
  qed
qed

lemma echo_follows: "follows_protocol 2400 echo_device"
  unfolding follows_protocol_def echo_answers
  using commands_differ last_digits_fine
  by (auto intro: exI [of _ "4185872::nat"] exI [of _ "replicate 60 (CHR ''0'')"])

definition echo_port :: mro_port where
  "echo_port = \<lparr>mro_sent = [], mro_answer = replicate 129 (CHR 0x00), mro_open = True, mro_dev = echo_device,
     mro_reopen = (\<lambda>_. 0)\<rparr>"

theorem mro_test_passes_witness:
  "\<exists>osc'. mro_test_main (\<lambda>p. True) 0
       (Some (oscillator_factory_init (mRo50_class (\<lambda>r. Some 42000) []) ''mRO50-1'' echo_port))
       \<lparr>dac = 0, fine_ctrl = 0, coarse_ctrl = 0\<rparr> ''ocp0'' = (0, TestPassed, Some osc') \<and>
     mro_holds 2400 (osc_state osc') 2400"
  by (rule mro_test_passes [where compute_temp = "\<lambda>r. Some 42000" and junk = "[]"])
    (simp_all add: oscillator_factory_init_def mro_holds_def mro_ready_def echo_port_def mro_answer_len_def
      echo_follows fine_after_def)

end
