(* ===== verification/Spec2Isabelle.thy ===== *)
theory Spec2Isabelle
  imports OdStart NtpShmConc TimeHint PpsInit OdSystem Utils ArtFormat Sa5x Mro50 ToolOptions GnssInit
    GnssTypes Sa3x DscParams SimOscillator Logging ProdPtp ProdGnss ProdEeprom ProdPhase ProdMro
begin

text \<open>
  A verification library for oscillatord, the daemon that disciplines an oscillator to a GNSS
  reference and shares its time with an NTP server. File names are relative to \<open>src/\<close>.

  \<^bold>\<open>The program.\<close> One process runs four kinds of threads. The GNSS thread (\<open>src/gnss.c\<close>) reads the
  receiver, keeps the last epoch and the TAI time of the next pulse, and performs receiver actions
  on request. The phasemeter thread (\<open>src/phasemeter.c\<close>) pairs the time stamps of the GNSS pulse and
  of the internal pulse and publishes their difference. The PPS threads
  (\<open>src/ntpshm/ppsthread.c\<close>) watch pulses and hand accepted samples to the NTP segments
  (\<open>src/ntpshm/timehint.c\<close>, \<open>ntpshmwrite.c\<close>, \<open>ntpshmread.c\<close>). The monitoring thread (\<open>src/monitoring.c\<close>)
  answers clients on a socket. The main loop (\<open>src/oscillatord.c\<close>) waits for a phase error, reads
  the oscillator through its class (\<open>src/oscillator.c\<close>, \<open>src/oscillators/\<close>), gives both to the
  disciplining algorithm (an external library), applies the output, and exchanges data and one
  request with the monitoring thread. Tools under \<open>utils/\<close> maintain the card's memory, and programs
  under \<open>tests_production/\<close> test a card when it is made.

  \<^bold>\<open>The theories.\<close> Each names its source, and its definitions have the names of the functions.
  \<^item> \<open>Prelude\<close>: C integers at their width, errno values, observers of logs (\<open>traces\<close>), the locales
    \<open>machine\<close> (steps that keep an invariant), \<open>mailbox\<close> (one slot: post and fetch) and \<open>checksum\<close>.
    \<open>Timespec\<close>: \<open>src/ntpshm/timespec.h\<close>. \<open>CStr\<close>: the C string conversions. \<open>SerialPort\<close>: the polling loop
    of the serial drivers. \<open>Utils\<close>, \<open>Config\<close>: \<open>common/utils.c\<close>, \<open>common/config.c\<close> (locale \<open>key_store\<close>).
    \<open>Logging\<close>: \<open>common/log.c\<close>, what \<open>common/log.h\<close> prints and the text of a time.
  \<^item> \<open>NtpShm\<close>: the shared segment as a record, \<open>ntp_write\<close> as its list of single stores, \<open>ntp_read\<close>.
    \<open>NtpShmConc\<close>: writer and reader interleaved store by store. \<open>TimeHint\<close>: the pool of segments,
    activation of session links, the report hook. \<open>PpsThread\<close>: edges, the four stages of a round,
    the monitor loop. \<open>PpsInit\<close>: finding and opening the kernel's PPS, starting the thread.
  \<^item> \<open>Phasemeter\<close>: the thread as a program counter with its shared data, against a specification that
    pairs time stamps in a list.
  \<^item> \<open>Gnss\<close>: parsing of the receiver's messages and a round of the thread. \<open>GnssSetup\<close>: connecting,
    configuring, the PTP clock, the RTCM socket. \<open>GnssConfig\<close>: \<open>common/gnss-config.c\<close>. \<open>GnssInit\<close>: from the
    port to the running thread. \<open>GnssTypes\<close>: the ranges of the receiver's data.
  \<^item> \<open>Oscillator\<close>: the class, dispatch, the registry, the dummy and sim drivers. \<open>Sa5x\<close>, \<open>Sa3x\<close>, \<open>Mro50\<close>:
    the serial drivers, each with its protocol and its state. \<open>SimOscillator\<close>: creation of the simulator.
  \<^item> \<open>Monitoring\<close>: peers, messages and responses of the server. \<open>MonitoringInit\<close>: its creation and stop.
    \<open>MonitoringClient\<close>: \<open>utils/art_monitoring_client.c\<close>, and client and server together. \<open>DscParams\<close>: saving
    the disciplining parameters and showing them to a client.
  \<^item> \<open>OdMain\<close>: the input of the algorithm, its output, one turn of the main loop. \<open>OdStart\<close>: what \<open>main\<close> does
    before and behind the loop. \<open>OdSystem\<close>: main loop, GNSS thread and server interleaved.
  \<^item> \<open>Manufacturing\<close>, \<open>ArtFormat\<close>: \<open>utils/eeprom.c\<close>, \<open>art_eeprom_format.c\<close>, \<open>art_eeprom_reformat.c\<close>.
    \<open>EepromConfig\<close>: \<open>common/eeprom_config.c\<close> and the updater. \<open>EepromTools\<close>, \<open>TemperatureTool\<close>:
    \<open>art_disciplining_manager.c\<close>, \<open>art_temperature_table_manager.c\<close>. \<open>ToolOptions\<close>: their options.
  \<^item> \<open>DefaultTables\<close>: the shipped configuration of the receiver, \<open>common/f9_defvalsets.c\<close>, line by line.
  \<^item> \<open>ProdCard\<close>: how a program under \<open>tests_production/\<close> finds a device of the card. \<open>ProdIo\<close>: connectors and
    their time stamps. \<open>ProdPtp\<close>: the clock. \<open>ProdGnss\<close>: test and configuration of the receiver.
    \<open>ProdEeprom\<close>: writing the memory, listing a card. \<open>ProdPhase\<close>: the phase error the daemon reports.
    \<open>ProdMro\<close>: the mRO50, through the class (locale \<open>fine_device\<close>, interpreted on its driver).

  \<^bold>\<open>How code becomes definitions.\<close> State is a record that operations return updated; a loop is a
  structural recursion over what the environment delivers, a function with a measure, or a partial
  function where it may not end; an error
  code is an integer result as in the source; undefined behaviour that can be reached is \<open>None\<close>.
  Whatever comes from outside (what a device answers, whether an allocation or a write succeeds,
  the time) is an argument, and the theorems hold for all of them. Integers are \<open>int\<close> with the
  conversions of \<open>Prelude\<close> where the source narrows them, and words where it works on bits or wraps.
  Strings are lists of characters without their NUL, buffers are lists of their full size.
  Concurrency is an explicit sequence of steps; a step is what the code does under its mutex or,
  for the segments, a single store.

  \<^bold>\<open>What the lemmas show.\<close> For each component: an invariant that its operations keep (the segments, the
  pool, the phasemeter, the RTCM connection, the SA5x state machine, the serial buffers), its
  results on every branch, and its relation to a specification (pairing of time stamps, loading of
  the receiver's configuration, removal of a character). Round trips: NTP segments, configuration
  files, EEPROM files, exported disciplining parameters and temperature tables, numbers set and read on
  the serial ports. Types: the receiver's data stay in the widths of their fields. The shipped tables
  load with any library that knows their names; what a passed production test has seen of the card.
  Across components: a command of a client reaches the receiver, a calibration request is given to
  the algorithm once, a phase jump discards one input, a fake holdover hides the reference, what the daemon saves and what
  the server knows is what a client is shown, and from start to shutdown nothing is used out of turn.
  Several theorems state what the code does where that is not what it means to do: a torn read is
  possible, a message in two pieces is never completed, failed writes are not reported, a lock of
  the SA3x is not recognised, the test of the connectors adds pulses up, and the program that lists
  a card never reports a device.

  \<^bold>\<open>Bounds and fuel.\<close> No definition uses fuel. Retries and waits end by measures on the counters of
  the source; the wait for the simulator's fifo is \<open>None\<close> exactly when it never appears; endless loops are
  sequences of events of any length, so a property of a loop is one of all its finite runs.

  \<^bold>\<open>Not modelled.\<close> The disciplining algorithm, the receiver library ubloxcfg with its tables, json-c and
  the C library's conversion of floating-point numbers are not part of the repository and are
  parameters. Left out are the messages themselves and their layout, the settings of ttys and sockets,
  the mapping of shared memory, and the programs under \<open>tests/\<close>. The driver's thermistor formula is a parameter. Data races outside the NTP
  segments are not modelled.
\<close>

end
